(* ===== verification/Prelude.thy ===== *)
theory Prelude
  imports Main "HOL-Library.Word" "HOL-Library.Sublist"
begin

text \<open>
  What every component shares: the identifiers and time stamps of the program, the shape of its
  effectful code (a function of the state that returns a value or raises), the rules that compute
  such code, and the rules that carry an invariant through it. Nothing here is specific to one
  module of the program.
\<close>

section \<open>Identifiers and time\<close>

text \<open>
  A Python \<^verbatim>\<open>uuid.UUID\<close> is an integer of 128 bits. A time zone aware \<^verbatim>\<open>datetime\<close> is its
  distance from the epoch in microseconds, which is the resolution of the class.
\<close>

type_synonym uuid = "128 word"
type_synonym time = int

definition seconds :: "int \<Rightarrow> int" where
  "seconds n = n * 1000000"

section \<open>Effectful code\<close>

text \<open>
  A coroutine of the program is a function from the state to a result and the next state. The
  result is \<^term>\<open>Inl e\<close> when the code raises \<open>e\<close>; the state reached by then is kept, so that what
  the code did before it raised is still visible to the caller (a transaction decides what becomes
  of it).
\<close>

type_synonym ('s, 'e, 'a) act = "'s \<Rightarrow> ('e + 'a) \<times> 's"

definition ret :: "'a \<Rightarrow> ('s, 'e, 'a) act" where
  "ret x = (\<lambda>s. (Inr x, s))"

definition raise :: "'e \<Rightarrow> ('s, 'e, 'a) act" where
  "raise e = (\<lambda>s. (Inl e, s))"

definition andthen :: "('s, 'e, 'a) act \<Rightarrow> ('a \<Rightarrow> ('s, 'e, 'b) act) \<Rightarrow> ('s, 'e, 'b) act" where
  "andthen m f = (\<lambda>s. case m s of (Inl e, s') \<Rightarrow> (Inl e, s') | (Inr x, s') \<Rightarrow> f x s')"

definition asks :: "('s \<Rightarrow> 'a) \<Rightarrow> ('s, 'e, 'a) act" where
  "asks f = (\<lambda>s. (Inr (f s), s))"

definition change :: "('s \<Rightarrow> 's) \<Rightarrow> ('s, 'e, unit) act" where
  "change f = (\<lambda>s. (Inr (), f s))"

text \<open>\<open>ensure b e\<close> is \<^verbatim>\<open>if not b: raise e\<close>; \<open>lift_result\<close> runs code that only computes.\<close>

definition ensure :: "bool \<Rightarrow> 'e \<Rightarrow> ('s, 'e, unit) act" where
  "ensure b e = (if b then ret () else raise e)"

definition lift_result :: "'e + 'a \<Rightarrow> ('s, 'e, 'a) act" where
  "lift_result r = (\<lambda>s. (r, s))"

definition catch :: "('s, 'e, 'a) act \<Rightarrow> ('e \<Rightarrow> ('s, 'e, 'a) act) \<Rightarrow> ('s, 'e, 'a) act" where
  "catch m h = (\<lambda>s. case m s of (Inl e, s') \<Rightarrow> h e s' | (Inr x, s') \<Rightarrow> (Inr x, s'))"

text \<open>A \<^verbatim>\<open>for\<close> loop run for its effect stops at the first iteration that raises.\<close>

fun for_each :: "'a list \<Rightarrow> ('a \<Rightarrow> ('s, 'e, unit) act) \<Rightarrow> ('s, 'e, unit) act" where
  "for_each [] f = ret ()"
| "for_each (x # xs) f = andthen (f x) (\<lambda>_. for_each xs f)"

named_theorems act_simps \<open>what effectful code computes\<close>
named_theorems keeps_intros \<open>rules that carry an invariant through effectful code\<close>

lemma ret_apply [act_simps]: "ret x s = (Inr x, s)"
  by (simp add: ret_def)

lemma raise_apply [act_simps]: "raise e s = (Inl e, s)"
  by (simp add: raise_def)

lemma asks_apply [act_simps]: "asks f s = (Inr (f s), s)"
  by (simp add: asks_def)

lemma change_apply [act_simps]: "change f s = (Inr (), f s)"
  by (simp add: change_def)

lemma lift_result_apply [act_simps]: "lift_result r s = (r, s)"
  by (simp add: lift_result_def)

lemma ensure_apply [act_simps]: "ensure b e s = (if b then Inr () else Inl e, s)"
  by (simp add: ensure_def ret_def raise_def)

lemma andthen_ret [act_simps]: "andthen (ret x) f = f x"
  by (simp add: andthen_def ret_def)

lemma andthen_raise [act_simps]: "andthen (raise e) f = raise e"
  by (simp add: andthen_def raise_def)

lemma andthen_ret_right: "andthen m ret = m"
  by (auto simp: andthen_def ret_def fun_eq_iff split: prod.splits sum.splits)

lemma andthen_assoc: "andthen (andthen m f) g = andthen m (\<lambda>x. andthen (f x) g)"
  by (auto simp: andthen_def fun_eq_iff split: prod.splits sum.splits)

text \<open>Once the first step is known, the rest runs from the state it left.\<close>

lemma andthen_Inr: "m s = (Inr x, s') \<Longrightarrow> andthen m f s = f x s'"
  by (simp add: andthen_def)

lemma andthen_Inl: "m s = (Inl e, s') \<Longrightarrow> andthen m f s = (Inl e, s')"
  by (simp add: andthen_def)

lemma andthen_asks [act_simps]: "andthen (asks g) f s = f (g s) s"
  by (simp add: andthen_def asks_def)

lemma andthen_change [act_simps]: "andthen (change g) f s = f () (g s)"
  by (simp add: andthen_def change_def)

lemma andthen_ensure [act_simps]:
  "andthen (ensure b e) f s = (if b then f () s else (Inl e, s))"
  by (simp add: andthen_def ensure_def ret_def raise_def)

lemma andthen_lift [act_simps]:
  "andthen (lift_result r) f s = (case r of Inl e \<Rightarrow> (Inl e, s) | Inr x \<Rightarrow> f x s)"
  by (simp add: andthen_def lift_result_def split: sum.splits)

lemma andthen_eq_Inr:
  "andthen m f s = (Inr y, s') \<longleftrightarrow> (\<exists>x t. m s = (Inr x, t) \<and> f x t = (Inr y, s'))"
  by (auto simp: andthen_def split: prod.splits sum.splits)

lemma andthen_InrE:
  assumes "andthen m f s = (Inr y, s')"
  obtains x t where "m s = (Inr x, t)" and "f x t = (Inr y, s')"
  using assms by (auto simp: andthen_eq_Inr)

lemma ensure_eq_Inr [act_simps]: "ensure b e s = (Inr x, s') \<longleftrightarrow> b \<and> s' = s"
  by (auto simp: ensure_apply)

section \<open>Invariants of effectful code\<close>

text \<open>
  \<open>keeps R m\<close>: every run of \<open>m\<close>, whether it returns or raises, relates the state it starts from to
  the state it leaves by \<open>R\<close>. For a reflexive and transitive \<open>R\<close> (\<open>frame\<close>) the property follows the
  structure of the code. An invariant \<open>P\<close> is the relation \<open>preserving P\<close>.
\<close>

definition keeps :: "('s \<Rightarrow> 's \<Rightarrow> bool) \<Rightarrow> ('s, 'e, 'a) act \<Rightarrow> bool" where
  "keeps R m \<longleftrightarrow> (\<forall>s. R s (snd (m s)))"

definition preserving :: "('s \<Rightarrow> bool) \<Rightarrow> 's \<Rightarrow> 's \<Rightarrow> bool" where
  "preserving P s s' \<longleftrightarrow> (P s \<longrightarrow> P s')"

lemma keepsI: "(\<And>s. R s (snd (m s))) \<Longrightarrow> keeps R m"
  by (simp add: keeps_def)

lemma keepsD: "keeps R m \<Longrightarrow> m s = (r, s') \<Longrightarrow> R s s'"
  by (metis keeps_def snd_conv)

locale frame =
  fixes R :: "'s \<Rightarrow> 's \<Rightarrow> bool"
  assumes frame_refl: "R s s"
    and frame_trans: "R s t \<Longrightarrow> R t u \<Longrightarrow> R s u"
begin

lemma keeps_ret: "keeps R (ret x)"
  by (simp add: keeps_def ret_def frame_refl)

lemma keeps_raise: "keeps R (raise e)"
  by (simp add: keeps_def raise_def frame_refl)

lemma keeps_asks: "keeps R (asks f)"
  by (simp add: keeps_def asks_def frame_refl)

lemma keeps_ensure: "keeps R (ensure b e)"
  by (simp add: keeps_def ensure_def ret_def raise_def frame_refl)

lemma keeps_lift: "keeps R (lift_result r)"
  by (simp add: keeps_def lift_result_def frame_refl)

lemma keeps_change: "(\<And>s. R s (f s)) \<Longrightarrow> keeps R (change f)"
  by (simp add: keeps_def change_def)

lemma keeps_andthen:
  assumes "keeps R m" and "\<And>x. keeps R (f x)"
  shows "keeps R (andthen m f)"
proof (rule keepsI)
  fix s
  obtain r t where m: "m s = (r, t)" by fastforce
  then have "R s t" using assms(1) by (rule keepsD [rotated])
  then show "R s (snd (andthen m f s))"
    using assms(2) m by (cases r) (auto simp: andthen_def keeps_def intro: frame_trans frame_refl)
qed

lemma keeps_catch:
  assumes "keeps R m" and "\<And>e. keeps R (h e)"
  shows "keeps R (catch m h)"
proof (rule keepsI)
  fix s
  obtain r t where m: "m s = (r, t)" by fastforce
  then have "R s t" using assms(1) by (rule keepsD [rotated])
  then show "R s (snd (catch m h s))"
    using assms(2) m by (cases r) (auto simp: catch_def keeps_def intro: frame_trans)
qed

lemma keeps_for_each: "(\<And>x. keeps R (f x)) \<Longrightarrow> keeps R (for_each xs f)"
  by (induction xs) (auto intro: keeps_ret keeps_andthen)

lemma keeps_if: "(b \<Longrightarrow> keeps R m) \<Longrightarrow> (\<not> b \<Longrightarrow> keeps R n) \<Longrightarrow> keeps R (if b then m else n)"
  by simp

lemma keeps_option:
  "keeps R m \<Longrightarrow> (\<And>x. keeps R (f x)) \<Longrightarrow> keeps R (case v of None \<Rightarrow> m | Some x \<Rightarrow> f x)"
  by (cases v) simp_all

lemmas keeps_rules = keeps_ret keeps_raise keeps_asks keeps_ensure keeps_lift
  keeps_andthen keeps_catch keeps_for_each keeps_if keeps_option

end

text \<open>Any property preserved as an implication, and any projection left equal, is a frame.\<close>

definition same :: "('s \<Rightarrow> 'v) \<Rightarrow> 's \<Rightarrow> 's \<Rightarrow> bool" where
  "same f s s' \<longleftrightarrow> f s' = f s"

interpretation preserving_frame: frame "preserving P" for P
  by unfold_locales (auto simp: preserving_def)

interpretation same_frame: frame "same f" for f
  by unfold_locales (auto simp: same_def)

section \<open>Lists\<close>

lemma filter_map_unchanged:
  assumes "\<And>x. x \<in> set xs \<Longrightarrow> P (f x) = P x" and "\<And>x. x \<in> set xs \<Longrightarrow> P x \<Longrightarrow> f x = x"
  shows "filter P (map f xs) = filter P xs"
  using assms by (induction xs) auto

lemma length_filter_eq_1D: "length (filter P xs) = 1 \<Longrightarrow> \<exists>x. filter P xs = [x]"
  by (cases "filter P xs") auto

lemma distinct_map_filter_single:
  assumes "distinct (map f xs)" and "x \<in> set xs" and "P x" and "\<And>y. P y \<Longrightarrow> f y = f x"
  shows "filter P xs = [x]"
  using assms
proof (induction xs)
  case Nil
  then show ?case by simp
next
  case (Cons a xs)
  show ?case
  proof (cases "P a")
    case True
    then have "f a = f x" using Cons.prems(4) by blast
    then have "a = x" using Cons.prems(1,2) by (metis distinct.simps(2) image_eqI list.set_map list.simps(9) set_ConsD)
    moreover have "filter P xs = []"
      using Cons.prems(1,4) \<open>f a = f x\<close> by (auto simp: filter_empty_conv) (metis image_eqI)
    ultimately show ?thesis using True by simp
  next
    case False
    then have "x \<in> set xs" using Cons.prems(2,3) by auto
    then have "filter P xs = [x]"
      using Cons.prems(1) by (intro Cons.IH Cons.prems(3,4)) simp
    with False show ?thesis by simp
  qed
qed

end
