(* ===== verification/PyText.thy ===== *)
theory PyText
  imports Prelude
begin

text \<open>
  The parts of Python's \<^verbatim>\<open>str\<close>, \<^verbatim>\<open>int\<close>, \<^verbatim>\<open>uuid\<close> and \<^verbatim>\<open>json\<close> that the program calls. A \<^typ>\<open>string\<close>
  stands for a Python string whose code points are below 256; case conversion and white space are
  those of ASCII. The main facts are round trips: a UUID printed and parsed again
  (\<open>UUID_uuid_str\<close>), a list of strings dumped to JSON and loaded again
  (\<open>json_loads_dumps\<close>).
\<close>

section \<open>Strings\<close>

definition lower_char :: "char \<Rightarrow> char" where
  "lower_char c = (let n = of_char c :: nat in if 65 \<le> n \<and> n \<le> 90 then char_of (n + 32) else c)"

definition lower :: "string \<Rightarrow> string" where
  "lower s = map lower_char s"

text \<open>\<^verbatim>\<open>str.strip()\<close> removes white space, \<^verbatim>\<open>str.strip(chars)\<close> a set of characters, at both ends.\<close>

definition is_space :: "char \<Rightarrow> bool" where
  "is_space c = (let n = of_char c :: nat in n = 32 \<or> (9 \<le> n \<and> n \<le> 13) \<or> (28 \<le> n \<and> n \<le> 31))"

definition strip_if :: "(char \<Rightarrow> bool) \<Rightarrow> string \<Rightarrow> string" where
  "strip_if p s = rev (dropWhile p (rev (dropWhile p s)))"

definition strip :: "string \<Rightarrow> string" where
  "strip s = strip_if is_space s"

definition rstrip_char :: "char \<Rightarrow> string \<Rightarrow> string" where
  "rstrip_char c s = rev (dropWhile (\<lambda>d. d = c) (rev s))"

text \<open>\<^verbatim>\<open>s.partition(c)\<close> for a separator of one character, and \<^verbatim>\<open>s.split(c)\<close>.\<close>

definition partition_char :: "char \<Rightarrow> string \<Rightarrow> string \<times> string \<times> string" where
  "partition_char c s =
     (takeWhile (\<lambda>d. d \<noteq> c) s, (if c \<in> set s then [c] else []), drop 1 (dropWhile (\<lambda>d. d \<noteq> c) s))"

fun split_char :: "char \<Rightarrow> string \<Rightarrow> string list" where
  "split_char c [] = [[]]"
| "split_char c (d # s) =
     (if d = c then [] # split_char c s
      else (case split_char c s of [] \<Rightarrow> [[d]] | w # ws \<Rightarrow> (d # w) # ws))"

text \<open>\<^verbatim>\<open>s.replace(old, new)\<close> for a non-empty \<open>old\<close>: leftmost occurrences, none overlapping.\<close>

fun replace_all :: "string \<Rightarrow> string \<Rightarrow> string \<Rightarrow> string" where
  "replace_all old new [] = []"
| "replace_all old new (c # s) =
     (if old \<noteq> [] \<and> prefix old (c # s) then new @ replace_all old new (drop (length old - 1) s)
      else c # replace_all old new s)"

abbreviation remove_all :: "string \<Rightarrow> string \<Rightarrow> string" where
  "remove_all old s \<equiv> replace_all old [] s"

definition join :: "string \<Rightarrow> string list \<Rightarrow> string" where
  "join sep ws = (case ws of [] \<Rightarrow> [] | w # ws' \<Rightarrow> w @ concat (map (\<lambda>v. sep @ v) ws'))"

lemma lower_idem: "lower (lower s) = lower s"
  by (auto simp: lower_def lower_char_def Let_def)

lemma dropWhile_id: "\<forall>c \<in> set s. \<not> p c \<Longrightarrow> dropWhile p s = s"
  by (cases s) simp_all

lemma strip_if_id: "\<forall>c \<in> set s. \<not> p c \<Longrightarrow> strip_if p s = s"
  by (simp add: strip_if_def dropWhile_id)

lemma replace_all_id:
  assumes "c \<in> set old" and "c \<notin> set s"
  shows "replace_all old new s = s"
  using assms(2)
proof (induction s)
  case Nil
  then show ?case by simp
next
  case (Cons d s)
  then have "\<not> prefix old (d # s)"
    using assms(1) by (metis set_mono_prefix subsetD)
  with Cons show ?case by simp
qed

lemma remove_all_single: "remove_all [c] s = filter (\<lambda>d. d \<noteq> c) s"
  by (induction s) auto

lemma partition_char_append:
  "c \<notin> set s \<Longrightarrow> partition_char c (s @ c # t) = (s, [c], t)"
proof -
  assume c: "c \<notin> set s"
  then have "takeWhile (\<lambda>d. d \<noteq> c) (s @ c # t) = s" and "dropWhile (\<lambda>d. d \<noteq> c) (s @ c # t) = c # t"
    by (induction s) auto
  then show ?thesis by (simp add: partition_char_def)
qed

section \<open>Integers in text\<close>

definition digit_val :: "char \<Rightarrow> nat option" where
  "digit_val c = (let n = of_char c :: nat in
     if 48 \<le> n \<and> n \<le> 57 then Some (n - 48)
     else if 97 \<le> n \<and> n \<le> 122 then Some (n - 87)
     else if 65 \<le> n \<and> n \<le> 90 then Some (n - 55) else None)"

definition digit_in :: "nat \<Rightarrow> char \<Rightarrow> nat option" where
  "digit_in base c = (case digit_val c of None \<Rightarrow> None | Some v \<Rightarrow> if v < base then Some v else None)"

text \<open>
  \<^verbatim>\<open>int(s, base)\<close>: white space around the number, a sign, for base 16 a \<^verbatim>\<open>0x\<close> prefix, and digits that
  single underscores may separate. \<^term>\<open>None\<close> stands for the \<^verbatim>\<open>ValueError\<close>.
\<close>

fun more_digits :: "nat \<Rightarrow> int \<Rightarrow> string \<Rightarrow> int option" where
  "more_digits base acc [] = Some acc"
| "more_digits base acc (c # s) =
     (case digit_in base c of
        Some v \<Rightarrow> more_digits base (int base * acc + int v) s
      | None \<Rightarrow>
          if c = CHR ''_'' then
            (case s of
               [] \<Rightarrow> None
             | d # s' \<Rightarrow> (case digit_in base d of
                          None \<Rightarrow> None
                        | Some v \<Rightarrow> more_digits base (int base * acc + int v) s'))
          else None)"

definition all_digits :: "nat \<Rightarrow> string \<Rightarrow> int option" where
  "all_digits base s = (case s of
     [] \<Rightarrow> None
   | c # s' \<Rightarrow> (case digit_in base c of None \<Rightarrow> None | Some v \<Rightarrow> more_digits base (int v) s'))"

definition drop_base_prefix :: "nat \<Rightarrow> string \<Rightarrow> string" where
  "drop_base_prefix base s =
     (if base = 16 \<and> (prefix ''0x'' s \<or> prefix ''0X'' s) then
        (case drop 2 s of
           [] \<Rightarrow> []
         | c # s' \<Rightarrow> if c = CHR ''_'' then s' else c # s')
      else s)"

definition py_int :: "nat \<Rightarrow> string \<Rightarrow> int option" where
  "py_int base s = (case strip s of
     [] \<Rightarrow> None
   | c # s' \<Rightarrow>
       if c = CHR ''-'' then map_option uminus (all_digits base (drop_base_prefix base s'))
       else if c = CHR ''+'' then all_digits base (drop_base_prefix base s')
       else all_digits base (drop_base_prefix base (c # s')))"

lemma more_digits_value:
  assumes "\<forall>c \<in> set s. \<exists>v. digit_in base c = Some v"
  shows "more_digits base acc s =
    Some (foldl (\<lambda>a c. int base * a + int (the (digit_in base c))) acc s)"
  using assms by (induction s arbitrary: acc) auto

section \<open>UUIDs in text\<close>

definition hex_chars :: string where
  "hex_chars = ''0123456789abcdef''"

definition hex_char :: "nat \<Rightarrow> char" where
  "hex_char n = hex_chars ! n"

definition hex32 :: "uuid \<Rightarrow> string" where
  "hex32 u = map (\<lambda>i. hex_char (nat (uint u div 16 ^ i mod 16))) (rev [0..<32])"

text \<open>\<^verbatim>\<open>str(u)\<close>: 32 lower case hexadecimal digits in groups of 8, 4, 4, 4 and 12.\<close>

definition uuid_str :: "uuid \<Rightarrow> string" where
  "uuid_str u = (let h = hex32 u in
     take 8 h @ ''-'' @ take 4 (drop 8 h) @ ''-'' @ take 4 (drop 12 h) @ ''-'' @
     take 4 (drop 16 h) @ ''-'' @ drop 20 h)"

text \<open>
  \<^verbatim>\<open>uuid.UUID(s)\<close>: it drops \<^verbatim>\<open>urn:\<close> and \<^verbatim>\<open>uuid:\<close>, braces at the ends and all hyphens, wants 32
  characters, and reads them with \<^verbatim>\<open>int(_, 16)\<close>. \<^term>\<open>None\<close> stands for the \<^verbatim>\<open>ValueError\<close>.
\<close>

definition UUID :: "string \<Rightarrow> uuid option" where
  "UUID s =
     (let h = remove_all ''uuid:'' (remove_all ''urn:'' s);
          h = remove_all ''-'' (strip_if (\<lambda>c. c = CHR ''{'' \<or> c = CHR ''}'') h)
      in if length h \<noteq> 32 then None
         else (case py_int 16 h of
                 None \<Rightarrow> None
               | Some n \<Rightarrow> if 0 \<le> n \<and> n < 2 ^ 128 then Some (word_of_int n) else None))"

lemma digits_hex_chars: "map (digit_in 16) hex_chars = map Some [0..<16]"
  by code_simp

lemma length_hex_chars: "length hex_chars = 16"
  by (simp add: hex_chars_def)

lemma hex_char_digit: "d < 16 \<Longrightarrow> digit_in 16 (hex_char d) = Some d"
  using arg_cong [OF digits_hex_chars, of "\<lambda>xs. xs ! d"]
  by (simp add: hex_char_def length_hex_chars del: upt_rec_numeral)

lemma hex_char_in: "d < 16 \<Longrightarrow> hex_char d \<in> set hex_chars"
  by (simp add: hex_char_def length_hex_chars)

lemma hex_chars_no_space: "list_all (\<lambda>c. \<not> is_space c) hex_chars"
  by code_simp

lemma length_hex32 [simp]: "length (hex32 u) = 32"
  by (simp add: hex32_def)

lemma set_hex32: "set (hex32 u) \<subseteq> set hex_chars"
  by (auto simp: hex32_def nat_less_iff intro: hex_char_in)

lemma hex_digits_value:
  assumes "0 \<le> n"
  shows "foldl (\<lambda>a c. 16 * a + int (the (digit_in 16 c))) acc
     (map (\<lambda>i. hex_char (nat (n div 16 ^ i mod 16))) (rev [0..<k])) = acc * 16 ^ k + n mod 16 ^ k"
proof (induction k arbitrary: acc)
  case 0
  then show ?case by simp
next
  case (Suc k)
  have "n mod 16 ^ Suc k = 16 ^ k * (n div 16 ^ k mod 16) + n mod 16 ^ k"
    using zmod_zmult2_eq [of 16 n "16 ^ k"] by (simp add: mult.commute)
  then show ?case
    by (simp add: Suc.IH hex_char_digit distrib_right mult.assoc nat_less_iff)
qed

lemma hex32_value:
  "foldl (\<lambda>a c. 16 * a + int (the (digit_in 16 c))) 0 (hex32 u) = uint u"
proof -
  have "uint u < 16 ^ 32"
    using uint_bounded [of u] by simp
  then show ?thesis
    by (simp add: hex32_def hex_digits_value del: upt_rec_numeral)
qed

lemma digit_in_hex32: "c \<in> set (hex32 u) \<Longrightarrow> \<exists>v. digit_in 16 c = Some v"
  by (auto simp: hex32_def hex_char_digit nat_less_iff)

lemma not_in_hex32: "c \<notin> set hex_chars \<Longrightarrow> c \<notin> set (hex32 u)"
  using set_hex32 by blast

lemma py_int_hex32: "py_int 16 (hex32 u) = Some (uint u)"
proof -
  obtain c s where h: "hex32 u = c # s" and s: "s \<noteq> []"
    by (cases "hex32 u"; cases "tl (hex32 u)") (auto dest: arg_cong [where f = length])
  have "strip (hex32 u) = hex32 u"
    unfolding strip_def
    by (rule strip_if_id) (use set_hex32 hex_chars_no_space in \<open>auto simp: list_all_iff\<close>)
  moreover have "\<not> prefix ''0x'' (hex32 u)" and "\<not> prefix ''0X'' (hex32 u)"
    using not_in_hex32 [of "CHR ''x''" u] not_in_hex32 [of "CHR ''X''" u]
    by (auto simp: hex_chars_def dest!: set_mono_prefix)
  moreover have "c \<noteq> CHR ''-''" and "c \<noteq> CHR ''+''"
    using not_in_hex32 [of "CHR ''-''" u] not_in_hex32 [of "CHR ''+''" u] h by (auto simp: hex_chars_def)
  moreover have "all_digits 16 (hex32 u) = Some (uint u)"
  proof -
    obtain v where v: "digit_in 16 c = Some v"
      using digit_in_hex32 [of c u] h by auto
    have "more_digits 16 (int v) s = Some (foldl (\<lambda>a c. int 16 * a + int (the (digit_in 16 c))) (int v) s)"
      by (rule more_digits_value) (use digit_in_hex32 [of _ u] h in auto)
    then show ?thesis
      using hex32_value [of u] by (simp add: all_digits_def h v)
  qed
  ultimately have "drop_base_prefix 16 (c # s) = c # s" and "all_digits 16 (c # s) = Some (uint u)"
    and "strip (hex32 u) = c # s"
    unfolding drop_base_prefix_def h by (simp_all only: simp_thms if_False)
  with \<open>c \<noteq> CHR ''-''\<close> \<open>c \<noteq> CHR ''+''\<close> show ?thesis
    by (simp add: py_int_def)
qed

lemma set_uuid_str: "set (uuid_str u) \<subseteq> insert (CHR ''-'') (set hex_chars)"
  using set_hex32 [of u] unfolding uuid_str_def Let_def
  by (auto dest!: in_set_takeD in_set_dropD)

lemma not_in_uuid_str: "c \<noteq> CHR ''-'' \<Longrightarrow> c \<notin> set hex_chars \<Longrightarrow> c \<notin> set (uuid_str u)"
  using set_uuid_str by blast

lemma remove_hyphens_uuid_str: "filter (\<lambda>c. c \<noteq> CHR ''-'') (uuid_str u) = hex32 u"
proof -
  let ?h = "hex32 u"
  have f: "filter (\<lambda>c. c \<noteq> CHR ''-'') w = w" if "set w \<subseteq> set ?h" for w
    using that not_in_hex32 [of "CHR ''-''" u] by (auto simp: filter_id_conv hex_chars_def)
  have "filter (\<lambda>c. c \<noteq> CHR ''-'') (uuid_str u) =
    take 8 ?h @ take 4 (drop 8 ?h) @ take 4 (drop 12 ?h) @ take 4 (drop 16 ?h) @ drop 20 ?h"
    unfolding uuid_str_def Let_def
    by (simp add: f set_take_subset set_drop_subset subset_trans [OF set_take_subset])
  also have "\<dots> = ?h"
  proof -
    have "take 4 (drop 16 ?h) @ drop 20 ?h = drop 16 ?h"
      using append_take_drop_id [of 4 "drop 16 ?h"] by simp
    moreover have "take 4 (drop 12 ?h) @ drop 16 ?h = drop 12 ?h"
      using append_take_drop_id [of 4 "drop 12 ?h"] by simp
    moreover have "take 4 (drop 8 ?h) @ drop 12 ?h = drop 8 ?h"
      using append_take_drop_id [of 4 "drop 8 ?h"] by simp
    ultimately show ?thesis by simp
  qed
  finally show ?thesis .
qed

lemma UUID_uuid_str [simp]: "UUID (uuid_str u) = Some u"
proof -
  have "remove_all ''urn:'' (uuid_str u) = uuid_str u"
    by (rule replace_all_id [of "CHR '':''"]) (auto simp: not_in_uuid_str hex_chars_def)
  moreover have "remove_all ''uuid:'' (uuid_str u) = uuid_str u"
    by (rule replace_all_id [of "CHR '':''"]) (auto simp: not_in_uuid_str hex_chars_def)
  moreover have "strip_if (\<lambda>c. c = CHR ''{'' \<or> c = CHR ''}'') (uuid_str u) = uuid_str u"
    by (rule strip_if_id) (use set_uuid_str [of u] in \<open>auto simp: hex_chars_def\<close>)
  moreover have "uint u < 2 ^ 128"
    using uint_bounded [of u] by simp
  ultimately show ?thesis
    by (simp add: UUID_def remove_all_single remove_hyphens_uuid_str py_int_hex32)
qed

lemma uuid_str_inject [simp]: "uuid_str u = uuid_str v \<longleftrightarrow> u = v"
  by (metis UUID_uuid_str option.inject)

section \<open>Lists of strings in JSON\<close>

text \<open>
  \<^verbatim>\<open>json.dumps(ws)\<close> for a list of strings: what is not printable ASCII is escaped. \<open>json_loads\<close> reads
  such a document back; \<^term>\<open>None\<close> stands for the \<^verbatim>\<open>JSONDecodeError\<close> (a document that is not a list
  of strings, which the program never writes where it loads one, is not read either).
\<close>

definition json_char :: "char \<Rightarrow> string" where
  "json_char c = (let n = of_char c :: nat in
     if n = 34 \<or> n = 92 then [CHR 0x5C, c]
     else if n = 8 then [CHR 0x5C, CHR ''b''] else if n = 9 then [CHR 0x5C, CHR ''t'']
     else if n = 10 then [CHR 0x5C, CHR ''n''] else if n = 12 then [CHR 0x5C, CHR ''f'']
     else if n = 13 then [CHR 0x5C, CHR ''r'']
     else if 32 \<le> n \<and> n \<le> 126 then [c]
     else [CHR 0x5C, CHR ''u'', CHR ''0'', CHR ''0'', hex_char (n div 16), hex_char (n mod 16)])"

definition json_string :: "string \<Rightarrow> string" where
  "json_string s = CHR 0x22 # concat (map json_char s) @ [CHR 0x22]"

definition json_dumps :: "string list \<Rightarrow> string" where
  "json_dumps ws = ''['' @ join '', '' (map json_string ws) @ '']''"

definition json_escape :: "char \<Rightarrow> char option" where
  "json_escape c =
     (if c = CHR 0x22 \<or> c = CHR 0x5C \<or> c = CHR ''/'' then Some c
      else if c = CHR ''b'' then Some (char_of (8::nat)) else if c = CHR ''t'' then Some (char_of (9::nat))
      else if c = CHR ''n'' then Some (char_of (10::nat)) else if c = CHR ''f'' then Some (char_of (12::nat))
      else if c = CHR ''r'' then Some (char_of (13::nat)) else None)"

fun json_chars :: "string \<Rightarrow> (string \<times> string) option" where
  "json_chars [] = None"
| "json_chars (c # s) =
     (if c = CHR 0x22 then Some ([], s)
      else if c = CHR 0x5C then
        (case s of
           [] \<Rightarrow> None
         | e # s1 \<Rightarrow>
             (if e = CHR ''u'' then
                (case s1 of
                   a # b # g # h # s2 \<Rightarrow>
                     (case (digit_in 16 a, digit_in 16 b, digit_in 16 g, digit_in 16 h) of
                        (Some i, Some j, Some k, Some l) \<Rightarrow>
                          if i = 0 \<and> j = 0 then
                            map_option (\<lambda>(w, r). (char_of (16 * k + l) # w, r)) (json_chars s2)
                          else None
                      | _ \<Rightarrow> None)
                 | _ \<Rightarrow> None)
              else (case json_escape e of
                      None \<Rightarrow> None
                    | Some d \<Rightarrow> map_option (\<lambda>(w, r). (d # w, r)) (json_chars s1))))
      else if of_char c < (32::nat) then None
      else map_option (\<lambda>(w, r). (c # w, r)) (json_chars s))"

definition json_space :: "string \<Rightarrow> string" where
  "json_space s = dropWhile (\<lambda>c. c \<in> {CHR '' '', CHR 0x09, CHR 0x0A, CHR 0x0D}) s"

lemma json_chars_shorter: "json_chars s = Some (w, r) \<Longrightarrow> length r < length s"
  by (induction s arbitrary: w r rule: json_chars.induct)
    (fastforce split: if_splits option.splits list.splits)+

lemma json_space_length: "length (json_space s) \<le> length s"
  by (simp add: json_space_def length_dropWhile_le)

text \<open>The items of a list, from the first quote on.\<close>

function json_items :: "string \<Rightarrow> (string list \<times> string) option" where
  "json_items s =
     (case s of
        [] \<Rightarrow> None
      | q # s0 \<Rightarrow>
          if q \<noteq> CHR 0x22 then None
          else (case json_chars s0 of
                  None \<Rightarrow> None
                | Some (w, s1) \<Rightarrow>
                    (case json_space s1 of
                       [] \<Rightarrow> None
                     | d # s2 \<Rightarrow>
                         if d = CHR '']'' then Some ([w], s2)
                         else if d = CHR '','' then
                           map_option (\<lambda>(ws, r). (w # ws, r)) (json_items (json_space s2))
                         else None)))"
  by pat_completeness auto
termination
proof (relation "measure length")
  fix s :: string and q s0 p w s1 d s2
  assume "s = q # s0" and "json_chars s0 = Some p" and "(w, s1) = p" and "json_space s1 = d # s2"
  then show "(json_space s2, s) \<in> measure length"
    using json_chars_shorter [of s0 w s1] json_space_length [of s1] json_space_length [of s2] by simp
qed simp

declare json_items.simps [simp del]

definition json_loads :: "string \<Rightarrow> string list option" where
  "json_loads s = (case json_space s of
     [] \<Rightarrow> None
   | b # s1 \<Rightarrow>
       if b \<noteq> CHR ''['' then None
       else (case json_space s1 of
               [] \<Rightarrow> None
             | d # s2 \<Rightarrow>
                 if d = CHR '']'' then (if json_space s2 = [] then Some [] else None)
                 else (case json_items (d # s2) of
                         None \<Rightarrow> None
                       | Some (ws, r) \<Rightarrow> if json_space r = [] then Some ws else None)))"

lemma json_chars_char:
  "json_chars (json_char c @ s) = map_option (\<lambda>(w, r). (c # w, r)) (json_chars s)"
proof -
  define n :: nat where "n = of_char c"
  have c: "c = char_of n" and n: "n < 256"
    by (simp_all add: n_def)
  have hex: "digit_in 16 (CHR ''0'') = Some 0" by code_simp
  have special: "json_escape (CHR ''b'') = Some (char_of (8::nat))"
    "json_escape (CHR ''t'') = Some (char_of (9::nat))"
    "json_escape (CHR ''n'') = Some (char_of (10::nat))"
    "json_escape (CHR ''f'') = Some (char_of (12::nat))"
    "json_escape (CHR ''r'') = Some (char_of (13::nat))"
    by (simp_all add: json_escape_def)
  consider "n = 34 \<or> n = 92" | "n \<in> {8, 9, 10, 12, 13}" | "32 \<le> n" "n \<le> 126" "n \<noteq> 34" "n \<noteq> 92"
    | "n < 32 \<or> 126 < n" "n \<notin> {8, 9, 10, 12, 13}"
    by fastforce
  then show ?thesis
  proof cases
    case 1
    moreover have "(char_of (34::nat) :: char) = CHR 0x22" and "(char_of (92::nat) :: char) = CHR 0x5C"
      by code_simp+
    ultimately have "c = CHR 0x22 \<or> c = CHR 0x5C" by (auto simp: c)
    then show ?thesis by (auto simp: json_char_def json_escape_def)
  next
    case 2
    moreover have "json_char (char_of (8::nat)) = [CHR 0x5C, CHR ''b'']"
      "json_char (char_of (9::nat)) = [CHR 0x5C, CHR ''t'']"
      "json_char (char_of (10::nat)) = [CHR 0x5C, CHR ''n'']"
      "json_char (char_of (12::nat)) = [CHR 0x5C, CHR ''f'']"
      "json_char (char_of (13::nat)) = [CHR 0x5C, CHR ''r'']"
      by code_simp+
    ultimately show ?thesis by (auto simp: c special)
  next
    case 3
    then have "c \<noteq> CHR 0x22" and "c \<noteq> CHR 0x5C" by (auto simp: n_def)
    with 3 show ?thesis by (auto simp: json_char_def Let_def n_def)
  next
    case 4
    then have "json_char c =
      [CHR 0x5C, CHR ''u'', CHR ''0'', CHR ''0'', hex_char (n div 16), hex_char (n mod 16)]"
      by (auto simp: json_char_def Let_def simp flip: n_def)
    moreover have "digit_in 16 (hex_char (n div 16)) = Some (n div 16)"
      and "digit_in 16 (hex_char (n mod 16)) = Some (n mod 16)"
      using n by (simp_all add: hex_char_digit)
    moreover have "char_of (16 * (n div 16) + n mod 16) = c"
      by (simp only: c mult_div_mod_eq)
    ultimately show ?thesis by (simp add: hex)
  qed
qed

lemma json_chars_string: "json_chars (concat (map json_char s) @ CHR 0x22 # r) = Some (s, r)"
  by (induction s) (simp_all add: json_chars_char)

lemma json_items_join:
  assumes "ws \<noteq> []"
  shows "json_items (join '', '' (map json_string ws) @ '']'' @ r) = Some (ws, r)"
  using assms
proof (induction ws)
  case Nil
  then show ?case by simp
next
  case (Cons w ws)
  show ?case
  proof (cases ws)
    case Nil
    then show ?thesis
      by (subst json_items.simps)
        (simp add: join_def json_string_def json_chars_string json_space_def)
  next
    case (Cons v vs)
    have rest: "join '', '' (map json_string (w # ws)) @ '']'' @ r =
      CHR 0x22 # concat (map json_char w) @ CHR 0x22 # '', '' @ join '', '' (map json_string ws) @ '']'' @ r"
      by (simp add: join_def json_string_def Cons)
    have "json_space (CHR '' '' # join '', '' (map json_string ws) @ '']'' @ r) =
      join '', '' (map json_string ws) @ '']'' @ r"
      by (simp add: json_space_def join_def Cons json_string_def)
    with Cons.IH Cons show ?thesis
      unfolding rest by (subst json_items.simps) (simp add: json_chars_string json_space_def)
  qed
qed

lemma json_loads_dumps: "json_loads (json_dumps ws) = Some ws"
proof (cases ws)
  case Nil
  then show ?thesis by (simp add: json_loads_def json_dumps_def join_def json_space_def)
next
  case (Cons w ws')
  then obtain b where b: "join '', '' (map json_string ws) = CHR 0x22 # b"
    by (simp add: join_def json_string_def)
  have "json_items (CHR 0x22 # b @ '']'') = Some (ws, [])"
    using json_items_join [of ws "[]"] by (simp only: b) (simp add: Cons)
  then show ?thesis
    using b by (simp add: json_loads_def json_dumps_def json_space_def)
qed

end
