(* ===== verification/Exceptions.thy ===== *)
theory Exceptions
  imports PyText
begin

text \<open>
  The exceptions of \<^verbatim>\<open>app/shared/exceptions.py\<close>: the class hierarchy with its status codes, error
  codes and messages, the constructor, the JSON envelope, and the handlers that turn an exception
  into a response. Exceptions of the language, of the database and of the libraries that the
  program lets escape are the constructors of \<open>py_exception\<close>; they all end in the last handler.
\<close>

section \<open>The domain exceptions\<close>

datatype error_class =
    AppError
  | NotFoundError
  | ConflictError
  | ValidationError
  | AuthenticationError
  | PermissionDeniedError
  | ModuleNotEnabledError
  | TenantResolutionError
  | RateLimitError

fun status_code :: "error_class \<Rightarrow> nat" where
  "status_code AppError = 400"
| "status_code NotFoundError = 404"
| "status_code ConflictError = 409"
| "status_code ValidationError = 422"
| "status_code AuthenticationError = 401"
| "status_code PermissionDeniedError = 403"
| "status_code ModuleNotEnabledError = 403"
| "status_code TenantResolutionError = 400"
| "status_code RateLimitError = 429"

fun error_code :: "error_class \<Rightarrow> string" where
  "error_code AppError = ''app_error''"
| "error_code NotFoundError = ''not_found''"
| "error_code ConflictError = ''conflict''"
| "error_code ValidationError = ''validation_error''"
| "error_code AuthenticationError = ''unauthenticated''"
| "error_code PermissionDeniedError = ''permission_denied''"
| "error_code ModuleNotEnabledError = ''module_not_enabled''"
| "error_code TenantResolutionError = ''tenant_required''"
| "error_code RateLimitError = ''rate_limited''"

fun default_message :: "error_class \<Rightarrow> string" where
  "default_message AppError = ''Application error''"
| "default_message NotFoundError = ''Resource not found''"
| "default_message ConflictError = ''Resource conflict''"
| "default_message ValidationError = ''Validation failed''"
| "default_message AuthenticationError = ''Authentication required''"
| "default_message PermissionDeniedError = ''Permission denied''"
| "default_message ModuleNotEnabledError = ''Module not enabled for tenant''"
| "default_message TenantResolutionError = ''Tenant could not be resolved''"
| "default_message RateLimitError = ''Too many requests''"

text \<open>What the \<^verbatim>\<open>details\<close> argument carries where the program passes it.\<close>

datatype details =
    Required "string list"
  | RequiredRoles "string list"
  | RetryAfter int
  | ValidationReport string
  | Traceback string

record app_error =
  e_class :: error_class
  e_message :: string
  e_details :: "details option"
  e_code :: string

text \<open>\<^verbatim>\<open>AppError.__init__\<close>: an absent or empty message or code leaves that of the class.\<close>

definition new_error :: "error_class \<Rightarrow> string option \<Rightarrow> details option \<Rightarrow> string option \<Rightarrow> app_error" where
  "new_error cls message dets code =
     \<lparr>e_class = cls,
      e_message = (case message of None \<Rightarrow> default_message cls
                   | Some m \<Rightarrow> if m = [] then default_message cls else m),
      e_details = dets,
      e_code = (case code of None \<Rightarrow> error_code cls
                | Some c \<Rightarrow> if c = [] then error_code cls else c)\<rparr>"

datatype py_exception =
    RuntimeError string
  | TokenError string
  | PayloadInvalid
  | IntegrityError string
  | DataError
  | RowSecurityError
  | MultipleResultsFound
  | AttributeError string
  | ValueError
  | KeyError string
  | AssertionError
  | StaleDataError
  | MissingGreenlet

datatype exn =
    App app_error
  | RequestInvalid string
  | HttpError nat string
  | Unhandled py_exception

abbreviation app_exn :: "error_class \<Rightarrow> string \<Rightarrow> exn" where
  "app_exn cls message \<equiv> App (new_error cls (Some message) None None)"

section \<open>Responses to exceptions\<close>

record envelope =
  env_error :: string
  env_code :: string
  env_details :: "details option"
  env_request_id :: "string option"

record error_response =
  resp_status :: nat
  resp_body :: envelope

text \<open>
  \<^verbatim>\<open>_envelope\<close> adds the request id when a request context is bound: the first argument is the id
  of that context, if there is one. The four handlers follow in the order of the source. The last
  one puts the formatted traceback into the body (\<open>tb\<close>, what \<^verbatim>\<open>traceback.format_exception\<close> gives).
\<close>

definition make_envelope :: "string option \<Rightarrow> string \<Rightarrow> string \<Rightarrow> details option \<Rightarrow> envelope" where
  "make_envelope rid code message dets =
     \<lparr>env_error = message, env_code = code, env_details = dets, env_request_id = rid\<rparr>"

definition exception_response :: "string option \<Rightarrow> string \<Rightarrow> exn \<Rightarrow> error_response" where
  "exception_response rid tb e = (case e of
     App a \<Rightarrow> \<lparr>resp_status = status_code (e_class a),
               resp_body = make_envelope rid (e_code a) (e_message a) (e_details a)\<rparr>
   | RequestInvalid report \<Rightarrow>
       \<lparr>resp_status = 422,
        resp_body = make_envelope rid ''validation_error'' ''Validation failed''
                      (Some (ValidationReport report))\<rparr>
   | HttpError n detail \<Rightarrow>
       \<lparr>resp_status = n, resp_body = make_envelope rid ''http_error'' detail None\<rparr>
   | Unhandled p \<Rightarrow>
       \<lparr>resp_status = 500,
        resp_body = make_envelope rid ''internal_error'' ''Internal server error''
                      (Some (Traceback tb))\<rparr>)"

text \<open>A domain exception never looks like a server error, and each class keeps its own code.\<close>

lemma status_code_client: "400 \<le> status_code c \<and> status_code c < 500"
  by (cases c) simp_all

lemma error_code_inject: "error_code c = error_code d \<longleftrightarrow> c = d"
  by (cases c; cases d) simp_all

lemma new_error_message [simp]: "m \<noteq> [] \<Longrightarrow> e_message (new_error c (Some m) d k) = m"
  by (simp add: new_error_def)

lemma new_error_class [simp]: "e_class (new_error c m d k) = c"
  by (simp add: new_error_def)

lemma new_error_code [simp]: "e_code (new_error c m d None) = error_code c"
  by (simp add: new_error_def)

end
