(* ===== verification/Models.thy ===== *)
theory Models
  imports Config Complex_Main
begin

text \<open>
  The rows of the database: one record per class of the \<^verbatim>\<open>models.py\<close> files, in the order of the
  modules, with the mixins of \<^verbatim>\<open>app/core/database/base.py\<close> as records they extend. A column the
  program can leave null is an \<^typ>\<open>'a option\<close>; a foreign key is the \<^typ>\<open>uuid\<close> it holds; a
  \<^verbatim>\<open>Numeric\<close> column is a rational number. Relationships are not columns: the operations look them
  up. The column \<^verbatim>\<open>updated_at\<close> is left out: no service and no response reads it; a list can be sorted by it, which
  the model takes for a sort by no column.
\<close>

section \<open>Mixins\<close>

text \<open>\<^verbatim>\<open>UUIDMixin\<close> and \<^verbatim>\<open>TimestampMixin\<close>, then \<^verbatim>\<open>TenantMixin\<close>, then \<^verbatim>\<open>SoftDeleteMixin\<close>.\<close>

record entity =
  row_id :: uuid
  created_at :: time

record tenant_entity = entity +
  tenant_id :: uuid

record soft_entity = tenant_entity +
  deleted_at :: "time option"

section \<open>Platform: tenants, licensing, audit\<close>

text \<open>The values of a JSONB column. \<open>JFloat r\<close> is the double nearest to \<open>r\<close>.\<close>

datatype json =
    JNull
  | JBool bool
  | JFloat rat
  | JStr string
  | JObj "(string \<times> json) list"

datatype isolation_mode = Shared | OwnSchema | OwnDatabase

record tenant = entity +
  tenant_deleted_at :: "time option"
  tenant_name :: string
  slug :: string
  tenant_is_active :: bool
  isolation_mode :: isolation_mode
  schema_name :: "string option"
  tenant_settings :: json

record licence_module = entity +
  mod_code :: string
  mod_name :: string
  mod_description :: "string option"
  mod_is_active :: bool
  mod_is_core :: bool

text \<open>\<^verbatim>\<open>TenantModule\<close> declares its own \<^verbatim>\<open>tenant_id\<close>: it is control-plane data, not under row security.\<close>

record tenant_module = entity +
  tm_tenant_id :: uuid
  tm_module_id :: uuid
  tm_enabled :: bool
  tm_enabled_at :: "time option"
  tm_expires_at :: "time option"

record audit_log = tenant_entity +
  al_user_id :: "uuid option"
  al_action :: string
  al_resource :: string
  al_resource_id :: "uuid option"
  al_old_values :: "json option"
  al_new_values :: "json option"
  al_ip_address :: "string option"

section \<open>Identity\<close>

record permission = entity +
  perm_code :: string
  perm_description :: "string option"

record role = tenant_entity +
  role_code :: string
  role_name :: string
  role_description :: "string option"
  role_is_system :: bool

record user = soft_entity +
  email :: string
  hashed_password :: string
  full_name :: string
  is_active :: bool
  is_verified :: bool
  is_superuser :: bool
  last_login_at :: "time option"

record user_session = tenant_entity +
  us_user_id :: uuid
  us_jti :: uuid
  us_user_agent :: "string option"
  us_ip_address :: "string option"
  us_expires_at :: time
  us_revoked_at :: "time option"

definition session_is_active :: "user_session \<Rightarrow> bool" where
  "session_is_active s \<longleftrightarrow> us_revoked_at s = None"

section \<open>Course catalog\<close>

datatype course_status = Draft | Published | Archived
datatype course_level = Beginner | Intermediate | Advanced
datatype enrollment_status = EnrActive | EnrCompleted | EnrCancelled

record category = soft_entity +
  cat_name :: string
  cat_slug :: string
  cat_description :: "string option"
  cat_parent_id :: "uuid option"

record course = soft_entity +
  course_title :: string
  course_slug :: string
  course_summary :: "string option"
  course_description :: "string option"
  course_category_id :: "uuid option"
  course_status :: course_status
  course_level :: course_level
  course_is_free :: bool
  course_price :: rat
  course_thumbnail_url :: "string option"
  enrollment_count :: int
  published_at :: "time option"

record course_instructor = tenant_entity +
  ci_course_id :: uuid
  ci_user_id :: uuid
  ci_is_lead :: bool

record course_enrollment = tenant_entity +
  enr_course_id :: uuid
  enr_user_id :: uuid
  enr_status :: enrollment_status
  enr_progress_pct :: int
  enrolled_at :: time
  enr_completed_at :: "time option"

section \<open>Learning\<close>

datatype lesson_type = VideoLesson | DocumentLesson | TextLesson
datatype progress_status = NotStarted | InProgress | Completed

record course_module = soft_entity +
  cm_course_id :: uuid
  cm_title :: string
  cm_description :: "string option"
  cm_order_index :: int

record lesson = soft_entity +
  les_course_id :: uuid
  les_module_id :: "uuid option"
  les_title :: string
  les_content_type :: lesson_type
  les_content :: "string option"
  les_order_index :: int
  les_duration_seconds :: int
  les_is_preview :: bool

record video_asset = tenant_entity +
  va_lesson_id :: uuid
  va_provider :: string
  va_url :: string
  va_hls_url :: "string option"
  va_duration_seconds :: int

record document_asset = tenant_entity +
  da_lesson_id :: uuid
  da_file_url :: string
  da_file_type :: string
  da_size_bytes :: int

record lesson_progress = tenant_entity +
  lp_lesson_id :: uuid
  lp_course_id :: uuid
  lp_user_id :: uuid
  lp_status :: progress_status
  lp_last_position_seconds :: int
  lp_completed_at :: "time option"

section \<open>Assignments\<close>

datatype assignment_type = PlainAssignment | QuizAssignment
datatype submission_status = Submitted | Graded | Returned
datatype question_type = SingleChoice | MultipleChoice | BooleanChoice

record assignment = soft_entity +
  asg_course_id :: uuid
  asg_title :: string
  asg_description :: "string option"
  asg_type :: assignment_type
  asg_max_points :: rat
  asg_pass_points :: rat
  asg_due_at :: "time option"
  asg_is_published :: bool

record quiz = tenant_entity +
  quiz_assignment_id :: uuid
  quiz_time_limit_seconds :: int
  quiz_shuffle_questions :: bool

record quiz_question = tenant_entity +
  qq_quiz_id :: uuid
  qq_text :: string
  qq_type :: question_type
  qq_points :: rat
  qq_order_index :: int

record quiz_answer = tenant_entity +
  qa_question_id :: uuid
  qa_text :: string
  qa_is_correct :: bool

record submission = tenant_entity +
  sub_assignment_id :: uuid
  sub_user_id :: uuid
  sub_content :: "string option"
  sub_file_url :: "string option"
  sub_answers :: "(uuid \<times> uuid list) list option"
  sub_status :: submission_status
  submitted_at :: time

record grade = tenant_entity +
  gr_submission_id :: uuid
  gr_assignment_id :: uuid
  gr_user_id :: uuid
  gr_points :: rat
  gr_max_points :: rat
  gr_feedback :: "string option"
  gr_is_auto :: bool
  gr_graded_by :: "uuid option"
  gr_graded_at :: time

section \<open>The database\<close>

text \<open>
  One list of rows per table, in the order in which the engine returns them when a query asks for
  no order. The two association tables of the identity module are lists of pairs of keys.
\<close>

record database =
  t_tenants :: "tenant list"
  t_modules :: "licence_module list"
  t_tenant_modules :: "tenant_module list"
  t_audit_logs :: "audit_log list"
  t_permissions :: "permission list"
  t_roles :: "role list"
  t_role_permissions :: "(uuid \<times> uuid) list"
  t_users :: "user list"
  t_user_roles :: "(uuid \<times> uuid) list"
  t_user_sessions :: "user_session list"
  t_categories :: "category list"
  t_courses :: "course list"
  t_course_instructors :: "course_instructor list"
  t_course_enrollments :: "course_enrollment list"
  t_course_modules :: "course_module list"
  t_lessons :: "lesson list"
  t_video_assets :: "video_asset list"
  t_document_assets :: "document_asset list"
  t_lesson_progress :: "lesson_progress list"
  t_assignments :: "assignment list"
  t_quizzes :: "quiz list"
  t_quiz_questions :: "quiz_question list"
  t_quiz_answers :: "quiz_answer list"
  t_submissions :: "submission list"
  t_grades :: "grade list"

definition empty_database :: database where
  "empty_database =
     \<lparr>t_tenants = [], t_modules = [], t_tenant_modules = [], t_audit_logs = [],
      t_permissions = [], t_roles = [], t_role_permissions = [], t_users = [], t_user_roles = [],
      t_user_sessions = [], t_categories = [], t_courses = [], t_course_instructors = [],
      t_course_enrollments = [], t_course_modules = [], t_lessons = [], t_video_assets = [],
      t_document_assets = [], t_lesson_progress = [], t_assignments = [], t_quizzes = [],
      t_quiz_questions = [], t_quiz_answers = [], t_submissions = [], t_grades = []\<rparr>"

end
