(* ===== verification/World.thy ===== *)
theory World
  imports Models
begin

text \<open>
  The state the program runs in, and its sessions.

  \<^item> \<open>env\<close> collects what is not code of the repository, each as a function the model takes as an
    argument: the clock and the random sources (the n-th reading of each), pwdlib, PyJWT, the
    payload validation of pydantic, the attributes SQLAlchemy gives a mapped class beside its
    columns, and the commands of the Redis server on a store of type \<open>'c\<close>.
  \<^item> \<open>world\<close> is the state: the settings, the request context, the Redis store (\<^term>\<open>None\<close> when no URL
    is configured), the module-level dictionary of \<^verbatim>\<open>auth/service.py\<close>, and the database. The database
    has the rows that are committed and the changes the open transaction has made so far; what a
    session sees (\<open>view\<close>) is its own changes on top of what is committed now.
  \<^item> \<open>transaction\<close>, \<open>get_db\<close> and \<open>tenant_session\<close> are \<^verbatim>\<open>app/core/database/session.py\<close>: the settings
    bound for row level security, commit on return, roll back on an exception.
\<close>

section \<open>What the program is given\<close>

datatype claim = CStr string | CInt int

type_synonym claims = "(string \<times> claim) list"

datatype jwt_result = JwtOk claims | JwtExpired | JwtInvalid

record token_payload =
  tp_sub :: uuid
  tp_tid :: uuid
  tp_type :: string
  tp_jti :: uuid
  tp_exp :: int
  tp_iat :: int

record 'c env =
  clock :: "nat \<Rightarrow> time"
  uuid4 :: "nat \<Rightarrow> uuid"
  token_urlsafe :: "nat \<Rightarrow> string"
  hasher_hash :: "nat \<Rightarrow> string \<Rightarrow> string"
  hasher_verify :: "string \<Rightarrow> string \<Rightarrow> bool option"
  jwt_encode :: "claims \<Rightarrow> string \<Rightarrow> string \<Rightarrow> string"
  jwt_decode :: "time \<Rightarrow> string \<Rightarrow> string \<Rightarrow> string \<Rightarrow> jwt_result"
  validate_payload :: "claims \<Rightarrow> token_payload option"
  class_attribute :: "string \<Rightarrow> string \<Rightarrow> bool"
  redis_get :: "time \<Rightarrow> string \<Rightarrow> 'c \<Rightarrow> string option"
  redis_set :: "time \<Rightarrow> string \<Rightarrow> string \<Rightarrow> int \<Rightarrow> 'c \<Rightarrow> 'c"
  redis_delete :: "time \<Rightarrow> string \<Rightarrow> 'c \<Rightarrow> 'c"
  redis_incr :: "time \<Rightarrow> string \<Rightarrow> 'c \<Rightarrow> int \<times> 'c"
  redis_expire :: "time \<Rightarrow> string \<Rightarrow> int \<Rightarrow> 'c \<Rightarrow> 'c"
  redis_ttl :: "time \<Rightarrow> string \<Rightarrow> 'c \<Rightarrow> int"

record 'c world =
  w_settings :: settings
  w_ctx :: "request_context option"
  w_redis :: "'c option"
  w_reset_store :: "(string \<times> (string \<times> time)) list"
  w_committed :: database
  w_delta :: "database \<Rightarrow> database"
  w_bypass :: bool
  w_guc_tenant :: "uuid option"
  w_now :: time
  w_draw :: nat
  w_log :: "(string \<times> exn) list"

type_synonym ('c, 'a) io = "('c world, exn, 'a) act"

definition view :: "'c world \<Rightarrow> database" where
  "view w = w_delta w (w_committed w)"

text \<open>\<open>draw f\<close> takes the next reading of the clock or of a random source.\<close>

definition draw :: "(nat \<Rightarrow> 'a) \<Rightarrow> ('c, 'a) io" where
  "draw f = (\<lambda>w. (Inr (f (w_draw w)), w\<lparr>w_draw := Suc (w_draw w)\<rparr>))"

lemma draw_apply [act_simps]: "draw f w = (Inr (f (w_draw w)), w\<lparr>w_draw := Suc (w_draw w)\<rparr>)"
  by (simp add: draw_def)

lemma andthen_draw [act_simps]:
  "andthen (draw f) k w = k (f (w_draw w)) (w\<lparr>w_draw := Suc (w_draw w)\<rparr>)"
  by (simp add: andthen_def draw_def)

text \<open>The parts of \<open>app/core/context.py\<close> that the operations call, on the bound context.\<close>

definition get_context :: "('c, request_context option) io" where
  "get_context = asks w_ctx"

definition require_tenant :: "('c, uuid) io" where
  "require_tenant = (\<lambda>w. (require_tenant_id (w_ctx w), w))"

lemma get_context_apply [act_simps]: "get_context w = (Inr (w_ctx w), w)"
  by (simp add: get_context_def act_simps)

lemma andthen_get_context [act_simps]: "andthen get_context f w = f (w_ctx w) w"
  by (simp add: get_context_def act_simps)

lemma andthen_require_tenant:
  "current_tenant_id (w_ctx w) = Some t \<Longrightarrow> andthen require_tenant f w = f t w"
  by (simp add: andthen_def require_tenant_def require_tenant_id_def)

lemma require_tenant_ok: "current_tenant_id (w_ctx w) = Some t \<Longrightarrow> require_tenant w = (Inr t, w)"
  by (simp add: require_tenant_def require_tenant_id_def)

section \<open>Sessions\<close>

text \<open>\<^verbatim>\<open>_bind_rls\<close>: two transaction-local settings that the row level policies read.\<close>

definition bind_rls :: "uuid option \<Rightarrow> bool \<Rightarrow> ('c, unit) io" where
  "bind_rls tid bypass = change (\<lambda>w.
     if \<not> enable_row_level_security (w_settings w) then w
     else (let w' = w\<lparr>w_bypass := bypass\<rparr>
           in case tid of None \<Rightarrow> w' | Some t \<Rightarrow> w'\<lparr>w_guc_tenant := Some t\<rparr>))"

definition begin_transaction :: "'c env \<Rightarrow> ('c, unit) io" where
  "begin_transaction x = andthen (draw (clock x)) (\<lambda>t. change (\<lambda>w.
     w\<lparr>w_delta := id, w_bypass := False, w_guc_tenant := None, w_now := t\<rparr>))"

definition commit :: "('c, unit) io" where
  "commit = change (\<lambda>w. w\<lparr>w_committed := view w, w_delta := id\<rparr>)"

definition rollback :: "('c, unit) io" where
  "rollback = change (\<lambda>w. w\<lparr>w_delta := id\<rparr>)"

text \<open>
  The body of the session managers: begin, bind, run the user of the session, then commit, or roll
  back and raise again.
\<close>

definition transaction :: "'c env \<Rightarrow> uuid option \<Rightarrow> bool \<Rightarrow> ('c, 'a) io \<Rightarrow> ('c, 'a) io" where
  "transaction x tid bypass body =
     andthen (begin_transaction x) (\<lambda>_.
     andthen (catch (andthen (bind_rls tid bypass) (\<lambda>_. body))
                    (\<lambda>e. andthen rollback (\<lambda>_. raise e))) (\<lambda>r.
     andthen commit (\<lambda>_. ret r)))"

definition get_db :: "'c env \<Rightarrow> ('c, 'a) io \<Rightarrow> ('c, 'a) io" where
  "get_db x body =
     andthen get_context (\<lambda>rc.
       let tid = (case rc of None \<Rightarrow> None | Some c \<Rightarrow> rc_tenant_id c);
           bypass = (case rc of None \<Rightarrow> False | Some c \<Rightarrow> rc_is_superadmin c)
       in transaction x tid bypass body)"

text \<open>
  \<^verbatim>\<open>tenant_session\<close> opens a connection of its own: the transaction of the caller, if one is open,
  keeps its pending changes and its settings, and sees the rows that the inner one has committed.
\<close>

definition tenant_session :: "'c env \<Rightarrow> uuid option \<Rightarrow> bool \<Rightarrow> ('c, 'a) io \<Rightarrow> ('c, 'a) io" where
  "tenant_session x tid bypass_rls body = (\<lambda>w.
     let (r, w') = transaction x tid bypass_rls body w
     in (r, w'\<lparr>w_delta := w_delta w, w_bypass := w_bypass w, w_guc_tenant := w_guc_tenant w,
               w_now := w_now w\<rparr>))"

text \<open>The state a session starts from, and the transaction as one equation.\<close>

definition opened :: "'c env \<Rightarrow> uuid option \<Rightarrow> bool \<Rightarrow> 'c world \<Rightarrow> 'c world" where
  "opened x tid bypass w =
     w\<lparr>w_draw := Suc (w_draw w), w_delta := id, w_now := clock x (w_draw w),
       w_bypass := enable_row_level_security (w_settings w) \<and> bypass,
       w_guc_tenant := (if enable_row_level_security (w_settings w) then tid else None)\<rparr>"

lemma transaction_starts:
  fixes w :: "'c world"
  shows "andthen (begin_transaction x) (\<lambda>_. andthen (bind_rls tid bypass) f) w = f () (opened x tid bypass w)"
proof -
  have "snd (bind_rls tid bypass (snd (begin_transaction x w))) = opened x tid bypass w"
    by (cases tid; rule world.equality)
      (simp_all add: opened_def bind_rls_def begin_transaction_def act_simps Let_def)
  moreover have "fst (begin_transaction x w) = Inr ()" and "fst (bind_rls tid bypass v) = Inr ()"
    for v :: "'c world"
    by (simp_all add: bind_rls_def begin_transaction_def act_simps)
  ultimately show ?thesis
    by (simp add: andthen_def case_prod_unfold)
qed

lemma transaction_eq:
  "transaction x tid bypass body w =
     (case body (opened x tid bypass w) of
        (Inl e, w') \<Rightarrow> (Inl e, w'\<lparr>w_delta := id\<rparr>)
      | (Inr r, w') \<Rightarrow> (Inr r, w'\<lparr>w_committed := view w', w_delta := id\<rparr>))"
proof -
  have "transaction x tid bypass body w =
    andthen (begin_transaction x) (\<lambda>_. andthen (bind_rls tid bypass) (\<lambda>_.
      andthen (catch body (\<lambda>e. andthen rollback (\<lambda>_. raise e))) (\<lambda>r.
      andthen commit (\<lambda>_. ret r)))) w"
    by (auto simp: transaction_def bind_rls_def catch_def andthen_def change_def fun_eq_iff
        split: prod.splits sum.splits)
  then show ?thesis
    by (simp add: transaction_starts)
      (auto simp: catch_def andthen_def commit_def rollback_def change_def ret_def raise_def view_def
        split: prod.splits sum.splits)
qed

lemma opened_sel [simp]:
  "w_settings (opened x tid bypass w) = w_settings w"
  "w_ctx (opened x tid bypass w) = w_ctx w"
  "w_redis (opened x tid bypass w) = w_redis w"
  "w_reset_store (opened x tid bypass w) = w_reset_store w"
  "w_committed (opened x tid bypass w) = w_committed w"
  "w_delta (opened x tid bypass w) = id"
  "w_bypass (opened x tid bypass w) = (enable_row_level_security (w_settings w) \<and> bypass)"
  "w_guc_tenant (opened x tid bypass w) =
     (if enable_row_level_security (w_settings w) then tid else None)"
  "w_now (opened x tid bypass w) = clock x (w_draw w)"
  "w_draw (opened x tid bypass w) = Suc (w_draw w)"
  "w_log (opened x tid bypass w) = w_log w"
  "view (opened x tid bypass w) = w_committed w"
  by (simp_all add: opened_def view_def)

text \<open>
  Whatever the body does inside its transaction is either all committed or not at all; what other
  sessions committed meanwhile stays.
\<close>

lemma transaction_rollback:
  assumes "transaction x tid bypass body w = (Inl e, w')"
  shows "w_delta w' = id \<and> view w' = w_committed w'"
  using assms by (auto simp: transaction_eq Let_def view_def split: prod.splits sum.splits)

lemma transaction_committed:
  assumes "transaction x tid bypass body w = (Inr r, w')"
  shows "w_delta w' = id \<and> view w' = w_committed w'"
  using assms by (auto simp: transaction_eq Let_def view_def split: prod.splits sum.splits)

section \<open>Row level security\<close>

text \<open>
  The policy of migration \<^verbatim>\<open>0002\<close>, \<^verbatim>\<open>tenant_id = app.tenant_id OR app.bypass_rls = 'on'\<close>. It is both
  the \<^verbatim>\<open>USING\<close> and the \<^verbatim>\<open>WITH CHECK\<close> condition: it hides rows from queries and refuses to write them. The policies
  are forced, so they bind the owner of the tables; they bind no superuser of the server. The model is of a
  session of an ordinary role.
\<close>

definition tenant_isolation :: "'c world \<Rightarrow> uuid \<Rightarrow> bool" where
  "tenant_isolation w tid \<longleftrightarrow> w_guc_tenant w = Some tid \<or> w_bypass w"

end
