(* ===== verification/Repository.thy ===== *)
theory Repository
  imports World "HOL-Library.List_Lexorder" "HOL-Library.Char_ord" "HOL-Library.Product_Lexorder"
begin

text \<open>
  \<^verbatim>\<open>app/core/database/repository.py\<close> and the statements it sends.

  A \<open>model\<close> describes a mapped class: its table, key, mixins and constraints, as \<^verbatim>\<open>models.py\<close> declares
  them. A \<open>select\<close> is the statement under construction. \<open>run_select\<close>, \<open>sql_insert\<close> and \<open>sql_update\<close>
  are what the statements mean: a query returns the rows that row level security lets through and
  that satisfy its conditions; a write is checked against the column types, the row policy, the
  unique constraints and the foreign keys, and raises what the database raises. The methods of
  \<^verbatim>\<open>BaseRepository\<close> and \<^verbatim>\<open>TenantRepository\<close> follow under their own names with the prefix \<open>repo_\<close>.

  The locale \<open>table\<close> is the contract between a model and the repository; every component that
  declares a model interprets it. Its lemmas say what a session sees after a write.

  PostgreSQL promises no order among rows that agree in the sort key, nor for a query without one;
  \<open>ordered\<close> takes the order of insertion, one of those it may choose. A property in which that matters
  says so.
\<close>

section \<open>Sort keys\<close>

text \<open>A column value as \<^verbatim>\<open>ORDER BY\<close> compares it: numbers, then text, nulls last.\<close>

datatype cell = CellInt int | CellText string | CellNull

fun cell_key :: "cell \<Rightarrow> nat \<times> int \<times> string" where
  "cell_key (CellInt i) = (0, i, [])"
| "cell_key (CellText s) = (1, 0, s)"
| "cell_key CellNull = (2, 0, [])"

lemma cell_key_inject: "cell_key a = cell_key b \<Longrightarrow> a = b"
  by (cases a; cases b) simp_all

instantiation cell :: linorder
begin

definition less_eq_cell :: "cell \<Rightarrow> cell \<Rightarrow> bool" where
  "a \<le> b \<longleftrightarrow> cell_key a \<le> cell_key b"

definition less_cell :: "cell \<Rightarrow> cell \<Rightarrow> bool" where
  "a < b \<longleftrightarrow> cell_key a < cell_key b"

instance
  by standard (auto simp: less_eq_cell_def less_cell_def dest: cell_key_inject)

end

text \<open>Booleans and optional values as cells.\<close>

definition cell_bool :: "bool \<Rightarrow> cell" where
  "cell_bool b = CellInt (if b then 1 else 0)"

definition cell_option :: "('a \<Rightarrow> cell) \<Rightarrow> 'a option \<Rightarrow> cell" where
  "cell_option f v = (case v of None \<Rightarrow> CellNull | Some x \<Rightarrow> f x)"

definition sort_desc :: "('r \<Rightarrow> 'k::linorder) \<Rightarrow> 'r list \<Rightarrow> 'r list" where
  "sort_desc key rows = rev (sort_key key (rev rows))"

lemma set_sort_desc [simp]: "set (sort_desc key rows) = set rows"
  by (simp add: sort_desc_def)

lemma length_sort_desc [simp]: "length (sort_desc key rows) = length rows"
  by (simp add: sort_desc_def)

section \<open>Pattern matching in queries\<close>

text \<open>
  \<^verbatim>\<open>LIKE\<close>: \<^verbatim>\<open>%\<close> stands for any text, \<^verbatim>\<open>_\<close> for one character, and a backslash takes the next character
  literally. \<^verbatim>\<open>ILIKE\<close> compares in lower case.
\<close>

fun like :: "string \<Rightarrow> string \<Rightarrow> bool" where
  "like [] s = (s = [])"
| "like (p # ps) s =
     (if p = CHR ''%'' then
        like ps s \<or> (case s of [] \<Rightarrow> False | c # s' \<Rightarrow> like (p # ps) s')
      else (case s of
              [] \<Rightarrow> False
            | c # s' \<Rightarrow>
                if p = CHR ''_'' then like ps s'
                else if p = CHR 0x5C then (case ps of [] \<Rightarrow> False | q # qs \<Rightarrow> c = q \<and> like qs s')
                else c = p \<and> like ps s'))"

definition ilike :: "string \<Rightarrow> string \<Rightarrow> bool" where
  "ilike s pattern = like (lower pattern) (lower s)"

definition contains_pattern :: "string \<Rightarrow> string" where
  "contains_pattern term = ''%'' @ term @ ''%''"

section \<open>Models and statements\<close>

datatype 'r attribute = Column "'r \<Rightarrow> cell" | NoColumn

record 'r model =
  m_name :: string
  m_rows :: "database \<Rightarrow> 'r list"
  m_put :: "'r list \<Rightarrow> database \<Rightarrow> database"
  m_id :: "'r \<Rightarrow> uuid"
  m_owner :: "('r \<Rightarrow> uuid) option"
  m_deleted :: "('r \<Rightarrow> time option) option"
  m_mark_deleted :: "time \<Rightarrow> 'r \<Rightarrow> 'r"
  m_clash :: "'r \<Rightarrow> 'r \<Rightarrow> bool"
  m_fits :: "'r \<Rightarrow> bool"
  m_refs :: "database \<Rightarrow> 'r \<Rightarrow> bool"
  m_stored :: "'r \<Rightarrow> 'r"
  m_column :: "string \<Rightarrow> 'r attribute"
  m_search :: "string \<Rightarrow> 'r \<Rightarrow> bool"

text \<open>The default of \<open>m_search\<close> in \<^verbatim>\<open>BaseRepository\<close> leaves the statement as it is.\<close>

record 'r select =
  sel_where :: "'r \<Rightarrow> bool"
  sel_order :: "(bool \<times> ('r \<Rightarrow> cell)) option"
  sel_offset :: int
  sel_limit :: "int option"

definition and_where :: "('r \<Rightarrow> bool) \<Rightarrow> 'r select \<Rightarrow> 'r select" where
  "and_where p s = s\<lparr>sel_where := (\<lambda>r. sel_where s r \<and> p r)\<rparr>"

definition order_by :: "bool \<Rightarrow> ('r \<Rightarrow> cell) \<Rightarrow> 'r select \<Rightarrow> 'r select" where
  "order_by desc key s = s\<lparr>sel_order := Some (desc, key)\<rparr>"

definition paged :: "int \<Rightarrow> int \<Rightarrow> 'r select \<Rightarrow> 'r select" where
  "paged off n s = s\<lparr>sel_offset := off, sel_limit := Some n\<rparr>"

definition row_visible :: "'r model \<Rightarrow> 'c world \<Rightarrow> 'r \<Rightarrow> bool" where
  "row_visible M w r = (case m_owner M of None \<Rightarrow> True | Some own \<Rightarrow> tenant_isolation w (own r))"

definition ordered :: "'r select \<Rightarrow> 'r list \<Rightarrow> 'r list" where
  "ordered s rows = (case sel_order s of
     None \<Rightarrow> rows
   | Some (desc, key) \<Rightarrow> if desc then sort_desc key rows else sort_key key rows)"

definition matching :: "'r model \<Rightarrow> 'r select \<Rightarrow> 'c world \<Rightarrow> 'r list" where
  "matching M s w = filter (\<lambda>r. row_visible M w r \<and> sel_where s r) (m_rows M (view w))"

definition window :: "'r select \<Rightarrow> 'r list \<Rightarrow> 'r list" where
  "window s rows = (let rest = drop (nat (sel_offset s)) rows
                    in case sel_limit s of None \<Rightarrow> rest | Some n \<Rightarrow> take (nat n) rest)"

definition run_select :: "'r model \<Rightarrow> 'r select \<Rightarrow> ('c, 'r list) io" where
  "run_select M s = asks (\<lambda>w. window s (ordered s (matching M s w)))"

text \<open>\<^verbatim>\<open>select(func.count()).select_from(stmt.order_by(None).subquery())\<close>\<close>

definition run_count :: "'r model \<Rightarrow> 'r select \<Rightarrow> ('c, int) io" where
  "run_count M s = asks (\<lambda>w. int (length (window s (matching M s w))))"

definition scalar_one_or_none :: "'a list \<Rightarrow> exn + 'a option" where
  "scalar_one_or_none rows = (case rows of
     [] \<Rightarrow> Inr None
   | r # rest \<Rightarrow> if rest = [] then Inr (Some r) else Inl (Unhandled MultipleResultsFound))"

text \<open>\<^verbatim>\<open>INSERT\<close> of a new row. The unique index does not know the row policy: it sees every row.\<close>

definition insert_error :: "'r model \<Rightarrow> 'r \<Rightarrow> 'c world \<Rightarrow> py_exception option" where
  "insert_error M r w =
     (if \<not> m_fits M r then Some DataError
      else if \<not> row_visible M w r then Some RowSecurityError
      else if list_ex (\<lambda>s. m_id M s = m_id M r \<or> m_clash M r s) (m_rows M (view w))
        then Some (IntegrityError (m_name M))
      else if \<not> m_refs M (view w) r then Some (IntegrityError (m_name M))
      else None)"

definition sql_insert :: "'r model \<Rightarrow> 'r \<Rightarrow> ('c, unit) io" where
  "sql_insert M r = (\<lambda>w. case insert_error M r w of
     Some e \<Rightarrow> (Inl (Unhandled e), w)
   | None \<Rightarrow> (Inr (), w\<lparr>w_delta := (\<lambda>d. m_put M (m_rows M d @ [m_stored M r]) d) \<circ> w_delta w\<rparr>))"

text \<open>\<^verbatim>\<open>UPDATE ... WHERE id = k\<close> of a loaded row: \<open>f\<close> sets the columns the program assigned.\<close>

definition update_error :: "'r model \<Rightarrow> uuid \<Rightarrow> ('r \<Rightarrow> 'r) \<Rightarrow> 'c world \<Rightarrow> py_exception option" where
  "update_error M k f w =
     (let old = filter (\<lambda>r. m_id M r = k \<and> row_visible M w r) (m_rows M (view w));
          new = map f old
      in if old = [] then Some StaleDataError
         else if \<not> list_all (m_fits M) new then Some DataError
         else if \<not> list_all (row_visible M w) new then Some RowSecurityError
         else if list_ex (\<lambda>r. list_ex (\<lambda>s. m_id M s \<noteq> k \<and> m_clash M r s) (m_rows M (view w))) new
           then Some (IntegrityError (m_name M))
         else if \<not> list_all (m_refs M (view w)) new then Some (IntegrityError (m_name M))
         else None)"

definition update_rows :: "'r model \<Rightarrow> ('r \<Rightarrow> bool) \<Rightarrow> ('r \<Rightarrow> 'r) \<Rightarrow> database \<Rightarrow> database" where
  "update_rows M p f d = m_put M (map (\<lambda>r. if p r then m_stored M (f r) else r) (m_rows M d)) d"

definition sql_update :: "'r model \<Rightarrow> uuid \<Rightarrow> ('r \<Rightarrow> 'r) \<Rightarrow> ('c, unit) io" where
  "sql_update M k f = (\<lambda>w. case update_error M k f w of
     Some e \<Rightarrow> (Inl (Unhandled e), w)
   | None \<Rightarrow> (Inr (), w\<lparr>w_delta :=
       update_rows M (\<lambda>r. m_id M r = k \<and> row_visible M w r) f \<circ> w_delta w\<rparr>))"

section \<open>The repositories\<close>

text \<open>\<^verbatim>\<open>_select\<close> of \<^verbatim>\<open>BaseRepository\<close>, then of \<^verbatim>\<open>TenantRepository\<close>.\<close>

definition base_select :: "'r model \<Rightarrow> 'r select" where
  "base_select M =
     \<lparr>sel_where = (case m_deleted M of None \<Rightarrow> \<lambda>r. True | Some del \<Rightarrow> \<lambda>r. del r = None),
      sel_order = None, sel_offset = 0, sel_limit = None\<rparr>"

definition tenant_select :: "'r model \<Rightarrow> uuid option \<Rightarrow> 'r select" where
  "tenant_select M tid = (case m_owner M of
     None \<Rightarrow> base_select M
   | Some own \<Rightarrow> (case tid of None \<Rightarrow> base_select M
                  | Some t \<Rightarrow> and_where (\<lambda>r. own r = t) (base_select M)))"

definition repo_select :: "'r model \<Rightarrow> ('c, 'r select) io" where
  "repo_select M = asks (\<lambda>w. tenant_select M (current_tenant_id (w_ctx w)))"

definition apply_sort :: "'c env \<Rightarrow> 'r model \<Rightarrow> string option \<Rightarrow> 'r select \<Rightarrow> exn + 'r select" where
  "apply_sort x M srt s = (case srt of
     None \<Rightarrow> Inr s
   | Some name \<Rightarrow>
       if name = [] then Inr s
       else (let desc = prefix ''-'' name;
                 field = (if desc then drop 1 name else name)
             in case m_column M field of
                  Column key \<Rightarrow> Inr (order_by desc key s)
                | NoColumn \<Rightarrow> if class_attribute x (m_name M) field
                              then Inl (Unhandled (AttributeError field)) else Inr s))"

definition repo_find :: "'r model \<Rightarrow> ('r \<Rightarrow> bool) \<Rightarrow> ('c, 'r option) io" where
  "repo_find M p =
     andthen (repo_select M) (\<lambda>s.
     andthen (run_select M (and_where p s)) (\<lambda>rows. lift_result (scalar_one_or_none rows)))"

definition repo_get :: "'r model \<Rightarrow> uuid \<Rightarrow> ('c, 'r option) io" where
  "repo_get M i = repo_find M (\<lambda>r. m_id M r = i)"

definition repo_get_or_404 :: "'r model \<Rightarrow> uuid \<Rightarrow> ('c, 'r) io" where
  "repo_get_or_404 M i =
     andthen (repo_get M i) (\<lambda>obj. case obj of
       None \<Rightarrow> raise (app_exn NotFoundError (m_name M @ '' '' @ uuid_str i @ '' not found''))
     | Some r \<Rightarrow> ret r)"

text \<open>\<^verbatim>\<open>PageParams\<close> of \<^verbatim>\<open>app/shared/schemas.py\<close>.\<close>

record page_params =
  pg_page :: int
  pg_size :: int
  pg_search :: "string option"
  pg_sort :: "string option"

definition page_params_valid :: "'a page_params_scheme \<Rightarrow> bool" where
  "page_params_valid p \<longleftrightarrow> 1 \<le> pg_page p \<and> 1 \<le> pg_size p \<and> pg_size p \<le> 100 \<and>
     (case pg_search p of None \<Rightarrow> True | Some t \<Rightarrow> length t \<le> 200)"

definition page_offset :: "'a page_params_scheme \<Rightarrow> int" where
  "page_offset p = (pg_page p - 1) * pg_size p"

definition page_limit :: "'a page_params_scheme \<Rightarrow> int" where
  "page_limit p = pg_size p"

record 'a page_out =
  page_items :: "'a list"
  page_total :: int
  page_page :: int
  page_size :: int
  page_pages :: int

definition page_create :: "'a list \<Rightarrow> int \<Rightarrow> 'b page_params_scheme \<Rightarrow> 'a page_out" where
  "page_create its tot p =
     \<lparr>page_items = its, page_total = tot, page_page = pg_page p, page_size = pg_size p,
      page_pages = (if pg_size p \<noteq> 0 then (tot + pg_size p - 1) div pg_size p else 0)\<rparr>"

definition repo_list :: "'c env \<Rightarrow> 'r model \<Rightarrow> 'a page_params_scheme \<Rightarrow> ('c, 'r list \<times> int) io" where
  "repo_list x M p =
     andthen (repo_select M) (\<lambda>s0.
       let s1 = (case pg_search p of None \<Rightarrow> s0
                 | Some term \<Rightarrow> if term = [] then s0 else and_where (m_search M term) s0)
       in andthen (run_count M s1) (\<lambda>tot.
          andthen (lift_result (apply_sort x M (pg_sort p) s1)) (\<lambda>s2.
          andthen (run_select M (paged (page_offset p) (page_limit p) s2)) (\<lambda>rows.
          ret (rows, tot)))))"

definition repo_exists :: "'r model \<Rightarrow> ('r \<Rightarrow> bool) \<Rightarrow> ('c, bool) io" where
  "repo_exists M p =
     andthen (repo_select M) (\<lambda>s.
     andthen (run_select M (paged 0 1 (and_where p s))) (\<lambda>rows. ret (rows \<noteq> [])))"

definition repo_add :: "'r model \<Rightarrow> 'r \<Rightarrow> ('c, 'r) io" where
  "repo_add M r = andthen (sql_insert M r) (\<lambda>_. ret r)"

text \<open>
  \<^verbatim>\<open>create(**values)\<close> stamps the tenant of the context; the columns with defaults (\<^verbatim>\<open>id\<close>,
  \<^verbatim>\<open>created_at\<close>) are set when the row is sent. \<open>mk\<close> builds the row from these three values.
\<close>

definition repo_create :: "'c env \<Rightarrow> 'r model \<Rightarrow> (uuid \<Rightarrow> time \<Rightarrow> uuid \<Rightarrow> 'r) \<Rightarrow> ('c, 'r) io" where
  "repo_create x M mk =
     andthen require_tenant (\<lambda>tid.
     andthen (draw (uuid4 x)) (\<lambda>i.
     andthen (asks w_now) (\<lambda>now.
     repo_add M (mk i now tid))))"

definition repo_soft_delete :: "'r model \<Rightarrow> 'r \<Rightarrow> ('c, unit) io" where
  "repo_soft_delete M r =
     andthen (asks w_now) (\<lambda>now. sql_update M (m_id M r) (m_mark_deleted M now))"

definition repo_hard_delete :: "'r model \<Rightarrow> 'r \<Rightarrow> ('c, unit) io" where
  "repo_hard_delete M r = change (\<lambda>w.
     w\<lparr>w_delta := (\<lambda>d. m_put M (filter (\<lambda>s. \<not> (m_id M s = m_id M r \<and> row_visible M w s)) (m_rows M d)) d)
                  \<circ> w_delta w\<rparr>)"

definition repo_delete :: "'r model \<Rightarrow> 'r \<Rightarrow> bool \<Rightarrow> ('c, unit) io" where
  "repo_delete M r hard =
     (if \<not> hard \<and> m_deleted M \<noteq> None then repo_soft_delete M r else repo_hard_delete M r)"

end
