(* ===== verification/Contract.thy ===== *)
theory Contract
  imports Repository
begin

text \<open>
  The contract between a model and the repository, as locales, and what follows from it once for
  all tables: what a session sees after a write, that keys and unique columns stay unique, and
  that a session bound to one tenant leaves the rows of every other tenant as they are.
\<close>

section \<open>Queries\<close>

text \<open>The rows a repository works on: visible, of the tenant in context, not soft-deleted.\<close>

definition live_rows :: "'r model \<Rightarrow> 'c world \<Rightarrow> 'r list" where
  "live_rows M w = matching M (tenant_select M (current_tenant_id (w_ctx w))) w"

definition is_live :: "'r model \<Rightarrow> 'c world \<Rightarrow> 'r \<Rightarrow> bool" where
  "is_live M w r \<longleftrightarrow> row_visible M w r \<and>
     (case m_deleted M of None \<Rightarrow> True | Some del \<Rightarrow> del r = None) \<and>
     (case (m_owner M, current_tenant_id (w_ctx w)) of
        (Some own, Some t) \<Rightarrow> own r = t | _ \<Rightarrow> True)"

lemma live_rows_eq: "live_rows M w = filter (is_live M w) (m_rows M (view w))"
  unfolding live_rows_def matching_def
  by (rule filter_cong)
    (auto simp: is_live_def tenant_select_def base_select_def and_where_def split: option.splits)

lemma run_select_apply [act_simps]:
  "run_select M s w = (Inr (window s (ordered s (matching M s w))), w)"
  by (simp add: run_select_def act_simps)

lemma andthen_run_select [act_simps]:
  "andthen (run_select M s) f w = f (window s (ordered s (matching M s w))) w"
  by (simp add: run_select_def act_simps)

lemma andthen_run_count [act_simps]:
  "andthen (run_count M s) f w = f (int (length (window s (matching M s w)))) w"
  by (simp add: run_count_def act_simps)

lemma andthen_repo_select [act_simps]:
  "andthen (repo_select M) f w = f (tenant_select M (current_tenant_id (w_ctx w))) w"
  by (simp add: repo_select_def act_simps)

lemma tenant_select_plain [simp]:
  "sel_order (tenant_select M t) = None" "sel_offset (tenant_select M t) = 0"
  "sel_limit (tenant_select M t) = None"
  by (auto simp: tenant_select_def base_select_def and_where_def split: option.splits)

lemma and_where_sel [simp]:
  "sel_order (and_where p s) = sel_order s" "sel_offset (and_where p s) = sel_offset s"
  "sel_limit (and_where p s) = sel_limit s"
  "sel_where (and_where p s) r \<longleftrightarrow> sel_where s r \<and> p r"
  by (simp_all add: and_where_def)

lemma window_plain: "sel_offset s = 0 \<Longrightarrow> sel_limit s = None \<Longrightarrow> window s rows = rows"
  by (simp add: window_def)

lemma ordered_plain: "sel_order s = None \<Longrightarrow> ordered s rows = rows"
  by (simp add: ordered_def)

lemma matching_and_where: "matching M (and_where p s) w = filter p (matching M s w)"
  by (auto simp: matching_def intro: filter_cong)

lemma repo_find_eq:
  "repo_find M p w = (scalar_one_or_none (filter p (live_rows M w)), w)"
  by (simp add: repo_find_def act_simps window_plain ordered_plain matching_and_where
      live_rows_def split: sum.splits)

lemma andthen_repo_find:
  "andthen (repo_find M p) f w =
     (case scalar_one_or_none (filter p (live_rows M w)) of
        Inl e \<Rightarrow> (Inl e, w) | Inr v \<Rightarrow> f v w)"
  by (simp add: andthen_def repo_find_eq split: sum.splits)

text \<open>The outcome of \<open>get\<close> and \<open>get_or_404\<close> as pure functions of the rows.\<close>

definition fetched :: "'r model \<Rightarrow> uuid \<Rightarrow> 'r list \<Rightarrow> exn + 'r" where
  "fetched M i rows = (case scalar_one_or_none (filter (\<lambda>r. m_id M r = i) rows) of
     Inl e \<Rightarrow> Inl e
   | Inr None \<Rightarrow> Inl (app_exn NotFoundError (m_name M @ '' '' @ uuid_str i @ '' not found''))
   | Inr (Some r) \<Rightarrow> Inr r)"

lemma repo_get_or_404_eq: "repo_get_or_404 M i w = (fetched M i (live_rows M w), w)"
  by (auto simp: repo_get_or_404_def repo_get_def andthen_repo_find fetched_def act_simps
      split: sum.splits option.splits)

lemma andthen_repo_get_or_404:
  "andthen (repo_get_or_404 M i) f w =
     (case fetched M i (live_rows M w) of Inl e \<Rightarrow> (Inl e, w) | Inr r \<Rightarrow> f r w)"
  by (simp add: andthen_def repo_get_or_404_eq split: sum.splits)

lemma scalar_one_or_none_simps [simp]:
  "scalar_one_or_none [] = Inr None"
  "scalar_one_or_none [r] = Inr (Some r)"
  "scalar_one_or_none (r # s # rs) = Inl (Unhandled MultipleResultsFound)"
  by (simp_all add: scalar_one_or_none_def)

lemma scalar_one_or_none_None [simp]: "scalar_one_or_none rows = Inr None \<longleftrightarrow> rows = []"
  by (auto simp: scalar_one_or_none_def split: list.splits)

lemma scalar_one_or_none_Some [simp]: "scalar_one_or_none rows = Inr (Some r) \<longleftrightarrow> rows = [r]"
  by (auto simp: scalar_one_or_none_def split: list.splits)

lemma fetched_Inr: "fetched M i rows = Inr r \<longleftrightarrow> filter (\<lambda>r. m_id M r = i) rows = [r]"
  by (auto simp: fetched_def split: sum.splits option.splits)

lemma fetched_live:
  "fetched M i (live_rows M w) = Inr r \<Longrightarrow>
     r \<in> set (m_rows M (view w)) \<and> is_live M w r \<and> m_id M r = i"
  by (auto simp: fetched_Inr live_rows_eq dest!: arg_cong [where f = set])

lemma fetched_missing:
  assumes "i \<notin> m_id M ` set rows"
  shows "fetched M i rows = Inl (app_exn NotFoundError (m_name M @ '' '' @ uuid_str i @ '' not found''))"
proof -
  have "filter (\<lambda>r. m_id M r = i) rows = []"
    using assms by (auto simp: filter_empty_conv)
  then show ?thesis by (simp add: fetched_def)
qed

lemma andthen_sql_insert:
  "andthen (sql_insert M r) f w = (case insert_error M r w of
     Some e \<Rightarrow> (Inl (Unhandled e), w)
   | None \<Rightarrow> f () (w\<lparr>w_delta := (\<lambda>d. m_put M (m_rows M d @ [m_stored M r]) d) \<circ> w_delta w\<rparr>))"
  by (simp add: andthen_def sql_insert_def split: option.splits)

lemma andthen_sql_update:
  "andthen (sql_update M k f) g w = (case update_error M k f w of
     Some e \<Rightarrow> (Inl (Unhandled e), w)
   | None \<Rightarrow> g () (w\<lparr>w_delta :=
       update_rows M (\<lambda>r. m_id M r = k \<and> row_visible M w r) f \<circ> w_delta w\<rparr>))"
  by (simp add: andthen_def sql_update_def split: option.splits)

lemma sql_insert_Inr:
  "sql_insert M r w = (Inr v, w') \<longleftrightarrow> insert_error M r w = None \<and>
     w' = w\<lparr>w_delta := (\<lambda>d. m_put M (m_rows M d @ [m_stored M r]) d) \<circ> w_delta w\<rparr>"
  by (auto simp: sql_insert_def split: option.splits)

lemma sql_update_Inr:
  "sql_update M k f w = (Inr v, w') \<longleftrightarrow> update_error M k f w = None \<and>
     w' = w\<lparr>w_delta := update_rows M (\<lambda>r. m_id M r = k \<and> row_visible M w r) f \<circ> w_delta w\<rparr>"
  by (auto simp: sql_update_def split: option.splits)

section \<open>Code that only reads\<close>

definition reads :: "('s, 'e, 'a) act \<Rightarrow> bool" where
  "reads m \<longleftrightarrow> (\<forall>s. snd (m s) = s)"

lemma reads_run_select: "reads (run_select M s)"
  by (simp add: reads_def act_simps)

lemma reads_run_count: "reads (run_count M s)"
  by (simp add: reads_def run_count_def act_simps)

lemma reads_repo_select: "reads (repo_select M)"
  by (simp add: reads_def repo_select_def act_simps)

lemma reads_repo_find: "reads (repo_find M p)"
  by (simp add: reads_def repo_find_eq)

lemma reads_repo_get: "reads (repo_get M i)"
  by (simp add: repo_get_def reads_repo_find)

lemma reads_repo_get_or_404: "reads (repo_get_or_404 M i)"
  by (simp add: reads_def repo_get_or_404_eq)

lemma reads_require_tenant: "reads require_tenant"
  by (simp add: reads_def require_tenant_def)

lemma reads_get_context: "reads get_context"
  by (simp add: reads_def get_context_def act_simps)

lemma reads_repo_exists: "reads (repo_exists M p)"
  by (simp add: reads_def repo_exists_def act_simps)

lemma reads_repo_list: "reads (repo_list x M p)"
  by (auto simp: reads_def repo_list_def act_simps Let_def split: sum.splits option.splits)

lemmas reads_rules = reads_run_select reads_run_count reads_repo_select reads_repo_find
  reads_repo_get reads_repo_get_or_404 reads_require_tenant reads_get_context reads_repo_exists
  reads_repo_list

section \<open>Writes\<close>

text \<open>Keys and unique columns: no two rows of the table share a key or clash.\<close>

definition consistent :: "'r model \<Rightarrow> database \<Rightarrow> bool" where
  "consistent M d \<longleftrightarrow> sorted_wrt (\<lambda>r s. m_id M r \<noteq> m_id M s \<and> \<not> m_clash M r s) (m_rows M d)"

text \<open>Rows that would clash with one another are at most one.\<close>

definition first_row :: "'r list \<Rightarrow> 'r option" where
  "first_row rows = (case rows of [] \<Rightarrow> None | r # _ \<Rightarrow> Some r)"

lemma first_row_simps [simp]:
  "first_row [] = None"
  "first_row (r # rows) = Some r"
  by (simp_all add: first_row_def)

lemma first_row_None [simp]: "first_row rows = None \<longleftrightarrow> rows = []"
  by (cases rows) simp_all

lemma first_row_SomeD: "first_row rows = Some r \<Longrightarrow> r \<in> set rows"
  by (cases rows) simp_all

lemma consistent_unique:
  assumes "consistent M d" and "\<And>r s. P r \<Longrightarrow> P s \<Longrightarrow> m_clash M r s"
  shows "scalar_one_or_none (filter P (m_rows M d)) = Inr (first_row (filter P (m_rows M d)))"
proof (cases "filter P (m_rows M d)")
  case Nil
  then show ?thesis by simp
next
  case (Cons r rest)
  show ?thesis
  proof (cases rest)
    case Nil
    with Cons show ?thesis by simp
  next
    case (Cons q rest')
    have "sorted_wrt (\<lambda>r s. \<not> m_clash M r s) (filter P (m_rows M d))"
      using assms(1) unfolding consistent_def
      by (intro sorted_wrt_filter) (auto elim: sorted_wrt_mono_rel [rotated])
    moreover have "P r" and "P q"
      using arg_cong [OF \<open>filter P (m_rows M d) = r # rest\<close>, of set] Cons by auto
    ultimately show ?thesis
      using assms(2) \<open>filter P (m_rows M d) = r # rest\<close> Cons by simp
  qed
qed

text \<open>
  What every model promises: reading back what was written, and that rounding a row to its column
  types keeps its key.
\<close>

locale table =
  fixes M :: "'r model"
  assumes rows_put: "m_rows M (m_put M rs d) = rs"
    and stored_id: "m_id M (m_stored M r) = m_id M r"
    and clash_sym: "m_clash M r s \<Longrightarrow> m_clash M s r"
    and clash_stored: "m_clash M (m_stored M r) s = m_clash M r s"
begin

lemma insert_view:
  assumes "insert_error M r w = None"
  shows "sql_insert M r w = (Inr (), snd (sql_insert M r w))"
    and "m_rows M (view (snd (sql_insert M r w))) = m_rows M (view w) @ [m_stored M r]"
  using assms by (simp_all add: sql_insert_def view_def rows_put)

lemma insert_rejected: "insert_error M r w = Some e \<Longrightarrow> sql_insert M r w = (Inl (Unhandled e), w)"
  by (simp add: sql_insert_def)

lemma update_view:
  assumes "update_error M k f w = None"
  shows "sql_update M k f w = (Inr (), snd (sql_update M k f w))"
    and "m_rows M (view (snd (sql_update M k f w))) =
      map (\<lambda>r. if m_id M r = k \<and> row_visible M w r then m_stored M (f r) else r) (m_rows M (view w))"
  using assms by (simp_all add: sql_update_def view_def update_rows_def rows_put)

lemma update_rejected: "update_error M k f w = Some e \<Longrightarrow> sql_update M k f w = (Inl (Unhandled e), w)"
  by (simp add: sql_update_def)

lemma insert_error_fresh:
  assumes "insert_error M r w = None" and "s \<in> set (m_rows M (view w))"
  shows "m_id M s \<noteq> m_id M r \<and> \<not> m_clash M r s"
  using assms by (auto simp: insert_error_def list_ex_iff split: if_splits)

lemma insert_consistent:
  assumes "consistent M (view w)" and "sql_insert M r w = (Inr (), w')"
  shows "consistent M (view w')"
proof -
  have e: "insert_error M r w = None"
    using assms(2) by (auto simp: sql_insert_def split: option.splits)
  then have "m_rows M (view w') = m_rows M (view w) @ [m_stored M r]"
    using insert_view [OF e] assms(2) by simp
  then show ?thesis
    using assms(1) insert_error_fresh [OF e]
    by (auto simp: consistent_def sorted_wrt_append stored_id dest: clash_sym)
      (metis clash_stored clash_sym)
qed

text \<open>An update that leaves key and unique columns alone keeps them unique.\<close>

lemma update_rows_consistent:
  assumes "consistent M d" and "\<And>r. m_id M (f r) = m_id M r" and "\<And>r s. m_clash M (f r) s = m_clash M r s"
  shows "consistent M (update_rows M p f d)"
proof -
  let ?g = "\<lambda>r. if p r then m_stored M (f r) else r"
  have ids: "m_id M (?g r) = m_id M r" for r
    by (simp add: stored_id assms(2))
  have left: "m_clash M (?g r) s = m_clash M r s" for r s
    by (simp add: clash_stored assms(3))
  have "m_clash M (?g r) (?g s) = m_clash M r s" for r s
    using left clash_sym by metis
  with assms(1) ids show ?thesis
    by (simp add: consistent_def update_rows_def rows_put sorted_wrt_map)
qed

lemma update_consistent:
  assumes "consistent M (view w)" and "sql_update M k f w = (Inr (), w')"
    and "\<And>r. m_id M (f r) = m_id M r" and "\<And>r s. m_clash M (f r) s = m_clash M r s"
  shows "consistent M (view w')"
  using assms(2) update_rows_consistent [OF assms(1,3,4)]
  by (auto simp: sql_update_def view_def split: option.splits)

lemma consistent_distinct: "consistent M d \<Longrightarrow> distinct (map (m_id M) (m_rows M d))"
  by (auto simp: consistent_def distinct_map sorted_wrt_iff_nth_less distinct_conv_nth inj_on_def
      in_set_conv_nth) (metis linorder_neqE_nat)+

text \<open>
  The database accepts the update of a visible row that keeps key, unique columns and owner, when
  the new row still fits its columns and its references.
\<close>

lemma update_allowed:
  assumes "consistent M (view w)" and r: "r \<in> set (m_rows M (view w))" "row_visible M w r"
    and "\<And>s. m_clash M (f r) s \<Longrightarrow> m_clash M r s" and "row_visible M w (f r)"
    and "m_fits M (f r)" and "m_refs M (view w) (f r)"
  shows "update_error M (m_id M r) f w = None"
proof -
  have "filter (\<lambda>s. m_id M s = m_id M r \<and> row_visible M w s) (m_rows M (view w)) = [r]"
    by (rule distinct_map_filter_single [OF consistent_distinct [OF assms(1)] r(1)]) (use r in auto)
  moreover have "\<not> m_clash M (f r) s" if "s \<in> set (m_rows M (view w))" "m_id M s \<noteq> m_id M r" for s
  proof
    assume "m_clash M (f r) s"
    then have "m_clash M r s" by (rule assms(4))
    moreover have "s \<noteq> r" using that(2) by blast
    ultimately show False
      using assms(1) r(1) that(1)
      by (auto simp: consistent_def sorted_wrt_iff_nth_less in_set_conv_nth)
        (metis clash_sym linorder_neqE_nat)
  qed
  ultimately show ?thesis
    using assms(5-7) by (auto simp: update_error_def list_ex_iff)
qed

text \<open>With unique keys, \<open>get\<close> by the key of a live row finds exactly that row.\<close>

lemma filter_key_single:
  assumes "consistent M d" and "r \<in> set (m_rows M d)" and "P r"
  shows "filter (\<lambda>s. m_id M s = m_id M r) (filter P (m_rows M d)) = [r]"
proof -
  have "filter (\<lambda>s. P s \<and> m_id M s = m_id M r) (m_rows M d) = [r]"
    by (rule distinct_map_filter_single [OF consistent_distinct [OF assms(1)]]) (use assms in auto)
  then show ?thesis by (simp add: conj_commute)
qed

lemma get_or_404_found:
  assumes "consistent M (view w)" and "r \<in> set (m_rows M (view w))" and "is_live M w r"
  shows "repo_get_or_404 M (m_id M r) w = (Inr r, w)"
  using filter_key_single [where P = "is_live M w", OF assms]
  by (simp add: repo_get_or_404_eq fetched_Inr live_rows_eq)

lemma insert_then_get:
  assumes "consistent M (view w)" and "sql_insert M r w = (Inr (), w')"
    and "is_live M w' (m_stored M r)"
  shows "repo_get_or_404 M (m_id M r) w' = (Inr (m_stored M r), w')"
proof -
  have e: "insert_error M r w = None"
    using assms(2) by (auto simp: sql_insert_def split: option.splits)
  then have "m_stored M r \<in> set (m_rows M (view w'))"
    using insert_view [OF e] assms(2) by simp
  from get_or_404_found [OF insert_consistent [OF assms(1,2)] this assms(3)] show ?thesis
    by (simp add: stored_id)
qed

end

section \<open>Tenants\<close>

text \<open>
  \<open>foreign t d\<close> is the database without the rows of tenant \<open>t\<close>: what a session of \<open>t\<close> must leave as
  it is. The association table \<^verbatim>\<open>user_roles\<close> has no tenant column and no row policy; a row of it belongs to
  the tenant of its user, so the links of the users of other tenants are part of \<open>foreign t d\<close>.
\<close>

definition others :: "uuid \<Rightarrow> 'a tenant_entity_scheme list \<Rightarrow> 'a tenant_entity_scheme list" where
  "others t rows = filter (\<lambda>r. tenant_id r \<noteq> t) rows"

definition foreign_links :: "uuid \<Rightarrow> database \<Rightarrow> (uuid \<times> uuid) list" where
  "foreign_links t d = filter (\<lambda>l. fst l \<in> row_id ` set (others t (t_users d))) (t_user_roles d)"

definition foreign :: "uuid \<Rightarrow> database \<Rightarrow> database" where
  "foreign t d = d
     \<lparr>t_audit_logs := others t (t_audit_logs d), t_roles := others t (t_roles d),
      t_users := others t (t_users d), t_user_roles := foreign_links t d,
      t_user_sessions := others t (t_user_sessions d), t_categories := others t (t_categories d),
      t_courses := others t (t_courses d),
      t_course_instructors := others t (t_course_instructors d),
      t_course_enrollments := others t (t_course_enrollments d),
      t_course_modules := others t (t_course_modules d), t_lessons := others t (t_lessons d),
      t_video_assets := others t (t_video_assets d),
      t_document_assets := others t (t_document_assets d),
      t_lesson_progress := others t (t_lesson_progress d),
      t_assignments := others t (t_assignments d), t_quizzes := others t (t_quizzes d),
      t_quiz_questions := others t (t_quiz_questions d),
      t_quiz_answers := others t (t_quiz_answers d), t_submissions := others t (t_submissions d),
      t_grades := others t (t_grades d)\<rparr>"

text \<open>
  A session of tenant \<open>t\<close>: row security is bound to \<open>t\<close> or to nothing, is not bypassed, the context
  has tenant \<open>t\<close>, the identifiers of the users are unique, and the pending changes do not touch other
  tenants, whatever is committed meanwhile to tables other than \<^verbatim>\<open>users\<close>. \<open>confined t\<close>: from such a
  state the code reaches such a state, and what is committed for others is unchanged.
\<close>

definition spares :: "uuid \<Rightarrow> (database \<Rightarrow> database) \<Rightarrow> database \<Rightarrow> bool" where
  "spares t f c \<longleftrightarrow>
     (\<forall>d. t_users d = t_users c \<longrightarrow> foreign t (f d) = foreign t d \<and> t_users (f d) = t_users (f c))"

lemma sparesD:
  assumes "spares t f c" and "t_users (d :: database) = t_users c"
  shows "foreign t (f d) = foreign t d" "t_users (f d) = t_users (f c)"
  using assms(1) [unfolded spares_def, rule_format, OF assms(2)] by blast+

lemma spares_id [simp]: "spares t id c"
  by (simp add: spares_def)

lemma spares_cong:
  assumes "spares t f c" and "t_users (d :: database) = t_users c"
  shows "spares t f d"
  unfolding spares_def
proof (intro allI impI conjI)
  fix e :: database
  assume "t_users e = t_users d"
  with assms(2) have e: "t_users e = t_users c" by simp
  show "foreign t (f e) = foreign t e" by (rule sparesD(1) [OF assms(1) e])
  show "t_users (f e) = t_users (f d)" using sparesD(2) [OF assms(1) e] sparesD(2) [OF assms] by simp
qed

definition tame :: "uuid \<Rightarrow> 'c world \<Rightarrow> bool" where
  "tame t w \<longleftrightarrow> spares t (w_delta w) (w_committed w) \<and> distinct (map row_id (t_users (view w))) \<and> \<not> w_bypass w \<and>
     (w_guc_tenant w = None \<or> w_guc_tenant w = Some t) \<and> current_tenant_id (w_ctx w) = Some t"

definition confined :: "uuid \<Rightarrow> 'c world \<Rightarrow> 'c world \<Rightarrow> bool" where
  "confined t w w' \<longleftrightarrow> (tame t w \<longrightarrow> tame t w' \<and> foreign t (w_committed w') = foreign t (w_committed w))"

interpretation confined_frame: frame "confined t" for t
  by unfold_locales (auto simp: confined_def)

lemmas confined_rules [keeps_intros] = confined_frame.keeps_rules

lemma foreign_users: "foreign t d = foreign t e \<Longrightarrow> others t (t_users d) = others t (t_users e)"
  by (drule arg_cong [where f = t_users]) (simp add: foreign_def)

text \<open>One more pending change, which may rely on which users other tenants have.\<close>

lemma confined_step:
  assumes change: "\<And>d. tame t w \<Longrightarrow> others t (t_users d) = others t (t_users (view w)) \<Longrightarrow> foreign t (f d) = foreign t d"
    and users: "\<And>d. t_users d = t_users (view w) \<Longrightarrow> t_users (f d) = t_users (f (view w))"
    and keys: "distinct (map row_id (t_users (view w))) \<Longrightarrow> distinct (map row_id (t_users (f (view w))))"
  shows "confined t w (w\<lparr>w_delta := f \<circ> w_delta w\<rparr>)"
proof (cases "tame t w")
  case True
  have "spares t (f \<circ> w_delta w) (w_committed w)"
    unfolding spares_def
  proof (intro allI impI)
    fix d :: database
    assume d: "t_users d = t_users (w_committed w)"
    from True have "spares t (w_delta w) (w_committed w)" by (simp add: tame_def)
    note old = sparesD [OF this d, folded view_def]
    with change [OF True, of "w_delta w d"] users [OF old(2)]
    show "foreign t ((f \<circ> w_delta w) d) = foreign t d \<and>
        t_users ((f \<circ> w_delta w) d) = t_users ((f \<circ> w_delta w) (w_committed w))"
      by (simp add: view_def)
  qed
  with True keys show ?thesis by (simp add: confined_def tame_def view_def)
qed (simp add: confined_def)

lemma confined_reads: "reads m \<Longrightarrow> keeps (confined t) m"
  by (simp add: reads_def keeps_def confined_def)

lemmas confined_reads_rules [keeps_intros] = reads_rules [THEN confined_reads]

lemma confined_change:
  assumes "\<And>w. w_delta (f w) = w_delta w" and "\<And>w. w_bypass (f w) = w_bypass w"
    and "\<And>w. w_guc_tenant (f w) = w_guc_tenant w" and "\<And>w. w_committed (f w) = w_committed w"
    and "\<And>w. current_tenant_id (w_ctx (f w)) = current_tenant_id (w_ctx w)"
  shows "keeps (confined t) (change f)"
  using assms by (simp add: keeps_def confined_def tame_def change_def view_def)

lemma confined_draw [keeps_intros]: "keeps (confined t) (draw f)"
  by (simp add: keeps_def confined_def tame_def draw_def view_def)

lemma confined_transaction:
  assumes body: "keeps (confined t) body" and ctx: "current_tenant_id (w_ctx w) = Some t"
    and tid: "tid = None \<or> tid = Some t" and keys: "distinct (map row_id (t_users (w_committed w)))"
  shows "foreign t (w_committed (snd (transaction x tid False body w))) = foreign t (w_committed w)"
proof -
  let ?w = "opened x tid False w"
  obtain r w' where run: "body ?w = (r, w')" by fastforce
  have "tame t ?w" using ctx tid keys by (auto simp: tame_def view_def)
  then have "tame t w'" and "foreign t (w_committed w') = foreign t (w_committed w)"
    using keepsD [OF body run] by (auto simp: confined_def)
  moreover from \<open>tame t w'\<close> have "foreign t (view w') = foreign t (w_committed w')"
    unfolding view_def tame_def by (blast intro: sparesD(1))
  ultimately show ?thesis
    by (cases r) (simp_all add: transaction_eq run)
qed

lemma transaction_ctx:
  assumes "keeps (same w_ctx) body"
  shows "w_ctx (snd (transaction x tid bypass body w)) = w_ctx w"
proof -
  obtain r w' where run: "body (opened x tid bypass w) = (r, w')" by fastforce
  then have "w_ctx w' = w_ctx w" using keepsD [OF assms run] by (simp add: same_def)
  then show ?thesis by (cases r) (simp_all add: transaction_eq run)
qed

text \<open>The state of a request that works for tenant \<open>t\<close> under row level security.\<close>

definition serving :: "uuid \<Rightarrow> 'c world \<Rightarrow> bool" where
  "serving t w \<longleftrightarrow> w_guc_tenant w = Some t \<and> \<not> w_bypass w \<and> current_tenant_id (w_ctx w) = Some t"

lemma servingD:
  assumes "serving t w"
  shows "w_guc_tenant w = Some t" "\<not> w_bypass w" "current_tenant_id (w_ctx w) = Some t"
  using assms by (auto simp: serving_def)

lemma serving_isolation: "serving t w \<Longrightarrow> tenant_isolation w i \<longleftrightarrow> i = t"
  by (auto simp: serving_def tenant_isolation_def)

lemma serving_cong:
  "w_guc_tenant w' = w_guc_tenant w \<Longrightarrow> w_bypass w' = w_bypass w \<Longrightarrow> w_ctx w' = w_ctx w \<Longrightarrow>
     serving t w' = serving t w"
  by (simp add: serving_def)

lemma serving_update [simp]:
  "serving t (w\<lparr>w_draw := n\<rparr>) = serving t w"
  "serving t (w\<lparr>w_delta := d\<rparr>) = serving t w"
  "serving t (w\<lparr>w_redis := c\<rparr>) = serving t w"
  "serving t (w\<lparr>w_reset_store := s\<rparr>) = serving t w"
  by (simp_all add: serving_def)

text \<open>What a session reads does not depend on the readings of the clock, nor on the caches.\<close>

lemma view_update [simp]:
  "view (w\<lparr>w_draw := n\<rparr>) = view w"
  "view (w\<lparr>w_redis := c\<rparr>) = view w"
  "view (w\<lparr>w_reset_store := s\<rparr>) = view w"
  "view (w\<lparr>w_ctx := rc\<rparr>) = view w"
  by (simp_all add: view_def)

lemma row_visible_update [simp]:
  "row_visible M (w\<lparr>w_draw := n\<rparr>) = row_visible M w"
  "row_visible M (w\<lparr>w_delta := d\<rparr>) = row_visible M w"
  "row_visible M (w\<lparr>w_redis := c\<rparr>) = row_visible M w"
  "row_visible M (w\<lparr>w_reset_store := s\<rparr>) = row_visible M w"
  by (auto simp: row_visible_def tenant_isolation_def fun_eq_iff split: option.splits)

lemma live_rows_update [simp]:
  "live_rows M (w\<lparr>w_draw := n\<rparr>) = live_rows M w"
  "live_rows M (w\<lparr>w_redis := c\<rparr>) = live_rows M w"
  "live_rows M (w\<lparr>w_reset_store := s\<rparr>) = live_rows M w"
  by (simp_all add: live_rows_def matching_def)

locale tenant_table = table M for M :: "'r model" +
  fixes own :: "'r \<Rightarrow> uuid"
  assumes owned: "m_owner M = Some own"
    and stored_own: "own (m_stored M r) = own r"
    and foreign_put: "filter (\<lambda>r. own r \<noteq> t) rs = filter (\<lambda>r. own r \<noteq> t) (m_rows M d) \<Longrightarrow>
      foreign t (m_put M rs d) = foreign t d"
    and put_users: "t_users d = t_users e \<Longrightarrow> t_users (m_put M (h (m_rows M d)) d) = t_users (m_put M (h (m_rows M e)) e)"
    and put_keys: "distinct (map row_id (t_users d)) \<Longrightarrow>
      (distinct (map (m_id M) (m_rows M d)) \<Longrightarrow> distinct (map (m_id M) rs)) \<Longrightarrow>
      distinct (map row_id (t_users (m_put M rs d)))"
begin

lemma visible_iff: "row_visible M w r \<longleftrightarrow> tenant_isolation w (own r)"
  by (simp add: row_visible_def owned)

lemma tame_visible: "tame t w \<Longrightarrow> row_visible M w r \<Longrightarrow> own r = t"
  by (auto simp: visible_iff tenant_isolation_def tame_def)

text \<open>While serving a tenant, a repository sees its rows that are not deleted, and no other.\<close>

lemma serving_visible: "serving t w \<Longrightarrow> row_visible M w r \<longleftrightarrow> own r = t"
  by (simp add: visible_iff serving_isolation)

lemma serving_live:
  assumes "serving t w"
  shows "live_rows M w =
    filter (\<lambda>r. own r = t \<and> (case m_deleted M of None \<Rightarrow> True | Some del \<Rightarrow> del r = None))
      (m_rows M (view w))"
  unfolding live_rows_eq
  by (rule filter_cong)
    (use assms in \<open>auto simp: is_live_def owned serving_visible [OF assms] servingD(3) split: option.splits\<close>)

text \<open>A repository only hands out rows of the tenant in context.\<close>

lemma live_own: "is_live M w r \<Longrightarrow> current_tenant_id (w_ctx w) = Some t \<Longrightarrow> own r = t"
  by (simp add: is_live_def owned)

text \<open>A statement that replaces the rows of the table, touching rows of the tenant only.\<close>

lemma confined_put:
  assumes "\<And>d. tame t w \<Longrightarrow> filter (\<lambda>r. own r \<noteq> t) (h (m_rows M d)) = filter (\<lambda>r. own r \<noteq> t) (m_rows M d)"
    and "distinct (map (m_id M) (m_rows M (view w))) \<Longrightarrow> distinct (map (m_id M) (h (m_rows M (view w))))"
  shows "confined t w (w\<lparr>w_delta := (\<lambda>d. m_put M (h (m_rows M d)) d) \<circ> w_delta w\<rparr>)"
  by (rule confined_step) (auto intro: foreign_put assms put_users put_keys)

lemma confined_insert [keeps_intros]: "keeps (confined t) (sql_insert M r)"
proof (rule keepsI)
  fix w :: "'a world"
  show "confined t w (snd (sql_insert M r w))"
  proof (cases "insert_error M r w")
    case None
    then have "row_visible M w r"
      by (auto simp: insert_error_def split: if_splits)
    moreover have "m_id M r \<notin> m_id M ` set (m_rows M (view w))"
      using insert_error_fresh [OF None] by (metis imageE)
    ultimately have "confined t w (w\<lparr>w_delta := (\<lambda>d. m_put M (m_rows M d @ [m_stored M r]) d) \<circ> w_delta w\<rparr>)"
      by (intro confined_put) (auto simp: stored_own stored_id dest: tame_visible)
    with None show ?thesis by (simp add: sql_insert_def)
  qed (simp add: sql_insert_def confined_def)
qed

lemma confined_update:
  assumes own: "\<And>r. own (f r) = own r" and key: "\<And>r. m_id M (f r) = m_id M r"
  shows "keeps (confined t) (sql_update M k f)"
proof (rule keepsI)
  fix w :: "'a world"
  have "confined t w (w\<lparr>w_delta := update_rows M (\<lambda>r. m_id M r = k \<and> row_visible M w r) f \<circ> w_delta w\<rparr>)"
    unfolding update_rows_def
    by (intro confined_put filter_map_unchanged)
      (auto simp: stored_own stored_id own key comp_def if_distrib [of "m_id M"] cong: if_cong dest: tame_visible
        elim!: back_subst [of distinct])
  then show "confined t w (snd (sql_update M k f w))"
    by (simp add: sql_update_def confined_def split: option.split)
qed

lemma confined_hard_delete [keeps_intros]: "keeps (confined t) (repo_hard_delete M r)"
proof (rule keepsI)
  fix w :: "'a world"
  have "confined t w (w\<lparr>w_delta := (\<lambda>d. m_put M (filter (\<lambda>s. \<not> (m_id M s = m_id M r \<and> row_visible M w s)) (m_rows M d)) d)
      \<circ> w_delta w\<rparr>)"
    by (rule confined_put) (auto simp: filter_filter distinct_map_filter intro!: filter_cong dest: tame_visible)
  then show "confined t w (snd (repo_hard_delete M r w))"
    by (simp add: repo_hard_delete_def change_def)
qed

lemma confined_create [keeps_intros]: "keeps (confined t) (repo_create x M mk)"
  unfolding repo_create_def repo_add_def by (intro keeps_intros)

lemma confined_add [keeps_intros]: "keeps (confined t) (repo_add M r)"
  unfolding repo_add_def by (intro keeps_intros)

end

end
