(* ===== verification/Events.thy ===== *)
theory Events
  imports Contract
begin

text \<open>
  Domain events (\<^verbatim>\<open>app/core/events/base.py\<close> and the \<^verbatim>\<open>events.py\<close> of the modules), the in-process bus
  (\<^verbatim>\<open>app/core/events/bus.py\<close>) and the audit consumer (\<^verbatim>\<open>app/core/audit\<close>). The main facts: publishing
  never raises, whatever the handlers do (\<open>publish_returns\<close>), every resolved handler runs once, and
  with the one handler the program registers, publishing does nothing but commit at most one audit
  row of the event's tenant (\<open>publish_app\<close>).
\<close>

section \<open>Events\<close>

datatype payload =
    UserRegisteredEvent string
  | UserLoggedInEvent string
  | UserUpdatedEvent "(string \<times> json) list"
  | CourseCreatedEvent uuid string
  | CourseEnrolledEvent uuid uuid
  | LessonCompletedEvent uuid uuid
  | AssignmentSubmittedEvent uuid uuid
  | SubmissionGradedEvent uuid rat bool
  | PlainEvent

record domain_event =
  event_id :: uuid
  occurred_at :: time
  ev_tenant_id :: "uuid option"
  ev_user_id :: "uuid option"
  ev_payload :: payload

text \<open>The classes events are registered under. \<open>DomainEvent\<close> is the base of all of them.\<close>

datatype event_class =
    DomainEvent
  | UserRegistered
  | UserLoggedIn
  | UserUpdated
  | CourseCreated
  | CourseEnrolled
  | LessonCompleted
  | AssignmentSubmitted
  | SubmissionGraded

fun class_of :: "payload \<Rightarrow> event_class" where
  "class_of (UserRegisteredEvent _) = UserRegistered"
| "class_of (UserLoggedInEvent _) = UserLoggedIn"
| "class_of (UserUpdatedEvent _) = UserUpdated"
| "class_of (CourseCreatedEvent _ _) = CourseCreated"
| "class_of (CourseEnrolledEvent _ _) = CourseEnrolled"
| "class_of (LessonCompletedEvent _ _) = LessonCompleted"
| "class_of (AssignmentSubmittedEvent _ _) = AssignmentSubmitted"
| "class_of (SubmissionGradedEvent _ _ _) = SubmissionGraded"
| "class_of PlainEvent = DomainEvent"

fun class_name :: "event_class \<Rightarrow> string" where
  "class_name DomainEvent = ''DomainEvent''"
| "class_name UserRegistered = ''UserRegisteredEvent''"
| "class_name UserLoggedIn = ''UserLoggedInEvent''"
| "class_name UserUpdated = ''UserUpdatedEvent''"
| "class_name CourseCreated = ''CourseCreatedEvent''"
| "class_name CourseEnrolled = ''CourseEnrolledEvent''"
| "class_name LessonCompleted = ''LessonCompletedEvent''"
| "class_name AssignmentSubmitted = ''AssignmentSubmittedEvent''"
| "class_name SubmissionGraded = ''SubmissionGradedEvent''"

definition event_name :: "domain_event \<Rightarrow> string" where
  "event_name ev = class_name (class_of (ev_payload ev))"

definition is_instance :: "domain_event \<Rightarrow> event_class \<Rightarrow> bool" where
  "is_instance ev c \<longleftrightarrow> c = DomainEvent \<or> c = class_of (ev_payload ev)"

definition new_event :: "'c env \<Rightarrow> uuid option \<Rightarrow> uuid option \<Rightarrow> payload \<Rightarrow> ('c, domain_event) io" where
  "new_event x tid uid p =
     andthen (draw (uuid4 x)) (\<lambda>i.
     andthen (draw (clock x)) (\<lambda>now.
     ret \<lparr>event_id = i, occurred_at = now, ev_tenant_id = tid, ev_user_id = uid, ev_payload = p\<rparr>))"

text \<open>The audit descriptor: a dictionary whose keys may be absent.\<close>

record descriptor =
  d_action :: "string option"
  d_resource :: "string option"
  d_resource_id :: "uuid option"
  d_old_values :: "json option"
  d_new_values :: "json option"

text \<open>The \<open>audit\<close> method of each event class, from its fields and the \<^verbatim>\<open>user_id\<close> of the event.\<close>

definition user_registered_audit :: "uuid option \<Rightarrow> string \<Rightarrow> descriptor" where
  "user_registered_audit uid e =
     \<lparr>d_action = Some ''user.registered'', d_resource = Some ''user'', d_resource_id = uid,
      d_old_values = None, d_new_values = Some (JObj [(''email'', JStr e)])\<rparr>"

definition user_logged_in_audit :: "uuid option \<Rightarrow> descriptor" where
  "user_logged_in_audit uid =
     \<lparr>d_action = Some ''auth.login'', d_resource = Some ''user'', d_resource_id = uid,
      d_old_values = None, d_new_values = None\<rparr>"

definition user_updated_audit :: "uuid option \<Rightarrow> (string \<times> json) list \<Rightarrow> descriptor" where
  "user_updated_audit uid changes =
     \<lparr>d_action = Some ''user.updated'', d_resource = Some ''user'', d_resource_id = uid,
      d_old_values = None, d_new_values = Some (JObj changes)\<rparr>"

definition course_created_audit :: "uuid \<Rightarrow> string \<Rightarrow> descriptor" where
  "course_created_audit cid title =
     \<lparr>d_action = Some ''course.created'', d_resource = Some ''course'', d_resource_id = Some cid,
      d_old_values = None, d_new_values = Some (JObj [(''title'', JStr title)])\<rparr>"

definition course_enrolled_audit :: "uuid \<Rightarrow> uuid \<Rightarrow> descriptor" where
  "course_enrolled_audit cid eid =
     \<lparr>d_action = Some ''course.enrolled'', d_resource = Some ''enrollment'', d_resource_id = Some eid,
      d_old_values = None, d_new_values = Some (JObj [(''course_id'', JStr (uuid_str cid))])\<rparr>"

definition lesson_completed_audit :: "uuid \<Rightarrow> uuid \<Rightarrow> descriptor" where
  "lesson_completed_audit lid cid =
     \<lparr>d_action = Some ''lesson.completed'', d_resource = Some ''lesson'', d_resource_id = Some lid,
      d_old_values = None, d_new_values = Some (JObj [(''course_id'', JStr (uuid_str cid))])\<rparr>"

definition assignment_submitted_audit :: "uuid \<Rightarrow> uuid \<Rightarrow> descriptor" where
  "assignment_submitted_audit aid sid =
     \<lparr>d_action = Some ''assignment.submitted'', d_resource = Some ''submission'', d_resource_id = Some sid,
      d_old_values = None, d_new_values = Some (JObj [(''assignment_id'', JStr (uuid_str aid))])\<rparr>"

definition submission_graded_audit :: "uuid \<Rightarrow> rat \<Rightarrow> bool \<Rightarrow> descriptor" where
  "submission_graded_audit sid points auto =
     \<lparr>d_action = Some ''submission.graded'', d_resource = Some ''submission'', d_resource_id = Some sid,
      d_old_values = None,
      d_new_values = Some (JObj [(''points'', JFloat points), (''auto'', JBool auto)])\<rparr>"

fun audit_payload :: "uuid option \<Rightarrow> payload \<Rightarrow> descriptor option" where
  "audit_payload uid (UserRegisteredEvent e) = Some (user_registered_audit uid e)"
| "audit_payload uid (UserLoggedInEvent e) = Some (user_logged_in_audit uid)"
| "audit_payload uid (UserUpdatedEvent changes) = Some (user_updated_audit uid changes)"
| "audit_payload uid (CourseCreatedEvent cid title) = Some (course_created_audit cid title)"
| "audit_payload uid (CourseEnrolledEvent cid eid) = Some (course_enrolled_audit cid eid)"
| "audit_payload uid (LessonCompletedEvent lid cid) = Some (lesson_completed_audit lid cid)"
| "audit_payload uid (AssignmentSubmittedEvent aid sid) = Some (assignment_submitted_audit aid sid)"
| "audit_payload uid (SubmissionGradedEvent sid points auto) = Some (submission_graded_audit sid points auto)"
| "audit_payload uid PlainEvent = None"

definition audit :: "domain_event \<Rightarrow> descriptor option" where
  "audit ev = audit_payload (ev_user_id ev) (ev_payload ev)"

section \<open>The event bus\<close>

text \<open>
  A handler with the name it is logged under, and the dictionary from classes to handlers in the
  order of insertion.
\<close>

type_synonym 'c handler = "string \<times> (domain_event \<Rightarrow> ('c, unit) io)"
type_synonym 'c bus = "(event_class \<times> 'c handler list) list"

fun bus_subscribe :: "event_class \<Rightarrow> 'c handler \<Rightarrow> 'c bus \<Rightarrow> 'c bus" where
  "bus_subscribe c h [] = [(c, [h])]"
| "bus_subscribe c h ((d, hs) # b) =
     (if d = c then (d, hs @ [h]) # b else (d, hs) # bus_subscribe c h b)"

definition resolve :: "'c bus \<Rightarrow> domain_event \<Rightarrow> 'c handler list" where
  "resolve b ev = concat (map snd (filter (\<lambda>(c, hs). is_instance ev c) b))"

text \<open>\<^verbatim>\<open>asyncio.gather(..., return_exceptions=True)\<close>: every handler runs; its outcome is a value.\<close>

fun gather :: "'c handler list \<Rightarrow> domain_event \<Rightarrow> ('c, exn option list) io" where
  "gather [] ev = ret []"
| "gather ((n, h) # hs) ev =
     andthen (catch (andthen (h ev) (\<lambda>_. ret None)) (\<lambda>e. ret (Some e))) (\<lambda>r.
     andthen (gather hs ev) (\<lambda>rs. ret (r # rs)))"

definition log_failure :: "string \<Rightarrow> exn \<Rightarrow> ('c, unit) io" where
  "log_failure n e = change (\<lambda>w. w\<lparr>w_log := w_log w @ [(n, e)]\<rparr>)"

definition publish :: "'c bus \<Rightarrow> domain_event \<Rightarrow> ('c, unit) io" where
  "publish b ev =
     (let hs = resolve b ev
      in if hs = [] then ret ()
         else andthen (gather hs ev) (\<lambda>results.
              for_each (zip hs results) (\<lambda>((n, _), r).
                case r of None \<Rightarrow> ret () | Some e \<Rightarrow> log_failure n e)))"

lemma gather_returns:
  "\<exists>rs w'. gather hs ev w = (Inr rs, w') \<and> length rs = length hs"
proof (induction hs arbitrary: w)
  case Nil
  then show ?case by (simp add: act_simps)
next
  case (Cons nh hs)
  obtain n h where nh: "nh = (n, h)" by fastforce
  obtain r w1 where r: "catch (andthen (h ev) (\<lambda>_. ret None)) (\<lambda>e. ret (Some e)) w = (Inr r, w1)"
    by (cases "h ev w"; cases "fst (h ev w)") (auto simp: catch_def andthen_def ret_def)
  obtain rs w2 where "gather hs ev w1 = (Inr rs, w2)" and "length rs = length hs"
    using Cons.IH by blast
  with r show ?case by (simp add: nh andthen_Inr act_simps)
qed

lemma log_all_returns:
  "\<exists>w'. for_each (zip hs results) (\<lambda>((n, _), r). case r of None \<Rightarrow> ret () | Some e \<Rightarrow> log_failure n e) w
     = (Inr (), w')"
  by (induction hs results arbitrary: w rule: list_induct2')
    (auto simp: log_failure_def act_simps split: option.splits)

lemma publish_returns: "\<exists>w'. publish b ev w = (Inr (), w')"
proof (cases "resolve b ev = []")
  case True
  then show ?thesis by (simp add: publish_def act_simps)
next
  case False
  obtain rs w1 where "gather (resolve b ev) ev w = (Inr rs, w1)"
    using gather_returns by blast
  then show ?thesis
    using log_all_returns [of "resolve b ev" rs w1] False
    by (simp add: publish_def andthen_Inr Let_def)
qed

text \<open>Subscribing adds exactly one call for the events of the class, and none for others.\<close>

lemma resolve_Cons:
  "resolve ((c, hs) # b) ev = (if is_instance ev c then hs else []) @ resolve b ev"
  by (simp add: resolve_def)

lemma resolve_subscribe:
  "length (resolve (bus_subscribe c h b) ev) =
     length (resolve b ev) + (if is_instance ev c then 1 else 0)"
proof (induction b)
  case Nil
  then show ?case by (simp add: resolve_def)
next
  case (Cons dh b)
  then show ?case by (cases dh) (auto simp: resolve_Cons)
qed

lemma resolve_subscribe_set:
  "set (resolve (bus_subscribe c h b) ev) =
     set (resolve b ev) \<union> (if is_instance ev c then {h} else {})"
proof (induction b)
  case Nil
  then show ?case by (simp add: resolve_def)
next
  case (Cons dh b)
  then show ?case by (cases dh) (auto simp: resolve_Cons)
qed

section \<open>The audit log\<close>

definition tenant_exists :: "database \<Rightarrow> uuid \<Rightarrow> bool" where
  "tenant_exists d t \<longleftrightarrow> list_ex (\<lambda>r. row_id r = t) (t_tenants d)"

definition width :: "nat \<Rightarrow> string option \<Rightarrow> bool" where
  "width n s = (case s of None \<Rightarrow> True | Some t \<Rightarrow> length t \<le> n)"

definition AuditLog :: "audit_log model" where
  "AuditLog =
     \<lparr>m_name = ''AuditLog'', m_rows = t_audit_logs,
      m_put = (\<lambda>rs d. d\<lparr>t_audit_logs := rs\<rparr>), m_id = row_id, m_owner = Some tenant_id,
      m_deleted = None, m_mark_deleted = (\<lambda>_ r. r), m_clash = (\<lambda>_ _. False),
      m_fits = (\<lambda>r. length (al_action r) \<le> 100 \<and> length (al_resource r) \<le> 100 \<and>
                    width 64 (al_ip_address r)),
      m_refs = (\<lambda>d r. tenant_exists d (tenant_id r)), m_stored = id,
      m_column = (\<lambda>_. NoColumn), m_search = (\<lambda>_ _. True)\<rparr>"

interpretation audit_table: tenant_table AuditLog tenant_id
  by unfold_locales (simp_all add: AuditLog_def foreign_def foreign_links_def others_def)

text \<open>\<^verbatim>\<open>AuditService.record\<close>, inside the transaction of the request.\<close>

definition audit_record :: "'c env \<Rightarrow> string \<Rightarrow> string \<Rightarrow> uuid option \<Rightarrow> json option \<Rightarrow> json option \<Rightarrow>
    uuid option \<Rightarrow> uuid option \<Rightarrow> ('c, audit_log) io" where
  "audit_record x action resource rid old_values new_values tid uid =
     andthen get_context (\<lambda>rc.
       let t = (case tid of Some _ \<Rightarrow> tid | None \<Rightarrow> current_tenant_id rc);
           u = (case uid of Some _ \<Rightarrow> uid | None \<Rightarrow> current_user_id rc)
       in case t of
            None \<Rightarrow> raise (Unhandled (IntegrityError ''AuditLog''))
          | Some tenant \<Rightarrow>
              andthen (draw (uuid4 x)) (\<lambda>i.
              andthen (asks w_now) (\<lambda>now.
              repo_add AuditLog
                \<lparr>row_id = i, created_at = now, tenant_id = tenant, al_user_id = u,
                 al_action = action, al_resource = resource, al_resource_id = rid,
                 al_old_values = old_values, al_new_values = new_values,
                 al_ip_address = (case rc of None \<Rightarrow> None | Some c \<Rightarrow> rc_ip_address c)\<rparr>)))"

text \<open>\<^verbatim>\<open>write_audit\<close>: a session and transaction of its own.\<close>

definition write_audit :: "'c env \<Rightarrow> uuid \<Rightarrow> string \<Rightarrow> string \<Rightarrow> uuid option \<Rightarrow> uuid option \<Rightarrow>
    json option \<Rightarrow> json option \<Rightarrow> string option \<Rightarrow> ('c, unit) io" where
  "write_audit x tid action resource rid uid old_values new_values ip =
     tenant_session x (Some tid) False
       (andthen (draw (uuid4 x)) (\<lambda>i.
        andthen (asks w_now) (\<lambda>now.
        sql_insert AuditLog
          \<lparr>row_id = i, created_at = now, tenant_id = tid, al_user_id = uid,
           al_action = action, al_resource = resource, al_resource_id = rid,
           al_old_values = old_values, al_new_values = new_values, al_ip_address = ip\<rparr>)))"

definition audit_domain_event :: "'c env \<Rightarrow> domain_event \<Rightarrow> ('c, unit) io" where
  "audit_domain_event x ev = (case (audit ev, ev_tenant_id ev) of
     (Some d, Some tid) \<Rightarrow>
       write_audit x tid
         (case d_action d of Some a \<Rightarrow> a | None \<Rightarrow> event_name ev)
         (case d_resource d of Some r \<Rightarrow> r | None \<Rightarrow> ''unknown'')
         (d_resource_id d) (ev_user_id ev) (d_old_values d) (d_new_values d) None
   | _ \<Rightarrow> ret ())"

text \<open>
  The bus of the running program: importing the audit package registers its handler, and no other
  module registers one.
\<close>

definition event_bus :: "'c env \<Rightarrow> 'c bus" where
  "event_bus x = bus_subscribe DomainEvent (''audit_domain_event'', audit_domain_event x) []"

definition publish_event :: "'c env \<Rightarrow> uuid option \<Rightarrow> uuid option \<Rightarrow> payload \<Rightarrow> ('c, unit) io" where
  "publish_event x tid uid p = andthen (new_event x tid uid p) (publish (event_bus x))"

section \<open>What publishing does to the state\<close>

text \<open>
  \<open>audited t w w'\<close>: the state differs in the readings taken, the log of failed handlers, and at
  most one more committed audit row, of tenant \<open>t\<close>.
\<close>

definition audited :: "uuid option \<Rightarrow> 'c world \<Rightarrow> 'c world \<Rightarrow> bool" where
  "audited t w w' \<longleftrightarrow> (\<exists>rows n l.
     w' = w\<lparr>w_committed := (w_committed w)\<lparr>t_audit_logs := t_audit_logs (w_committed w) @ rows\<rparr>,
            w_draw := n, w_log := l\<rparr> \<and>
     length rows \<le> 1 \<and> (\<forall>r \<in> set rows. Some (tenant_id r) = t))"

lemma audited_sel:
  assumes "audited t w w'"
  shows "w_delta w' = w_delta w" and "w_ctx w' = w_ctx w" and "w_settings w' = w_settings w"
    and "w_bypass w' = w_bypass w" and "w_guc_tenant w' = w_guc_tenant w" and "w_now w' = w_now w"
    and "w_redis w' = w_redis w" and "w_reset_store w' = w_reset_store w"
  using assms by (auto simp: audited_def)

lemma audited_refl: "audited t w (w\<lparr>w_draw := n, w_log := l\<rparr>)"
proof -
  have "w\<lparr>w_draw := n, w_log := l\<rparr> =
    w\<lparr>w_committed := (w_committed w)\<lparr>t_audit_logs := t_audit_logs (w_committed w) @ []\<rparr>,
      w_draw := n, w_log := l\<rparr>"
    by simp
  then show ?thesis unfolding audited_def
    by (intro exI [of _ "[]"] exI [of _ n] exI [of _ l]) simp
qed

lemma auditedI:
  assumes "length rows \<le> 1" and "\<forall>r \<in> set rows. Some (tenant_id r) = t"
  shows "audited t w
    (w\<lparr>w_committed := (w_committed w)\<lparr>t_audit_logs := t_audit_logs (w_committed w) @ rows\<rparr>,
       w_draw := n, w_log := l\<rparr>)"
  unfolding audited_def using assms by (intro exI [of _ rows] exI [of _ n] exI [of _ l]) simp

lemma write_audit_run:
  "\<exists>r w'. write_audit x t action resource rid uid ov nv ip w = (r, w') \<and> audited (Some t) w w' \<and>
     w_log w' = w_log w"
proof -
  let ?row = "\<lparr>row_id = uuid4 x (Suc (w_draw w)), created_at = clock x (w_draw w), tenant_id = t,
    al_user_id = uid, al_action = action, al_resource = resource, al_resource_id = rid,
    al_old_values = ov, al_new_values = nv, al_ip_address = ip\<rparr>"
  let ?w = "(opened x (Some t) False w)\<lparr>w_draw := Suc (Suc (w_draw w))\<rparr>"
  show ?thesis
  proof (cases "insert_error AuditLog ?row ?w")
    case (Some e)
    then have "write_audit x t action resource rid uid ov nv ip w =
      (Inl (Unhandled e), w\<lparr>w_draw := Suc (Suc (w_draw w)), w_log := w_log w\<rparr>)"
      by (simp add: write_audit_def tenant_session_def transaction_eq act_simps sql_insert_def)
    then show ?thesis
      using audited_refl [where t = "Some t" and w = w and n = "Suc (Suc (w_draw w))" and l = "w_log w"]
      by simp
  next
    case None
    then have "write_audit x t action resource rid uid ov nv ip w =
      (Inr (), w\<lparr>w_committed := (w_committed w)\<lparr>t_audit_logs := t_audit_logs (w_committed w) @ [?row]\<rparr>,
         w_draw := Suc (Suc (w_draw w)), w_log := w_log w\<rparr>)"
      by (simp add: write_audit_def tenant_session_def transaction_eq act_simps sql_insert_def)
        (simp add: opened_def view_def AuditLog_def)
    then show ?thesis
      using auditedI [where t = "Some t" and w = w and rows = "[?row]"
          and n = "Suc (Suc (w_draw w))" and l = "w_log w"]
      by simp
  qed
qed

lemma resolve_event_bus: "resolve (event_bus x) ev = [(''audit_domain_event'', audit_domain_event x)]"
  by (simp add: event_bus_def resolve_def is_instance_def)

lemma publish_event_bus:
  "publish (event_bus x) ev w = (case audit_domain_event x ev w of
     (Inr _, w') \<Rightarrow> (Inr (), w')
   | (Inl e, w') \<Rightarrow> (Inr (), w'\<lparr>w_log := w_log w' @ [(''audit_domain_event'', e)]\<rparr>))"
  by (auto simp: publish_def resolve_event_bus catch_def andthen_def ret_def log_failure_def change_def
      split: prod.splits sum.splits)

lemma audited_draw:
  assumes "audited t (w\<lparr>w_draw := n\<rparr>) w'"
  shows "audited t w w'"
  using assms by (auto simp: audited_def)

lemma audited_log:
  assumes "audited t w w'"
  shows "audited t w (w'\<lparr>w_log := l\<rparr>)"
proof -
  from assms obtain rows n m where
    w': "w' = w\<lparr>w_committed := (w_committed w)\<lparr>t_audit_logs := t_audit_logs (w_committed w) @ rows\<rparr>,
               w_draw := n, w_log := m\<rparr>"
    and rows: "length rows \<le> 1" "\<forall>r \<in> set rows. Some (tenant_id r) = t"
    by (auto simp: audited_def)
  show ?thesis
    unfolding audited_def using rows by (intro exI [of _ rows] exI [of _ n] exI [of _ l]) (simp add: w')
qed

lemma publish_app: "\<exists>w'. publish_event x t uid p w = (Inr (), w') \<and> audited t w w'"
proof -
  let ?ev = "\<lparr>event_id = uuid4 x (w_draw w), occurred_at = clock x (Suc (w_draw w)),
    ev_tenant_id = t, ev_user_id = uid, ev_payload = p\<rparr>"
  let ?w = "w\<lparr>w_draw := Suc (Suc (w_draw w))\<rparr>"
  have run: "publish_event x t uid p w = publish (event_bus x) ?ev ?w"
    by (simp add: publish_event_def new_event_def andthen_def draw_def ret_def)
  obtain r w' where aud: "audit_domain_event x ?ev ?w = (r, w')" and "audited t ?w w'"
  proof (cases "audit ?ev")
    case None
    then show ?thesis
      using that [of "Inr ()" ?w] audited_refl [where t = t and w = ?w and n = "w_draw ?w" and l = "w_log ?w"]
      by (simp add: audit_domain_event_def act_simps)
  next
    case (Some d)
    then show ?thesis
    proof (cases t)
      case None
      then show ?thesis
        using that [of "Inr ()" ?w] audited_refl [where t = t and w = ?w and n = "w_draw ?w" and l = "w_log ?w"] Some
        by (simp add: audit_domain_event_def act_simps)
    next
      case (Some tid)
      with \<open>audit ?ev = Some d\<close> show ?thesis
        using that write_audit_run [where w = ?w and t = tid and x = x]
        by (fastforce simp: audit_domain_event_def)
    qed
  qed
  then have "audited t w w'" by (blast intro: audited_draw)
  with aud show ?thesis
    by (cases r) (auto simp: run publish_event_bus intro: audited_log)
qed

lemma publish_appE:
  obtains w' where "publish_event x t uid p w = (Inr (), w')" and "audited t w w'"
  using publish_app by blast

lemma confined_audited: "audited (Some t) w w' \<Longrightarrow> confined t w w'"
  unfolding confined_def
proof (intro impI conjI)
  assume aud: "audited (Some t) w w'" and tame: "tame t w"
  have users: "t_users (w_committed w') = t_users (w_committed w)" and same: "w_delta w' = w_delta w"
    using aud by (auto simp: audited_def)
  have spares: "spares t (w_delta w) (w_committed w)" using tame by (simp add: tame_def)
  have "t_users (view w') = t_users (view w)"
    using sparesD(2) [OF spares users] by (simp add: view_def same)
  then show "tame t w'"
    using tame aud spares_cong [OF spares users] by (auto simp: tame_def audited_def)
  show "foreign t (w_committed w') = foreign t (w_committed w)"
    using aud by (auto simp: audited_def foreign_def foreign_links_def others_def filter_empty_conv)
qed

lemma confined_publish [keeps_intros]: "keeps (confined t) (publish_event x (Some t) uid p)"
proof (rule keepsI)
  fix w :: "'a world"
  show "confined t w (snd (publish_event x (Some t) uid p w))"
    by (rule publish_appE [of x "Some t" uid p w]) (simp add: confined_audited)
qed

end
