(* ===== verification/Cache.thy ===== *)
theory Cache
  imports Events
begin

text \<open>
  The Redis client of \<^verbatim>\<open>app/core/cache.py\<close> as the program uses it, and the contract of a store whose
  entries expire (\<open>expiring_store\<close>). The reset tokens of the auth module are kept either in Redis or
  in a dictionary of the process; the contract is what both give the program. It is interpreted on
  the dictionary in \<open>Auth\<close>; for the server, which is not code of the repository, it is a hypothesis
  of the facts that need it.
\<close>

section \<open>Stores with entries that expire\<close>

locale expiring_store =
  fixes put :: "time \<Rightarrow> string \<Rightarrow> string \<Rightarrow> int \<Rightarrow> 's \<Rightarrow> 's"
    and look :: "time \<Rightarrow> string \<Rightarrow> 's \<Rightarrow> string option"
    and forget :: "time \<Rightarrow> string \<Rightarrow> 's \<Rightarrow> 's"
  assumes look_put: "t \<le> t' \<Longrightarrow> t' < t + seconds ttl \<Longrightarrow> look t' k (put t k v ttl s) = Some v"
    and look_put_expired: "t + seconds ttl < t' \<Longrightarrow> look t' k (put t k v ttl s) = None"
    and look_put_other: "k \<noteq> k' \<Longrightarrow> look t' k (put t k' v ttl s) = look t' k s"
    and look_forget: "look t' k (forget t k s) = None"
    and look_forget_other: "k \<noteq> k' \<Longrightarrow> look t' k (forget t k' s) = look t' k s"
begin

text \<open>What is put under one key and what is forgotten under another do not meet.\<close>

lemma look_put_forget:
  "t \<le> t'' \<Longrightarrow> t'' < t + seconds ttl \<Longrightarrow> k \<noteq> k' \<Longrightarrow>
     look t'' k (forget t' k' (put t k v ttl s)) = Some v"
  by (simp add: look_forget_other look_put)

lemma look_put_put:
  "t' \<le> t'' \<Longrightarrow> t'' < t' + seconds ttl' \<Longrightarrow>
     look t'' k (put t' k v' ttl' (put t k v ttl s)) = Some v'"
  by (simp add: look_put)

end

text \<open>The documented behaviour of \<^verbatim>\<open>GET\<close>, \<^verbatim>\<open>SET ... EX\<close> and \<^verbatim>\<open>DEL\<close>.\<close>

definition redis_ok :: "'c env \<Rightarrow> bool" where
  "redis_ok x \<longleftrightarrow> expiring_store (redis_set x) (redis_get x) (redis_delete x)"

section \<open>The client\<close>

text \<open>\<^verbatim>\<open>get_redis() is not None\<close>, and the commands; each reads the clock of the server.\<close>

definition has_redis :: "('c, bool) io" where
  "has_redis = asks (\<lambda>w. w_redis w \<noteq> None)"

definition cache_get :: "'c env \<Rightarrow> string \<Rightarrow> ('c, string option) io" where
  "cache_get x key =
     andthen (draw (clock x)) (\<lambda>now.
     asks (\<lambda>w. case w_redis w of None \<Rightarrow> None | Some c \<Rightarrow> redis_get x now key c))"

definition cache_set :: "'c env \<Rightarrow> string \<Rightarrow> string \<Rightarrow> int \<Rightarrow> ('c, unit) io" where
  "cache_set x key v ttl =
     andthen (draw (clock x)) (\<lambda>now.
     change (\<lambda>w. w\<lparr>w_redis := map_option (redis_set x now key v ttl) (w_redis w)\<rparr>))"

definition cache_delete :: "'c env \<Rightarrow> string \<Rightarrow> ('c, unit) io" where
  "cache_delete x key =
     andthen (draw (clock x)) (\<lambda>now.
     change (\<lambda>w. w\<lparr>w_redis := map_option (redis_delete x now key) (w_redis w)\<rparr>))"

definition cache_incr :: "'c env \<Rightarrow> string \<Rightarrow> ('c, int) io" where
  "cache_incr x key =
     andthen (draw (clock x)) (\<lambda>now. \<lambda>w. case w_redis w of
       None \<Rightarrow> (Inr 0, w)
     | Some c \<Rightarrow> (let (n, c') = redis_incr x now key c in (Inr n, w\<lparr>w_redis := Some c'\<rparr>)))"

definition cache_expire :: "'c env \<Rightarrow> string \<Rightarrow> int \<Rightarrow> ('c, unit) io" where
  "cache_expire x key ttl =
     andthen (draw (clock x)) (\<lambda>now.
     change (\<lambda>w. w\<lparr>w_redis := map_option (redis_expire x now key ttl) (w_redis w)\<rparr>))"

definition cache_ttl :: "'c env \<Rightarrow> string \<Rightarrow> ('c, int) io" where
  "cache_ttl x key =
     andthen (draw (clock x)) (\<lambda>now.
     asks (\<lambda>w. case w_redis w of None \<Rightarrow> 0 | Some c \<Rightarrow> redis_ttl x now key c))"

lemma andthen_has_redis [act_simps]: "andthen has_redis f w = f (w_redis w \<noteq> None) w"
  by (simp add: has_redis_def act_simps)

lemma andthen_cache_get:
  "w_redis w = Some c \<Longrightarrow> andthen (cache_get x key) f w =
     f (redis_get x (clock x (w_draw w)) key c) (w\<lparr>w_draw := Suc (w_draw w)\<rparr>)"
  by (simp add: cache_get_def andthen_assoc act_simps)

lemma andthen_cache_set:
  "w_redis w = Some c \<Longrightarrow> andthen (cache_set x key v ttl) f w =
     f () (w\<lparr>w_draw := Suc (w_draw w),
             w_redis := Some (redis_set x (clock x (w_draw w)) key v ttl c)\<rparr>)"
  by (simp add: cache_set_def andthen_assoc act_simps)

lemma andthen_cache_delete:
  "w_redis w = Some c \<Longrightarrow> andthen (cache_delete x key) f w =
     f () (w\<lparr>w_draw := Suc (w_draw w),
             w_redis := Some (redis_delete x (clock x (w_draw w)) key c)\<rparr>)"
  by (simp add: cache_delete_def andthen_assoc act_simps)

text \<open>The cache is no part of the database: its commands leave every row as it is.\<close>

definition cache_frame :: "('c world \<Rightarrow> 'c world \<Rightarrow> bool) \<Rightarrow> bool" where
  "cache_frame R \<longleftrightarrow> (\<forall>w c n. R w (w\<lparr>w_draw := n, w_redis := c\<rparr>))"

lemma keeps_cache:
  assumes "cache_frame R"
  shows "keeps R (cache_get x key)" "keeps R (cache_set x key v ttl)" "keeps R (cache_delete x key)"
    "keeps R (cache_incr x key)" "keeps R (cache_expire x key ttl)" "keeps R (cache_ttl x key)"
    "keeps R has_redis"
proof -
  have all: "R w (w\<lparr>w_draw := n, w_redis := c\<rparr>)" for w n c
    using assms by (simp add: cache_frame_def)
  have draws: "R w (w\<lparr>w_draw := n\<rparr>)" "R w w" for w n
    using all [where w = w and n = n and c = "w_redis w"]
      all [where w = w and n = "w_draw w" and c = "w_redis w"] by simp_all
  show "keeps R (cache_get x key)" "keeps R (cache_set x key v ttl)" "keeps R (cache_delete x key)"
    "keeps R (cache_incr x key)" "keeps R (cache_expire x key ttl)" "keeps R (cache_ttl x key)"
    "keeps R has_redis"
    by (auto simp: keeps_def cache_get_def cache_set_def cache_delete_def cache_incr_def
        cache_expire_def cache_ttl_def has_redis_def act_simps draws all case_prod_unfold Let_def
        split: option.splits)
qed

lemma cache_frame_confined: "cache_frame (confined t)"
  by (simp add: cache_frame_def confined_def tame_def view_def)

lemmas confined_cache [keeps_intros] = keeps_cache [OF cache_frame_confined]

end
