(* ===== verification/Tenancy.thy ===== *)
theory Tenancy
  imports Cache
begin

text \<open>
  \<^verbatim>\<open>app/core/tenancy\<close>: the tenants of the platform, their service, and the resolution of the
  identifier a request names its tenant by. An identifier that reads as a UUID is taken as the key
  without a look-up; any other is a slug, which is looked up among the tenants in service and kept
  in the cache.
\<close>

definition Tenant :: "tenant model" where
  "Tenant =
     \<lparr>m_name = ''Tenant'', m_rows = t_tenants, m_put = (\<lambda>rs d. d\<lparr>t_tenants := rs\<rparr>), m_id = row_id,
      m_owner = None, m_deleted = Some tenant_deleted_at,
      m_mark_deleted = (\<lambda>now r. r\<lparr>tenant_deleted_at := Some now\<rparr>),
      m_clash = (\<lambda>r s. slug r = slug s),
      m_fits = (\<lambda>r. length (tenant_name r) \<le> 200 \<and> length (slug r) \<le> 80 \<and> width 80 (schema_name r)),
      m_refs = (\<lambda>_ _. True), m_stored = id, m_column = (\<lambda>_. NoColumn), m_search = (\<lambda>_ _. True)\<rparr>"

interpretation tenant_rows: table Tenant
  by unfold_locales (auto simp: Tenant_def)

section \<open>The service\<close>

text \<open>\<^verbatim>\<open>session.get\<close> looks up the key and knows nothing of soft deletion.\<close>

definition tenant_get :: "uuid \<Rightarrow> ('c, tenant option) io" where
  "tenant_get i = asks (\<lambda>w. List.find (\<lambda>r. row_id r = i) (t_tenants (view w)))"

definition get_by_slug :: "string \<Rightarrow> ('c, tenant option) io" where
  "get_by_slug s =
     andthen (run_select Tenant (and_where (\<lambda>r. slug r = s) (base_select Tenant)))
       (\<lambda>rows. lift_result (scalar_one_or_none rows))"

definition tenant_get_or_404 :: "uuid \<Rightarrow> ('c, tenant) io" where
  "tenant_get_or_404 i =
     andthen (tenant_get i) (\<lambda>t. case t of
       None \<Rightarrow> raise (app_exn NotFoundError (''Tenant '' @ uuid_str i @ '' not found''))
     | Some r \<Rightarrow> ret r)"

definition tenant_create :: "'c env \<Rightarrow> string \<Rightarrow> string \<Rightarrow> json option \<Rightarrow> ('c, tenant) io" where
  "tenant_create x name s settings =
     andthen (draw (uuid4 x)) (\<lambda>i.
     andthen (asks w_now) (\<lambda>now.
     repo_add Tenant
       \<lparr>row_id = i, created_at = now, tenant_deleted_at = None, tenant_name = name, slug = s,
        tenant_is_active = True, isolation_mode = Shared, schema_name = None,
        tenant_settings = (case settings of None \<Rightarrow> JObj [] | Some j \<Rightarrow> j)\<rparr>))"

definition tenant_list_all :: "('c, tenant list) io" where
  "tenant_list_all = run_select Tenant (base_select Tenant)"

section \<open>Resolution\<close>

definition slug_cache_key :: "string \<Rightarrow> string" where
  "slug_cache_key identifier = ''tenant:slug:'' @ identifier"

definition slug_ttl :: int where
  "slug_ttl = 300"

text \<open>\<open>UUID\<close> returns \<^term>\<open>None\<close> where \<^verbatim>\<open>_parse_uuid\<close> does.\<close>

definition parse_uuid :: "string \<Rightarrow> uuid option" where
  "parse_uuid value = UUID value"

definition resolve_from_database :: "'c env \<Rightarrow> string \<Rightarrow> ('c, uuid option) io" where
  "resolve_from_database x identifier =
     tenant_session x None True
       (andthen (get_by_slug identifier) (\<lambda>found. case found of
          None \<Rightarrow> ret None
        | Some tenant \<Rightarrow>
            if \<not> tenant_is_active tenant then ret None
            else andthen has_redis (\<lambda>redis.
                 andthen (if redis then cache_set x (slug_cache_key identifier)
                                          (uuid_str (row_id tenant)) slug_ttl
                          else ret ()) (\<lambda>_.
                 ret (Some (row_id tenant))))))"

definition resolve_tenant_id :: "'c env \<Rightarrow> string \<Rightarrow> ('c, uuid option) io" where
  "resolve_tenant_id x identifier = (case parse_uuid identifier of
     Some u \<Rightarrow> ret (Some u)
   | None \<Rightarrow>
       andthen has_redis (\<lambda>redis.
       andthen (if redis then cache_get x (slug_cache_key identifier) else ret None) (\<lambda>cached.
       case cached of
         None \<Rightarrow> resolve_from_database x identifier
       | Some v \<Rightarrow>
           if v = [] then resolve_from_database x identifier
           else (case UUID v of
                   None \<Rightarrow> raise (Unhandled ValueError)
                 | Some u \<Rightarrow> ret (Some u)))))"

section \<open>What a slug resolves to\<close>

definition slug_target :: "string \<Rightarrow> database \<Rightarrow> uuid option" where
  "slug_target s d =
     (case first_row (filter (\<lambda>r. tenant_deleted_at r = None \<and> slug r = s) (t_tenants d)) of
        None \<Rightarrow> None
      | Some r \<Rightarrow> if tenant_is_active r then Some (row_id r) else None)"

lemma run_get_by_slug:
  assumes "consistent Tenant (view w)"
  shows "get_by_slug s w =
    (Inr (first_row (filter (\<lambda>r. tenant_deleted_at r = None \<and> slug r = s) (t_tenants (view w)))), w)"
proof -
  let ?p = "\<lambda>r. tenant_deleted_at r = None \<and> slug r = s"
  have "matching Tenant (and_where (\<lambda>r. slug r = s) (base_select Tenant)) w =
    filter ?p (m_rows Tenant (view w))"
    by (auto simp: matching_def row_visible_def Tenant_def base_select_def intro!: filter_cong)
  moreover have "scalar_one_or_none (filter ?p (m_rows Tenant (view w))) =
    Inr (first_row (filter ?p (m_rows Tenant (view w))))"
    by (rule consistent_unique [OF assms]) (auto simp: Tenant_def)
  ultimately show ?thesis
    by (simp add: get_by_slug_def act_simps window_plain ordered_plain base_select_def)
      (simp add: Tenant_def)
qed

lemma resolve_uuid: "resolve_tenant_id x (uuid_str t) w = (Inr (Some t), w)"
  by (simp add: resolve_tenant_id_def parse_uuid_def act_simps)

lemma resolve_from_database_result:
  assumes "consistent Tenant (w_committed w)"
  shows "\<exists>w'. resolve_from_database x s w = (Inr (slug_target s (w_committed w)), w') \<and>
    w_committed w' = w_committed w"
  using run_get_by_slug [of "opened x None True w" s] assms
  by (auto simp: resolve_from_database_def tenant_session_def transaction_eq andthen_Inr slug_target_def
      act_simps cache_set_def has_redis_def andthen_assoc view_def split: option.splits)

end
