(* ===== verification/Outside.thy ===== *)
theory Outside
  imports Cache
begin

text \<open>
  What the program relies on of code outside the repository, one predicate on \<open>env\<close> per library
  (\<open>redis_ok\<close> is in \<open>Cache\<close>), and an instance, \<open>sample_env\<close>, that has all of it: a store that is a list,
  tokens that are the claims written out, passwords kept as they are. The instance serves to show
  that the hypotheses can hold and to run the model on concrete inputs; it says nothing about the
  libraries.
\<close>

section \<open>Laws\<close>

text \<open>The claims the program makes a token of, those of a payload.\<close>

definition identity_claims :: "token_payload \<Rightarrow> claims" where
  "identity_claims p =
     [(''sub'', CStr (uuid_str (tp_sub p))), (''tid'', CStr (uuid_str (tp_tid p))),
      (''type'', CStr (tp_type p)), (''jti'', CStr (uuid_str (tp_jti p))),
      (''iat'', CInt (tp_iat p)), (''exp'', CInt (tp_exp p))]"

text \<open>
  PyJWT, for these claims and an algorithm it knows: a token is not empty, and decodes to the claims it was
  made of, with the same key and algorithm, while the time is not before \<^verbatim>\<open>iat\<close> and is before \<^verbatim>\<open>exp\<close>;
  from \<^verbatim>\<open>exp\<close> on it has expired.
\<close>

definition jwt_ok :: "'c env \<Rightarrow> bool" where
  "jwt_ok x \<longleftrightarrow> (\<forall>p k a. jwt_encode x (identity_claims p) k a \<noteq> []) \<and>
     (\<forall>now p k a. seconds (tp_iat p) \<le> now \<longrightarrow> jwt_decode x now (jwt_encode x (identity_claims p) k a) k a =
        (if now < seconds (tp_exp p) then JwtOk (identity_claims p) else JwtExpired))"

text \<open>pydantic: claims that print identifiers are read back as the payload.\<close>

definition payload_ok :: "'c env \<Rightarrow> bool" where
  "payload_ok x \<longleftrightarrow> (\<forall>p. validate_payload x (identity_claims p) = Some p)"

text \<open>pwdlib: a password verifies against its own hash.\<close>

definition hasher_ok :: "'c env \<Rightarrow> bool" where
  "hasher_ok x \<longleftrightarrow> (\<forall>n p. hasher_verify x p (hasher_hash x n p) = Some True)"

text \<open>Time does not run backwards between two readings.\<close>

definition clock_ok :: "'c env \<Rightarrow> bool" where
  "clock_ok x \<longleftrightarrow> mono (clock x)"

lemma clock_okD: "clock_ok x \<Longrightarrow> m \<le> n \<Longrightarrow> clock x m \<le> clock x n"
  by (simp add: clock_ok_def monoD)

section \<open>An instance\<close>

type_synonym store = "(string \<times> string \<times> time option) list"

definition store_get :: "time \<Rightarrow> string \<Rightarrow> store \<Rightarrow> string option" where
  "store_get now k s = (case map_of s k of
     None \<Rightarrow> None
   | Some (v, e) \<Rightarrow> (case e of None \<Rightarrow> Some v | Some e' \<Rightarrow> if now < e' then Some v else None))"

definition store_delete :: "time \<Rightarrow> string \<Rightarrow> store \<Rightarrow> store" where
  "store_delete now k s = filter (\<lambda>p. fst p \<noteq> k) s"

definition store_set :: "time \<Rightarrow> string \<Rightarrow> string \<Rightarrow> int \<Rightarrow> store \<Rightarrow> store" where
  "store_set now k v ttl s = (k, v, Some (now + seconds ttl)) # store_delete now k s"

text \<open>A counter is a string as long as its value.\<close>

definition store_incr :: "time \<Rightarrow> string \<Rightarrow> store \<Rightarrow> int \<times> store" where
  "store_incr now k s = (case store_get now k s of
     None \<Rightarrow> (1, (k, ''1'', None) # store_delete now k s)
   | Some v \<Rightarrow> (int (length v) + 1, map (\<lambda>(k', v', e). (k', if k' = k then CHR ''1'' # v' else v', e)) s))"

definition store_expire :: "time \<Rightarrow> string \<Rightarrow> int \<Rightarrow> store \<Rightarrow> store" where
  "store_expire now k ttl s =
     map (\<lambda>(k', v', e). (k', v', if k' = k then Some (now + seconds ttl) else e)) s"

definition store_ttl :: "time \<Rightarrow> string \<Rightarrow> store \<Rightarrow> int" where
  "store_ttl now k s = (case map_of s k of
     None \<Rightarrow> - 2 | Some (_, None) \<Rightarrow> - 1 | Some (_, Some e) \<Rightarrow> (e - now) div 1000000)"

lemma map_of_store_delete: "map_of (store_delete now k' s) k = (if k = k' then None else map_of s k)"
  by (induction s) (auto simp: store_delete_def)

interpretation sample_store: expiring_store store_set store_get store_delete
  by unfold_locales (auto simp: store_get_def store_set_def map_of_store_delete split: option.splits)

subsection \<open>Tokens\<close>

text \<open>A text is preceded by its length in unary; an integer is its sign and its bits.\<close>

definition write_text :: "string \<Rightarrow> string" where
  "write_text s = replicate (length s) (CHR ''1'') @ CHR ''.'' # s"

definition read_text :: "string \<Rightarrow> string \<times> string" where
  "read_text s = (let n = length (takeWhile (\<lambda>c. c = CHR ''1'') s);
                      r = drop 1 (dropWhile (\<lambda>c. c = CHR ''1'') s) in (take n r, drop n r))"

lemma read_text_write: "read_text (write_text s @ r) = (s, r)"
proof -
  have "takeWhile (\<lambda>c. c = CHR ''1'') (replicate n (CHR ''1'') @ CHR ''.'' # t) = replicate n (CHR ''1'')"
    and "dropWhile (\<lambda>c. c = CHR ''1'') (replicate n (CHR ''1'') @ CHR ''.'' # t) = CHR ''.'' # t"
    for n t by (induction n) auto
  then show ?thesis by (simp add: read_text_def write_text_def)
qed

function bits :: "int \<Rightarrow> string" where
  "bits n = (if n \<le> 0 then [] else (if n mod 2 = 1 then CHR ''1'' else CHR ''0'') # bits (n div 2))"
  by pat_completeness auto
termination by (relation "measure nat") auto

fun unbits :: "string \<Rightarrow> int" where
  "unbits [] = 0"
| "unbits (c # s) = (if c = CHR ''1'' then 1 else 0) + 2 * unbits s"

declare bits.simps [simp del]

lemma unbits_bits: "0 \<le> n \<Longrightarrow> unbits (bits n) = n"
proof (induction n rule: bits.induct)
  case (1 n)
  show ?case
  proof (cases "n \<le> 0")
    case True
    with 1 show ?thesis by (simp add: bits.simps)
  next
    case False
    then have "unbits (bits (n div 2)) = n div 2" by (intro 1) simp_all
    moreover have "n mod 2 = 1 \<Longrightarrow> 1 + 2 * (n div 2) = n" and "n mod 2 = 0 \<Longrightarrow> 2 * (n div 2) = n"
      by presburger+
    ultimately show ?thesis using False by (subst bits.simps) simp
  qed
qed

fun write_claim :: "claim \<Rightarrow> string" where
  "write_claim (CStr s) = CHR ''s'' # write_text s"
| "write_claim (CInt i) = (if i < 0 then CHR ''-'' else CHR ''+'') # write_text (bits \<bar>i\<bar>)"

definition read_claim :: "string \<Rightarrow> claim \<times> string" where
  "read_claim s = (case s of
     [] \<Rightarrow> (CInt 0, [])
   | c # t \<Rightarrow> (let (v, r) = read_text t in
       (if c = CHR ''s'' then CStr v
        else if c = CHR ''-'' then CInt (- unbits v) else CInt (unbits v), r)))"

lemma read_claim_write: "read_claim (write_claim c @ r) = (c, r)"
  by (cases c) (auto simp: read_claim_def read_text_write unbits_bits Let_def)

fun write_claims :: "claims \<Rightarrow> string" where
  "write_claims [] = []"
| "write_claims ((n, c) # cs) = write_text n @ write_claim c @ write_claims cs"

fun read_claims :: "nat \<Rightarrow> string \<Rightarrow> claims" where
  "read_claims 0 s = []"
| "read_claims (Suc k) s =
     (if s = [] then []
      else (let (n, r) = read_text s; (c, r') = read_claim r in (n, c) # read_claims k r'))"

lemma read_claims_write: "length cs \<le> k \<Longrightarrow> read_claims k (write_claims cs) = cs"
proof (induction cs arbitrary: k)
  case Nil
  then show ?case by (cases k) simp_all
next
  case (Cons nc cs)
  moreover obtain n c where "nc = (n, c)" by fastforce
  moreover have "write_text n @ r \<noteq> []" for r by (simp add: write_text_def)
  ultimately show ?case
    by (cases k) (simp_all add: read_text_write read_claim_write)
qed

lemma length_write_claims: "length cs \<le> length (write_claims cs)"
  by (induction cs rule: write_claims.induct) (auto simp: write_text_def)

definition sample_encode :: "claims \<Rightarrow> string \<Rightarrow> string \<Rightarrow> string" where
  "sample_encode c k a = write_text k @ write_text a @ write_claims c"

definition sample_decode :: "time \<Rightarrow> string \<Rightarrow> string \<Rightarrow> string \<Rightarrow> jwt_result" where
  "sample_decode now tok k a =
     (let (k', r) = read_text tok; (a', body) = read_text r; c = read_claims (length body) body
      in if k' \<noteq> k \<or> a' \<noteq> a then JwtInvalid
         else (case (map_of c ''iat'', map_of c ''exp'') of
                 (Some (CInt i), Some (CInt e)) \<Rightarrow>
                   if now < seconds i then JwtInvalid
                   else if now < seconds e then JwtOk c else JwtExpired
               | _ \<Rightarrow> JwtInvalid))"

definition sample_validate :: "claims \<Rightarrow> token_payload option" where
  "sample_validate c = (case (map_of c ''sub'', map_of c ''tid'', map_of c ''type'', map_of c ''jti'',
                              map_of c ''exp'', map_of c ''iat'') of
     (Some (CStr s), Some (CStr t), Some (CStr ty), Some (CStr j), Some (CInt e), Some (CInt i)) \<Rightarrow>
       (case (UUID s, UUID t, UUID j) of
          (Some s', Some t', Some j') \<Rightarrow>
            Some \<lparr>tp_sub = s', tp_tid = t', tp_type = ty, tp_jti = j', tp_exp = e, tp_iat = i\<rparr>
        | _ \<Rightarrow> None)
   | _ \<Rightarrow> None)"

text \<open>The clock advances by a second at each reading; every identifier is fresh.\<close>

definition sample_env :: "store env" where
  "sample_env =
     \<lparr>clock = (\<lambda>n. seconds (1700000000 + int n)),
      uuid4 = (\<lambda>n. word_of_int (int n + 1000)),
      token_urlsafe = (\<lambda>n. replicate (n + 1) (CHR ''t'')),
      hasher_hash = (\<lambda>n p. ''plain:'' @ p),
      hasher_verify = (\<lambda>p h. Some (h = ''plain:'' @ p)),
      jwt_encode = sample_encode, jwt_decode = sample_decode, validate_payload = sample_validate,
      class_attribute = (\<lambda>_ a. a = ''metadata''),
      redis_get = store_get, redis_set = store_set, redis_delete = store_delete,
      redis_incr = store_incr, redis_expire = store_expire, redis_ttl = store_ttl\<rparr>"

lemma sample_redis_ok: "redis_ok sample_env"
  by (simp add: redis_ok_def sample_env_def sample_store.expiring_store_axioms)

lemma identity_times:
  "map_of (identity_claims p) ''iat'' = Some (CInt (tp_iat p))"
  "map_of (identity_claims p) ''exp'' = Some (CInt (tp_exp p))"
  by (simp_all add: identity_claims_def)

lemma sample_jwt:
  "jwt_encode sample_env c k a \<noteq> []"
  "map_of c ''iat'' = Some (CInt i) \<Longrightarrow> map_of c ''exp'' = Some (CInt e) \<Longrightarrow> seconds i \<le> now \<Longrightarrow>
    jwt_decode sample_env now (jwt_encode sample_env c k a) k a = (if now < seconds e then JwtOk c else JwtExpired)"
  by (simp add: sample_env_def sample_encode_def write_text_def)
    (simp add: sample_env_def sample_decode_def sample_encode_def read_text_write read_claims_write length_write_claims)

lemma sample_jwt_ok: "jwt_ok sample_env"
  unfolding jwt_ok_def using sample_jwt identity_times by blast

lemma sample_payload_ok: "payload_ok sample_env"
  by (simp add: payload_ok_def sample_env_def sample_validate_def identity_claims_def)

lemma sample_hasher_ok: "hasher_ok sample_env"
  by (simp add: hasher_ok_def sample_env_def)

lemma sample_clock_ok: "clock_ok sample_env"
  by (auto simp: clock_ok_def sample_env_def mono_def seconds_def)

text \<open>A world at rest: nothing pending, no settings bound, an empty cache or none.\<close>

definition sample_world :: "database \<Rightarrow> store option \<Rightarrow> uuid option \<Rightarrow> store world" where
  "sample_world d c t =
     \<lparr>w_settings = default_settings,
      w_ctx = map_option (\<lambda>i. \<lparr>request_id = ''r1'', rc_tenant_id = Some i, rc_user_id = None,
        rc_roles = {}, rc_permissions = {}, rc_ip_address = Some ''127.0.0.1'',
        rc_is_superadmin = False\<rparr>) t,
      w_redis = c, w_reset_store = [], w_committed = d, w_delta = id, w_bypass = False,
      w_guc_tenant = t, w_now = seconds 1700000000, w_draw = 0, w_log = []\<rparr>"

lemma view_sample_world [simp]: "view (sample_world d c t) = d"
  by (simp add: sample_world_def view_def)

lemma sample_world_sel [simp]:
  "w_settings (sample_world d c t) = default_settings"
  "w_redis (sample_world d c t) = c"
  "w_committed (sample_world d c t) = d"
  "w_delta (sample_world d c t) = id"
  "w_draw (sample_world d c t) = 0"
  "w_guc_tenant (sample_world d c t) = t"
  "w_bypass (sample_world d c t) = False"
  "w_reset_store (sample_world d c t) = []"
  "w_now (sample_world d c t) = seconds 1700000000"
  "current_tenant_id (w_ctx (sample_world d c t)) = t"
  by (simp_all add: sample_world_def current_tenant_id_def split: option.splits)

end
