(* ===== verification/Security.thy ===== *)
theory Security
  imports Outside
begin

text \<open>
  \<^verbatim>\<open>app/core/security\<close>: password hashing, and the tokens that carry the identity of a user. The facts:
  a token that the program made is read back as the identity it was made for, until it expires and
  only under the type it was made with (\<open>decode_encoded\<close>).
\<close>

section \<open>Passwords\<close>

definition hash_password :: "'c env \<Rightarrow> string \<Rightarrow> ('c, string) io" where
  "hash_password x plain = andthen (draw (hasher_hash x)) (\<lambda>h. ret (h plain))"

text \<open>\<^term>\<open>None\<close> is an exception of the hasher, on a hash it cannot read.\<close>

definition verify_password :: "'c env \<Rightarrow> string \<Rightarrow> string \<Rightarrow> bool" where
  "verify_password x plain hashed = (case hasher_verify x plain hashed of None \<Rightarrow> False | Some b \<Rightarrow> b)"

lemma verify_hashed: "hasher_ok x \<Longrightarrow> verify_password x p (hasher_hash x n p)"
  by (simp add: hasher_ok_def verify_password_def)

section \<open>Tokens\<close>

text \<open>\<^verbatim>\<open>int(t.timestamp())\<close>, for times after the epoch.\<close>

definition timestamp :: "time \<Rightarrow> int" where
  "timestamp t = t div 1000000"

definition encode_token :: "'c env \<Rightarrow> uuid \<Rightarrow> uuid \<Rightarrow> string \<Rightarrow> int \<Rightarrow> uuid \<Rightarrow> ('c, string) io" where
  "encode_token x user_id tid token_type ttl jti =
     andthen (draw (clock x)) (\<lambda>now.
     andthen (asks w_settings) (\<lambda>s.
     ret (jwt_encode x
       [(''sub'', CStr (uuid_str user_id)), (''tid'', CStr (uuid_str tid)),
        (''type'', CStr token_type), (''jti'', CStr (uuid_str jti)),
        (''iat'', CInt (timestamp now)), (''exp'', CInt (timestamp (now + seconds ttl)))]
       (jwt_secret_key s) (jwt_algorithm s))))"

definition create_access_token :: "'c env \<Rightarrow> uuid \<Rightarrow> uuid \<Rightarrow> ('c, string) io" where
  "create_access_token x user_id tid =
     andthen (asks (\<lambda>w. access_token_ttl_seconds (w_settings w))) (\<lambda>ttl.
     andthen (draw (uuid4 x)) (\<lambda>jti.
     encode_token x user_id tid ''access'' ttl jti))"

definition create_refresh_token :: "'c env \<Rightarrow> uuid \<Rightarrow> uuid \<Rightarrow> uuid option \<Rightarrow> ('c, string \<times> uuid) io" where
  "create_refresh_token x user_id tid jti =
     andthen (case jti of Some j \<Rightarrow> ret j | None \<Rightarrow> draw (uuid4 x)) (\<lambda>j.
     andthen (asks (\<lambda>w. refresh_token_ttl_seconds (w_settings w))) (\<lambda>ttl.
     andthen (encode_token x user_id tid ''refresh'' ttl j) (\<lambda>token.
     ret (token, j))))"

definition decode_token :: "'c env \<Rightarrow> string \<Rightarrow> string option \<Rightarrow> ('c, token_payload) io" where
  "decode_token x token expected_type =
     andthen (draw (clock x)) (\<lambda>now.
     andthen (asks w_settings) (\<lambda>s.
     case jwt_decode x now token (jwt_secret_key s) (jwt_algorithm s) of
       JwtExpired \<Rightarrow> raise (Unhandled (TokenError ''Token expired''))
     | JwtInvalid \<Rightarrow> raise (Unhandled (TokenError ''Invalid token''))
     | JwtOk raw \<Rightarrow>
         (case validate_payload x raw of
            None \<Rightarrow> raise (Unhandled PayloadInvalid)
          | Some p \<Rightarrow>
              (case expected_type of
                 None \<Rightarrow> ret p
               | Some e \<Rightarrow>
                   if e \<noteq> [] \<and> tp_type p \<noteq> e then
                     raise (Unhandled (TokenError
                       (''Expected '' @ e @ '' token, got '' @ tp_type p)))
                   else ret p))))"

text \<open>\<^verbatim>\<open>try: m except TokenError as e: h(str(e))\<close>\<close>

definition except_token_error :: "('c, 'a) io \<Rightarrow> (string \<Rightarrow> ('c, 'a) io) \<Rightarrow> ('c, 'a) io" where
  "except_token_error m h = catch m (\<lambda>e. case e of
     Unhandled (TokenError msg) \<Rightarrow> h msg | _ \<Rightarrow> raise e)"

section \<open>Round trip\<close>

definition token_identity :: "uuid \<Rightarrow> uuid \<Rightarrow> string \<Rightarrow> uuid \<Rightarrow> time \<Rightarrow> int \<Rightarrow> token_payload" where
  "token_identity user_id tid typ jti now ttl =
     \<lparr>tp_sub = user_id, tp_tid = tid, tp_type = typ, tp_jti = jti,
      tp_exp = timestamp (now + seconds ttl), tp_iat = timestamp now\<rparr>"

definition token_text :: "'c env \<Rightarrow> settings \<Rightarrow> token_payload \<Rightarrow> string" where
  "token_text x s p = jwt_encode x (identity_claims p) (jwt_secret_key s) (jwt_algorithm s)"

lemma encode_token_run:
  "encode_token x u t typ ttl j w =
     (Inr (token_text x (w_settings w) (token_identity u t typ j (clock x (w_draw w)) ttl)),
      w\<lparr>w_draw := Suc (w_draw w)\<rparr>)"
  by (simp add: encode_token_def act_simps token_text_def identity_claims_def token_identity_def)

lemma andthen_encode_token:
  "andthen (encode_token x u t typ ttl j) f w =
     f (token_text x (w_settings w) (token_identity u t typ j (clock x (w_draw w)) ttl))
       (w\<lparr>w_draw := Suc (w_draw w)\<rparr>)"
  by (simp add: andthen_Inr [OF encode_token_run])

lemma create_access_token_run:
  "create_access_token x u t w =
     (Inr (token_text x (w_settings w) (token_identity u t ''access'' (uuid4 x (w_draw w))
        (clock x (Suc (w_draw w))) (access_token_ttl_seconds (w_settings w)))),
      w\<lparr>w_draw := Suc (Suc (w_draw w))\<rparr>)"
  by (simp add: create_access_token_def act_simps encode_token_run)

lemma create_refresh_token_run:
  "create_refresh_token x u t None w =
     (Inr (token_text x (w_settings w) (token_identity u t ''refresh'' (uuid4 x (w_draw w))
        (clock x (Suc (w_draw w))) (refresh_token_ttl_seconds (w_settings w))), uuid4 x (w_draw w)),
      w\<lparr>w_draw := Suc (Suc (w_draw w))\<rparr>)"
  by (simp add: create_refresh_token_def act_simps andthen_encode_token)

text \<open>Time stamps lose the fraction of a second: a token lives at least until its whole second ends.\<close>

lemma timestamp_le: "seconds (timestamp t) \<le> t"
  by (simp add: timestamp_def seconds_def)

lemma timestamp_add: "timestamp (t + seconds n) = timestamp t + n"
  by (simp add: timestamp_def seconds_def)

text \<open>
  What \<open>decode_token\<close> does with a token the program made: the payload while the token is valid and
  of the expected type.
\<close>

definition decoded :: "token_payload \<Rightarrow> time \<Rightarrow> string option \<Rightarrow> exn + token_payload" where
  "decoded p now expected =
     (if now < seconds (tp_exp p) then
        (case expected of
           None \<Rightarrow> Inr p
         | Some e \<Rightarrow>
             if e \<noteq> [] \<and> tp_type p \<noteq> e then
               Inl (Unhandled (TokenError (''Expected '' @ e @ '' token, got '' @ tp_type p)))
             else Inr p)
      else Inl (Unhandled (TokenError ''Token expired'')))"

lemma decode_encoded:
  assumes "jwt_ok x" and "payload_ok x" and "seconds (tp_iat p) \<le> clock x (w_draw w)"
  shows "decode_token x (token_text x (w_settings w) p) expected w =
    (decoded p (clock x (w_draw w)) expected, w\<lparr>w_draw := Suc (w_draw w)\<rparr>)"
proof -
  have "jwt_decode x (clock x (w_draw w)) (token_text x (w_settings w) p)
      (jwt_secret_key (w_settings w)) (jwt_algorithm (w_settings w)) =
    (if clock x (w_draw w) < seconds (tp_exp p) then JwtOk (identity_claims p) else JwtExpired)"
    using assms(1,3) by (simp add: jwt_ok_def token_text_def)
  moreover have "validate_payload x (identity_claims p) = Some p"
    using assms(2) by (simp add: payload_ok_def)
  ultimately show ?thesis
    by (auto simp: decode_token_def decoded_def act_simps split: option.splits)
qed

lemma except_token_error_run:
  "except_token_error m h w = (case m w of
     (Inl (Unhandled (TokenError msg)), w') \<Rightarrow> h msg w' | r \<Rightarrow> r)"
  by (auto simp: except_token_error_def catch_def raise_def split: prod.splits sum.splits exn.splits
      py_exception.splits)

lemma except_token_error_Inr: "m w = (Inr v, w') \<Longrightarrow> except_token_error m h w = (Inr v, w')"
  by (simp add: except_token_error_run)

section \<open>The token properties\<close>

text \<open>
  C31. An access token is read back, until it expires, as the user and the tenant it was made for,
  and from then on it is refused as expired; where a refresh token is expected it is refused at any
  time. (The settings are not changed and the clock does not run backwards between making the
  token and reading it.)
\<close>

theorem access_token_roundtrip:
  assumes "jwt_ok x" and "payload_ok x" and "clock_ok x"
    and "create_access_token x user tid w = (Inr token, w1)"
    and "w_settings w2 = w_settings w" and "w_draw w1 \<le> w_draw w2"
  shows "(\<exists>p. tp_sub p = user \<and> tp_tid p = tid \<and> tp_type p = ''access'' \<and>
      tp_exp p = timestamp (clock x (Suc (w_draw w))) + access_token_ttl_seconds (w_settings w) \<and>
      fst (decode_token x token (Some ''access'') w2) =
        (if clock x (w_draw w2) < seconds (tp_exp p) then Inr p
         else Inl (Unhandled (TokenError ''Token expired'')))) \<and>
    (\<exists>m. fst (decode_token x token (Some ''refresh'') w2) = Inl (Unhandled (TokenError m)))"
proof -
  let ?p = "token_identity user tid ''access'' (uuid4 x (w_draw w)) (clock x (Suc (w_draw w)))
    (access_token_ttl_seconds (w_settings w))"
  have token: "token = token_text x (w_settings w2) ?p" and "w_draw w1 = Suc (Suc (w_draw w))"
    using assms(4,5) by (auto simp: create_access_token_run)
  then have "clock x (Suc (w_draw w)) \<le> clock x (w_draw w2)"
    using assms(6) by (intro clock_okD [OF assms(3)]) simp
  then have "seconds (tp_iat ?p) \<le> clock x (w_draw w2)"
    using timestamp_le [of "clock x (Suc (w_draw w))"] by (simp add: token_identity_def)
  note decode_encoded [OF assms(1,2) this]
  then show ?thesis
    unfolding token
    by (auto intro!: exI [of _ ?p] simp: decoded_def token_identity_def timestamp_add)
qed

theorem access_token_roundtrip_witness:
  "\<exists>token w1. create_access_token sample_env 7 1 (sample_world empty_database None None) =
       (Inr token, w1) \<and>
     map_sum id tp_sub (fst (decode_token sample_env token (Some ''access'') w1)) = Inr 7"
proof -
  let ?w = "sample_world empty_database None None :: store world"
  obtain token w1 where run: "create_access_token sample_env 7 1 ?w = (Inr token, w1)"
    and w1: "w1 = ?w\<lparr>w_draw := 2\<rparr>"
    by (simp add: create_access_token_run)
  from access_token_roundtrip [OF sample_jwt_ok sample_payload_ok sample_clock_ok run, of w1] run w1
  show ?thesis
    by (auto simp: sample_env_def seconds_def timestamp_def default_settings_def)
qed

end
