(* ===== verification/Middleware.thy ===== *)
theory Middleware
  imports Tenancy Security
begin

text \<open>
  \<^verbatim>\<open>app/core/middleware\<close>: the request context (who is calling, for which tenant) and the rate limiter.
  The facts: the identity of a request is that of a valid access token, or else the tenant the
  header names; the context is bound while the request runs and restored after it, whatever
  happens; within one window the limiter lets exactly the configured number of requests pass.
\<close>

section \<open>Identity\<close>

text \<open>Header names arrive in lower case; the first of several wins.\<close>

type_synonym headers = "(string \<times> string) list"

definition client_ip :: "headers \<Rightarrow> string option \<Rightarrow> string option" where
  "client_ip hs client = (case map_of hs ''x-forwarded-for'' of
     Some fwd \<Rightarrow> if fwd \<noteq> [] then Some (strip (hd (split_char (CHR '','') fwd))) else client
   | None \<Rightarrow> client)"

definition header_identity :: "'c env \<Rightarrow> headers \<Rightarrow> ('c, uuid option \<times> uuid option) io" where
  "header_identity x hs =
     andthen (asks (\<lambda>w. tenant_header (w_settings w))) (\<lambda>name.
     case map_of hs (lower name) of
       None \<Rightarrow> ret (None, None)
     | Some raw \<Rightarrow>
         if raw = [] then ret (None, None)
         else andthen (resolve_tenant_id x raw) (\<lambda>t. ret (t, None)))"

definition resolve_identity :: "'c env \<Rightarrow> headers \<Rightarrow> ('c, uuid option \<times> uuid option) io" where
  "resolve_identity x hs =
     (let auth = (case map_of hs ''authorization'' of None \<Rightarrow> [] | Some a \<Rightarrow> a)
      in if prefix ''bearer '' (lower auth) then
           except_token_error
             (andthen (decode_token x (drop 7 auth) (Some ''access'')) (\<lambda>p.
              ret (Some (tp_tid p), Some (tp_sub p))))
             (\<lambda>_. header_identity x hs)
         else header_identity x hs)"

definition incoming_request_id :: "'c env \<Rightarrow> headers \<Rightarrow> ('c, string) io" where
  "incoming_request_id x hs = (case map_of hs ''x-request-id'' of
     Some r \<Rightarrow> if r \<noteq> [] then ret r else andthen (draw (uuid4 x)) (\<lambda>u. ret (uuid_str u))
   | None \<Rightarrow> andthen (draw (uuid4 x)) (\<lambda>u. ret (uuid_str u)))"

text \<open>\<^verbatim>\<open>set_context\<close>, and \<^verbatim>\<open>reset_context\<close> in the \<^verbatim>\<open>finally\<close> clause.\<close>

definition with_context :: "request_context \<Rightarrow> ('c, 'a) io \<Rightarrow> ('c, 'a) io" where
  "with_context rc app = (\<lambda>w.
     let (r, w') = app (w\<lparr>w_ctx := Some rc\<rparr>) in (r, w'\<lparr>w_ctx := w_ctx w\<rparr>))"

text \<open>
  \<^verbatim>\<open>RequestContextMiddleware.__call__\<close>. The id of the request is what the response carries as
  \<^verbatim>\<open>x-request-id\<close>; it is returned beside the result of the application.
\<close>

definition request_context_middleware :: "'c env \<Rightarrow> headers \<Rightarrow> string option \<Rightarrow> ('c, 'a) io \<Rightarrow>
    ('c, string \<times> 'a) io" where
  "request_context_middleware x hs client app =
     andthen (incoming_request_id x hs) (\<lambda>rid.
     andthen (resolve_identity x hs) (\<lambda>(tid, uid).
     andthen (with_context
       \<lparr>request_id = rid, rc_tenant_id = tid, rc_user_id = uid, rc_roles = {}, rc_permissions = {},
        rc_ip_address = client_ip hs client, rc_is_superadmin = False\<rparr> app) (\<lambda>r.
     ret (rid, r))))"

section \<open>Rate limits\<close>

definition rate_units :: "(string \<times> int) list" where
  "rate_units = [(''second'', 1), (''minute'', 60), (''hour'', 3600), (''day'', 86400)]"

definition parse_rate :: "string \<Rightarrow> py_exception + (int \<times> int)" where
  "parse_rate spec =
     (let (times, _, unit) = partition_char (CHR ''/'') spec;
          name = rstrip_char (CHR ''s'') (strip unit)
      in case py_int 10 times of
           None \<Rightarrow> Inl ValueError
         | Some n \<Rightarrow> (case map_of rate_units name of
             None \<Rightarrow> Inl (KeyError name) | Some s \<Rightarrow> Inr (n, s)))"

text \<open>\<^verbatim>\<open>str(n)\<close> for an integer: the digits of the absolute value after the sign.\<close>

function decimal_digits :: "int \<Rightarrow> string" where
  "decimal_digits i =
     (if i < 10 then [char_of (48 + nat i)]
      else decimal_digits (i div 10) @ [char_of (48 + nat (i mod 10))])"
  by pat_completeness auto
termination by (relation "measure nat") auto

declare decimal_digits.simps [simp del]

definition str_int :: "int \<Rightarrow> string" where
  "str_int i = (if i < 0 then CHR ''-'' # decimal_digits (- i) else decimal_digits i)"

definition rate_key :: "string \<Rightarrow> request_context option \<Rightarrow> string" where
  "rate_key path rc =
     (let identity = (case rc of
            None \<Rightarrow> None
          | Some c \<Rightarrow> (case rc_user_id c of Some u \<Rightarrow> Some (uuid_str u) | None \<Rightarrow> rc_ip_address c))
      in ''rl:'' @ path @ '':'' @
         (case identity of None \<Rightarrow> ''anon'' | Some i \<Rightarrow> if i = [] then ''anon'' else i))"

definition rate_limited :: "int \<Rightarrow> int \<Rightarrow> int \<Rightarrow> exn" where
  "rate_limited n s ttl = App (new_error RateLimitError
     (Some (''Rate limit exceeded ('' @ str_int n @ ''/'' @ str_int s @ ''s)''))
     (Some (RetryAfter (max ttl 1))) None)"

text \<open>\<^verbatim>\<open>RateLimiter.__call__\<close>; \<open>n\<close> and \<open>s\<close> are what the constructor parsed.\<close>

definition rate_limiter :: "'c env \<Rightarrow> int \<Rightarrow> int \<Rightarrow> string \<Rightarrow> ('c, unit) io" where
  "rate_limiter x n s path =
     andthen (asks (\<lambda>w. rate_limit_enabled (w_settings w))) (\<lambda>on.
     if \<not> on then ret ()
     else andthen has_redis (\<lambda>redis.
       if \<not> redis then ret ()
       else andthen get_context (\<lambda>rc.
         let key = rate_key path rc
         in andthen (cache_incr x key) (\<lambda>count.
            andthen (if count = 1 then cache_expire x key s else ret ()) (\<lambda>_.
            if count > n then
              andthen (cache_ttl x key) (\<lambda>ttl. raise (rate_limited n s ttl))
            else ret ())))))"

definition new_rate_limiter :: "settings \<Rightarrow> string option \<Rightarrow> py_exception + (int \<times> int)" where
  "new_rate_limiter st spec = parse_rate (case spec of
     None \<Rightarrow> rate_limit_default st | Some s \<Rightarrow> if s = [] then rate_limit_default st else s)"

lemma parse_rate_examples:
  "parse_rate ''10/minute'' = Inr (10, 60)"
  "parse_rate ''5/ seconds '' = Inr (5, 1)"
  "parse_rate ''100/fortnight'' = Inl (KeyError ''fortnight'')"
  "parse_rate ''many/minute'' = Inl ValueError"
  by (simp_all add: parse_rate_def partition_char_def rstrip_char_def strip_def strip_if_def is_space_def
      py_int_def all_digits_def digit_in_def digit_val_def drop_base_prefix_def rate_units_def)

section \<open>A window of the limiter\<close>

text \<open>
  \<^verbatim>\<open>INCR\<close>, \<^verbatim>\<open>EXPIRE\<close> as documented: \<open>counting c k v e\<close> says that the key holds the count \<open>v\<close> and
  expires at \<open>e\<close>. A missing key counts from 0, and keeps no expiry until one is set.
\<close>

definition counter_ok :: "'c env \<Rightarrow> ('c \<Rightarrow> string \<Rightarrow> int \<Rightarrow> time \<Rightarrow> bool) \<Rightarrow> bool" where
  "counter_ok x counting \<longleftrightarrow>
     (\<forall>c k v e t. counting c k v e \<longrightarrow> t < e \<longrightarrow>
        fst (redis_incr x t k c) = v + 1 \<and> counting (snd (redis_incr x t k c)) k (v + 1) e) \<and>
     (\<forall>c k t t' s. redis_get x t k c = None \<longrightarrow>
        fst (redis_incr x t k c) = 1 \<and>
        counting (redis_expire x t' k s (snd (redis_incr x t k c))) k 1 (t' + seconds s))"

lemma rate_limiter_first:
  assumes "counter_ok x counting" and "w_redis w = Some c" and "rate_limit_enabled (w_settings w)"
    and "redis_get x (clock x (w_draw w)) (rate_key path (w_ctx w)) c = None" and "1 \<le> n"
  shows "\<exists>c' m. rate_limiter x n s path w = (Inr (), w\<lparr>w_redis := Some c', w_draw := m\<rparr>) \<and>
    counting c' (rate_key path (w_ctx w)) 1 (clock x (Suc (w_draw w)) + seconds s) \<and> m = w_draw w + 2"
proof -
  let ?k = "rate_key path (w_ctx w)"
  let ?c = "redis_expire x (clock x (Suc (w_draw w))) ?k s (snd (redis_incr x (clock x (w_draw w)) ?k c))"
  have one: "fst (redis_incr x (clock x (w_draw w)) ?k c) = 1"
    and counted: "counting ?c ?k 1 (clock x (Suc (w_draw w)) + seconds s)"
    using assms(1,4) by (simp_all add: counter_ok_def)
  have "rate_limiter x n s path w =
      (Inr (), w\<lparr>w_redis := Some ?c, w_draw := Suc (Suc (w_draw w))\<rparr>)"
    using assms(2,3,5) one
    by (simp add: rate_limiter_def act_simps Let_def cache_incr_def andthen_assoc andthen_Inr
        case_prod_unfold cache_expire_def)
  with counted show ?thesis by (auto simp: numeral_2_eq_2)
qed

lemma rate_limiter_next:
  assumes "counter_ok x counting" and "w_redis w = Some c" and "rate_limit_enabled (w_settings w)"
    and "counting c (rate_key path (w_ctx w)) v e" and "clock x (w_draw w) < e" and "1 \<le> v"
  shows "\<exists>c' m ttl. rate_limiter x n s path w =
      (if v + 1 \<le> n then Inr () else Inl (rate_limited n s ttl),
       w\<lparr>w_redis := Some c', w_draw := m\<rparr>) \<and>
    counting c' (rate_key path (w_ctx w)) (v + 1) e \<and> m \<le> w_draw w + 2"
proof -
  let ?k = "rate_key path (w_ctx w)"
  let ?c = "snd (redis_incr x (clock x (w_draw w)) ?k c)"
  have count: "fst (redis_incr x (clock x (w_draw w)) ?k c) = v + 1" and counted: "counting ?c ?k (v + 1) e"
    using assms(1,4,5) by (simp_all add: counter_ok_def)
  have "rate_limiter x n s path w =
      (if v + 1 \<le> n then Inr ()
       else Inl (rate_limited n s (redis_ttl x (clock x (Suc (w_draw w))) ?k ?c)),
       w\<lparr>w_redis := Some ?c,
         w_draw := (if v + 1 \<le> n then Suc (w_draw w) else Suc (Suc (w_draw w)))\<rparr>)"
    using assms(2,3,6) count
    by (simp add: rate_limiter_def act_simps Let_def cache_incr_def andthen_assoc andthen_Inr
        case_prod_unfold cache_ttl_def)
  moreover have "(if v + 1 \<le> n then Suc (w_draw w) else Suc (Suc (w_draw w))) \<le> w_draw w + 2"
    by simp
  ultimately show ?thesis using counted by blast
qed

text \<open>A run of requests of one client, of which only the outcomes are kept.\<close>

fun rate_run :: "nat \<Rightarrow> 'c env \<Rightarrow> int \<Rightarrow> int \<Rightarrow> string \<Rightarrow> 'c world \<Rightarrow> bool list \<times> 'c world" where
  "rate_run 0 x n s path w = ([], w)"
| "rate_run (Suc k) x n s path w =
     (let (r, w') = rate_limiter x n s path w; (rs, w'') = rate_run k x n s path w'
      in ((\<not> isl r) # rs, w''))"

lemma rate_run_next:
  assumes "counter_ok x counting" and "rate_limit_enabled (w_settings w)" and "w_redis w = Some c"
    and "counting c (rate_key path (w_ctx w)) (int v) e" and "1 \<le> v"
    and "clock_ok x" and "clock x (w_draw w + 2 * k) < e"
  shows "fst (rate_run k x n s path w) = map (\<lambda>i. int i \<le> n) [Suc v..<Suc v + k]"
  using assms
proof (induction k arbitrary: w c v)
  case 0
  then show ?case by simp
next
  case (Suc k)
  have "clock x (w_draw w) < e"
    using clock_okD [OF \<open>clock_ok x\<close>, of "w_draw w" "w_draw w + 2 * Suc k"] Suc.prems(7) by simp
  then obtain c' m ttl where run: "rate_limiter x n s path w =
      (if int v + 1 \<le> n then Inr () else Inl (rate_limited n s ttl),
       w\<lparr>w_redis := Some c', w_draw := m\<rparr>)"
    and counted: "counting c' (rate_key path (w_ctx w)) (int v + 1) e" and m: "m \<le> w_draw w + 2"
    using rate_limiter_next [OF Suc.prems(1,3,2,4)] Suc.prems(5) by force
  have "clock x (m + 2 * k) < e"
    using clock_okD [OF \<open>clock_ok x\<close>, of "m + 2 * k" "w_draw w + 2 * Suc k"] m Suc.prems(7) by simp
  then have "fst (rate_run k x n s path (w\<lparr>w_redis := Some c', w_draw := m\<rparr>)) =
      map (\<lambda>i. int i \<le> n) [Suc (Suc v)..<Suc (Suc v) + k]"
    using Suc.prems counted by (intro Suc.IH [where c = c']) (auto simp: add.commute)
  moreover have "[Suc v..<Suc v + Suc k] = Suc v # [Suc (Suc v)..<Suc (Suc v) + k]"
    by (simp add: upt_conv_Cons)
  ultimately show ?case
    by (simp add: run case_prod_unfold Let_def add.commute del: upt_Suc)
qed

lemma rate_run_fresh:
  assumes "counter_ok x counting" and "rate_limit_enabled (w_settings w)" and "w_redis w = Some c"
    and "redis_get x (clock x (w_draw w)) (rate_key path (w_ctx w)) c = None" and "1 \<le> n"
    and "clock_ok x" and "clock x (w_draw w + 2 * k) < clock x (Suc (w_draw w)) + seconds s"
  shows "fst (rate_run k x n s path w) = map (\<lambda>i. int i \<le> n) [1..<Suc k]"
proof (cases k)
  case 0
  then show ?thesis by simp
next
  case (Suc j)
  obtain c' where run: "rate_limiter x n s path w = (Inr (), w\<lparr>w_redis := Some c', w_draw := w_draw w + 2\<rparr>)"
    and counted: "counting c' (rate_key path (w_ctx w)) 1 (clock x (Suc (w_draw w)) + seconds s)"
    using rate_limiter_first [OF assms(1,3,2,4,5)] by blast
  have "fst (rate_run j x n s path (w\<lparr>w_redis := Some c', w_draw := w_draw w + 2\<rparr>)) =
      map (\<lambda>i. int i \<le> n) [Suc 1..<Suc 1 + j]"
    using assms counted Suc by (intro rate_run_next [where c = c' and counting = counting]) auto
  moreover have "[1..<Suc k] = 1 # [Suc 1..<Suc 1 + j]"
    using Suc by (simp add: upt_conv_Cons)
  ultimately show ?thesis
    using assms(5) by (simp add: Suc run case_prod_unfold Let_def del: upt_Suc)
qed

section \<open>What the context is\<close>

lemma same_ctx_cache [keeps_intros]:
  "keeps (same w_ctx) (cache_get x key)" "keeps (same w_ctx) (cache_set x key v ttl)"
  "keeps (same w_ctx) has_redis"
  by (rule keeps_cache; simp add: cache_frame_def same_def)+

lemma same_ctx_session: "keeps (same w_ctx) body \<Longrightarrow> keeps (same w_ctx) (tenant_session x tid b body)"
  by (simp add: keeps_def same_def tenant_session_def case_prod_unfold Let_def)
    (metis transaction_ctx keeps_def same_def)

lemma same_reads: "reads m \<Longrightarrow> keeps (same f) m"
  by (simp add: reads_def keeps_def same_def)

lemma same_ctx_draw: "keeps (same w_ctx) (draw f)"
  by (simp add: keeps_def same_def draw_def)

lemmas same_ctx_rules = same_frame.keeps_rules same_ctx_cache same_ctx_session same_ctx_draw
  reads_rules [THEN same_reads]

lemma same_ctx_resolve: "keeps (same w_ctx) (resolve_tenant_id x i)"
  unfolding resolve_tenant_id_def resolve_from_database_def get_by_slug_def
  by (intro same_ctx_rules)

lemma same_ctx_decode: "keeps (same w_ctx) (decode_token x tok e)"
  by (auto simp: decode_token_def keeps_def same_def act_simps split: jwt_result.splits option.splits)

lemma same_ctx_except_token_error:
  assumes "keeps (same w_ctx) m" and "\<And>s. keeps (same w_ctx) (h s)"
  shows "keeps (same w_ctx) (except_token_error m h)"
  unfolding except_token_error_def
  by (intro same_frame.keeps_catch assms(1))
    (use assms(2) in \<open>auto intro: same_frame.keeps_raise split: exn.split py_exception.split\<close>)

lemma same_ctx_header: "keeps (same w_ctx) (header_identity x hs)"
  unfolding header_identity_def by (intro same_ctx_rules same_ctx_resolve)

lemma same_ctx_identity: "keeps (same w_ctx) (resolve_identity x hs)"
  unfolding resolve_identity_def Let_def
  by (intro same_ctx_rules same_ctx_except_token_error same_ctx_decode same_ctx_header)

lemma same_ctx_with_context: "keeps (same w_ctx) (with_context rc app)"
  by (simp add: keeps_def same_def with_context_def Let_def case_prod_unfold)

lemma same_ctx_request_id: "keeps (same w_ctx) (incoming_request_id x hs)"
  unfolding incoming_request_id_def by (cases "map_of hs ''x-request-id''") (auto intro!: same_ctx_rules)

lemma same_ctx_middleware: "keeps (same w_ctx) (request_context_middleware x hs client app)"
  unfolding request_context_middleware_def case_prod_unfold
  by (intro same_ctx_rules same_ctx_request_id same_ctx_identity same_ctx_with_context)

section \<open>The middleware properties\<close>

definition sample_counting :: "store \<Rightarrow> string \<Rightarrow> int \<Rightarrow> time \<Rightarrow> bool" where
  "sample_counting s k v e \<longleftrightarrow> (\<exists>t. map_of s k = Some (t, Some e) \<and> int (length t) = v)"

lemma map_of_map_triple:
  "map_of (map (\<lambda>(k', v', e). (k', f k' v' e, g k' v' e)) s) k =
     map_option (\<lambda>(v, e). (f k v e, g k v e)) (map_of s k)"
  by (induction s) auto

lemma sample_counter_ok: "counter_ok sample_env sample_counting"
  by (auto simp: counter_ok_def sample_env_def sample_counting_def store_incr_def store_get_def
      store_expire_def map_of_map_triple map_of_store_delete split: option.splits)

text \<open>
  C29. The rate limiter. Of \<open>k\<close> requests of one client on one route, the first of which finds no
  counter, and all of which fall into the window of \<open>s\<close> seconds that the first one opens, exactly
  the first \<open>n\<close> pass; every later one is refused with the rate limit error.
\<close>

theorem rate_limit_window:
  assumes "counter_ok x counting" and "rate_limit_enabled (w_settings w)" and "w_redis w = Some c"
    and "redis_get x (clock x (w_draw w)) (rate_key path (w_ctx w)) c = None" and "1 \<le> n"
    and "clock_ok x" and "clock x (w_draw w + 2 * k) < clock x (Suc (w_draw w)) + seconds s"
  shows "fst (rate_run k x n s path w) =
    replicate (min k (nat n)) True @ replicate (k - nat n) False"
proof -
  have "map (\<lambda>i. int i \<le> n) [1..<Suc k] = replicate (min k (nat n)) True @ replicate (k - nat n) False"
    using \<open>1 \<le> n\<close> by (intro nth_equalityI) (auto simp: nth_append simp del: upt_Suc)
  then show ?thesis by (simp only: rate_run_fresh [OF assms])
qed

theorem rate_limit_window_witness:
  "fst (rate_run 4 sample_env 3 60 ''/auth/login'' (sample_world empty_database (Some []) (Some 1))) =
     [True, True, True, False]"
  by (subst rate_limit_window [OF sample_counter_ok _ _ _ _ sample_clock_ok, where c = "[]"])
    (simp_all add: sample_env_def store_get_def seconds_def default_settings_def numeral_eq_Suc)

text \<open>
  C36. Who a request acts as. A bearer token that the program made settles it: until the token
  expires the request has its tenant and its user, whatever tenant the header names; once it has
  expired the request has no user, and the tenant of the header. A request without a token has no
  user.
\<close>

theorem bearer_identity:
  assumes "jwt_ok x" and "payload_ok x" and "clock_ok x"
    and "create_access_token x user tid w = (Inr token, w1)"
    and "w_settings w2 = w_settings w" and "w_draw w1 \<le> w_draw w2"
  shows "(clock x (w_draw w2) <
        seconds (timestamp (clock x (Suc (w_draw w))) + access_token_ttl_seconds (w_settings w)) \<longrightarrow>
      fst (resolve_identity x ((''authorization'', ''Bearer '' @ token) # hs) w2) =
        Inr (Some tid, Some user)) \<and>
    (seconds (timestamp (clock x (Suc (w_draw w))) + access_token_ttl_seconds (w_settings w))
        \<le> clock x (w_draw w2) \<longrightarrow>
      resolve_identity x ((''authorization'', ''Bearer '' @ token) # hs) w2 =
        header_identity x ((''authorization'', ''Bearer '' @ token) # hs)
          (w2\<lparr>w_draw := Suc (w_draw w2)\<rparr>)) \<and>
    (map_of hs ''authorization'' = None \<longrightarrow>
      (\<forall>ids. fst (resolve_identity x hs w2) = Inr ids \<longrightarrow> snd ids = None))"
proof -
  let ?p = "token_identity user tid ''access'' (uuid4 x (w_draw w)) (clock x (Suc (w_draw w)))
    (access_token_ttl_seconds (w_settings w))"
  have token: "token = token_text x (w_settings w2) ?p" and "w_draw w1 = Suc (Suc (w_draw w))"
    using assms(4,5) by (auto simp: create_access_token_run)
  then have "clock x (Suc (w_draw w)) \<le> clock x (w_draw w2)"
    using assms(6) by (intro clock_okD [OF assms(3)]) simp
  then have "seconds (tp_iat ?p) \<le> clock x (w_draw w2)"
    using timestamp_le [of "clock x (Suc (w_draw w))"] by (simp add: token_identity_def)
  from decode_encoded [OF assms(1,2) this, of "Some ''access''"]
  have decode: "decode_token x token (Some ''access'') w2 =
    (decoded ?p (clock x (w_draw w2)) (Some ''access''), w2\<lparr>w_draw := Suc (w_draw w2)\<rparr>)"
    by (simp only: token)
  have "lower ''Bearer '' = ''bearer ''" by code_simp
  then have "lower (''Bearer '' @ token) = ''bearer '' @ lower token"
    by (simp only: lower_def map_append)
  then have bearer: "prefix ''bearer '' (lower (''Bearer '' @ token))" "drop 7 (''Bearer '' @ token) = token"
    by (simp_all only: same_prefix_nil prefixI) simp
  have "fst (resolve_identity x ((''authorization'', ''Bearer '' @ token) # hs) w2) =
        Inr (Some tid, Some user)"
    if "clock x (w_draw w2) <
        seconds (timestamp (clock x (Suc (w_draw w))) + access_token_ttl_seconds (w_settings w))"
    using that bearer
    by (simp add: resolve_identity_def except_token_error_run
        decoded_def token_identity_def timestamp_add andthen_def decode ret_def)
  moreover have "resolve_identity x ((''authorization'', ''Bearer '' @ token) # hs) w2 =
        header_identity x ((''authorization'', ''Bearer '' @ token) # hs)
          (w2\<lparr>w_draw := Suc (w_draw w2)\<rparr>)"
    if "seconds (timestamp (clock x (Suc (w_draw w))) + access_token_ttl_seconds (w_settings w))
        \<le> clock x (w_draw w2)"
    using that bearer
    by (simp add: resolve_identity_def except_token_error_run andthen_def decode decoded_def
        token_identity_def timestamp_add)
  moreover have "snd ids = None" if "map_of hs ''authorization'' = None"
    and "fst (resolve_identity x hs w2) = Inr ids" for ids
    using that
    by (auto simp: resolve_identity_def lower_def header_identity_def act_simps andthen_def ret_def
        split: option.splits if_splits prod.splits sum.splits)
  ultimately show ?thesis by blast
qed

theorem bearer_identity_witness:
  "\<exists>token w1. create_access_token sample_env 7 1 (sample_world empty_database None None) =
       (Inr token, w1) \<and>
     fst (resolve_identity sample_env [(''authorization'', ''Bearer '' @ token), (''x-tenant-id'', ''acme'')] w1) =
       Inr (Some 1, Some 7)"
proof -
  let ?w = "sample_world empty_database None None :: store world"
  obtain token w1 where run: "create_access_token sample_env 7 1 ?w = (Inr token, w1)"
    and w1: "w1 = ?w\<lparr>w_draw := 2\<rparr>"
    by (simp add: create_access_token_run)
  from bearer_identity [OF sample_jwt_ok sample_payload_ok sample_clock_ok run, of w1 "[(''x-tenant-id'', ''acme'')]"]
    run w1
  show ?thesis
    by (auto simp: sample_env_def seconds_def timestamp_def default_settings_def)
qed

text \<open>
  C35. The context belongs to one request: whatever the application does, and also when it raises,
  the context that was bound before the request is bound again after it.
\<close>

theorem context_restored:
  "w_ctx (snd (request_context_middleware x hs client app w)) = w_ctx w"
  using same_ctx_middleware [of x hs client app] by (simp add: keeps_def same_def)

end
