(* ===== verification/Identity.thy ===== *)
theory Identity
  imports Middleware
begin

text \<open>
  The identity models, repositories and guards of \<^verbatim>\<open>app/modules/auth\<close> (\<^verbatim>\<open>models.py\<close>,
  \<^verbatim>\<open>repository.py\<close>, \<^verbatim>\<open>permissions.py\<close>, \<^verbatim>\<open>dependencies.py\<close>): users, roles and permissions with the two
  association tables, the sessions that refresh tokens stand for, the user behind a bearer token,
  and the permission and role guards of the routes.
\<close>

section \<open>Models\<close>

text \<open>Columns as sort keys; identifiers compare as numbers.\<close>

definition cell_uuid :: "uuid \<Rightarrow> cell" where
  "cell_uuid u = CellInt (uint u)"

definition cell_time :: "time \<Rightarrow> cell" where
  "cell_time t = CellInt t"

definition entity_column :: "string \<Rightarrow> 'a entity_scheme attribute" where
  "entity_column name =
     (if name = ''id'' then Column (\<lambda>r. cell_uuid (row_id r))
      else if name = ''created_at'' then Column (\<lambda>r. cell_time (created_at r))
      else NoColumn)"

definition tenant_column :: "string \<Rightarrow> 'a tenant_entity_scheme attribute" where
  "tenant_column name =
     (if name = ''tenant_id'' then Column (\<lambda>r. cell_uuid (tenant_id r)) else entity_column name)"

definition soft_column :: "string \<Rightarrow> 'a soft_entity_scheme attribute" where
  "soft_column name =
     (if name = ''deleted_at'' then Column (\<lambda>r. cell_option cell_time (deleted_at r))
      else tenant_column name)"

definition Permission :: "permission model" where
  "Permission =
     \<lparr>m_name = ''Permission'', m_rows = t_permissions, m_put = (\<lambda>rs d. d\<lparr>t_permissions := rs\<rparr>),
      m_id = row_id, m_owner = None, m_deleted = None, m_mark_deleted = (\<lambda>_ r. r),
      m_clash = (\<lambda>r s. perm_code r = perm_code s),
      m_fits = (\<lambda>r. length (perm_code r) \<le> 100 \<and> width 255 (perm_description r)),
      m_refs = (\<lambda>_ _. True), m_stored = id, m_column = entity_column, m_search = (\<lambda>_ _. True)\<rparr>"

definition Role :: "role model" where
  "Role =
     \<lparr>m_name = ''Role'', m_rows = t_roles, m_put = (\<lambda>rs d. d\<lparr>t_roles := rs\<rparr>), m_id = row_id,
      m_owner = Some tenant_id, m_deleted = None, m_mark_deleted = (\<lambda>_ r. r),
      m_clash = (\<lambda>r s. tenant_id r = tenant_id s \<and> role_code r = role_code s),
      m_fits = (\<lambda>r. length (role_code r) \<le> 50 \<and> length (role_name r) \<le> 100 \<and>
                    width 255 (role_description r)),
      m_refs = (\<lambda>d r. tenant_exists d (tenant_id r)), m_stored = id,
      m_column = tenant_column, m_search = (\<lambda>_ _. True)\<rparr>"

definition user_column :: "string \<Rightarrow> user attribute" where
  "user_column name =
     (if name = ''email'' then Column (\<lambda>r. CellText (email r))
      else if name = ''hashed_password'' then Column (\<lambda>r. CellText (hashed_password r))
      else if name = ''full_name'' then Column (\<lambda>r. CellText (full_name r))
      else if name = ''is_active'' then Column (\<lambda>r. cell_bool (is_active r))
      else if name = ''is_verified'' then Column (\<lambda>r. cell_bool (is_verified r))
      else if name = ''is_superuser'' then Column (\<lambda>r. cell_bool (is_superuser r))
      else if name = ''last_login_at'' then Column (\<lambda>r. cell_option cell_time (last_login_at r))
      else soft_column name)"

definition user_search :: "string \<Rightarrow> user \<Rightarrow> bool" where
  "user_search term r \<longleftrightarrow>
     ilike (email r) (contains_pattern term) \<or> ilike (full_name r) (contains_pattern term)"

definition User :: "user model" where
  "User =
     \<lparr>m_name = ''User'', m_rows = t_users, m_put = (\<lambda>rs d. d\<lparr>t_users := rs\<rparr>), m_id = row_id,
      m_owner = Some tenant_id, m_deleted = Some deleted_at,
      m_mark_deleted = (\<lambda>now r. r\<lparr>deleted_at := Some now\<rparr>),
      m_clash = (\<lambda>r s. tenant_id r = tenant_id s \<and> email r = email s),
      m_fits = (\<lambda>r. length (email r) \<le> 255 \<and> length (hashed_password r) \<le> 255 \<and>
                    length (full_name r) \<le> 200),
      m_refs = (\<lambda>d r. tenant_exists d (tenant_id r)), m_stored = id,
      m_column = user_column, m_search = user_search\<rparr>"

definition user_exists :: "database \<Rightarrow> uuid \<Rightarrow> bool" where
  "user_exists d u \<longleftrightarrow> list_ex (\<lambda>r. row_id r = u) (t_users d)"

definition UserSession :: "user_session model" where
  "UserSession =
     \<lparr>m_name = ''UserSession'', m_rows = t_user_sessions,
      m_put = (\<lambda>rs d. d\<lparr>t_user_sessions := rs\<rparr>), m_id = row_id,
      m_owner = Some tenant_id, m_deleted = None, m_mark_deleted = (\<lambda>_ r. r),
      m_clash = (\<lambda>r s. us_jti r = us_jti s),
      m_fits = (\<lambda>r. width 400 (us_user_agent r) \<and> width 64 (us_ip_address r)),
      m_refs = (\<lambda>d r. tenant_exists d (tenant_id r) \<and> user_exists d (us_user_id r)),
      m_stored = id, m_column = tenant_column, m_search = (\<lambda>_ _. True)\<rparr>"

interpretation permission_rows: table Permission
  by unfold_locales (auto simp: Permission_def)

interpretation role_rows: tenant_table Role tenant_id
  by unfold_locales (simp_all add: Role_def foreign_def foreign_links_def others_def)

interpretation user_rows: tenant_table User tenant_id
  by unfold_locales (simp_all add: User_def foreign_def foreign_links_def others_def)

interpretation session_rows: tenant_table UserSession tenant_id
  by unfold_locales (simp_all add: UserSession_def foreign_def foreign_links_def others_def)

section \<open>Roles and permissions of a user\<close>

datatype role_name = SUPER_ADMIN | TENANT_ADMIN | INSTRUCTOR | STUDENT

fun role_value :: "role_name \<Rightarrow> string" where
  "role_value SUPER_ADMIN = ''super_admin''"
| "role_value TENANT_ADMIN = ''tenant_admin''"
| "role_value INSTRUCTOR = ''instructor''"
| "role_value STUDENT = ''student''"

text \<open>The relationships \<^verbatim>\<open>User.roles\<close> and \<^verbatim>\<open>Role.permissions\<close>; the first goes through the row policy.\<close>

definition roles_of :: "'c world \<Rightarrow> user \<Rightarrow> role list" where
  "roles_of w u = filter (\<lambda>r. row_visible Role w r \<and> (row_id u, row_id r) \<in> set (t_user_roles (view w)))
     (t_roles (view w))"

definition permissions_of :: "'c world \<Rightarrow> role \<Rightarrow> permission list" where
  "permissions_of w r =
     filter (\<lambda>p. (row_id r, row_id p) \<in> set (t_role_permissions (view w))) (t_permissions (view w))"

definition permission_codes :: "'c world \<Rightarrow> user \<Rightarrow> string set" where
  "permission_codes w u =
     set (concat (map (\<lambda>r. map perm_code (permissions_of w r)) (roles_of w u)))"

definition role_codes :: "'c world \<Rightarrow> user \<Rightarrow> string set" where
  "role_codes w u = set (map role_code (roles_of w u))"

text \<open>A new row of the association table, which cascades from both sides.\<close>

definition add_user_role :: "uuid \<Rightarrow> uuid \<Rightarrow> ('c, unit) io" where
  "add_user_role u r =
     andthen (asks view) (\<lambda>d.
     andthen (ensure ((u, r) \<notin> set (t_user_roles d) \<and> user_exists d u \<and>
                      list_ex (\<lambda>q. row_id q = r) (t_roles d))
        (Unhandled (IntegrityError ''user_roles''))) (\<lambda>_.
     change (\<lambda>w. w\<lparr>w_delta := (\<lambda>d. d\<lparr>t_user_roles := t_user_roles d @ [(u, r)]\<rparr>) \<circ> w_delta w\<rparr>)))"

section \<open>Repositories\<close>

definition get_by_email :: "string \<Rightarrow> ('c, user option) io" where
  "get_by_email e = repo_find User (\<lambda>u. email u = lower e)"

definition get_by_code :: "string \<Rightarrow> ('c, role option) io" where
  "get_by_code c = repo_find Role (\<lambda>r. role_code r = c)"

definition get_by_codes :: "string list \<Rightarrow> ('c, role list) io" where
  "get_by_codes cs =
     andthen (repo_select Role) (\<lambda>s. run_select Role (and_where (\<lambda>r. role_code r \<in> set cs) s))"

text \<open>The two session queries do not restrict the tenant themselves.\<close>

definition get_by_jti :: "uuid \<Rightarrow> ('c, user_session option) io" where
  "get_by_jti j =
     andthen (run_select UserSession (and_where (\<lambda>s. us_jti s = j) (base_select UserSession)))
       (\<lambda>rows. lift_result (scalar_one_or_none rows))"

definition revoke_all_for_user :: "uuid \<Rightarrow> ('c, unit) io" where
  "revoke_all_for_user u = change (\<lambda>w. w\<lparr>w_delta :=
     update_rows UserSession
       (\<lambda>s. row_visible UserSession w s \<and> us_user_id s = u \<and> us_revoked_at s = None)
       (\<lambda>s. s\<lparr>us_revoked_at := Some (w_now w)\<rparr>) \<circ> w_delta w\<rparr>)"

section \<open>Who is calling, and may they\<close>

definition enrich_context :: "user \<Rightarrow> token_payload \<Rightarrow> ('c, unit) io" where
  "enrich_context u p = change (\<lambda>w. case w_ctx w of
     None \<Rightarrow> w
   | Some rc \<Rightarrow> w\<lparr>w_ctx := Some (rc
       \<lparr>rc_tenant_id := (case rc_tenant_id rc of None \<Rightarrow> Some (tp_tid p) | Some t \<Rightarrow> Some t),
        rc_roles := role_codes w u, rc_permissions := permission_codes w u,
        rc_user_id := Some (row_id u), rc_is_superadmin := is_superuser u\<rparr>)\<rparr>)"

text \<open>\<open>creds\<close> are the credentials of a bearer header, \<^term>\<open>None\<close> when there is none.\<close>

definition get_current_user :: "'c env \<Rightarrow> string option \<Rightarrow> ('c, user) io" where
  "get_current_user x creds = (case creds of
     None \<Rightarrow> raise (app_exn AuthenticationError ''Missing bearer token'')
   | Some token \<Rightarrow>
       andthen (except_token_error (decode_token x token (Some ''access''))
                  (\<lambda>msg. raise (app_exn AuthenticationError msg))) (\<lambda>p.
       andthen (repo_get User (tp_sub p)) (\<lambda>found. case found of
         None \<Rightarrow> raise (app_exn AuthenticationError ''User not found or inactive'')
       | Some u \<Rightarrow>
           if \<not> is_active u then raise (app_exn AuthenticationError ''User not found or inactive'')
           else andthen (enrich_context u p) (\<lambda>_. ret u))))"

definition permission_denied :: "string \<Rightarrow> details \<Rightarrow> exn" where
  "permission_denied msg dets = App (new_error PermissionDeniedError (Some msg) (Some dets) None)"

definition require_permission :: "string list \<Rightarrow> user \<Rightarrow> ('c, user) io" where
  "require_permission codes u =
     (if is_superuser u then ret u
      else andthen (asks (\<lambda>w. permission_codes w u)) (\<lambda>has.
        let missing = set codes - has
        in if missing \<noteq> {} then
             raise (permission_denied
               (''Missing permission(s): '' @ join '', '' (sorted_list_of_set missing))
               (Required codes))
           else ret u))"

definition require_role :: "string list \<Rightarrow> user \<Rightarrow> ('c, user) io" where
  "require_role codes u =
     (if is_superuser u then ret u
      else andthen (asks (\<lambda>w. role_codes w u)) (\<lambda>has.
        if set codes \<inter> has = {} then
          raise (permission_denied (''Requires role(s): '' @ join '', '' codes) (RequiredRoles codes))
        else ret u))"

lemma reads_get_by_email: "reads (get_by_email e)"
  by (simp add: get_by_email_def reads_rules)

lemma reads_get_by_code: "reads (get_by_code c)"
  by (simp add: get_by_code_def reads_rules)

lemma reads_get_by_codes: "reads (get_by_codes cs)"
  by (simp add: get_by_codes_def reads_def act_simps)

lemma reads_get_by_jti: "reads (get_by_jti j)"
  by (simp add: get_by_jti_def reads_def act_simps)

lemma reads_require_permission: "reads (require_permission codes u)"
  by (simp add: require_permission_def reads_def act_simps Let_def)

lemma reads_require_role: "reads (require_role codes u)"
  by (simp add: require_role_def reads_def act_simps)

lemmas identity_reads = reads_get_by_email reads_get_by_code reads_get_by_codes reads_get_by_jti
  reads_require_permission reads_require_role

lemmas confined_identity_reads [keeps_intros] = identity_reads [THEN confined_reads]

text \<open>
  A role link belongs to the tenant of its user. \<open>seen_user w u\<close>: the session has user \<open>u\<close> before it, as
  it does after inserting or fetching it; then it may change the links of \<open>u\<close>.
\<close>

definition seen_user :: "'c world \<Rightarrow> uuid \<Rightarrow> bool" where
  "seen_user w u \<longleftrightarrow> (\<exists>r\<in>set (t_users (view w)). row_visible User w r \<and> row_id r = u)"

lemma seen_inserted: "sql_insert User r w = (Inr v, w') \<Longrightarrow> seen_user w' (row_id r)"
  by (auto simp: sql_insert_Inr insert_error_def seen_user_def view_def row_visible_def tenant_isolation_def User_def
      split: if_splits)

lemma seen_fetched: "repo_get_or_404 User i w = (Inr u, w') \<Longrightarrow> seen_user w' (row_id u)"
  using fetched_live [of User i w u]
  by (auto simp: repo_get_or_404_eq seen_user_def is_live_def) (auto simp: User_def)

lemma tame_links:
  assumes "tame t w" and "seen_user w u" and g: "\<And>l. filter (\<lambda>l. fst l \<noteq> u) (g l) = filter (\<lambda>l. fst l \<noteq> u) l"
    and others: "others t (t_users d) = others t (t_users (view w))"
  shows "foreign t (d\<lparr>t_user_roles := g (t_user_roles d)\<rparr>) = foreign t d"
proof -
  obtain r where r: "r \<in> set (t_users (view w))" "row_visible User w r" "row_id r = u"
    using assms(2) by (auto simp: seen_user_def)
  let ?ids = "row_id ` set (others t (t_users d))"
  have "tenant_id r = t" by (rule user_rows.tame_visible [OF assms(1) r(2)])
  moreover have "q = r" if "q \<in> set (t_users (view w))" "row_id q = u" for q
    using assms(1) r that by (auto simp: tame_def distinct_map dest: inj_onD)
  ultimately have "u \<notin> ?ids" unfolding others by (auto simp: others_def)
  then have "filter (\<lambda>l. fst l \<in> ?ids) l = filter (\<lambda>l. fst l \<in> ?ids) (filter (\<lambda>l. fst l \<noteq> u) l)"
    for l :: "(uuid \<times> uuid) list"
    by (induction l) auto
  with g have "filter (\<lambda>l. fst l \<in> ?ids) (g l) = filter (\<lambda>l. fst l \<in> ?ids) l" for l by metis
  then show ?thesis by (simp add: foreign_def foreign_links_def)
qed

lemma confined_links:
  assumes "seen_user w u" and "\<And>l. filter (\<lambda>l. fst l \<noteq> u) (g l) = filter (\<lambda>l. fst l \<noteq> u) l"
  shows "confined t w (w\<lparr>w_delta := (\<lambda>d. d\<lparr>t_user_roles := g (t_user_roles d)\<rparr>) \<circ> w_delta w\<rparr>)"
  by (rule confined_step) (simp_all add: tame_links [OF _ assms])

lemma confined_revoke_all [keeps_intros]: "keeps (confined t) (revoke_all_for_user u)"
proof (rule keepsI)
  fix w :: "'a world"
  have "confined t w (w\<lparr>w_delta := update_rows UserSession
      (\<lambda>s. row_visible UserSession w s \<and> us_user_id s = u \<and> us_revoked_at s = None)
      (\<lambda>s. s\<lparr>us_revoked_at := Some (w_now w)\<rparr>) \<circ> w_delta w\<rparr>)"
    unfolding update_rows_def
    by (intro session_rows.confined_put filter_map_unchanged)
      (auto simp: UserSession_def comp_def if_distrib [of row_id] cong: if_cong
        dest: session_rows.tame_visible [unfolded UserSession_def])
  then show "confined t w (snd (revoke_all_for_user u w))"
    by (simp add: revoke_all_for_user_def change_def)
qed

end
