(* ===== verification/Auth.thy ===== *)
theory Auth
  imports Identity
begin

text \<open>
  The use cases of \<^verbatim>\<open>app/modules/auth/service.py\<close>: registration, login, rotation of refresh tokens,
  logout, and the reset of a password with the in-process store of reset tokens. The store is the
  interpretation of \<open>expiring_store\<close> the contract was written for. The properties follow a user
  through these operations: what is registered can log in, a refresh token works once, a logout and
  a reset end the sessions they should.
\<close>

section \<open>The store of reset tokens\<close>

definition store_reset :: "time \<Rightarrow> string \<Rightarrow> string \<Rightarrow> int \<Rightarrow>
    (string \<times> (string \<times> time)) list \<Rightarrow> (string \<times> (string \<times> time)) list" where
  "store_reset now token value ttl s =
     (token, (value, now + seconds ttl)) # filter (\<lambda>e. fst e \<noteq> token) s"

definition get_reset :: "time \<Rightarrow> string \<Rightarrow> (string \<times> (string \<times> time)) list \<Rightarrow>
    string option \<times> (string \<times> (string \<times> time)) list" where
  "get_reset now token s = (case map_of s token of
     None \<Rightarrow> (None, s)
   | Some (value, expires) \<Rightarrow>
       if now > expires then (None, filter (\<lambda>e. fst e \<noteq> token) s) else (Some value, s))"

definition delete_reset :: "time \<Rightarrow> string \<Rightarrow>
    (string \<times> (string \<times> time)) list \<Rightarrow> (string \<times> (string \<times> time)) list" where
  "delete_reset now token s = filter (\<lambda>e. fst e \<noteq> token) s"

lemma map_of_filter_fst:
  "map_of (filter (\<lambda>e. fst e \<noteq> k') s) k = (if k = k' then None else map_of s k)"
  by (induction s) auto

interpretation reset_tokens: expiring_store store_reset "\<lambda>t k s. fst (get_reset t k s)" delete_reset
  by unfold_locales
    (auto simp: store_reset_def get_reset_def delete_reset_def map_of_filter_fst seconds_def
      split: option.splits)

text \<open>Looking a token up may drop it, if it has expired; it drops no other.\<close>

lemma get_reset_store:
  "fst (get_reset t' k (snd (get_reset t k' s))) =
     (if k = k' \<and> fst (get_reset t k s) = None then None else fst (get_reset t' k s))"
  by (auto simp: get_reset_def map_of_filter_fst split: option.splits if_splits)

definition reset_store_put :: "'c env \<Rightarrow> string \<Rightarrow> string \<Rightarrow> int \<Rightarrow> ('c, unit) io" where
  "reset_store_put x token value ttl =
     andthen (draw (clock x)) (\<lambda>now.
     change (\<lambda>w. w\<lparr>w_reset_store := store_reset now token value ttl (w_reset_store w)\<rparr>))"

definition reset_store_get :: "'c env \<Rightarrow> string \<Rightarrow> ('c, string option) io" where
  "reset_store_get x token =
     andthen (draw (clock x)) (\<lambda>now. \<lambda>w.
       let (v, s) = get_reset now token (w_reset_store w) in (Inr v, w\<lparr>w_reset_store := s\<rparr>))"

definition reset_store_delete :: "string \<Rightarrow> ('c, unit) io" where
  "reset_store_delete token =
     change (\<lambda>w. w\<lparr>w_reset_store := delete_reset 0 token (w_reset_store w)\<rparr>)"

definition reset_key :: "string \<Rightarrow> string" where
  "reset_key token = ''pwreset:'' @ token"

section \<open>Registration\<close>

record register_request =
  reg_email :: string
  reg_password :: string
  reg_full_name :: string

definition register :: "'c env \<Rightarrow> register_request \<Rightarrow> ('c, user) io" where
  "register x data =
     andthen require_tenant (\<lambda>tid.
     let e = lower (reg_email data)
     in andthen (get_by_email e) (\<lambda>taken.
        andthen (ensure (taken = None) (app_exn ConflictError ''Email already registered'')) (\<lambda>_.
        andthen (get_by_code (role_value STUDENT)) (\<lambda>student.
        andthen (hash_password x (reg_password data)) (\<lambda>h.
        andthen (draw (uuid4 x)) (\<lambda>i.
        andthen (asks w_now) (\<lambda>now.
        andthen (repo_add User
          \<lparr>row_id = i, created_at = now, tenant_id = tid, deleted_at = None, email = e,
           hashed_password = h, full_name = reg_full_name data, is_active = True,
           is_verified = False, is_superuser = False, last_login_at = None\<rparr>) (\<lambda>u.
        andthen (case student of None \<Rightarrow> ret () | Some r \<Rightarrow> add_user_role i (row_id r)) (\<lambda>_.
        andthen (publish_event x (Some tid) (Some i) (UserRegisteredEvent (email u))) (\<lambda>_.
        ret u))))))))))"

section \<open>Login and tokens\<close>

record login_request =
  log_email :: string
  log_password :: string

record token_response =
  access_token :: string
  refresh_token :: string
  token_type :: string
  expires_in :: int

definition authenticate :: "'c env \<Rightarrow> string \<Rightarrow> string \<Rightarrow> ('c, user) io" where
  "authenticate x e password =
     andthen (get_by_email (lower e)) (\<lambda>found. case found of
       None \<Rightarrow> raise (app_exn AuthenticationError ''Invalid credentials'')
     | Some u \<Rightarrow>
         if \<not> verify_password x password (hashed_password u) then
           raise (app_exn AuthenticationError ''Invalid credentials'')
         else if \<not> is_active u then raise (app_exn AuthenticationError ''Account disabled'')
         else ret u)"

text \<open>The session row is sent with the next flush; nothing is read in between.\<close>

definition issue_tokens :: "'c env \<Rightarrow> user \<Rightarrow> uuid \<Rightarrow> string option \<Rightarrow> string option \<Rightarrow>
    ('c, token_response) io" where
  "issue_tokens x u tid user_agent ip =
     andthen (create_refresh_token x (row_id u) tid None) (\<lambda>(refresh, jti).
     andthen (draw (clock x)) (\<lambda>now.
     andthen (asks w_settings) (\<lambda>s.
     andthen (draw (uuid4 x)) (\<lambda>i.
     andthen (asks w_now) (\<lambda>created.
     andthen (sql_insert UserSession
       \<lparr>row_id = i, created_at = created, tenant_id = tid, us_user_id = row_id u, us_jti = jti,
        us_user_agent = user_agent, us_ip_address = ip,
        us_expires_at = now + seconds (refresh_token_ttl_seconds s), us_revoked_at = None\<rparr>) (\<lambda>_.
     andthen (create_access_token x (row_id u) tid) (\<lambda>access.
     ret \<lparr>access_token = access, refresh_token = refresh, token_type = ''bearer'',
          expires_in = access_token_ttl_seconds s\<rparr>)))))))"

definition login :: "'c env \<Rightarrow> login_request \<Rightarrow> string option \<Rightarrow> string option \<Rightarrow>
    ('c, token_response) io" where
  "login x data user_agent ip =
     andthen require_tenant (\<lambda>tid.
     andthen (authenticate x (log_email data) (log_password data)) (\<lambda>u.
     andthen (issue_tokens x u tid user_agent ip) (\<lambda>tokens.
     andthen (draw (clock x)) (\<lambda>now.
     andthen (sql_update User (row_id u) (\<lambda>r. r\<lparr>last_login_at := Some now\<rparr>)) (\<lambda>_.
     andthen (publish_event x (Some tid) (Some (row_id u)) (UserLoggedInEvent (email u))) (\<lambda>_.
     ret tokens))))))"

definition revoke_session :: "'c env \<Rightarrow> user_session \<Rightarrow> ('c, unit) io" where
  "revoke_session x s =
     andthen (draw (clock x)) (\<lambda>now.
     sql_update UserSession (row_id s) (\<lambda>r. r\<lparr>us_revoked_at := Some now\<rparr>))"

definition refresh_session :: "'c env \<Rightarrow> token_payload \<Rightarrow> ('c, token_response) io" where
  "refresh_session x p =
     andthen (get_by_jti (tp_jti p)) (\<lambda>found. case found of
       None \<Rightarrow> raise (app_exn AuthenticationError ''Session revoked or expired'')
     | Some s \<Rightarrow>
         if \<not> session_is_active s then
           raise (app_exn AuthenticationError ''Session revoked or expired'')
         else andthen (draw (clock x)) (\<lambda>now.
           if us_expires_at s < now then
             raise (app_exn AuthenticationError ''Refresh token expired'')
           else andthen (repo_get_or_404 User (tp_sub p)) (\<lambda>u.
                andthen (revoke_session x s) (\<lambda>_.
                issue_tokens x u (tp_tid p) (us_user_agent s) (us_ip_address s)))))"

definition refresh_tokens :: "'c env \<Rightarrow> string \<Rightarrow> ('c, token_response) io" where
  "refresh_tokens x token =
     andthen (except_token_error (decode_token x token (Some ''refresh''))
                (\<lambda>msg. raise (app_exn AuthenticationError msg)))
       (refresh_session x)"

definition logout :: "'c env \<Rightarrow> string option \<Rightarrow> ('c, unit) io" where
  "logout x token = (case token of
     None \<Rightarrow> ret ()
   | Some tok \<Rightarrow>
       if tok = [] then ret ()
       else andthen (except_token_error
                (andthen (decode_token x tok (Some ''refresh'')) (\<lambda>p. ret (Some p)))
                (\<lambda>_. ret None)) (\<lambda>decoded. case decoded of
            None \<Rightarrow> ret ()
          | Some p \<Rightarrow>
              andthen (get_by_jti (tp_jti p)) (\<lambda>found. case found of
                None \<Rightarrow> ret ()
              | Some s \<Rightarrow> if session_is_active s then revoke_session x s else ret ())))"

section \<open>Password reset\<close>

definition forgot_password :: "'c env \<Rightarrow> string \<Rightarrow> ('c, string option) io" where
  "forgot_password x e =
     andthen require_tenant (\<lambda>tid.
     andthen (get_by_email (lower e)) (\<lambda>found. case found of
       None \<Rightarrow> ret None
     | Some u \<Rightarrow>
         andthen (draw (token_urlsafe x)) (\<lambda>token.
         let value = uuid_str tid @ '':'' @ uuid_str (row_id u)
         in andthen (asks (\<lambda>w. password_reset_ttl_seconds (w_settings w))) (\<lambda>ttl.
            andthen has_redis (\<lambda>redis.
            andthen (if redis then cache_set x (reset_key token) value ttl
                     else reset_store_put x token value ttl) (\<lambda>_.
            ret (Some token)))))))"

definition parse_uuid_or_raise :: "string \<Rightarrow> ('c, uuid) io" where
  "parse_uuid_or_raise s = (case UUID s of None \<Rightarrow> raise (Unhandled ValueError) | Some u \<Rightarrow> ret u)"

definition lookup_reset :: "'c env \<Rightarrow> string \<Rightarrow> ('c, string option) io" where
  "lookup_reset x token =
     andthen has_redis (\<lambda>redis.
       if redis then cache_get x (reset_key token) else reset_store_get x token)"

definition forget_reset :: "'c env \<Rightarrow> string \<Rightarrow> ('c, unit) io" where
  "forget_reset x token =
     andthen has_redis (\<lambda>redis.
       if redis then cache_delete x (reset_key token) else reset_store_delete token)"

definition reset_password :: "'c env \<Rightarrow> string \<Rightarrow> string \<Rightarrow> ('c, unit) io" where
  "reset_password x token new_password =
     andthen (lookup_reset x token) (\<lambda>raw.
     case raw of
       None \<Rightarrow> raise (app_exn ValidationError ''Invalid or expired reset token'')
     | Some v \<Rightarrow>
         if v = [] then raise (app_exn ValidationError ''Invalid or expired reset token'')
         else
           (let (tenant_part, _, user_part) = partition_char (CHR '':'') v
            in andthen (parse_uuid_or_raise tenant_part) (\<lambda>t.
               andthen require_tenant (\<lambda>tid.
               andthen (ensure (t = tid) (app_exn ValidationError ''Invalid reset token for tenant'')) (\<lambda>_.
               andthen (parse_uuid_or_raise user_part) (\<lambda>uid.
               andthen (repo_get User uid) (\<lambda>found. case found of
                 None \<Rightarrow> raise (app_exn NotFoundError ''User not found'')
               | Some u \<Rightarrow>
                   andthen (hash_password x new_password) (\<lambda>h.
                   andthen (sql_update User (row_id u) (\<lambda>r. r\<lparr>hashed_password := h\<rparr>)) (\<lambda>_.
                   andthen (revoke_all_for_user (row_id u)) (\<lambda>_.
                   forget_reset x token))))))))))"

section \<open>Accounts and sessions of a tenant\<close>

text \<open>The live account of an email, and the sessions of a token id.\<close>

definition account :: "uuid \<Rightarrow> string \<Rightarrow> database \<Rightarrow> user option" where
  "account t e d =
     first_row (filter (\<lambda>u. tenant_id u = t \<and> deleted_at u = None \<and> email u = e) (t_users d))"

definition jti_session :: "uuid \<Rightarrow> uuid \<Rightarrow> database \<Rightarrow> user_session option" where
  "jti_session t j d = first_row (filter (\<lambda>s. tenant_id s = t \<and> us_jti s = j) (t_user_sessions d))"

definition revoked :: "uuid \<Rightarrow> uuid \<Rightarrow> database \<Rightarrow> bool" where
  "revoked t j d \<longleftrightarrow> list_all (\<lambda>s. tenant_id s = t \<longrightarrow> us_jti s = j \<longrightarrow> us_revoked_at s \<noteq> None)
     (t_user_sessions d)"

lemma live_users: "serving t w \<Longrightarrow> live_rows User w =
    filter (\<lambda>u. tenant_id u = t \<and> deleted_at u = None) (t_users (view w))"
  by (simp add: user_rows.serving_live) (simp add: User_def)

lemma run_get_by_email:
  assumes "serving t w" and "consistent User (view w)"
  shows "get_by_email e w = (Inr (account t (lower e) (view w)), w)"
proof -
  have "scalar_one_or_none (filter (\<lambda>u. tenant_id u = t \<and> deleted_at u = None \<and> email u = lower e)
      (m_rows User (view w))) =
    Inr (first_row (filter (\<lambda>u. tenant_id u = t \<and> deleted_at u = None \<and> email u = lower e)
      (m_rows User (view w))))"
    by (rule consistent_unique [OF assms(2)]) (auto simp: User_def)
  then show ?thesis
    by (simp add: get_by_email_def repo_find_eq live_users [OF assms(1)] account_def conj_assoc)
      (simp add: User_def)
qed

lemma andthen_get_by_email:
  "serving t w \<Longrightarrow> consistent User (view w) \<Longrightarrow>
     andthen (get_by_email e) f w = f (account t (lower e) (view w)) w"
  by (simp add: andthen_Inr [OF run_get_by_email])

lemma run_get_by_jti:
  assumes "serving t w" and "consistent UserSession (view w)"
  shows "get_by_jti j w = (Inr (jti_session t j (view w)), w)"
proof -
  let ?p = "\<lambda>s. tenant_id s = t \<and> us_jti s = j"
  have "scalar_one_or_none (filter ?p (m_rows UserSession (view w))) =
    Inr (first_row (filter ?p (m_rows UserSession (view w))))"
    by (rule consistent_unique [OF assms(2)]) (auto simp: UserSession_def)
  moreover have "matching UserSession (and_where (\<lambda>s. us_jti s = j) (base_select UserSession)) w =
      filter ?p (m_rows UserSession (view w))"
    unfolding matching_def
    by (rule filter_cong)
      (auto simp: session_rows.serving_visible [OF assms(1)], auto simp: base_select_def UserSession_def)
  ultimately show ?thesis
    by (simp add: get_by_jti_def act_simps window_plain ordered_plain base_select_def jti_session_def)
      (simp add: UserSession_def)
qed

lemma andthen_get_by_jti:
  "serving t w \<Longrightarrow> consistent UserSession (view w) \<Longrightarrow>
     andthen (get_by_jti j) f w = f (jti_session t j (view w)) w"
  by (simp add: andthen_Inr [OF run_get_by_jti])

lemma accountD:
  "account t e d = Some u \<Longrightarrow> u \<in> set (t_users d) \<and> tenant_id u = t \<and> deleted_at u = None \<and> email u = e"
  by (auto simp: account_def dest!: first_row_SomeD)

lemma account_unique:
  assumes "consistent User d" and "u \<in> set (t_users d)" and "tenant_id u = t" and "deleted_at u = None"
  shows "account t (email u) d = Some u"
proof -
  have "filter (\<lambda>v. tenant_id v = t \<and> deleted_at v = None \<and> email v = email u) (t_users d) \<noteq> []"
    using assms(2-4) by (auto simp: filter_empty_conv)
  then have "account t (email u) d \<noteq> None"
    by (simp add: account_def first_row_def split: list.split)
  then obtain v where v: "account t (email u) d = Some v" by blast
  have "sorted_wrt (\<lambda>r s. \<not> (tenant_id r = tenant_id s \<and> email r = email s)) (t_users d)"
    using assms(1) by (auto simp: consistent_def User_def elim!: sorted_wrt_mono_rel [rotated])
  then have "v = u"
    using accountD [OF v] assms(2,3)
    by (auto simp: sorted_wrt_iff_nth_less in_set_conv_nth) (metis linorder_neqE_nat)
  with v show ?thesis by simp
qed

lemma jti_sessionD:
  "jti_session t j d = Some s \<Longrightarrow> s \<in> set (t_user_sessions d) \<and> tenant_id s = t \<and> us_jti s = j"
  by (auto simp: jti_session_def dest!: first_row_SomeD)

lemma session_unique:
  assumes "consistent UserSession d" and "s \<in> set (t_user_sessions d)" and "s' \<in> set (t_user_sessions d)"
    and "us_jti s = us_jti s' \<or> row_id s = row_id s'"
  shows "s = s'"
proof -
  have "sorted_wrt (\<lambda>r s. row_id r \<noteq> row_id s \<and> us_jti r \<noteq> us_jti s) (t_user_sessions d)"
    using assms(1) by (simp add: consistent_def UserSession_def)
  then show ?thesis
    using assms(2-4) by (auto simp: sorted_wrt_iff_nth_less in_set_conv_nth) (metis linorder_neqE_nat)+
qed

section \<open>Runs of the operations\<close>

lemma authenticate_run:
  assumes "serving t w" and "consistent User (view w)"
  shows "authenticate x e pw w = ((case account t (lower e) (view w) of
      None \<Rightarrow> Inl (app_exn AuthenticationError ''Invalid credentials'')
    | Some u \<Rightarrow>
        if \<not> verify_password x pw (hashed_password u) then
          Inl (app_exn AuthenticationError ''Invalid credentials'')
        else if \<not> is_active u then Inl (app_exn AuthenticationError ''Account disabled'')
        else Inr u), w)"
  by (auto simp: authenticate_def andthen_get_by_email [OF assms] lower_idem act_simps
      split: option.splits)

text \<open>A refresh token whose session is revoked is refused, expired or not.\<close>

lemma refresh_refused:
  assumes "jwt_ok x" and "payload_ok x" and "seconds (tp_iat p) \<le> clock x (w_draw w)"
    and "serving t w" and "consistent UserSession (view w)" and "revoked t (tp_jti p) (view w)"
  shows "\<exists>m. fst (refresh_tokens x (token_text x (w_settings w) p) w) =
    Inl (app_exn AuthenticationError m)"
proof (cases "decoded p (clock x (w_draw w)) (Some ''refresh'')")
  case (Inl e)
  then obtain m where "e = Unhandled (TokenError m)"
    by (auto simp: decoded_def split: if_splits)
  with Inl show ?thesis
    by (simp add: refresh_tokens_def except_token_error_run decode_encoded [OF assms(1-3)] raise_def
        andthen_def) blast
next
  case (Inr q)
  then have q: "q = p" by (auto simp: decoded_def split: if_splits)
  have "us_revoked_at s \<noteq> None" if "jti_session t (tp_jti p) (view w) = Some s" for s
    using jti_sessionD [OF that] assms(6) by (auto simp: revoked_def list_all_iff)
  with Inr q show ?thesis
    by (auto simp: refresh_tokens_def refresh_session_def andthen_Inr [OF except_token_error_Inr]
        decode_encoded [OF assms(1-3)] andthen_get_by_jti [where t = t] assms(4,5) session_is_active_def act_simps
        split: option.splits)
qed

lemma revoke_session_ok:
  assumes "serving t w" and "consistent UserSession (view w)" and "s \<in> set (t_user_sessions (view w))"
    and "revoke_session x s w = (Inr (), w1)"
  shows "revoked t (us_jti s) (view w1)" and "consistent UserSession (view w1)" and "serving t w1"
    and "w_settings w1 = w_settings w" and "w_draw w1 = Suc (w_draw w)"
    and "t_users (view w1) = t_users (view w)"
    and "us_jti ` set (t_user_sessions (view w1)) = us_jti ` set (t_user_sessions (view w))"
    and "t_user_sessions (view w1) = map (\<lambda>r. if row_id r = row_id s \<and> tenant_id r = t
      then r\<lparr>us_revoked_at := Some (clock x (w_draw w))\<rparr> else r) (t_user_sessions (view w))"
proof -
  let ?f = "\<lambda>r. r\<lparr>us_revoked_at := Some (clock x (w_draw w))\<rparr>"
  let ?w = "w\<lparr>w_draw := Suc (w_draw w)\<rparr>"
  let ?g = "update_rows UserSession (\<lambda>r. row_id r = row_id s \<and> row_visible UserSession w r) ?f"
  have "sql_update UserSession (row_id s) ?f ?w = (Inr (), w1)"
    using assms(4) by (simp add: revoke_session_def act_simps)
  moreover have "m_id UserSession = row_id"
    by (simp add: UserSession_def)
  ultimately have world: "w1 = ?w\<lparr>w_delta := ?g \<circ> w_delta w\<rparr>"
    by (simp add: sql_update_Inr)
  then have w1: "view w1 = ?g (view w)"
    and frame: "w_settings w1 = w_settings w" "w_draw w1 = Suc (w_draw w)" "serving t w1 = serving t w"
    by (simp_all add: view_def)
  have rows: "t_user_sessions (view w1) =
      map (\<lambda>r. if row_id r = row_id s \<and> tenant_id r = t then ?f r else r) (t_user_sessions (view w))"
    unfolding w1 update_rows_def session_rows.serving_visible [OF assms(1)] by (simp add: UserSession_def)
  then show "t_user_sessions (view w1) =
      map (\<lambda>r. if row_id r = row_id s \<and> tenant_id r = t then ?f r else r) (t_user_sessions (view w))" .
  show "consistent UserSession (view w1)"
    unfolding w1
    by (rule session_rows.update_rows_consistent [OF assms(2)]) (simp_all add: UserSession_def)
  show "revoked t (us_jti s) (view w1)"
    unfolding revoked_def list_all_iff rows
  proof (intro ballI impI)
    fix r' assume mem: "r' \<in> set (map (\<lambda>r. if row_id r = row_id s \<and> tenant_id r = t then ?f r else r)
      (t_user_sessions (view w)))" and r': "tenant_id r' = t" "us_jti r' = us_jti s"
    from mem obtain r where r: "r \<in> set (t_user_sessions (view w))"
      and eq: "r' = (if row_id r = row_id s \<and> tenant_id r = t then ?f r else r)"
      unfolding set_map by (rule imageE) blast
    have "us_jti r' = us_jti r" and "tenant_id r' = tenant_id r" by (simp_all add: eq)
    with r' have "us_jti r = us_jti s" and "tenant_id r = t" by simp_all
    then have "r = s" using session_unique [OF assms(2) r assms(3)] by blast
    with \<open>tenant_id r = t\<close> show "us_revoked_at r' \<noteq> None" by (simp add: eq)
  qed
  show "serving t w1" "w_settings w1 = w_settings w" "w_draw w1 = Suc (w_draw w)"
    using frame assms(1) by simp_all
  show "t_users (view w1) = t_users (view w)"
    unfolding w1 update_rows_def by (simp add: UserSession_def)
  show "us_jti ` set (t_user_sessions (view w1)) = us_jti ` set (t_user_sessions (view w))"
  proof -
    have "map us_jti (t_user_sessions (view w1)) = map us_jti (t_user_sessions (view w))"
      unfolding rows map_map by (rule map_cong) simp_all
    then show ?thesis by (metis set_map)
  qed
qed

lemma issue_tokens_ok:
  assumes "issue_tokens x u tid ua ip w = (Inr tokens, w1)"
  shows "\<exists>r. t_user_sessions (view w1) = t_user_sessions (view w) @ [r] \<and> us_jti r = uuid4 x (w_draw w) \<and>
      tenant_id r = tid \<and> us_user_id r = row_id u \<and> us_revoked_at r = None \<and>
      uuid4 x (w_draw w) \<notin> us_jti ` set (t_user_sessions (view w))"
    and "consistent UserSession (view w) \<Longrightarrow> consistent UserSession (view w1)"
    and "serving t w1 = serving t w" and "w_settings w1 = w_settings w"
    and "t_users (view w1) = t_users (view w)"
    and "refresh_token tokens = token_text x (w_settings w)
      (token_identity (row_id u) tid ''refresh'' (uuid4 x (w_draw w)) (clock x (Suc (w_draw w)))
        (refresh_token_ttl_seconds (w_settings w)))"
    and "w_draw w1 = w_draw w + 6"
    and "w_delta w1 = (\<lambda>d. d\<lparr>t_user_sessions :=
      t_user_sessions d @ [last (t_user_sessions (view w1))]\<rparr>) \<circ> w_delta w"
    and "w_committed w1 = w_committed w"
proof -
  let ?n = "w_draw w"
  let ?row = "\<lparr>row_id = uuid4 x (?n + 3), created_at = w_now w, tenant_id = tid, us_user_id = row_id u,
    us_jti = uuid4 x ?n, us_user_agent = ua, us_ip_address = ip,
    us_expires_at = clock x (?n + 2) + seconds (refresh_token_ttl_seconds (w_settings w)),
    us_revoked_at = None\<rparr>"
  let ?w = "w\<lparr>w_draw := ?n + 4\<rparr>"
  have run: "issue_tokens x u tid ua ip w =
    andthen (sql_insert UserSession ?row) (\<lambda>_. andthen (create_access_token x (row_id u) tid) (\<lambda>access.
      ret \<lparr>access_token = access, refresh_token = token_text x (w_settings w)
        (token_identity (row_id u) tid ''refresh'' (uuid4 x ?n) (clock x (Suc ?n))
          (refresh_token_ttl_seconds (w_settings w))), token_type = ''bearer'',
          expires_in = access_token_ttl_seconds (w_settings w)\<rparr>)) ?w"
    by (simp add: issue_tokens_def andthen_Inr [OF create_refresh_token_run] act_simps eval_nat_numeral)
  then obtain w2 where ins: "sql_insert UserSession ?row ?w = (Inr (), w2)"
    and w1: "w1 = w2\<lparr>w_draw := w_draw w2 + 2\<rparr>"
    and tok: "refresh_token tokens = token_text x (w_settings w)
        (token_identity (row_id u) tid ''refresh'' (uuid4 x ?n) (clock x (Suc ?n))
          (refresh_token_ttl_seconds (w_settings w)))"
    using assms [unfolded run] by (auto simp: andthen_eq_Inr create_access_token_run act_simps)
  have none: "insert_error UserSession ?row ?w = None"
    using ins by (auto simp: sql_insert_def split: option.splits)
  have w2: "w2 = ?w\<lparr>w_delta := (\<lambda>d. d\<lparr>t_user_sessions := t_user_sessions d @ [?row]\<rparr>) \<circ> w_delta w\<rparr>"
    using ins none by (simp add: sql_insert_def) (simp add: UserSession_def)
  have rows: "t_user_sessions (view w1) = t_user_sessions (view w) @ [?row]"
    by (simp add: w1 w2 view_def)
  show "consistent UserSession (view w) \<Longrightarrow> consistent UserSession (view w1)"
    using session_rows.insert_consistent [OF _ ins] by (simp add: w1)
  have "uuid4 x ?n \<notin> us_jti ` set (t_user_sessions (view w))"
    using session_rows.insert_error_fresh [OF none] by (auto simp: UserSession_def)
  with rows show "\<exists>r. t_user_sessions (view w1) = t_user_sessions (view w) @ [r] \<and>
      us_jti r = uuid4 x (w_draw w) \<and> tenant_id r = tid \<and> us_user_id r = row_id u \<and>
      us_revoked_at r = None \<and> uuid4 x (w_draw w) \<notin> us_jti ` set (t_user_sessions (view w))"
    by (intro exI [of _ ?row]) simp
  show "w_delta w1 = (\<lambda>d. d\<lparr>t_user_sessions :=
      t_user_sessions d @ [last (t_user_sessions (view w1))]\<rparr>) \<circ> w_delta w"
    unfolding rows by (simp add: w1 w2 comp_def)
  show "serving t w1 = serving t w" "w_settings w1 = w_settings w" "t_users (view w1) = t_users (view w)"
    "w_draw w1 = w_draw w + 6" "w_committed w1 = w_committed w"
    by (simp_all add: w1 w2 view_def)
  show "refresh_token tokens = token_text x (w_settings w)
      (token_identity (row_id u) tid ''refresh'' (uuid4 x (w_draw w)) (clock x (Suc (w_draw w)))
        (refresh_token_ttl_seconds (w_settings w)))"
    by (rule tok)
qed

lemma refresh_decoded:
  assumes "jwt_ok x" and "payload_ok x" and "seconds (tp_iat p) \<le> clock x (w_draw w)"
    and "decoded p (clock x (w_draw w)) (Some ''refresh'') = Inr p"
  shows "refresh_tokens x (token_text x (w_settings w) p) w =
    refresh_session x p (w\<lparr>w_draw := Suc (w_draw w)\<rparr>)"
  using decode_encoded [OF assms(1-3), of "Some ''refresh''"] assms(4)
  by (simp add: refresh_tokens_def andthen_Inr [OF except_token_error_Inr])

lemma refresh_tokens_ok:
  assumes "jwt_ok x" and "payload_ok x" and "seconds (tp_iat p) \<le> clock x (w_draw w)"
    and "serving t w" and "consistent UserSession (view w)"
    and "refresh_tokens x (token_text x (w_settings w) p) w = (Inr tokens, w1)"
  shows "revoked t (tp_jti p) (view w1)" and "consistent UserSession (view w1)"
    and "w_settings w1 = w_settings w"
    and "\<exists>j now. refresh_token tokens = token_text x (w_settings w)
      (token_identity (tp_sub p) (tp_tid p) ''refresh'' j now
        (refresh_token_ttl_seconds (w_settings w))) \<and> j \<noteq> tp_jti p"
    and "\<exists>s. jti_session t (tp_jti p) (view w) = Some s \<and> us_revoked_at s = None"
    and "\<exists>u \<in> set (t_users (view w)). row_id u = tp_sub p \<and> tenant_id u = t"
    and "serving t w1"
proof -
  let ?n = "w_draw w"
  have "decoded p (clock x ?n) (Some ''refresh'') = Inr p"
    using assms(6)
    by (auto simp: refresh_tokens_def except_token_error_run decode_encoded [OF assms(1-3)] raise_def
        andthen_def decoded_def split: if_splits)
  note run = refresh_decoded [OF assms(1-3) this]
  have sv: "serving t (w\<lparr>w_draw := Suc ?n\<rparr>)" "consistent UserSession (view (w\<lparr>w_draw := Suc ?n\<rparr>))"
    using assms(4,5) by simp_all
  obtain s where s: "jti_session t (tp_jti p) (view w) = Some s" "us_revoked_at s = None"
    and run2: "andthen (repo_get_or_404 User (tp_sub p)) (\<lambda>u.
                andthen (revoke_session x s) (\<lambda>_.
                issue_tokens x u (tp_tid p) (us_user_agent s) (us_ip_address s)))
        (w\<lparr>w_draw := Suc (Suc ?n)\<rparr>) = (Inr tokens, w1)"
    using assms(6) unfolding run refresh_session_def andthen_get_by_jti [OF sv]
    by (simp add: act_simps session_is_active_def split: option.splits if_splits)
  obtain u w2 where u: "fetched User (tp_sub p) (live_rows User w) = Inr u"
    and rev: "revoke_session x s (w\<lparr>w_draw := Suc (Suc ?n)\<rparr>) = (Inr (), w2)"
    and iss: "issue_tokens x u (tp_tid p) (us_user_agent s) (us_ip_address s) w2 = (Inr tokens, w1)"
    using run2 by (auto simp: andthen_repo_get_or_404 elim!: andthen_InrE split: sum.splits)
  have sin: "s \<in> set (t_user_sessions (view (w\<lparr>w_draw := Suc (Suc ?n)\<rparr>)))" and j: "us_jti s = tp_jti p"
    using jti_sessionD [OF s(1)] by simp_all
  have live: "u \<in> set (m_rows User (view w))" "is_live User w u" "m_id User u = tp_sub p"
    using fetched_live [OF u] by blast+
  have ut: "tenant_id u = t"
    by (rule user_rows.live_own [OF live(2) servingD(3) [OF assms(4)]])
  have id: "row_id u = tp_sub p" and uin: "u \<in> set (t_users (view w))"
    using live(1,3) by (simp_all add: User_def)
  note rev = revoke_session_ok [OF _ _ sin rev, of t, simplified, OF assms(4,5)]
  note iss = issue_tokens_ok [OF iss]
  show "consistent UserSession (view w1)" and "w_settings w1 = w_settings w" and "serving t w1"
    using rev iss(2-4) by simp_all
  have "us_jti s \<in> us_jti ` set (t_user_sessions (view w2))"
    using rev(7) sin by simp
  then show "revoked t (tp_jti p) (view w1)"
    using rev(1) iss(1) by (auto simp: revoked_def j)
  have "uuid4 x (w_draw w2) \<noteq> tp_jti p"
    using iss(1) \<open>us_jti s \<in> us_jti ` set (t_user_sessions (view w2))\<close> by (auto simp: j)
  then show "\<exists>j now. refresh_token tokens = token_text x (w_settings w)
      (token_identity (tp_sub p) (tp_tid p) ''refresh'' j now
        (refresh_token_ttl_seconds (w_settings w))) \<and> j \<noteq> tp_jti p"
    using iss(6) rev(4) by (auto simp: id)
  show "\<exists>s. jti_session t (tp_jti p) (view w) = Some s \<and> us_revoked_at s = None"
    using s by blast
  show "\<exists>u \<in> set (t_users (view w)). row_id u = tp_sub p \<and> tenant_id u = t"
    using id uin ut by blast
qed

end
