(* ===== verification/Licensing.thy ===== *)
theory Licensing
  imports Tenancy Outside
begin

text \<open>
  \<^verbatim>\<open>app/core/licensing\<close>: the catalog of modules, the entitlements of each tenant with their cache, and
  the guard in front of the routers. The facts: what a tenant is entitled to is exactly the enabled
  rows of active modules that have not expired, and the core modules (\<open>compute_enabled_run\<close>); the
  cache gives back the set that was put in; a change of an entitlement is seen by the next look-up.
\<close>

section \<open>The catalog\<close>

datatype module_code = AUTH | COURSES | LEARNING | ASSIGNMENTS | DASHBOARD | ADMIN

fun code_value :: "module_code \<Rightarrow> string" where
  "code_value AUTH = ''AUTH''"
| "code_value COURSES = ''COURSES''"
| "code_value LEARNING = ''LEARNING''"
| "code_value ASSIGNMENTS = ''ASSIGNMENTS''"
| "code_value DASHBOARD = ''DASHBOARD''"
| "code_value ADMIN = ''ADMIN''"

definition core_module_codes :: "module_code list" where
  "core_module_codes = [AUTH]"

definition all_module_codes :: "module_code list" where
  "all_module_codes = [AUTH, COURSES, LEARNING, ASSIGNMENTS, DASHBOARD, ADMIN]"

fun module_catalog :: "module_code \<Rightarrow> string" where
  "module_catalog AUTH = ''Authentication & identity''"
| "module_catalog COURSES = ''Course catalog & enrollment''"
| "module_catalog LEARNING = ''Lessons, content & progress''"
| "module_catalog ASSIGNMENTS = ''Assignments, quizzes & grading''"
| "module_catalog DASHBOARD = ''Learner & instructor dashboards''"
| "module_catalog ADMIN = ''Administration, reports & analytics''"

definition core_codes :: "string set" where
  "core_codes = set (map code_value core_module_codes)"

lemma code_value_inject: "code_value c = code_value d \<longleftrightarrow> c = d"
  by (cases c; cases d) simp_all

lemma core_codes_eq: "core_codes = {''AUTH''}"
  by (simp add: core_codes_def core_module_codes_def)

section \<open>The tables\<close>

definition module_exists :: "database \<Rightarrow> uuid \<Rightarrow> bool" where
  "module_exists d i \<longleftrightarrow> list_ex (\<lambda>r. row_id r = i) (t_modules d)"

definition Module :: "licence_module model" where
  "Module =
     \<lparr>m_name = ''Module'', m_rows = t_modules, m_put = (\<lambda>rs d. d\<lparr>t_modules := rs\<rparr>), m_id = row_id,
      m_owner = None, m_deleted = None, m_mark_deleted = (\<lambda>_ r. r),
      m_clash = (\<lambda>r s. mod_code r = mod_code s),
      m_fits = (\<lambda>r. length (mod_code r) \<le> 40 \<and> length (mod_name r) \<le> 120 \<and>
                    width 255 (mod_description r)),
      m_refs = (\<lambda>_ _. True), m_stored = id, m_column = (\<lambda>_. NoColumn), m_search = (\<lambda>_ _. True)\<rparr>"

definition TenantModule :: "tenant_module model" where
  "TenantModule =
     \<lparr>m_name = ''TenantModule'', m_rows = t_tenant_modules,
      m_put = (\<lambda>rs d. d\<lparr>t_tenant_modules := rs\<rparr>), m_id = row_id,
      m_owner = None, m_deleted = None, m_mark_deleted = (\<lambda>_ r. r),
      m_clash = (\<lambda>r s. tm_tenant_id r = tm_tenant_id s \<and> tm_module_id r = tm_module_id s),
      m_fits = (\<lambda>_. True),
      m_refs = (\<lambda>d r. tenant_exists d (tm_tenant_id r) \<and> module_exists d (tm_module_id r)),
      m_stored = id, m_column = (\<lambda>_. NoColumn), m_search = (\<lambda>_ _. True)\<rparr>"

interpretation module_rows: table Module
  by unfold_locales (auto simp: Module_def)

interpretation tenant_module_rows: table TenantModule
  by unfold_locales (auto simp: TenantModule_def)

section \<open>The service\<close>

definition licence_cache_key :: "uuid \<Rightarrow> string" where
  "licence_cache_key tid = ''lic:enabled:'' @ uuid_str tid"

definition licence_ttl :: int where
  "licence_ttl = 60"

text \<open>\<^verbatim>\<open>select(Module.code).join(TenantModule, ...).where(p)\<close>\<close>

definition joined_codes :: "(licence_module \<Rightarrow> tenant_module \<Rightarrow> bool) \<Rightarrow> database \<Rightarrow> string set" where
  "joined_codes p d = set (map mod_code
     (filter (\<lambda>m. list_ex (\<lambda>tm. tm_module_id tm = row_id m \<and> p m tm) (t_tenant_modules d))
       (t_modules d)))"

definition compute_enabled :: "'c env \<Rightarrow> uuid \<Rightarrow> ('c, string set) io" where
  "compute_enabled x tid =
     andthen (draw (clock x)) (\<lambda>now.
     andthen (asks (\<lambda>w. joined_codes
        (\<lambda>m tm. tm_tenant_id tm = tid \<and> tm_enabled tm \<and> mod_is_active m) (view w))) (\<lambda>codes.
     andthen (asks (\<lambda>w. joined_codes
        (\<lambda>m tm. tm_tenant_id tm = tid \<and>
           (case tm_expires_at tm of None \<Rightarrow> False | Some e \<Rightarrow> e < now)) (view w))) (\<lambda>expired.
     ret ((codes - expired) \<union> core_codes))))"

definition enabled_codes :: "'c env \<Rightarrow> uuid \<Rightarrow> ('c, string set) io" where
  "enabled_codes x tid =
     andthen has_redis (\<lambda>redis.
     andthen (if redis then cache_get x (licence_cache_key tid) else ret None) (\<lambda>cached.
     case cached of
       Some v \<Rightarrow> (case json_loads v of
                   None \<Rightarrow> raise (Unhandled ValueError)
                 | Some ws \<Rightarrow> ret (set ws))
     | None \<Rightarrow>
         andthen (compute_enabled x tid) (\<lambda>codes.
         andthen (if redis then cache_set x (licence_cache_key tid)
                                  (json_dumps (sorted_list_of_set codes)) licence_ttl
                  else ret ()) (\<lambda>_.
         ret codes))))"

definition tenant_has_module :: "'c env \<Rightarrow> uuid \<Rightarrow> string \<Rightarrow> ('c, bool) io" where
  "tenant_has_module x tid code =
     (if code \<in> core_codes then ret True
      else andthen (enabled_codes x tid) (\<lambda>codes. ret (code \<in> codes)))"

definition invalidate :: "'c env \<Rightarrow> uuid \<Rightarrow> ('c, unit) io" where
  "invalidate x tid =
     andthen has_redis (\<lambda>redis. if redis then cache_delete x (licence_cache_key tid) else ret ())"

definition set_enabled :: "bool \<Rightarrow> time \<Rightarrow> tenant_module \<Rightarrow> tenant_module" where
  "set_enabled enabled now tm =
     tm\<lparr>tm_enabled := enabled, tm_enabled_at := (if enabled then Some now else tm_enabled_at tm)\<rparr>"

definition set_module :: "'c env \<Rightarrow> uuid \<Rightarrow> string \<Rightarrow> bool \<Rightarrow> ('c, tenant_module) io" where
  "set_module x tid code enabled =
     andthen (repo_find Module (\<lambda>m. mod_code m = code)) (\<lambda>found. case found of
       None \<Rightarrow> raise (app_exn NotFoundError (''Module '' @ code @ '' not in catalog''))
     | Some m \<Rightarrow>
         andthen (repo_find TenantModule
           (\<lambda>tm. tm_tenant_id tm = tid \<and> tm_module_id tm = row_id m)) (\<lambda>row.
         andthen (draw (clock x)) (\<lambda>now.
         andthen (case row of
             None \<Rightarrow>
               andthen (draw (uuid4 x)) (\<lambda>i.
               andthen (asks w_now) (\<lambda>created.
               repo_add TenantModule
                 \<lparr>row_id = i, created_at = created, tm_tenant_id = tid, tm_module_id = row_id m,
                  tm_enabled = enabled, tm_enabled_at = (if enabled then Some now else None),
                  tm_expires_at = None\<rparr>))
           | Some tm \<Rightarrow>
               andthen (sql_update TenantModule (row_id tm) (set_enabled enabled now)) (\<lambda>_.
               ret (set_enabled enabled now tm))) (\<lambda>tm.
         andthen (invalidate x tid) (\<lambda>_. ret tm)))))"

text \<open>\<^verbatim>\<open>require_module\<close>: the dependency of every router but the core one.\<close>

definition require_module :: "'c env \<Rightarrow> module_code \<Rightarrow> ('c, unit) io" where
  "require_module x code =
     andthen get_context (\<lambda>rc. case current_tenant_id rc of
       None \<Rightarrow> raise (App (new_error TenantResolutionError None None None))
     | Some tid \<Rightarrow>
         andthen (tenant_has_module x tid (code_value code)) (\<lambda>has.
         ensure has (App (new_error ModuleNotEnabledError None None None))))"

section \<open>Entitlements\<close>

text \<open>What a tenant is entitled to at a time, read off the rows.\<close>

definition entitled :: "uuid \<Rightarrow> time \<Rightarrow> database \<Rightarrow> string set" where
  "entitled tid now d = core_codes \<union>
     {c. (\<exists>m \<in> set (t_modules d). \<exists>tm \<in> set (t_tenant_modules d).
            mod_code m = c \<and> tm_module_id tm = row_id m \<and> tm_tenant_id tm = tid \<and>
            tm_enabled tm \<and> mod_is_active m) \<and>
         \<not> (\<exists>m \<in> set (t_modules d). \<exists>tm \<in> set (t_tenant_modules d).
            mod_code m = c \<and> tm_module_id tm = row_id m \<and> tm_tenant_id tm = tid \<and>
            (\<exists>e. tm_expires_at tm = Some e \<and> e < now))}"

lemma in_joined_codes:
  "c \<in> joined_codes p d \<longleftrightarrow> (\<exists>m \<in> set (t_modules d). \<exists>tm \<in> set (t_tenant_modules d).
     mod_code m = c \<and> tm_module_id tm = row_id m \<and> p m tm)"
  by (auto simp: joined_codes_def list_ex_iff)

lemma entitled_joined:
  "entitled tid now d =
     (joined_codes (\<lambda>m tm. tm_tenant_id tm = tid \<and> tm_enabled tm \<and> mod_is_active m) d -
      joined_codes (\<lambda>m tm. tm_tenant_id tm = tid \<and>
         (case tm_expires_at tm of None \<Rightarrow> False | Some e \<Rightarrow> e < now)) d) \<union> core_codes"
proof -
  have "(case e of None \<Rightarrow> False | Some e \<Rightarrow> e < now) \<longleftrightarrow> (\<exists>e'. e = Some e' \<and> e' < now)" for e
    by (cases e) auto
  then show ?thesis
    by (simp only: entitled_def set_eq_iff Un_iff Diff_iff in_joined_codes mem_Collect_eq) blast
qed

lemma compute_enabled_run:
  "compute_enabled x tid w =
     (Inr (entitled tid (clock x (w_draw w)) (view w)), w\<lparr>w_draw := Suc (w_draw w)\<rparr>)"
  by (simp add: compute_enabled_def act_simps entitled_joined view_def)

lemma finite_entitled: "finite (entitled tid now d)"
proof (rule finite_subset)
  show "entitled tid now d \<subseteq> core_codes \<union> mod_code ` set (t_modules d)"
    by (auto simp: entitled_def)
  show "finite (core_codes \<union> mod_code ` set (t_modules d))"
    by (simp add: core_codes_def)
qed

lemma enabled_codes_uncached:
  "w_redis w = None \<Longrightarrow> enabled_codes x tid w =
     (Inr (entitled tid (clock x (w_draw w)) (view w)), w\<lparr>w_draw := Suc (w_draw w)\<rparr>)"
  by (simp add: enabled_codes_def act_simps andthen_Inr compute_enabled_run)

lemma enabled_codes_hit:
  assumes "w_redis w = Some c"
    and "redis_get x (clock x (w_draw w)) (licence_cache_key tid) c = Some (json_dumps ws)"
  shows "enabled_codes x tid w = (Inr (set ws), w\<lparr>w_draw := Suc (w_draw w)\<rparr>)"
  using assms by (simp add: enabled_codes_def act_simps andthen_cache_get json_loads_dumps)

lemma enabled_codes_miss:
  assumes "w_redis w = Some c"
    and "redis_get x (clock x (w_draw w)) (licence_cache_key tid) c = None"
  shows "enabled_codes x tid w =
    (let codes = entitled tid (clock x (Suc (w_draw w))) (view w) in
     (Inr codes, w\<lparr>w_draw := Suc (Suc (Suc (w_draw w))),
        w_redis := Some (redis_set x (clock x (Suc (Suc (w_draw w)))) (licence_cache_key tid)
          (json_dumps (sorted_list_of_set codes)) licence_ttl c)\<rparr>))"
  using assms
  by (simp add: enabled_codes_def act_simps andthen_cache_get andthen_cache_set compute_enabled_run
      andthen_Inr view_def Let_def)

text \<open>The entry of the cache that a look-up finds, and the answer of the look-up: the entry, or the rows.\<close>

definition licence_entry :: "'c env \<Rightarrow> uuid \<Rightarrow> 'c world \<Rightarrow> string option" where
  "licence_entry x tid w = (case w_redis w of
     None \<Rightarrow> None
   | Some c \<Rightarrow> redis_get x (clock x (w_draw w)) (licence_cache_key tid) c)"

text \<open>The reading of the clock at which the rows are looked at: with a cache, the second.\<close>

definition licence_reading :: "'c world \<Rightarrow> nat" where
  "licence_reading w = w_draw w + (if w_redis w = None then 0 else 1)"

lemma enabled_codes_result:
  "fst (enabled_codes x tid w) = (case licence_entry x tid w of
     None \<Rightarrow> Inr (entitled tid (clock x (licence_reading w)) (view w))
   | Some entry \<Rightarrow> (case json_loads entry of None \<Rightarrow> Inl (Unhandled ValueError) | Some codes \<Rightarrow> Inr (set codes)))"
proof (cases "w_redis w")
  case None
  then show ?thesis by (simp add: licence_entry_def licence_reading_def enabled_codes_uncached)
next
  case (Some c)
  show ?thesis
  proof (cases "redis_get x (clock x (w_draw w)) (licence_cache_key tid) c")
    case None
    with Some show ?thesis
      by (simp add: licence_entry_def licence_reading_def enabled_codes_miss Let_def)
  next
    case (Some entry)
    with \<open>w_redis w = Some c\<close> show ?thesis
      by (simp add: licence_entry_def enabled_codes_def act_simps andthen_cache_get split: option.split)
  qed
qed

section \<open>Changing an entitlement\<close>

definition grant_key :: "tenant_module \<Rightarrow> uuid \<times> uuid" where
  "grant_key r = (tm_tenant_id r, tm_module_id r)"

lemma live_modules [simp]: "live_rows Module w = t_modules (view w)"
  by (simp add: live_rows_eq is_live_def row_visible_def Module_def)

lemma live_tenant_modules [simp]: "live_rows TenantModule w = t_tenant_modules (view w)"
  by (simp add: live_rows_eq is_live_def row_visible_def TenantModule_def)

lemma invalidate_run:
  "invalidate x tid w = (Inr (), (case w_redis w of
     None \<Rightarrow> w
   | Some c \<Rightarrow> w\<lparr>w_draw := Suc (w_draw w),
        w_redis := Some (redis_delete x (clock x (w_draw w)) (licence_cache_key tid) c)\<rparr>))"
  by (simp add: invalidate_def act_simps cache_delete_def has_redis_def split: option.splits)

lemma set_module_insert:
  assumes "sql_insert TenantModule r w = (Inr (), w')"
  shows "t_modules (view w') = t_modules (view w)"
    and "t_tenant_modules (view w') = t_tenant_modules (view w) @ [r]"
    and "w_redis w' = w_redis w"
  using assms by (auto simp: sql_insert_def view_def TenantModule_def split: option.splits)

lemma set_module_update:
  assumes "sql_update TenantModule k f w = (Inr (), w')"
  shows "t_modules (view w') = t_modules (view w)"
    and "t_tenant_modules (view w') = map (\<lambda>r. if row_id r = k then f r else r) (t_tenant_modules (view w))"
    and "w_redis w' = w_redis w"
  using assms
  by (auto simp: sql_update_def update_rows_def row_visible_def view_def TenantModule_def
      split: option.splits)

lemma set_module_rows:
  assumes ok: "consistent TenantModule (view w)"
    and run: "set_module x tid code enabled w = (Inr tm, w')"
  obtains m where "filter (\<lambda>m. mod_code m = code) (t_modules (view w)) = [m]"
    and "t_modules (view w') = t_modules (view w)"
    and "{r \<in> set (t_tenant_modules (view w')). grant_key r \<noteq> (tid, row_id m)} =
         {r \<in> set (t_tenant_modules (view w)). grant_key r \<noteq> (tid, row_id m)}"
    and "{r \<in> set (t_tenant_modules (view w')). grant_key r = (tid, row_id m)} = {tm}"
    and "tm_enabled tm = enabled"
    and "redis_ok x \<longrightarrow> w_redis w' = Some c \<longrightarrow> redis_get x now (licence_cache_key tid) c = None"
proof -
  let ?rows = "t_tenant_modules (view w)"
  obtain m where m: "filter (\<lambda>m. mod_code m = code) (t_modules (view w)) = [m]"
    using run
    by (auto simp: set_module_def andthen_repo_find act_simps split: sum.splits option.splits)
  let ?p = "\<lambda>r. tm_tenant_id r = tid \<and> tm_module_id r = row_id m"
  let ?k = "(tid, row_id m)"
  have key: "?p r \<longleftrightarrow> grant_key r = ?k" for r by (auto simp: grant_key_def)
  have found: "scalar_one_or_none (filter ?p ?rows) = Inr (first_row (filter ?p ?rows))"
    using consistent_unique [where M = TenantModule and P = ?p, OF ok]
    by (simp add: TenantModule_def)
  have "\<exists>w1. t_modules (view w1) = t_modules (view w) \<and> invalidate x tid w1 = (Inr (), w') \<and>
     {r \<in> set (t_tenant_modules (view w1)). grant_key r \<noteq> ?k} = {r \<in> set ?rows. grant_key r \<noteq> ?k} \<and>
     {r \<in> set (t_tenant_modules (view w1)). grant_key r = ?k} = {tm} \<and> tm_enabled tm = enabled"
  proof (cases "first_row (filter ?p ?rows)")
    case None
    then have none: "{r \<in> set ?rows. grant_key r = ?k} = {}"
      by (auto simp: first_row_def filter_empty_conv key [symmetric] split: list.splits)
    from None run obtain r w1 where "sql_insert TenantModule r (w\<lparr>w_draw := Suc (Suc (w_draw w))\<rparr>) = (Inr (), w1)"
      and "tm = r" and "grant_key r = ?k" and "tm_enabled r = enabled" and "invalidate x tid w1 = (Inr (), w')"
      by (auto simp: set_module_def andthen_repo_find m found act_simps repo_add_def grant_key_def
          andthen_assoc elim!: andthen_InrE)
    with none set_module_insert [OF this(1)] show ?thesis
      by (intro exI [of _ w1]) (auto simp: view_def)
  next
    case (Some old)
    then have old: "old \<in> set ?rows" "grant_key old = ?k"
      by (auto dest!: first_row_SomeD simp: key)
    let ?f = "set_enabled enabled (clock x (w_draw w))"
    from Some run obtain w1
      where upd: "sql_update TenantModule (row_id old) ?f (w\<lparr>w_draw := Suc (w_draw w)\<rparr>) = (Inr (), w1)"
      and tm: "tm = ?f old" and "invalidate x tid w1 = (Inr (), w')"
      by (auto simp: set_module_def andthen_repo_find m found act_simps andthen_assoc elim!: andthen_InrE)
    have uniq: "r = old" if "r \<in> set ?rows" "row_id r = row_id old \<or> grant_key r = ?k" for r
    proof -
      have "sorted_wrt (\<lambda>r s. row_id r \<noteq> row_id s \<and> grant_key r \<noteq> grant_key s) ?rows"
        using ok by (simp add: consistent_def TenantModule_def grant_key_def)
      then show ?thesis
        using that old by (auto simp: sorted_wrt_iff_nth_less in_set_conv_nth) (metis linorder_neqE_nat)+
    qed
    have fkey: "grant_key (?f r) = grant_key r" "tm_enabled (?f r) = enabled" for r
      by (simp_all add: grant_key_def set_enabled_def)
    have "r \<in> set ?rows \<Longrightarrow> row_id r = row_id old \<longleftrightarrow> r = old" for r
      using uniq by blast
    then have "map (\<lambda>r. if row_id r = row_id old then ?f r else r) ?rows =
      map (\<lambda>r. if r = old then ?f old else r) ?rows"
      by simp
    then have "set (t_tenant_modules (view w1)) = (\<lambda>r. if r = old then ?f old else r) ` set ?rows"
      using set_module_update(2) [OF upd] by (simp only: view_def) simp
    then have "set (t_tenant_modules (view w1)) = insert tm (set ?rows - {old})"
      using old(1) by (auto simp: tm)
    with \<open>invalidate x tid w1 = (Inr (), w')\<close> set_module_update(1) [OF upd] show ?thesis
      using old uniq fkey tm by (intro exI [of _ w1]) (auto simp: view_def)
  qed
  then obtain w1 where w1: "t_modules (view w1) = t_modules (view w)" "invalidate x tid w1 = (Inr (), w')"
     "{r \<in> set (t_tenant_modules (view w1)). grant_key r \<noteq> ?k} = {r \<in> set ?rows. grant_key r \<noteq> ?k}"
     "{r \<in> set (t_tenant_modules (view w1)). grant_key r = ?k} = {tm}" "tm_enabled tm = enabled"
    by blast
  have "view w' = view w1"
    using w1(2) by (auto simp: invalidate_run view_def split: option.splits)
  moreover have "redis_ok x \<longrightarrow> w_redis w' = Some c \<longrightarrow> redis_get x now (licence_cache_key tid) c = None"
    using w1(2) by (auto simp: invalidate_run redis_ok_def expiring_store.look_forget split: option.splits)
  ultimately show thesis using that [OF m] w1 by simp
qed

text \<open>The entitlements of a tenant depend on its own rows only.\<close>

lemma entitled_cong:
  assumes "t_modules d' = t_modules d"
    and "\<And>m. m \<in> set (t_modules d) \<Longrightarrow> mod_code m = c \<Longrightarrow>
      {r \<in> set (t_tenant_modules d'). grant_key r = (tid, row_id m)} =
      {r \<in> set (t_tenant_modules d). grant_key r = (tid, row_id m)}"
  shows "c \<in> entitled tid now d' \<longleftrightarrow> c \<in> entitled tid now d"
proof -
  have "r \<in> set (t_tenant_modules d') \<longleftrightarrow> r \<in> set (t_tenant_modules d)"
    if "m \<in> set (t_modules d)" "mod_code m = c" "tm_module_id r = row_id m" "tm_tenant_id r = tid" for m r
    using assms(2) [OF that(1,2)] that(3,4) by (auto simp: grant_key_def set_eq_iff)
  then show ?thesis
    unfolding entitled_def assms(1) by blast
qed

lemma set_module_entitled:
  assumes "consistent Module (view w)" and "consistent TenantModule (view w)"
    and "set_module x tid code enabled w = (Inr tm, w')"
  shows "code \<in> entitled tid now (view w') \<longleftrightarrow>
      code \<in> core_codes \<or>
      enabled \<and> (\<exists>m \<in> set (t_modules (view w)). mod_code m = code \<and> mod_is_active m) \<and>
      \<not> (\<exists>e. tm_expires_at tm = Some e \<and> e < now)"
    and "c \<noteq> code \<or> tid' \<noteq> tid \<Longrightarrow>
      c \<in> entitled tid' now (view w') \<longleftrightarrow> c \<in> entitled tid' now (view w)"
proof -
  obtain m where m: "filter (\<lambda>m. mod_code m = code) (t_modules (view w)) = [m]"
    and mods: "t_modules (view w') = t_modules (view w)"
    and other: "{r \<in> set (t_tenant_modules (view w')). grant_key r \<noteq> (tid, row_id m)} =
         {r \<in> set (t_tenant_modules (view w)). grant_key r \<noteq> (tid, row_id m)}"
    and this_row: "{r \<in> set (t_tenant_modules (view w')). grant_key r = (tid, row_id m)} = {tm}"
    and en: "tm_enabled tm = enabled"
    by (rule set_module_rows [OF assms(2,3)])
  have mm: "q \<in> set (t_modules (view w)) \<and> mod_code q = code \<longleftrightarrow> q = m" for q
    using arg_cong [OF m, of set] by auto
  have ids: "q = m" if "q \<in> set (t_modules (view w))" "row_id q = row_id m" for q
    using module_rows.consistent_distinct [OF assms(1)] that mm [of m]
    by (auto simp: Module_def distinct_map inj_on_def)
  have key: "r \<in> set (t_tenant_modules (view w')) \<and> tm_module_id r = row_id m \<and> tm_tenant_id r = tid
      \<longleftrightarrow> r = tm" for r
    using this_row by (auto simp: grant_key_def set_eq_iff)
  have single: "(\<exists>q \<in> set (t_modules (view w)). \<exists>r \<in> set (t_tenant_modules (view w')).
      mod_code q = code \<and> tm_module_id r = row_id q \<and> tm_tenant_id r = tid \<and> P q r) \<longleftrightarrow> P m tm" for P
    using mm key by metis
  show "code \<in> entitled tid now (view w') \<longleftrightarrow> code \<in> core_codes \<or>
      enabled \<and> (\<exists>m \<in> set (t_modules (view w)). mod_code m = code \<and> mod_is_active m) \<and>
      \<not> (\<exists>e. tm_expires_at tm = Some e \<and> e < now)"
  proof -
    have active: "(\<exists>m \<in> set (t_modules (view w)). mod_code m = code \<and> mod_is_active m) \<longleftrightarrow> mod_is_active m"
      using mm by metis
    show ?thesis
      by (simp only: entitled_def mods Un_iff mem_Collect_eq single active en) simp
  qed
  assume "c \<noteq> code \<or> tid' \<noteq> tid"
  then show "c \<in> entitled tid' now (view w') \<longleftrightarrow> c \<in> entitled tid' now (view w)"
  proof (intro entitled_cong [OF mods])
    fix q assume q: "q \<in> set (t_modules (view w))" "mod_code q = c"
    assume "c \<noteq> code \<or> tid' \<noteq> tid"
    then have "(tid', row_id q) \<noteq> (tid, row_id m)" using ids q mm by blast
    then have sub: "{r \<in> S. grant_key r = (tid', row_id q)} =
      {r \<in> {r \<in> S. grant_key r \<noteq> (tid, row_id m)}. grant_key r = (tid', row_id q)}" for S
      by auto
    show "{r \<in> set (t_tenant_modules (view w')). grant_key r = (tid', row_id q)} =
        {r \<in> set (t_tenant_modules (view w)). grant_key r = (tid', row_id q)}"
      by (subst (1 2) sub) (simp only: other)
  qed
qed

text \<open>The look-up after a change misses the cache.\<close>

lemma set_module_forgets:
  assumes "consistent TenantModule (view w)" and "redis_ok x"
    and "set_module x tid code enabled w = (Inr tm, w')" and "w_redis w' = Some c"
  shows "redis_get x now (licence_cache_key tid) c = None"
  by (rule set_module_rows [OF assms(1,3), of c now]) (use assms(2,4) in blast)

lemma has_module_fresh:
  assumes "\<And>c. w_redis w = Some c \<Longrightarrow>
    redis_get x (clock x (w_draw w)) (licence_cache_key tid) c = None"
  shows "\<exists>n w''. tenant_has_module x tid code w =
    (Inr (code \<in> entitled tid (clock x n) (view w)), w'') \<and> w_draw w \<le> n"
proof -
  have core: "code \<in> core_codes \<Longrightarrow> code \<in> entitled tid now d" for now d
    by (simp add: entitled_def)
  show ?thesis
  proof (cases "w_redis w")
    case None
    then show ?thesis
      using core by (auto simp: tenant_has_module_def andthen_Inr [OF enabled_codes_uncached] act_simps)
  next
    case (Some c)
    from enabled_codes_miss [OF this assms [OF this]] show ?thesis
      using core by (auto simp: tenant_has_module_def andthen_Inr act_simps Let_def)
  qed
qed

lemma enabled_codes_recalled:
  assumes "redis_ok x" and "w_redis w = Some c"
    and "redis_get x (clock x (w_draw w)) (licence_cache_key tid) c = None"
    and run: "enabled_codes x tid w = (Inr codes, w1)" and "w_redis w2 = w_redis w1"
    and "clock x (w_draw w + 2) \<le> clock x (w_draw w2)"
    and "clock x (w_draw w2) < clock x (w_draw w + 2) + seconds licence_ttl"
  shows "fst (enabled_codes x tid w2) = Inr codes"
proof -
  have store: "expiring_store (redis_set x) (redis_get x) (redis_delete x)"
    using assms(1) by (simp add: redis_ok_def)
  from run have codes: "codes = entitled tid (clock x (Suc (w_draw w))) (view w)"
    and w1: "w_redis w1 = Some (redis_set x (clock x (w_draw w + 2)) (licence_cache_key tid)
      (json_dumps (sorted_list_of_set codes)) licence_ttl c)"
    unfolding enabled_codes_miss [OF assms(2,3)] by (auto simp: Let_def)
  have "redis_get x (clock x (w_draw w2)) (licence_cache_key tid)
      (redis_set x (clock x (w_draw w + 2)) (licence_cache_key tid)
        (json_dumps (sorted_list_of_set codes)) licence_ttl c) = Some (json_dumps (sorted_list_of_set codes))"
    by (rule expiring_store.look_put [OF store assms(6,7)])
  with enabled_codes_hit [of w2] w1 assms(5) show ?thesis
    by (simp add: codes finite_entitled)
qed

section \<open>The licensing properties\<close>

text \<open>
  C18. The module guard, with and without Redis. Without a tenant in the context it raises the tenant
  error. With one, AUTH always passes; another module passes exactly when it is on the list the guard goes
  by: the list cached for the tenant when Redis holds one, and otherwise what the tenant is entitled to by
  the rows at the time of the request. A module that is not on the list raises \<^verbatim>\<open>ModuleNotEnabledError\<close>, a
  cached text that is no list of strings an error that no handler knows. So a guard that finds an entry goes by the
  entitlements at the time the entry was written, up to 60 seconds before (the property of the cache below).
\<close>

theorem require_module_guard:
  "fst (require_module x code w) =
    (case current_tenant_id (w_ctx w) of
       None \<Rightarrow> Inl (App (new_error TenantResolutionError None None None))
     | Some t \<Rightarrow>
         if code = AUTH then Inr ()
         else (case licence_entry x t w of
             None \<Rightarrow>
               if code_value code \<in> entitled t (clock x (licence_reading w)) (view w) then Inr ()
               else Inl (App (new_error ModuleNotEnabledError None None None))
           | Some entry \<Rightarrow> (case json_loads entry of
                 None \<Rightarrow> Inl (Unhandled ValueError)
               | Some codes \<Rightarrow>
                   if code_value code \<in> set codes then Inr ()
                   else Inl (App (new_error ModuleNotEnabledError None None None)))))"
proof (cases "current_tenant_id (w_ctx w)")
  case (Some t)
  obtain r w' where run: "enabled_codes x t w = (r, w')" by fastforce
  with enabled_codes_result [of x t w] Some show ?thesis
    by (cases code; cases r)
      (auto simp: require_module_def tenant_has_module_def act_simps core_codes_eq andthen_assoc andthen_def ensure_def
        split: option.splits)
qed (simp add: require_module_def act_simps)

text \<open>A tenant that has one of two modules.\<close>

definition sample_tenant :: tenant where
  "sample_tenant =
     \<lparr>row_id = 1, created_at = 0, tenant_deleted_at = None, tenant_name = ''Acme'', slug = ''acme'',
      tenant_is_active = True, isolation_mode = Shared, schema_name = None, tenant_settings = JObj []\<rparr>"

definition sample_module :: "uuid \<Rightarrow> module_code \<Rightarrow> licence_module" where
  "sample_module i c =
     \<lparr>row_id = i, created_at = 0, mod_code = code_value c, mod_name = module_catalog c,
      mod_description = None, mod_is_active = True, mod_is_core = False\<rparr>"

definition sample_licences :: database where
  "sample_licences = empty_database
     \<lparr>t_tenants := [sample_tenant],
      t_modules := [sample_module 10 COURSES, sample_module 11 LEARNING],
      t_tenant_modules :=
        [\<lparr>row_id = 20, created_at = 0, tm_tenant_id = 1, tm_module_id = 10, tm_enabled = True,
          tm_enabled_at = None, tm_expires_at = None\<rparr>]\<rparr>"

theorem require_module_guard_witness:
  "fst (require_module sample_env COURSES (sample_world sample_licences None (Some 1))) = Inr () \<and>
   fst (require_module sample_env LEARNING (sample_world sample_licences None (Some 1))) =
     Inl (App (new_error ModuleNotEnabledError None None None)) \<and>
   fst (require_module sample_env LEARNING (sample_world sample_licences
     (Some [(licence_cache_key 1, (json_dumps [''LEARNING''], None))]) (Some 1))) = Inr ()"
  using require_module_guard [of sample_env COURSES "sample_world sample_licences None (Some 1)"]
    require_module_guard [of sample_env LEARNING "sample_world sample_licences None (Some 1)"]
    require_module_guard [of sample_env LEARNING "sample_world sample_licences
      (Some [(licence_cache_key 1, (json_dumps [''LEARNING''], None))]) (Some 1)"]
  by (simp add: entitled_def sample_licences_def sample_module_def empty_database_def core_codes_eq licence_entry_def
      sample_env_def store_get_def json_loads_dumps)

text \<open>
  C28. Changing an entitlement takes effect at once. When \<open>set_module\<close> returns, the next question
  whether the tenant has the module is answered by the new flag (for a module that is not core): it
  has the module exactly when it was enabled, the module is active and the row has not expired by
  then; whatever the cache held before is not used. The other modules of the tenant, and all modules
  of other tenants, are as before.
\<close>

theorem set_module_takes_effect:
  assumes "consistent Module (view w)" and "consistent TenantModule (view w)" and "redis_ok x"
    and "set_module x tid code enabled w = (Inr tm, w')"
  shows "(\<exists>n w''. tenant_has_module x tid code w' = (Inr (code \<in> core_codes \<or>
        enabled \<and> (\<exists>m \<in> set (t_modules (view w)). mod_code m = code \<and> mod_is_active m) \<and>
        \<not> (\<exists>e. tm_expires_at tm = Some e \<and> e < clock x n)), w'') \<and> w_draw w' \<le> n) \<and>
    (\<forall>now. entitled tid now (view w') - {code} = entitled tid now (view w) - {code}) \<and>
    (\<forall>now tid'. tid' \<noteq> tid \<longrightarrow> entitled tid' now (view w') = entitled tid' now (view w))"
proof (intro conjI)
  have "\<And>c. w_redis w' = Some c \<Longrightarrow>
      redis_get x (clock x (w_draw w')) (licence_cache_key tid) c = None"
    using set_module_forgets [OF assms(2-4)] by blast
  then show "\<exists>n w''. tenant_has_module x tid code w' = (Inr (code \<in> core_codes \<or>
        enabled \<and> (\<exists>m \<in> set (t_modules (view w)). mod_code m = code \<and> mod_is_active m) \<and>
        \<not> (\<exists>e. tm_expires_at tm = Some e \<and> e < clock x n)), w'') \<and> w_draw w' \<le> n"
    using has_module_fresh [of w' x tid code] set_module_entitled(1) [OF assms(1,2,4)] by simp
qed (use set_module_entitled(2) [OF assms(1,2,4)] in blast)+

theorem set_module_takes_effect_witness:
  "\<exists>tm w' n w''. set_module sample_env 1 ''COURSES'' False
       (sample_world sample_licences None (Some 1)) = (Inr tm, w') \<and>
     tenant_has_module sample_env 1 ''COURSES'' w' = (Inr False, w'')  \<and> w_draw w' \<le> n"
proof -
  let ?w = "sample_world sample_licences None (Some 1)"
  have "\<not> isl (fst (set_module sample_env 1 ''COURSES'' False ?w))"
    by code_simp
  then obtain tm w' where run: "set_module sample_env 1 ''COURSES'' False ?w = (Inr tm, w')"
    by (cases "set_module sample_env 1 ''COURSES'' False ?w"; cases "fst (set_module sample_env 1 ''COURSES'' False ?w)") auto
  have "consistent Module (view ?w)" "consistent TenantModule (view ?w)"
    by (simp_all add: consistent_def Module_def TenantModule_def sample_licences_def sample_module_def)
  from set_module_takes_effect [OF this sample_redis_ok run] run show ?thesis
    by (fastforce simp: core_codes_eq)
qed

text \<open>
  C34. The entitlement cache gives back what was computed: after a look-up that missed, every look-up
  of the tenant within the 60 seconds that the entry lives (and as long as the cache is not written
  meanwhile) answers with the same set, whatever happened to the rows.
\<close>

theorem enabled_codes_cached:
  assumes "redis_ok x" and "w_redis w = Some c"
    and "redis_get x (clock x (w_draw w)) (licence_cache_key tid) c = None"
    and "enabled_codes x tid w = (Inr codes, w1)" and "w_redis w2 = w_redis w1"
    and "clock x (w_draw w + 2) \<le> clock x (w_draw w2)"
    and "clock x (w_draw w2) < clock x (w_draw w + 2) + seconds 60"
  shows "fst (enabled_codes x tid w2) = Inr codes"
  by (rule enabled_codes_recalled [OF assms(1-6)]) (use assms(7) in \<open>simp add: licence_ttl_def\<close>)

theorem enabled_codes_cached_witness:
  "\<exists>w1. enabled_codes sample_env 1 (sample_world sample_licences (Some []) (Some 1)) =
       (Inr {''AUTH'', ''COURSES''}, w1) \<and>
     fst (enabled_codes sample_env 1 (w1\<lparr>w_committed := empty_database\<rparr>)) =
       Inr {''AUTH'', ''COURSES''}"
proof -
  let ?w = "sample_world sample_licences (Some []) (Some 1)"
  have none: "redis_get sample_env (clock sample_env (w_draw ?w)) (licence_cache_key 1) [] = None"
    by (simp add: sample_env_def store_get_def)
  have "entitled 1 now sample_licences = {''AUTH'', ''COURSES''}" for now
    by (auto simp: entitled_def sample_licences_def sample_module_def core_codes_eq)
  then obtain w1 where run: "enabled_codes sample_env 1 ?w = (Inr {''AUTH'', ''COURSES''}, w1)"
    and draw: "w_draw w1 = 3"
    using enabled_codes_miss [where w = ?w and c = "[]" and x = sample_env and tid = 1] none
    by (simp add: Let_def)
  have "fst (enabled_codes sample_env 1 (w1\<lparr>w_committed := empty_database\<rparr>)) =
    Inr {''AUTH'', ''COURSES''}"
    by (rule enabled_codes_cached [OF sample_redis_ok _ none run])
      (simp_all add: draw sample_env_def seconds_def)
  with run show ?thesis by blast
qed

end
