(* ===== verification/Accounts.thy ===== *)
theory Accounts
  imports Auth Licensing
begin

text \<open>
  The life of an account and of its sessions: what the operations of \<open>Auth\<close> leave behind, and the
  properties of the auth module that follow. A refresh token works once and not after a logout; a
  reset token works once, in its tenant, while it lives, and a reset ends the sessions of its user;
  what was registered can log in.
\<close>

section \<open>Logout and refresh\<close>

lemma user_id_column: "m_id User = row_id"
  by (simp add: User_def)

lemma refresh_undecoded:
  assumes "jwt_ok x" and "payload_ok x" and "seconds (tp_iat p) \<le> clock x (w_draw w)"
    and "decoded p (clock x (w_draw w)) (Some ''refresh'') = Inl e"
  shows "\<exists>m. fst (refresh_tokens x (token_text x (w_settings w) p) w) =
    Inl (app_exn AuthenticationError m)"
proof -
  obtain m where "e = Unhandled (TokenError m)"
    using assms(4) by (auto simp: decoded_def split: if_splits)
  then show ?thesis
    using assms(4)
    by (simp add: refresh_tokens_def except_token_error_run decode_encoded [OF assms(1-3)] raise_def
        andthen_def) blast
qed

lemma logout_decoded:
  assumes "jwt_ok x" and "payload_ok x" and "seconds (tp_iat p) \<le> clock x (w_draw w)"
    and "serving t w" and "consistent UserSession (view w)"
    and "decoded p (clock x (w_draw w)) (Some ''refresh'') = Inr p"
    and "logout x (Some (token_text x (w_settings w) p)) w = (Inr (), w1)"
  shows "revoked t (tp_jti p) (view w1) \<and> consistent UserSession (view w1)"
proof -
  let ?w = "w\<lparr>w_draw := Suc (w_draw w)\<rparr>"
  have sv: "serving t ?w" "consistent UserSession (view ?w)"
    using assms(4,5) by simp_all
  have "token_text x (w_settings w) p \<noteq> []"
    using assms(1) by (simp add: jwt_ok_def token_text_def)
  then have run: "(case jti_session t (tp_jti p) (view w) of
      None \<Rightarrow> ret ()
    | Some s \<Rightarrow> if session_is_active s then revoke_session x s else ret ()) ?w = (Inr (), w1)"
    using assms(7) decode_encoded [OF assms(1-3), of "Some ''refresh''"] assms(6)
    by (simp add: logout_def andthen_Inr except_token_error_run act_simps andthen_get_by_jti [OF sv])
  have only: "revoked t (tp_jti p) (view w)"
    if "\<And>s. jti_session t (tp_jti p) (view w) = Some s \<Longrightarrow> us_revoked_at s \<noteq> None"
    unfolding revoked_def list_all_iff
  proof (intro ballI impI)
    fix s assume s: "s \<in> set (t_user_sessions (view w))" "tenant_id s = t" "us_jti s = tp_jti p"
    then have "jti_session t (tp_jti p) (view w) \<noteq> None"
      by (auto simp: jti_session_def filter_empty_conv)
    then obtain s' where s': "jti_session t (tp_jti p) (view w) = Some s'" by blast
    then have "s' = s"
      using jti_sessionD [OF s'] s session_unique [OF assms(5)] by metis
    with that s' show "us_revoked_at s \<noteq> None" by blast
  qed
  show ?thesis
  proof (cases "jti_session t (tp_jti p) (view w)")
    case None
    then show ?thesis using run only assms(5) by (auto simp: act_simps)
  next
    case (Some s)
    show ?thesis
    proof (cases "session_is_active s")
      case True
      then have "revoke_session x s ?w = (Inr (), w1)" using run Some by simp
      from revoke_session_ok [OF sv _ this] jti_sessionD [OF Some] show ?thesis by simp
    next
      case False
      then show ?thesis using run Some only assms(5) by (auto simp: act_simps session_is_active_def)
    qed
  qed
qed

text \<open>The session table after a logout with a valid token: one session has ended, if it was open.\<close>

definition session_ended :: "uuid \<Rightarrow> uuid \<Rightarrow> time \<Rightarrow> user_session list \<Rightarrow> user_session list" where
  "session_ended t j now rows =
     map (\<lambda>s. if tenant_id s = t \<and> us_jti s = j \<and> us_revoked_at s = None
              then s\<lparr>us_revoked_at := Some now\<rparr> else s) rows"

lemma session_ended_idle:
  assumes "\<And>s. s \<in> set rows \<Longrightarrow> tenant_id s = t \<Longrightarrow> us_jti s = j \<Longrightarrow> us_revoked_at s \<noteq> None"
  shows "session_ended t j now rows = rows"
  unfolding session_ended_def using assms by (intro map_idI) auto

lemma logout_rows:
  assumes "jwt_ok x" and "payload_ok x" and "seconds (tp_iat p) \<le> clock x (w_draw w)"
    and "serving t w" and "consistent UserSession (view w)"
    and "logout x (Some (token_text x (w_settings w) p)) w = (Inr (), w1)"
  shows "t_users (view w1) = t_users (view w)"
    and "t_user_sessions (view w1) =
      (if clock x (w_draw w) < seconds (tp_exp p) \<and> tp_type p = ''refresh''
       then session_ended t (tp_jti p) (clock x (Suc (w_draw w))) (t_user_sessions (view w))
       else t_user_sessions (view w))"
proof -
  let ?w = "w\<lparr>w_draw := Suc (w_draw w)\<rparr>"
  let ?valid = "clock x (w_draw w) < seconds (tp_exp p) \<and> tp_type p = ''refresh''"
  let ?closed = "session_ended t (tp_jti p) (clock x (Suc (w_draw w))) (t_user_sessions (view w))"
  have sv: "serving t ?w" "consistent UserSession (view ?w)"
    using assms(4,5) by simp_all
  have "token_text x (w_settings w) p \<noteq> []"
    using assms(1) by (simp add: jwt_ok_def token_text_def)
  note run = assms(6) decode_encoded [OF assms(1-3), of "Some ''refresh''"] this
  have "t_users (view w1) = t_users (view w) \<and> t_user_sessions (view w1) = (if ?valid then ?closed else t_user_sessions (view w))"
  proof (cases ?valid)
    case False
    then have "\<exists>m. decoded p (clock x (w_draw w)) (Some ''refresh'') = Inl (Unhandled (TokenError m))"
      by (cases "clock x (w_draw w) < seconds (tp_exp p)") (simp_all add: decoded_def)
    then obtain m where "decoded p (clock x (w_draw w)) (Some ''refresh'') = Inl (Unhandled (TokenError m))"
      by blast
    then have "decode_token x (token_text x (w_settings w) p) (Some ''refresh'') w = (Inl (Unhandled (TokenError m)), ?w)"
      using run(2) by simp
    then have failed: "andthen (decode_token x (token_text x (w_settings w) p) (Some ''refresh'')) (\<lambda>p. ret (Some p)) w =
        (Inl (Unhandled (TokenError m)), ?w)"
      by (simp add: andthen_def)
    have "w1 = ?w"
      using run(1,3) by (simp add: logout_def andthen_def [of "except_token_error m h" for m h] except_token_error_run failed act_simps)
    then have "t_users (view w1) = t_users (view w)" "t_user_sessions (view w1) = t_user_sessions (view w)" by simp_all
    with False show ?thesis by (simp only: if_False simp_thms)
  next
    case True
    then have step: "(case jti_session t (tp_jti p) (view w) of
        None \<Rightarrow> ret ()
      | Some s \<Rightarrow> if session_is_active s then revoke_session x s else ret ()) ?w = (Inr (), w1)"
      using run by (simp add: logout_def andthen_Inr except_token_error_run act_simps andthen_get_by_jti [OF sv] decoded_def)
    show ?thesis
    proof (cases "\<exists>s. jti_session t (tp_jti p) (view w) = Some s \<and> session_is_active s")
      case True
      then obtain s where s: "jti_session t (tp_jti p) (view w) = Some s" "session_is_active s" by blast
      note own = jti_sessionD [OF s(1)]
      have rev: "revoke_session x s ?w = (Inr (), w1)" using step s by simp
      have mem: "s \<in> set (t_user_sessions (view ?w))" using own by simp
      note ok = revoke_session_ok [OF sv mem rev]
      have same: "row_id r = row_id s \<and> tenant_id r = t \<longleftrightarrow> tenant_id r = t \<and> us_jti r = tp_jti p \<and> us_revoked_at r = None"
        if "r \<in> set (t_user_sessions (view w))" for r
        using session_unique [OF assms(5) that, of s] own s(2) by (auto simp: session_is_active_def)
      have "t_user_sessions (view w1) = ?closed"
        using ok(8) same by (auto simp: session_ended_def intro!: map_cong)
      with ok(6) \<open>?valid\<close> show ?thesis by simp
    next
      case False
      then have "w1 = ?w" using step by (auto simp: act_simps split: option.splits)
      moreover have "us_revoked_at s \<noteq> None"
        if s: "s \<in> set (t_user_sessions (view w))" "tenant_id s = t" "us_jti s = tp_jti p" for s
      proof -
        from s obtain s' where s': "jti_session t (tp_jti p) (view w) = Some s'"
          by (cases "jti_session t (tp_jti p) (view w)") (auto simp: jti_session_def filter_empty_conv)
        then have "s' = s" using jti_sessionD [OF s'] s session_unique [OF assms(5)] by metis
        with s' False show ?thesis by (auto simp: session_is_active_def)
      qed
      ultimately show ?thesis using \<open>?valid\<close> by (simp add: session_ended_idle)
    qed
  qed
  then show "t_users (view w1) = t_users (view w)"
    and "t_user_sessions (view w1) = (if ?valid then ?closed else t_user_sessions (view w))" by simp_all
qed

section \<open>Password reset\<close>

text \<open>What a reset token stands for at a time, in the store that is in use.\<close>

definition reset_value :: "'c env \<Rightarrow> time \<Rightarrow> string \<Rightarrow> 'c world \<Rightarrow> string option" where
  "reset_value x now token w = (case w_redis w of
     Some c \<Rightarrow> redis_get x now (reset_key token) c
   | None \<Rightarrow> fst (get_reset now token (w_reset_store w)))"

lemma lookup_reset_run:
  "\<exists>st. lookup_reset x token w = (Inr (reset_value x (clock x (w_draw w)) token w),
     w\<lparr>w_draw := Suc (w_draw w), w_reset_store := st\<rparr>)"
proof (cases "w_redis w")
  case None
  then show ?thesis
    by (auto simp: lookup_reset_def act_simps reset_store_get_def reset_value_def case_prod_unfold Let_def)
next
  case (Some c)
  then show ?thesis
    by (intro exI [of _ "w_reset_store w"])
      (simp add: lookup_reset_def act_simps cache_get_def reset_value_def)
qed

definition reset_value_text :: "uuid \<Rightarrow> uuid \<Rightarrow> string" where
  "reset_value_text t u = uuid_str t @ '':'' @ uuid_str u"

lemma partition_reset_value:
  "partition_char (CHR '':'') (reset_value_text t u) = (uuid_str t, '':'', uuid_str u)"
  using partition_char_append [of "CHR '':''" "uuid_str t" "uuid_str u"]
  by (simp add: reset_value_text_def not_in_uuid_str hex_chars_def)

lemma forgot_password_ok:
  assumes "serving t w" and "consistent User (view w)" and "account t (lower e) (view w) = Some u"
    and "forgot_password x e w = (Inr (Some token), w1)"
    and "w_redis w = None \<or> redis_ok x"
    and "clock x (Suc (w_draw w)) \<le> now"
  shows "now < clock x (Suc (w_draw w)) + seconds (password_reset_ttl_seconds (w_settings w)) \<Longrightarrow>
      reset_value x now token w1 = Some (reset_value_text t (row_id u))"
    and "view w1 = view w" and "w_settings w1 = w_settings w" and "w_redis w1 = None \<longleftrightarrow> w_redis w = None"
    and "clock x (Suc (w_draw w)) + seconds (password_reset_ttl_seconds (w_settings w)) < now \<Longrightarrow>
      reset_value x now token w1 = None"
proof -
  let ?n = "w_draw w"
  let ?v = "reset_value_text t (row_id u)"
  let ?ttl = "password_reset_ttl_seconds (w_settings w)"
  have w1: "token = token_urlsafe x ?n \<and> w1 = (case w_redis w of
      None \<Rightarrow> w\<lparr>w_draw := Suc (Suc ?n),
        w_reset_store := store_reset (clock x (Suc ?n)) (token_urlsafe x ?n) ?v ?ttl (w_reset_store w)\<rparr>
    | Some c \<Rightarrow> w\<lparr>w_draw := Suc (Suc ?n),
        w_redis := Some (redis_set x (clock x (Suc ?n)) (reset_key (token_urlsafe x ?n)) ?v ?ttl c)\<rparr>)"
    using assms(4)
    by (auto simp: forgot_password_def andthen_require_tenant [OF servingD(3) [OF assms(1)]]
        andthen_get_by_email [OF assms(1,2)] lower_idem assms(3) act_simps Let_def reset_store_put_def
        cache_set_def andthen_assoc reset_value_text_def split: option.splits)
  show "reset_value x now token w1 = Some ?v"
    if "now < clock x (Suc ?n) + seconds ?ttl"
  proof (cases "w_redis w")
    case None
    then show ?thesis
      using w1 reset_tokens.look_put [OF assms(6) that] by (simp add: reset_value_def)
  next
    case (Some c)
    then have "expiring_store (redis_set x) (redis_get x) (redis_delete x)"
      using assms(5) by (simp add: redis_ok_def)
    from expiring_store.look_put [OF this assms(6) that] Some w1 show ?thesis
      by (simp add: reset_value_def)
  qed
  show "reset_value x now token w1 = None"
    if "clock x (Suc ?n) + seconds ?ttl < now"
  proof (cases "w_redis w")
    case None
    then show ?thesis
      using w1 reset_tokens.look_put_expired [OF that] by (simp add: reset_value_def)
  next
    case (Some c)
    then have "expiring_store (redis_set x) (redis_get x) (redis_delete x)"
      using assms(5) by (simp add: redis_ok_def)
    from expiring_store.look_put_expired [OF this that] Some w1 show ?thesis
      by (simp add: reset_value_def)
  qed
  show "view w1 = view w" "w_settings w1 = w_settings w" "w_redis w1 = None \<longleftrightarrow> w_redis w = None"
    using w1 by (auto simp: view_def split: option.splits)
qed

text \<open>The part of \<open>reset_password\<close> after the token was found to be for tenant \<open>t\<close> and user \<open>u\<close>.\<close>

lemma reset_password_run:
  assumes "reset_value x (clock x (w_draw w)) token w = Some (reset_value_text t' u)"
    and "current_tenant_id (w_ctx w) = Some t"
  shows "\<exists>st. reset_password x token pw w =
    (if t' = t then
       andthen (repo_get User u) (\<lambda>found. case found of
         None \<Rightarrow> raise (app_exn NotFoundError ''User not found'')
       | Some r \<Rightarrow>
           andthen (hash_password x pw) (\<lambda>h.
           andthen (sql_update User (row_id r) (\<lambda>r. r\<lparr>hashed_password := h\<rparr>)) (\<lambda>_.
           andthen (revoke_all_for_user (row_id r)) (\<lambda>_.
           forget_reset x token))))
     else raise (app_exn ValidationError ''Invalid reset token for tenant''))
    (w\<lparr>w_draw := Suc (w_draw w), w_reset_store := st\<rparr>)"
proof -
  obtain st where look: "lookup_reset x token w = (Inr (Some (reset_value_text t' u)),
     w\<lparr>w_draw := Suc (w_draw w), w_reset_store := st\<rparr>)"
    using lookup_reset_run [of x token w] assms(1) by auto
  have "reset_value_text t' u \<noteq> []"
    by (simp add: reset_value_text_def)
  then have "reset_password x token pw w =
    (if t' = t then
       andthen (repo_get User u) (\<lambda>found. case found of
         None \<Rightarrow> raise (app_exn NotFoundError ''User not found'')
       | Some r \<Rightarrow>
           andthen (hash_password x pw) (\<lambda>h.
           andthen (sql_update User (row_id r) (\<lambda>r. r\<lparr>hashed_password := h\<rparr>)) (\<lambda>_.
           andthen (revoke_all_for_user (row_id r)) (\<lambda>_.
           forget_reset x token))))
     else raise (app_exn ValidationError ''Invalid reset token for tenant''))
    (w\<lparr>w_draw := Suc (w_draw w), w_reset_store := st\<rparr>)"
    using assms(2)
    by (simp add: reset_password_def andthen_Inr [of "lookup_reset x token", OF look] partition_reset_value parse_uuid_or_raise_def
        andthen_require_tenant act_simps)
  then show ?thesis by blast
qed

lemma forget_reset_run:
  "\<exists>w1. forget_reset x token w = (Inr (), w1) \<and> view w1 = view w \<and> w_settings w1 = w_settings w \<and>
     serving t w1 = serving t w \<and>
     (w_redis w = None \<or> redis_ok x \<longrightarrow> (\<forall>now. reset_value x now token w1 = None))"
proof (cases "w_redis w")
  case None
  let ?w = "w\<lparr>w_reset_store := delete_reset 0 token (w_reset_store w)\<rparr>"
  have "forget_reset x token w = (Inr (), ?w)"
    using None by (simp add: forget_reset_def act_simps reset_store_delete_def)
  moreover have "reset_value x now token ?w = None" for now
    using None reset_tokens.look_forget [of now token 0] by (simp add: reset_value_def)
  ultimately show ?thesis by (intro exI [of _ ?w]) simp
next
  case (Some c)
  let ?w = "w\<lparr>w_draw := Suc (w_draw w),
    w_redis := Some (redis_delete x (clock x (w_draw w)) (reset_key token) c)\<rparr>"
  have "forget_reset x token w = (Inr (), ?w)"
    using Some by (simp add: forget_reset_def act_simps cache_delete_def)
  moreover have "reset_value x now token ?w = None" if "redis_ok x" for now
    using expiring_store.look_forget [OF that [unfolded redis_ok_def]] by (simp add: reset_value_def)
  ultimately show ?thesis using Some by (intro exI [of _ ?w]) simp
qed

text \<open>The effect of the two writes of a reset.\<close>

definition with_password :: "uuid \<Rightarrow> uuid \<Rightarrow> string \<Rightarrow> user list \<Rightarrow> user list" where
  "with_password t u h rows =
     map (\<lambda>r. if row_id r = u \<and> tenant_id r = t then r\<lparr>hashed_password := h\<rparr> else r) rows"

definition all_revoked :: "uuid \<Rightarrow> uuid \<Rightarrow> time \<Rightarrow> user_session list \<Rightarrow> user_session list" where
  "all_revoked t u now rows =
     map (\<lambda>s. if tenant_id s = t \<and> us_user_id s = u \<and> us_revoked_at s = None
              then s\<lparr>us_revoked_at := Some now\<rparr> else s) rows"

lemma all_revokedD:
  assumes "s \<in> set (all_revoked t u now rows)" and "tenant_id s = t" and "us_user_id s = u"
  shows "us_revoked_at s \<noteq> None"
proof -
  from assms(1) obtain q where q: "s = (if tenant_id q = t \<and> us_user_id q = u \<and> us_revoked_at q = None
      then q\<lparr>us_revoked_at := Some now\<rparr> else q)"
    unfolding all_revoked_def set_map by (rule imageE) blast
  show ?thesis
  proof (cases "tenant_id q = t \<and> us_user_id q = u \<and> us_revoked_at q = None")
    case True
    then have "s = q\<lparr>us_revoked_at := Some now\<rparr>" using q by (simp only: if_True simp_thms)
    then show ?thesis by simp
  next
    case False
    then have eq: "s = q" using q by (simp only: if_False simp_thms)
    show ?thesis using False assms(2,3) unfolding eq by simp
  qed
qed

lemma write_password:
  assumes "serving t w" and "sql_update User u (\<lambda>r. r\<lparr>hashed_password := h\<rparr>) w = (Inr (), w1)"
  shows "t_users (view w1) = with_password t u h (t_users (view w))"
    and "t_user_sessions (view w1) = t_user_sessions (view w)"
    and "serving t w1" and "w_settings w1 = w_settings w" and "w_now w1 = w_now w"
    and "w_redis w1 = w_redis w"
proof -
  have "m_id User = row_id" by (simp add: User_def)
  with assms(2) have w1: "w1 = w\<lparr>w_delta :=
      update_rows User (\<lambda>r. row_id r = u \<and> row_visible User w r) (\<lambda>r. r\<lparr>hashed_password := h\<rparr>) \<circ> w_delta w\<rparr>"
    by (simp add: sql_update_Inr)
  show "t_users (view w1) = with_password t u h (t_users (view w))"
    unfolding w1 update_rows_def user_rows.serving_visible [OF assms(1)]
    by (simp add: view_def with_password_def) (simp add: User_def)
  show "t_user_sessions (view w1) = t_user_sessions (view w)"
    unfolding w1 update_rows_def by (simp add: view_def) (simp add: User_def)
  show "serving t w1" "w_settings w1 = w_settings w" "w_now w1 = w_now w" "w_redis w1 = w_redis w"
    using assms(1) by (simp_all add: w1)
qed

lemma write_revoked:
  assumes "serving t w"
  shows "\<exists>w1. revoke_all_for_user u w = (Inr (), w1) \<and> t_users (view w1) = t_users (view w) \<and>
    t_user_sessions (view w1) = all_revoked t u (w_now w) (t_user_sessions (view w)) \<and>
    serving t w1 \<and> w_settings w1 = w_settings w \<and> w_redis w1 = w_redis w"
proof -
  let ?w = "w\<lparr>w_delta :=
     update_rows UserSession
       (\<lambda>s. row_visible UserSession w s \<and> us_user_id s = u \<and> us_revoked_at s = None)
       (\<lambda>s. s\<lparr>us_revoked_at := Some (w_now w)\<rparr>) \<circ> w_delta w\<rparr>"
  have "revoke_all_for_user u w = (Inr (), ?w)"
    by (simp add: revoke_all_for_user_def act_simps)
  moreover have "t_user_sessions (view ?w) = all_revoked t u (w_now w) (t_user_sessions (view w))"
    unfolding update_rows_def session_rows.serving_visible [OF assms]
    by (simp add: view_def all_revoked_def) (simp add: UserSession_def)
  moreover have "t_users (view ?w) = t_users (view w)"
    unfolding update_rows_def by (simp add: view_def) (simp add: UserSession_def)
  ultimately show ?thesis using assms by (intro exI [of _ ?w]) simp
qed

lemma reset_password_ok:
  assumes sv: "serving t w" and rv: "reset_value x (clock x (w_draw w)) token w = Some (reset_value_text t u)"
    and run: "reset_password x token pw w = (Inr (), w1)"
  shows "\<exists>r \<in> set (t_users (view w)). row_id r = u \<and> tenant_id r = t \<and> deleted_at r = None"
    and "t_users (view w1) = with_password t u (hasher_hash x (Suc (w_draw w)) pw) (t_users (view w))"
    and "\<exists>now. t_user_sessions (view w1) = all_revoked t u now (t_user_sessions (view w))"
    and "w_settings w1 = w_settings w"
    and "w_redis w = None \<or> redis_ok x \<Longrightarrow> reset_value x now token w1 = None"
proof -
  obtain st where eq: "reset_password x token pw w =
       andthen (repo_get User u) (\<lambda>found. case found of
         None \<Rightarrow> raise (app_exn NotFoundError ''User not found'')
       | Some r \<Rightarrow>
           andthen (hash_password x pw) (\<lambda>h.
           andthen (sql_update User (row_id r) (\<lambda>r. r\<lparr>hashed_password := h\<rparr>)) (\<lambda>_.
           andthen (revoke_all_for_user (row_id r)) (\<lambda>_.
           forget_reset x token))))
    (w\<lparr>w_draw := Suc (w_draw w), w_reset_store := st\<rparr>)"
    using reset_password_run [OF rv servingD(3) [OF sv], of pw] by auto
  let ?w = "w\<lparr>w_draw := Suc (w_draw w), w_reset_store := st\<rparr>"
  let ?w2 = "w\<lparr>w_reset_store := st, w_draw := Suc (Suc (w_draw w))\<rparr>"
  let ?h = "hasher_hash x (Suc (w_draw w)) pw"
  obtain r where found: "scalar_one_or_none (filter (\<lambda>r. row_id r = u) (live_rows User w)) = Inr (Some r)"
    and "andthen (sql_update User (row_id r) (\<lambda>r. r\<lparr>hashed_password := ?h\<rparr>)) (\<lambda>_.
           andthen (revoke_all_for_user (row_id r)) (\<lambda>_. forget_reset x token)) ?w2 = (Inr (), w1)"
    using run eq
    by (auto simp: repo_get_def andthen_repo_find act_simps hash_password_def andthen_assoc
        user_id_column split: sum.splits option.splits)
  then obtain w3 where upd: "sql_update User (row_id r) (\<lambda>r. r\<lparr>hashed_password := ?h\<rparr>) ?w2 = (Inr (), w3)"
    and rest: "andthen (revoke_all_for_user (row_id r)) (\<lambda>_. forget_reset x token) w3 = (Inr (), w1)"
    by (auto simp: andthen_eq_Inr [of "sql_update User k f" for k f])
  from found have r: "r \<in> set (t_users (view w))" "row_id r = u" "tenant_id r = t" "deleted_at r = None"
    unfolding live_users [OF sv] scalar_one_or_none_Some by (auto dest!: arg_cong [where f = set])
  then show "\<exists>r \<in> set (t_users (view w)). row_id r = u \<and> tenant_id r = t \<and> deleted_at r = None"
    by blast
  have sv2: "serving t ?w2" using sv by simp
  note wp = write_password [OF sv2 upd]
  obtain w4 where "revoke_all_for_user (row_id r) w3 = (Inr (), w4)"
    and w4: "t_users (view w4) = t_users (view w3)" "w_settings w4 = w_settings w3"
      "t_user_sessions (view w4) = all_revoked t (row_id r) (w_now w3) (t_user_sessions (view w3))"
      "w_redis w4 = w_redis w3"
    using write_revoked [OF wp(3)] by blast
  then have forget: "forget_reset x token w4 = (Inr (), w1)"
    using rest by (simp add: andthen_Inr)
  have fin: "view w1 = view w4" "w_settings w1 = w_settings w4"
    "w_redis w4 = None \<or> redis_ok x \<Longrightarrow> reset_value x now token w1 = None" for now
    using forget_reset_run [of x token w4 t] forget by auto
  show "t_users (view w1) = with_password t u ?h (t_users (view w))"
    using fin w4 wp r by simp
  show "\<exists>now. t_user_sessions (view w1) = all_revoked t u now (t_user_sessions (view w))"
    using fin w4 wp r by auto
  show "w_settings w1 = w_settings w"
    using fin w4 wp by simp
  show "w_redis w = None \<or> redis_ok x \<Longrightarrow> reset_value x now token w1 = None"
    using fin(3) w4(4) wp(6) by simp
qed

section \<open>The properties of sessions\<close>

text \<open>
  C15. A refresh token works once. When the rotation of a token succeeds, the same token is refused
  with an authentication error in the state it leaves, at any later time; the new refresh token is
  for the same user and tenant, under another token id.
\<close>

theorem refresh_token_single_use:
  assumes "jwt_ok x" and "payload_ok x" and "clock_ok x" and "seconds (tp_iat p) \<le> clock x (w_draw w)"
    and "serving t w" and "consistent UserSession (view w)"
    and "refresh_tokens x (token_text x (w_settings w) p) w = (Inr tokens, w1)"
    and "serving t w2" and "view w2 = view w1" and "w_settings w2 = w_settings w"
    and "w_draw w \<le> w_draw w2"
  shows "(\<exists>m. fst (refresh_tokens x (token_text x (w_settings w) p) w2) =
      Inl (app_exn AuthenticationError m)) \<and>
    (\<exists>q. refresh_token tokens = token_text x (w_settings w) q \<and> tp_sub q = tp_sub p \<and>
      tp_tid q = tp_tid p \<and> tp_type q = ''refresh'' \<and> tp_jti q \<noteq> tp_jti p)"
proof
  note ok = refresh_tokens_ok [OF assms(1,2,4-7)]
  have "seconds (tp_iat p) \<le> clock x (w_draw w2)"
    using assms(4) clock_okD [OF assms(3,11)] by simp
  then show "\<exists>m. fst (refresh_tokens x (token_text x (w_settings w) p) w2) =
      Inl (app_exn AuthenticationError m)"
    using refresh_refused [OF assms(1,2) _ assms(8)] ok(1,2) assms(9,10) by metis
  show "\<exists>q. refresh_token tokens = token_text x (w_settings w) q \<and> tp_sub q = tp_sub p \<and>
      tp_tid q = tp_tid p \<and> tp_type q = ''refresh'' \<and> tp_jti q \<noteq> tp_jti p"
    using ok(4) by (auto simp: token_identity_def)
qed

text \<open>A user with one open session, and the token of that session.\<close>

definition sample_user :: user where
  "sample_user =
     \<lparr>row_id = 5, created_at = 0, tenant_id = 1, deleted_at = None, email = ''ann@acme.io'',
      hashed_password = ''plain:secret-1'', full_name = ''Ann'', is_active = True,
      is_verified = False, is_superuser = False, last_login_at = None\<rparr>"

definition sample_session :: user_session where
  "sample_session =
     \<lparr>row_id = 6, created_at = 0, tenant_id = 1, us_user_id = 5, us_jti = 7, us_user_agent = None,
      us_ip_address = None, us_expires_at = seconds 1800000000, us_revoked_at = None\<rparr>"

definition sample_accounts :: database where
  "sample_accounts = empty_database
     \<lparr>t_tenants := [sample_tenant], t_users := [sample_user], t_user_sessions := [sample_session]\<rparr>"

definition sample_payload :: token_payload where
  "sample_payload = \<lparr>tp_sub = 5, tp_tid = 1, tp_type = ''refresh'', tp_jti = 7,
     tp_exp = 1800000000, tp_iat = 1600000000\<rparr>"

abbreviation sample_accounts_world :: "store world" where
  "sample_accounts_world \<equiv> sample_world sample_accounts None (Some 1)"

lemma sample_accounts_facts:
  "serving 1 sample_accounts_world"
  "consistent UserSession sample_accounts" "consistent User sample_accounts"
  "seconds (tp_iat sample_payload) \<le> clock sample_env n"
  by (simp_all add: serving_def consistent_def UserSession_def User_def sample_accounts_def
      sample_payload_def sample_env_def seconds_def)

lemma sample_decoded:
  "decoded sample_payload (clock sample_env 0) (Some ''refresh'') = Inr sample_payload"
  by (simp add: decoded_def sample_payload_def sample_env_def seconds_def)

lemma sample_refresh_session:
  "\<not> isl (fst (refresh_session sample_env sample_payload (sample_accounts_world\<lparr>w_draw := 1\<rparr>)))"
  by code_simp

theorem refresh_token_single_use_witness:
  "\<exists>tokens w1 m. refresh_tokens sample_env (token_text sample_env default_settings sample_payload)
      sample_accounts_world = (Inr tokens, w1) \<and>
     fst (refresh_tokens sample_env (token_text sample_env default_settings sample_payload)
       (w1\<lparr>w_draw := 100\<rparr>)) = Inl (app_exn AuthenticationError m)"
proof -
  let ?w = "sample_accounts_world" and ?tok = "token_text sample_env default_settings sample_payload"
  have "refresh_tokens sample_env ?tok ?w = refresh_session sample_env sample_payload (?w\<lparr>w_draw := 1\<rparr>)"
    using refresh_decoded [OF sample_jwt_ok sample_payload_ok, of sample_payload ?w]
      sample_accounts_facts(4) sample_decoded by simp
  then obtain tokens w1 where run: "refresh_tokens sample_env ?tok ?w = (Inr tokens, w1)"
    using sample_refresh_session
    by (cases "refresh_session sample_env sample_payload (?w\<lparr>w_draw := 1\<rparr>)";
        cases "fst (refresh_session sample_env sample_payload (?w\<lparr>w_draw := 1\<rparr>))") auto
  note ok = refresh_tokens_ok [where w = ?w and p = sample_payload and x = sample_env and t = 1]
  have "w_settings w1 = default_settings"
    using ok(3) run sample_jwt_ok sample_payload_ok sample_accounts_facts by simp
  moreover have "serving 1 (w1\<lparr>w_draw := 100\<rparr>)"
    using ok(7) run sample_jwt_ok sample_payload_ok sample_accounts_facts by simp
  ultimately show ?thesis
    using refresh_token_single_use [where w = ?w and ?w1.0 = w1 and ?w2.0 = "w1\<lparr>w_draw := 100\<rparr>"
        and p = sample_payload and x = sample_env and t = 1 and tokens = tokens]
      run sample_jwt_ok sample_payload_ok sample_clock_ok sample_accounts_facts by fastforce
qed

text \<open>
  C32. A logout ends the session. When it returns, in the tenant \<open>t\<close> that the request is bound to, the
  session of that tenant with the identifier of the token, if it was open, has ended at the time of the
  request, provided the token is a refresh token that has not expired; every other session and every account
  is as it was. The token is refused with an authentication error at any later time in that tenant, whether
  it was still valid or not. A session of another tenant the row policy hides, and the logout leaves it open.
\<close>

theorem logout_ends_session:
  assumes "jwt_ok x" and "payload_ok x" and "clock_ok x" and "seconds (tp_iat p) \<le> clock x (w_draw w)"
    and "serving t w" and "consistent UserSession (view w)"
    and "logout x (Some (token_text x (w_settings w) p)) w = (Inr (), w1)"
    and "serving t w2" and "view w2 = view w1" and "w_settings w2 = w_settings w"
    and "w_draw w \<le> w_draw w2"
  shows "(\<exists>m. fst (refresh_tokens x (token_text x (w_settings w) p) w2) = Inl (app_exn AuthenticationError m)) \<and>
    t_users (view w1) = t_users (view w) \<and>
    t_user_sessions (view w1) =
      (if clock x (w_draw w) < seconds (tp_exp p) \<and> tp_type p = ''refresh''
       then map (\<lambda>s. if tenant_id s = t \<and> us_jti s = tp_jti p \<and> us_revoked_at s = None
              then s\<lparr>us_revoked_at := Some (clock x (Suc (w_draw w)))\<rparr> else s) (t_user_sessions (view w))
       else t_user_sessions (view w))"
proof -
  have later: "clock x (w_draw w) \<le> clock x (w_draw w2)"
    by (rule clock_okD [OF assms(3,11)])
  then have iat: "seconds (tp_iat p) \<le> clock x (w_draw w2)"
    using assms(4) by simp
  have "\<exists>m. fst (refresh_tokens x (token_text x (w_settings w) p) w2) = Inl (app_exn AuthenticationError m)"
  proof (cases "decoded p (clock x (w_draw w)) (Some ''refresh'')")
    case (Inl e)
    then have "isl (decoded p (clock x (w_draw w2)) (Some ''refresh''))"
      using later by (auto simp: decoded_def split: if_splits)
    then obtain e' where "decoded p (clock x (w_draw w2)) (Some ''refresh'') = Inl e'"
      by (auto simp: isl_def)
    from refresh_undecoded [OF assms(1,2) iat this] show ?thesis
      by (simp add: assms(10))
  next
    case (Inr q)
    then have "decoded p (clock x (w_draw w)) (Some ''refresh'') = Inr p"
      by (auto simp: decoded_def split: if_splits)
    from logout_decoded [OF assms(1,2,4-6) this assms(7)]
    have "revoked t (tp_jti p) (view w2)" "consistent UserSession (view w2)"
      by (simp_all add: assms(9))
    from refresh_refused [OF assms(1,2) iat assms(8) this(2,1)] show ?thesis
      by (simp add: assms(10))
  qed
  with logout_rows [OF assms(1,2,4-7), unfolded session_ended_def] show ?thesis by simp
qed

lemma sample_logout:
  "\<exists>w1. logout sample_env (Some (token_text sample_env default_settings sample_payload))
     sample_accounts_world = (Inr (), w1) \<and> serving 1 w1 \<and> w_settings w1 = default_settings"
proof -
  let ?w = "sample_accounts_world" and ?tok = "token_text sample_env default_settings sample_payload"
  let ?w1 = "?w\<lparr>w_draw := Suc 0\<rparr>"
  have sv: "serving 1 ?w1" "consistent UserSession (view ?w1)"
    using sample_accounts_facts by simp_all
  have sess: "jti_session 1 7 sample_accounts = Some sample_session"
    by (simp add: jti_session_def sample_accounts_def sample_session_def)
  have "decode_token sample_env ?tok (Some ''refresh'') ?w = (Inr sample_payload, ?w1)"
    using decode_encoded [OF sample_jwt_ok sample_payload_ok, of sample_payload ?w "Some ''refresh''"]
      sample_accounts_facts(4) sample_decoded by simp
  moreover have "?tok \<noteq> []"
    using sample_jwt_ok by (simp add: jwt_ok_def token_text_def)
  ultimately have run: "logout sample_env (Some ?tok) ?w = revoke_session sample_env sample_session ?w1"
    by (simp add: logout_def andthen_Inr except_token_error_run act_simps
        andthen_get_by_jti [OF sv] sess session_is_active_def)
      (simp add: sample_payload_def sess, simp add: sample_session_def)
  have "\<not> isl (fst (revoke_session sample_env sample_session ?w1))"
    by code_simp
  then obtain w1 where rev: "revoke_session sample_env sample_session ?w1 = (Inr (), w1)"
    by (cases "revoke_session sample_env sample_session ?w1";
        cases "fst (revoke_session sample_env sample_session ?w1)") auto
  have "sample_session \<in> set (t_user_sessions (view ?w1))"
    by (simp add: sample_accounts_def)
  from revoke_session_ok [OF _ _ this rev, of 1] run rev show ?thesis
    by (simp add: sample_accounts_facts)
qed

theorem logout_ends_session_witness:
  "\<exists>w1 m. logout sample_env (Some (token_text sample_env default_settings sample_payload))
       sample_accounts_world = (Inr (), w1) \<and>
     t_user_sessions (view w1) = [sample_session\<lparr>us_revoked_at := Some (clock sample_env 1)\<rparr>] \<and>
     fst (refresh_tokens sample_env (token_text sample_env default_settings sample_payload)
       (w1\<lparr>w_draw := 100\<rparr>)) = Inl (app_exn AuthenticationError m)"
proof -
  obtain w1 where run: "logout sample_env (Some (token_text sample_env default_settings sample_payload))
     sample_accounts_world = (Inr (), w1)" "serving 1 w1" "w_settings w1 = default_settings"
    using sample_logout by blast
  with logout_ends_session [where w = sample_accounts_world and ?w1.0 = w1
      and ?w2.0 = "w1\<lparr>w_draw := 100\<rparr>" and p = sample_payload and x = sample_env and t = 1]
    sample_jwt_ok sample_payload_ok sample_clock_ok sample_accounts_facts
  have "(\<exists>m. fst (refresh_tokens sample_env (token_text sample_env default_settings sample_payload)
       (w1\<lparr>w_draw := 100\<rparr>)) = Inl (app_exn AuthenticationError m)) \<and>
     t_user_sessions (view w1) = [sample_session\<lparr>us_revoked_at := Some (clock sample_env 1)\<rparr>]"
    by (simp add: sample_accounts_def sample_payload_def sample_session_def sample_env_def seconds_def)
  with run show ?thesis by blast
qed

lemma with_password_consistent:
  assumes "consistent User d" and "t_users d' = with_password t u h (t_users d)"
  shows "consistent User d'"
proof -
  have "sorted_wrt (\<lambda>r s. row_id r \<noteq> row_id s \<and> \<not> (tenant_id r = tenant_id s \<and> email r = email s))
      (with_password t u h (t_users d))"
    unfolding with_password_def sorted_wrt_map
    by (rule sorted_wrt_mono_rel [OF _ assms(1) [unfolded consistent_def User_def, simplified]]) auto
  then show ?thesis
    by (simp add: consistent_def User_def assms(2))
qed

text \<open>
  C23. What a password reset does. When it returns, the user the token stands for can log in with
  the new password (if the account is active), every session of that user is revoked, and the
  token cannot be used a second time. Only that user's password has changed: every other column and every
  other account, of this and of other tenants, is as it was, and so is every session of another user, and
  every session that had ended before.
\<close>

theorem password_reset_effect:
  assumes "hasher_ok x" and "serving t w" and "consistent User (view w)"
    and "reset_value x (clock x (w_draw w)) token w = Some (reset_value_text t u)"
    and "reset_password x token pw w = (Inr (), w1)" and "w_redis w = None \<or> redis_ok x"
    and "serving t w2" and "view w2 = view w1" and "w_redis w2 = w_redis w1"
    and "w_reset_store w2 = w_reset_store w1"
  shows "\<exists>r \<in> set (t_users (view w)). row_id r = u \<and> tenant_id r = t \<and>
    (lower (email r) = email r \<longrightarrow> fst (authenticate x (email r) pw w2) =
       (if is_active r then Inr (r\<lparr>hashed_password := hasher_hash x (Suc (w_draw w)) pw\<rparr>)
        else Inl (app_exn AuthenticationError ''Account disabled''))) \<and>
    (\<forall>s \<in> set (t_user_sessions (view w2)).
       tenant_id s = t \<and> us_user_id s = u \<longrightarrow> us_revoked_at s \<noteq> None) \<and>
    fst (reset_password x token pw' w2) =
      Inl (app_exn ValidationError ''Invalid or expired reset token'') \<and>
    t_users (view w1) = map (\<lambda>q. if row_id q = u \<and> tenant_id q = t
      then q\<lparr>hashed_password := hasher_hash x (Suc (w_draw w)) pw\<rparr> else q) (t_users (view w)) \<and>
    (\<exists>now. t_user_sessions (view w1) = map (\<lambda>s. if tenant_id s = t \<and> us_user_id s = u \<and> us_revoked_at s = None
      then s\<lparr>us_revoked_at := Some now\<rparr> else s) (t_user_sessions (view w)))"
proof -
  note ok = reset_password_ok [OF assms(2,4,5)]
  let ?h = "hasher_hash x (Suc (w_draw w)) pw"
  obtain r where r: "r \<in> set (t_users (view w))" "row_id r = u" "tenant_id r = t" "deleted_at r = None"
    using ok(1) by blast
  have cons: "consistent User (view w2)"
    using with_password_consistent [OF assms(3) ok(2)] by (simp add: assms(8))
  have "r\<lparr>hashed_password := ?h\<rparr> \<in> set (t_users (view w2))"
    using r ok(2) by (auto simp: assms(8) with_password_def intro!: image_eqI [of _ _ r])
  from account_unique [OF cons this] r
  have "account t (email r) (view w2) = Some (r\<lparr>hashed_password := ?h\<rparr>)"
    by simp
  then have login: "lower (email r) = email r \<Longrightarrow> fst (authenticate x (email r) pw w2) =
       (if is_active r then Inr (r\<lparr>hashed_password := ?h\<rparr>)
        else Inl (app_exn AuthenticationError ''Account disabled''))"
    using verify_hashed [OF assms(1)] by (simp add: authenticate_run [OF assms(7) cons])
  have sessions: "us_revoked_at s \<noteq> None"
    if s: "s \<in> set (t_user_sessions (view w2))" "tenant_id s = t" "us_user_id s = u" for s
  proof -
    obtain now where "s \<in> set (all_revoked t u now (t_user_sessions (view w)))"
      using ok(3) s(1) by (auto simp: assms(8))
    from all_revokedD [OF this s(2,3)] show ?thesis .
  qed
  have "reset_value x (clock x (w_draw w2)) token w2 = None"
    using ok(5) [OF assms(6), of "clock x (w_draw w2)"]
    by (cases "w_redis w1") (simp_all add: reset_value_def assms(9,10))
  then obtain w3 where "lookup_reset x token w2 = (Inr None, w3)"
    using lookup_reset_run [of x token w2] by auto
  then have "fst (reset_password x token pw' w2) =
      Inl (app_exn ValidationError ''Invalid or expired reset token'')"
    by (simp add: reset_password_def andthen_Inr [of "lookup_reset x token"] act_simps)
  with r login sessions ok(2,3) [unfolded with_password_def all_revoked_def] show ?thesis by blast
qed

definition sample_reset_world :: "store world" where
  "sample_reset_world = sample_accounts_world
     \<lparr>w_reset_store := [(''tok'', (reset_value_text 1 5, seconds 1800000000))]\<rparr>"

lemma sample_reset_password:
  "case reset_password sample_env ''tok'' ''secret-2'' sample_reset_world of
     (r, w) \<Rightarrow> \<not> isl r \<and> w_redis w = None \<and> w_guc_tenant w = Some 1 \<and> \<not> w_bypass w \<and>
       current_tenant_id (w_ctx w) = Some 1"
  by code_simp

theorem password_reset_effect_witness:
  "\<exists>w1. reset_password sample_env ''tok'' ''secret-2'' sample_reset_world = (Inr (), w1) \<and>
     map_sum id email (fst (authenticate sample_env ''ann@acme.io'' ''secret-2'' w1)) = Inr ''ann@acme.io'' \<and>
     fst (reset_password sample_env ''tok'' ''secret-3'' w1) =
       Inl (app_exn ValidationError ''Invalid or expired reset token'')"
proof -
  let ?w = sample_reset_world
  obtain r w1 where pair: "reset_password sample_env ''tok'' ''secret-2'' ?w = (r, w1)" by fastforce
  with sample_reset_password have run: "reset_password sample_env ''tok'' ''secret-2'' ?w = (Inr (), w1)"
    and sv: "serving 1 w1"
    by (cases r; simp add: serving_def)+
  have "reset_value sample_env (clock sample_env (w_draw ?w)) ''tok'' ?w = Some (reset_value_text 1 5)"
    by (simp add: reset_value_def get_reset_def sample_reset_world_def sample_env_def seconds_def)
  moreover have "serving 1 ?w" "consistent User (view ?w)" "w_redis ?w = None \<or> redis_ok sample_env"
    using sample_accounts_facts by (simp_all add: sample_reset_world_def)
  ultimately obtain u where "u \<in> set (t_users (view ?w))"
    and "lower (email u) = email u \<longrightarrow> fst (authenticate sample_env (email u) ''secret-2'' w1) =
      (if is_active u
       then Inr (u\<lparr>hashed_password := hasher_hash sample_env (Suc (w_draw ?w)) ''secret-2''\<rparr>)
       else Inl (app_exn AuthenticationError ''Account disabled''))"
    and "fst (reset_password sample_env ''tok'' ''secret-3'' w1) =
       Inl (app_exn ValidationError ''Invalid or expired reset token'')"
    using password_reset_effect [OF sample_hasher_ok _ _ _ run _ sv refl refl refl,
        where pw' = "''secret-3''" and u = 5] by blast
  moreover have "u = sample_user"
    using calculation(1) by (simp add: sample_reset_world_def sample_accounts_def)
  moreover have "lower ''ann@acme.io'' = ''ann@acme.io''" by code_simp
  ultimately show ?thesis using run by (auto simp: sample_user_def)
qed

text \<open>With a valid token, a user in service and a hash that fits its column, the reset returns.\<close>

lemma reset_password_returns:
  assumes sv: "serving t w" and cons: "consistent User (view w)"
    and u: "u \<in> set (t_users (view w))" "tenant_id u = t" "deleted_at u = None"
    and fits: "m_fits User u" "tenant_exists (view w) t" "length (hasher_hash x (Suc (w_draw w)) pw) \<le> 255"
    and rv: "reset_value x (clock x (w_draw w)) token w = Some (reset_value_text t (row_id u))"
  shows "fst (reset_password x token pw w) = Inr ()"
proof -
  let ?h = "hasher_hash x (Suc (w_draw w)) pw"
  obtain st where run: "reset_password x token pw w =
       andthen (repo_get User (row_id u)) (\<lambda>found. case found of
         None \<Rightarrow> raise (app_exn NotFoundError ''User not found'')
       | Some r \<Rightarrow>
           andthen (hash_password x pw) (\<lambda>h.
           andthen (sql_update User (row_id r) (\<lambda>r. r\<lparr>hashed_password := h\<rparr>)) (\<lambda>_.
           andthen (revoke_all_for_user (row_id r)) (\<lambda>_.
           forget_reset x token))))
    (w\<lparr>w_draw := Suc (w_draw w), w_reset_store := st\<rparr>)"
    using reset_password_run [OF rv servingD(3) [OF sv], of pw] by auto
  let ?w = "w\<lparr>w_draw := Suc (w_draw w), w_reset_store := st\<rparr>"
  let ?w3 = "w\<lparr>w_reset_store := st, w_draw := Suc (Suc (w_draw w))\<rparr>"
  have sv3: "serving t ?w3" using sv by simp
  have "filter (\<lambda>r. row_id r = row_id u) (live_rows User w) = [u]"
    unfolding live_users [OF sv]
    using user_rows.filter_key_single [of "view w" u "\<lambda>r. tenant_id r = t \<and> deleted_at r = None"] cons u
    by simp (simp add: User_def)
  then have get: "repo_get User (row_id u) ?w = (Inr (Some u), ?w)"
    by (simp add: repo_get_def repo_find_eq user_id_column)
  have "update_error User (m_id User u) (\<lambda>r. r\<lparr>hashed_password := ?h\<rparr>) ?w3 = None"
  proof (rule user_rows.update_allowed)
    show "consistent User (view ?w3)" "u \<in> set (m_rows User (view ?w3))"
      using cons u by simp_all (simp add: User_def)
    show "row_visible User ?w3 u" "row_visible User ?w3 (u\<lparr>hashed_password := ?h\<rparr>)"
      unfolding user_rows.serving_visible [OF sv3] using u by simp_all
  qed (use u fits in \<open>simp_all add: User_def\<close>)
  then obtain w4 where upd: "sql_update User (row_id u) (\<lambda>r. r\<lparr>hashed_password := ?h\<rparr>) ?w3 = (Inr (), w4)"
    by (auto simp: user_id_column sql_update_Inr)
  from write_password(3) [OF sv3 upd] obtain w5 where "revoke_all_for_user (row_id u) w4 = (Inr (), w5)"
    using write_revoked by blast
  moreover obtain w6 where "forget_reset x token w5 = (Inr (), w6)"
    using forget_reset_run by blast
  ultimately show ?thesis
    using run
    by (simp add: andthen_Inr [of "repo_get User (row_id u)", OF get] hash_password_def act_simps
        andthen_assoc andthen_Inr [of "sql_update User (row_id u) (\<lambda>r. r\<lparr>hashed_password := ?h\<rparr>)", OF upd]
        andthen_Inr [of "revoke_all_for_user (row_id u)"])
qed

text \<open>
  C33. The reset token of a forgotten password leads back to its account. Within its lifetime it is
  accepted for the tenant it was asked for, and the reset then succeeds (when the new hash fits its
  column); a request of another tenant is told that the token is not for it; after the lifetime the
  token is refused as expired.
\<close>

theorem forgotten_password_roundtrip:
  assumes "serving t w" and "consistent User (view w)" and "account t (lower e) (view w) = Some u"
    and "forgot_password x e w = (Inr (Some token), w1)" and "w_redis w = None \<or> redis_ok x"
    and "serving t' w2" and "view w2 = view w" and "w_redis w2 = w_redis w1"
    and "w_reset_store w2 = w_reset_store w1"
    and "clock x (Suc (w_draw w)) \<le> clock x (w_draw w2)"
    and "m_fits User u" and "tenant_exists (view w) t"
    and "length (hasher_hash x (Suc (w_draw w2)) pw) \<le> 255"
  shows "(clock x (w_draw w2) < clock x (Suc (w_draw w)) + seconds (password_reset_ttl_seconds (w_settings w)) \<longrightarrow>
      fst (reset_password x token pw w2) =
        (if t' = t then Inr () else Inl (app_exn ValidationError ''Invalid reset token for tenant''))) \<and>
    (clock x (Suc (w_draw w)) + seconds (password_reset_ttl_seconds (w_settings w)) < clock x (w_draw w2) \<longrightarrow>
      fst (reset_password x token pw w2) =
        Inl (app_exn ValidationError ''Invalid or expired reset token''))"
proof (intro conjI impI)
  have same: "reset_value x now token w2 = reset_value x now token w1" for now
    by (cases "w_redis w1") (simp_all add: reset_value_def assms(8,9))
  assume "clock x (w_draw w2) < clock x (Suc (w_draw w)) + seconds (password_reset_ttl_seconds (w_settings w))"
  from forgot_password_ok(1) [OF assms(1-5,10) this]
  have rv: "reset_value x (clock x (w_draw w2)) token w2 = Some (reset_value_text t (row_id u))"
    by (simp add: same)
  show "fst (reset_password x token pw w2) =
        (if t' = t then Inr () else Inl (app_exn ValidationError ''Invalid reset token for tenant''))"
  proof (cases "t' = t")
    case False
    then show ?thesis
      using reset_password_run [OF rv servingD(3) [OF assms(6)], of pw] by (auto simp: act_simps)
  next
    case True
    then show ?thesis
      using reset_password_returns [OF _ _ _ _ _ assms(11) _ assms(13) rv] accountD [OF assms(3)] assms(2,6,7,12)
      by simp
  qed
next
  assume "clock x (Suc (w_draw w)) + seconds (password_reset_ttl_seconds (w_settings w)) < clock x (w_draw w2)"
  from forgot_password_ok(5) [OF assms(1-5,10) this]
  have "reset_value x (clock x (w_draw w2)) token w2 = None"
    by (cases "w_redis w1") (simp_all add: reset_value_def assms(8,9))
  then obtain w3 where "lookup_reset x token w2 = (Inr None, w3)"
    using lookup_reset_run [of x token w2] by auto
  then show "fst (reset_password x token pw w2) =
      Inl (app_exn ValidationError ''Invalid or expired reset token'')"
    by (simp add: reset_password_def andthen_Inr [of "lookup_reset x token"] act_simps)
qed

lemma sample_forgot_password:
  "case forgot_password sample_env ''Ann@acme.io'' sample_accounts_world of
     (r, w) \<Rightarrow> r = Inr (Some ''t'') \<and> w_redis w = None \<and> w_guc_tenant w = Some 1 \<and> \<not> w_bypass w \<and>
       current_tenant_id (w_ctx w) = Some 1 \<and> w_draw w = 2"
  by code_simp

theorem forgotten_password_roundtrip_witness:
  "\<exists>token w1. forgot_password sample_env ''Ann@acme.io'' sample_accounts_world = (Inr (Some token), w1) \<and>
     fst (reset_password sample_env token ''secret-2'' w1) = Inr ()"
proof -
  let ?w = sample_accounts_world
  obtain r w1 where pair: "forgot_password sample_env ''Ann@acme.io'' ?w = (r, w1)" by fastforce
  with sample_forgot_password have run: "forgot_password sample_env ''Ann@acme.io'' ?w = (Inr (Some ''t''), w1)"
    and sv: "serving 1 w1" and draws: "w_draw w1 = 2"
    by (simp_all add: serving_def)
  have low: "lower ''Ann@acme.io'' = ''ann@acme.io''" by code_simp
  have acc: "account 1 (lower ''Ann@acme.io'') (view ?w) = Some sample_user"
    by (simp add: account_def low sample_accounts_def sample_user_def)
  have cons: "consistent User (view ?w)" using sample_accounts_facts(3) by simp
  have same: "view w1 = view ?w"
    using forgot_password_ok(2) [OF sample_accounts_facts(1) cons acc run _ order.refl] by simp
  have "m_fits User sample_user" "tenant_exists (view ?w) 1"
    by (simp_all add: User_def sample_user_def tenant_exists_def sample_accounts_def sample_tenant_def)
  then have "fst (reset_password sample_env ''t'' ''secret-2'' w1) = Inr ()"
    using forgotten_password_roundtrip [OF sample_accounts_facts(1) cons acc run _ sv same refl refl,
        of "''secret-2''"] draws
    by (simp add: sample_env_def seconds_def default_settings_def)
  with run show ?thesis by blast
qed

end
