(* ===== verification/Registration.thy ===== *)
theory Registration
  imports Accounts
begin

text \<open>
  Registration and login of \<^verbatim>\<open>auth/service.py\<close> put together: who registered is an account of the
  tenant that the email leads to, can log in with the password, and holds the email for itself.
\<close>

section \<open>What registration leaves behind\<close>

lemma add_user_role_users:
  assumes "add_user_role u r w = (Inr v, w1)"
  shows "w1 = w\<lparr>w_delta := (\<lambda>d. d\<lparr>t_user_roles := t_user_roles d @ [(u, r)]\<rparr>) \<circ> w_delta w\<rparr>"
  using assms by (simp add: add_user_role_def act_simps split: if_splits)

lemma register_ok:
  assumes sv: "serving t w" and start: "w_delta w = id" and cons: "consistent User (view w)"
    and run: "register x data w = (Inr u, w1)"
  shows "account t (lower (reg_email data)) (view w) = None"
    and "t_users (view w1) = t_users (view w) @ [u]"
    and "u = \<lparr>row_id = row_id u, created_at = w_now w, tenant_id = t, deleted_at = None,
      email = lower (reg_email data),
      hashed_password = hasher_hash x (w_draw w) (reg_password data),
      full_name = reg_full_name data, is_active = True, is_verified = False, is_superuser = False,
      last_login_at = None\<rparr>"
    and "consistent User (view w1)" and "serving t w1"
proof -
  let ?e = "lower (reg_email data)"
  let ?n = "w_draw w"
  let ?u = "\<lparr>row_id = uuid4 x (Suc ?n), created_at = w_now w, tenant_id = t, deleted_at = None,
      email = ?e, hashed_password = hasher_hash x ?n (reg_password data),
      full_name = reg_full_name data, is_active = True, is_verified = False, is_superuser = False,
      last_login_at = None\<rparr> :: user"
  let ?w = "w\<lparr>w_draw := Suc (Suc ?n)\<rparr>"
  let ?finish = "\<lambda>student :: role option. andthen (case student of None \<Rightarrow> ret () | Some r \<Rightarrow> add_user_role (row_id ?u) (row_id r)) (\<lambda>_.
        andthen (publish_event x (Some t) (Some (row_id ?u)) (UserRegisteredEvent ?e)) (\<lambda>_. ret ?u))"
  show none: "account t ?e (view w) = None"
    using run
    by (auto simp: register_def andthen_require_tenant [OF servingD(3) [OF sv]] Let_def
        andthen_get_by_email [OF sv cons] lower_idem act_simps split: if_splits)
  then obtain student w2 where ins: "sql_insert User ?u ?w = (Inr (), w2)"
    and fin: "?finish student w2 = (Inr u, w1)"
    using run
    by (auto simp: register_def andthen_require_tenant [OF servingD(3) [OF sv]] Let_def
        andthen_get_by_email [OF sv cons] lower_idem act_simps hash_password_def andthen_assoc
        get_by_code_def andthen_repo_find repo_add_def andthen_eq_Inr [of "sql_insert User r" for r]
        cong: option.case_cong split: if_splits sum.splits)
  have none': "insert_error User ?u ?w = None"
    and w2: "w2 = ?w\<lparr>w_delta := (\<lambda>d. d\<lparr>t_users := t_users d @ [?u]\<rparr>)\<rparr>"
    using ins start by (simp_all add: sql_insert_Inr) (simp add: User_def comp_def)
  obtain w3 where role: "w3 = w2 \<or> (\<exists>r. w3 = w2\<lparr>w_delta := (\<lambda>d. d\<lparr>t_user_roles := t_user_roles d @ [r]\<rparr>) \<circ> w_delta w2\<rparr>)"
    and pub: "andthen (publish_event x (Some t) (Some (row_id ?u)) (UserRegisteredEvent ?e)) (\<lambda>_. ret ?u) w3 = (Inr u, w1)"
  proof (cases student)
    case None
    with fin show ?thesis by (intro that [of w2]) (simp_all add: act_simps)
  next
    case (Some r)
    with fin obtain w3 where "add_user_role (row_id ?u) (row_id r) w2 = (Inr (), w3)"
      and "andthen (publish_event x (Some t) (Some (row_id ?u)) (UserRegisteredEvent ?e)) (\<lambda>_. ret ?u) w3 = (Inr u, w1)"
      by (auto simp: andthen_eq_Inr [of "add_user_role a b" for a b])
    then show ?thesis using add_user_role_users by (intro that [of w3]) blast+
  qed
  obtain w4 where "publish_event x (Some t) (Some (row_id ?u)) (UserRegisteredEvent ?e) w3 = (Inr (), w4)"
    and aud: "audited (Some t) w3 w4"
    by (rule publish_appE)
  with pub have u: "u = ?u" and w1: "w1 = w4"
    by (simp_all add: andthen_Inr [of "publish_event x a b c" for a b c] act_simps)
  have users: "t_users (w_delta w3 d) = t_users d @ [?u]" for d
    using role by (auto simp: w2)
  have "serving t w4"
    using sv role audited_sel [OF aud] by (auto simp: w2 serving_def)
  then show "serving t w1" by (simp add: w1)
  have committed: "t_users (w_committed w4) = t_users (w_committed w)"
    using aud role by (auto simp: audited_def w2)
  have "t_users (view w4) = t_users (view w) @ [?u]"
    using users committed audited_sel(1) [OF aud] start by (simp add: view_def)
  then show rows: "t_users (view w1) = t_users (view w) @ [u]"
    by (simp add: u w1)
  show "u = \<lparr>row_id = row_id u, created_at = w_now w, tenant_id = t, deleted_at = None,
      email = ?e, hashed_password = hasher_hash x ?n (reg_password data),
      full_name = reg_full_name data, is_active = True, is_verified = False, is_superuser = False,
      last_login_at = None\<rparr>"
    by (simp add: u)
  have "consistent User (view w2)"
    using user_rows.insert_consistent [OF _ ins] cons by simp
  moreover have "t_users (view w1) = t_users (view w2)"
    using rows start by (simp add: u w2 view_def)
  ultimately show "consistent User (view w1)"
    by (simp add: consistent_def User_def)
qed


definition sample_registration :: register_request where
  "sample_registration =
     \<lparr>reg_email = ''Bob@acme.io'', reg_password = ''secret-9'', reg_full_name = ''Bob''\<rparr>"

lemma sample_register:
  "\<not> isl (fst (register sample_env sample_registration sample_accounts_world))"
  by code_simp


end
