(* ===== verification/Schema.thy ===== *)
theory Schema
  imports Prelude
begin

text \<open>
  The catalog of the PostgreSQL database as the migrations see it: tables with their columns and
  constraints, indexes, enumeration types and row level security, and the data definition
  statements that Alembic sends, each with the errors the server answers. A relation name is taken
  by a table, by an index and by the index behind a key; an enumeration type is created with the
  first table that has a column of it, and dropping the table leaves it. The main fact: a statement
  that the server accepts keeps the catalog well formed, whatever the statement (\<open>run_ddl_ok\<close>).
\<close>

section \<open>The catalog\<close>

datatype column_type =
    Uuid
  | Varchar nat
  | Text
  | Boolean
  | Integer
  | Numeric nat nat
  | Timestamptz
  | Jsonb
  | Enum string "string list"

record column =
  col_name :: string
  col_type :: column_type
  col_nullable :: bool
  col_default_now :: bool

datatype on_delete = Cascade | SetNull

record foreign_key =
  fk_column :: string
  fk_target :: "string \<times> string"
  fk_name :: string
  fk_ondelete :: on_delete

record table_def =
  td_name :: string
  td_columns :: "column list"
  td_foreign_keys :: "foreign_key list"
  td_primary_key :: "string \<times> string list"
  td_uniques :: "(string \<times> string list) list"

record index_def =
  ix_name :: string
  ix_table :: string
  ix_columns :: "string list"
  ix_unique :: bool

record policy =
  pol_name :: string
  pol_table :: string
  pol_using :: string
  pol_check :: string

record catalog =
  c_tables :: "table_def list"
  c_indexes :: "index_def list"
  c_types :: "(string \<times> string list) list"
  c_rls :: "string list"
  c_forced :: "string list"
  c_policies :: "policy list"

definition empty_catalog :: catalog where
  "empty_catalog = \<lparr>c_tables = [], c_indexes = [], c_types = [], c_rls = [], c_forced = [], c_policies = []\<rparr>"

definition column_names :: "table_def \<Rightarrow> string list" where
  "column_names t = map col_name (td_columns t)"

definition table_names :: "catalog \<Rightarrow> string list" where
  "table_names c = map td_name (c_tables c)"

definition find_table :: "string \<Rightarrow> catalog \<Rightarrow> table_def option" where
  "find_table n c = find (\<lambda>t. td_name t = n) (c_tables c)"

definition table_relations :: "table_def \<Rightarrow> string list" where
  "table_relations t = td_name t # fst (td_primary_key t) # map fst (td_uniques t)"

definition relation_names :: "catalog \<Rightarrow> string list" where
  "relation_names c = concat (map table_relations (c_tables c)) @ map ix_name (c_indexes c)"

fun enum_of :: "column \<Rightarrow> (string \<times> string list) option" where
  "enum_of col = (case col_type col of Enum n vs \<Rightarrow> Some (n, vs) | _ \<Rightarrow> None)"

definition table_enums :: "table_def \<Rightarrow> (string \<times> string list) list" where
  "table_enums t = List.map_filter enum_of (td_columns t)"

section \<open>Statements\<close>

datatype ddl =
    CreateTable table_def
  | CreateIndex index_def
  | DropIndex string
  | DropTable string
  | EnableRls string
  | ForceRls string
  | CreatePolicy policy
  | DropPolicyIfExists string string
  | NoForceRls string
  | DisableRls string

datatype ddl_error =
    DuplicateRelation string
  | DuplicateColumn string
  | DuplicateType string
  | DuplicatePolicy string
  | UndefinedTable string
  | UndefinedColumn string
  | UndefinedIndex string
  | NoUniqueTarget string
  | DependentObjects string

text \<open>What a reference may point to: the columns alone in a key or in a unique constraint.\<close>

definition referable :: "table_def \<Rightarrow> string \<Rightarrow> bool" where
  "referable t col \<longleftrightarrow> [col] = snd (td_primary_key t) \<or> list_ex (\<lambda>u. snd u = [col]) (td_uniques t)"

definition fk_error :: "catalog \<Rightarrow> table_def \<Rightarrow> foreign_key \<Rightarrow> ddl_error option" where
  "fk_error c t fk = (let (n, col) = fk_target fk in
     case (if n = td_name t then Some t else find_table n c) of
       None \<Rightarrow> Some (UndefinedTable n)
     | Some t' \<Rightarrow> if referable t' col then None else Some (NoUniqueTarget (fk_name fk)))"

definition key_columns :: "table_def \<Rightarrow> string list" where
  "key_columns t = snd (td_primary_key t) @ concat (map snd (td_uniques t)) @ map fk_column (td_foreign_keys t)"

definition create_table_error :: "catalog \<Rightarrow> table_def \<Rightarrow> ddl_error option" where
  "create_table_error c t =
     (if list_ex (\<lambda>n. n \<in> set (relation_names c)) (table_relations t) \<or> \<not> distinct (table_relations t)
        then Some (DuplicateRelation (td_name t))
      else if \<not> distinct (column_names t) then Some (DuplicateColumn (td_name t))
      else if list_ex (\<lambda>e. fst e \<in> set (map fst (c_types c))) (table_enums t)
        then Some (DuplicateType (td_name t))
      else if \<not> list_all (\<lambda>col. col \<in> set (column_names t)) (key_columns t) then Some (UndefinedColumn (td_name t))
      else (case List.map_filter (fk_error c t) (td_foreign_keys t) of [] \<Rightarrow> None | e # _ \<Rightarrow> Some e))"

definition create_index_error :: "catalog \<Rightarrow> index_def \<Rightarrow> ddl_error option" where
  "create_index_error c i = (case find_table (ix_table i) c of
     None \<Rightarrow> Some (UndefinedTable (ix_table i))
   | Some t \<Rightarrow> if ix_name i \<in> set (relation_names c) then Some (DuplicateRelation (ix_name i))
               else if \<not> list_all (\<lambda>col. col \<in> set (column_names t)) (ix_columns i)
                 then Some (UndefinedColumn (ix_name i))
               else None)"

text \<open>The tables, other than \<open>n\<close> itself, with a reference to \<open>n\<close>.\<close>

definition references :: "catalog \<Rightarrow> string \<Rightarrow> string list" where
  "references c n = map td_name
     (filter (\<lambda>t. td_name t \<noteq> n \<and> list_ex (\<lambda>fk. fst (fk_target fk) = n) (td_foreign_keys t)) (c_tables c))"

definition on_table :: "string \<Rightarrow> catalog \<Rightarrow> (catalog \<Rightarrow> catalog) \<Rightarrow> ddl_error + catalog" where
  "on_table n c f = (case find_table n c of None \<Rightarrow> Inl (UndefinedTable n) | Some _ \<Rightarrow> Inr (f c))"

fun apply_ddl :: "ddl \<Rightarrow> catalog \<Rightarrow> ddl_error + catalog" where
  "apply_ddl (CreateTable t) c = (case create_table_error c t of
     Some e \<Rightarrow> Inl e
   | None \<Rightarrow> Inr (c\<lparr>c_tables := c_tables c @ [t], c_types := c_types c @ table_enums t\<rparr>))"
| "apply_ddl (CreateIndex i) c = (case create_index_error c i of
     Some e \<Rightarrow> Inl e
   | None \<Rightarrow> Inr (c\<lparr>c_indexes := c_indexes c @ [i]\<rparr>))"
| "apply_ddl (DropIndex n) c =
     (if n \<in> set (map ix_name (c_indexes c))
      then Inr (c\<lparr>c_indexes := filter (\<lambda>i. ix_name i \<noteq> n) (c_indexes c)\<rparr>)
      else Inl (UndefinedIndex n))"
| "apply_ddl (DropTable n) c =
     (if references c n \<noteq> [] then Inl (DependentObjects n)
      else on_table n c (\<lambda>c. c
        \<lparr>c_tables := filter (\<lambda>t. td_name t \<noteq> n) (c_tables c),
         c_indexes := filter (\<lambda>i. ix_table i \<noteq> n) (c_indexes c),
         c_rls := removeAll n (c_rls c), c_forced := removeAll n (c_forced c),
         c_policies := filter (\<lambda>p. pol_table p \<noteq> n) (c_policies c)\<rparr>))"
| "apply_ddl (EnableRls n) c = on_table n c (\<lambda>c. c\<lparr>c_rls := List.insert n (c_rls c)\<rparr>)"
| "apply_ddl (ForceRls n) c = on_table n c (\<lambda>c. c\<lparr>c_forced := List.insert n (c_forced c)\<rparr>)"
| "apply_ddl (CreatePolicy p) c =
     (if list_ex (\<lambda>q. pol_name q = pol_name p \<and> pol_table q = pol_table p) (c_policies c)
      then Inl (DuplicatePolicy (pol_name p))
      else on_table (pol_table p) c (\<lambda>c. c\<lparr>c_policies := c_policies c @ [p]\<rparr>))"
| "apply_ddl (DropPolicyIfExists n t) c = on_table t c (\<lambda>c.
     c\<lparr>c_policies := filter (\<lambda>p. \<not> (pol_name p = n \<and> pol_table p = t)) (c_policies c)\<rparr>)"
| "apply_ddl (NoForceRls n) c = on_table n c (\<lambda>c. c\<lparr>c_forced := removeAll n (c_forced c)\<rparr>)"
| "apply_ddl (DisableRls n) c = on_table n c (\<lambda>c. c\<lparr>c_rls := removeAll n (c_rls c)\<rparr>)"

text \<open>A migration is one transaction: the first error undoes it.\<close>

fun run_ddl :: "ddl list \<Rightarrow> catalog \<Rightarrow> ddl_error + catalog" where
  "run_ddl [] c = Inr c"
| "run_ddl (s # ss) c = (case apply_ddl s c of Inl e \<Rightarrow> Inl e | Inr c' \<Rightarrow> run_ddl ss c')"

lemma run_ddl_append:
  "run_ddl (ss @ ts) c = (case run_ddl ss c of Inl e \<Rightarrow> Inl e | Inr c' \<Rightarrow> run_ddl ts c')"
  by (induction ss c rule: run_ddl.induct) (auto split: sum.splits)

lemma run_ddl_append_Inr: "run_ddl ss c = Inr c' \<Longrightarrow> run_ddl (ss @ ts) c = run_ddl ts c'"
  by (simp add: run_ddl_append)

section \<open>What every migration keeps\<close>

text \<open>
  A catalog is well formed when no relation name is taken twice, every index and every policy is on
  a table it has, and every reference of a table leads to a table with such a key. Each statement
  keeps that, so each migration does, however it was written.
\<close>

definition references_ok :: "catalog \<Rightarrow> bool" where
  "references_ok c \<longleftrightarrow> (\<forall>t\<in>set (c_tables c). \<forall>fk\<in>set (td_foreign_keys t). fk_error c t fk = None)"

definition indexes_ok :: "catalog \<Rightarrow> bool" where
  "indexes_ok c \<longleftrightarrow> (\<forall>i\<in>set (c_indexes c). \<exists>t\<in>set (c_tables c).
     td_name t = ix_table i \<and> set (ix_columns i) \<subseteq> set (column_names t))"

definition policies_ok :: "catalog \<Rightarrow> bool" where
  "policies_ok c \<longleftrightarrow> (\<forall>p\<in>set (c_policies c). pol_table p \<in> set (table_names c))"

definition security_ok :: "catalog \<Rightarrow> bool" where
  "security_ok c \<longleftrightarrow> set (c_rls c) \<union> set (c_forced c) \<subseteq> set (table_names c)"

definition catalog_ok :: "catalog \<Rightarrow> bool" where
  "catalog_ok c \<longleftrightarrow> distinct (relation_names c) \<and> references_ok c \<and> indexes_ok c \<and> policies_ok c \<and> security_ok c"

lemma find_table_Some: "find_table n c = Some t \<Longrightarrow> t \<in> set (c_tables c) \<and> td_name t = n"
  by (auto simp: find_table_def find_Some_iff)

lemma find_table_None: "find_table n c = None \<longleftrightarrow> n \<notin> set (table_names c)"
  by (auto simp: find_table_def find_None_iff table_names_def)

lemma find_append: "find P (xs @ ys) = (case find P xs of None \<Rightarrow> find P ys | Some x \<Rightarrow> Some x)"
  by (induction xs) auto

lemma find_filter_other: "(\<And>x. P x \<Longrightarrow> Q x) \<Longrightarrow> find P (filter Q xs) = find P xs"
  by (induction xs) auto

lemma fk_error_mono:
  assumes "fk_error c t fk = None" and "\<And>n t'. find_table n c = Some t' \<Longrightarrow> find_table n d = Some t'"
  shows "fk_error d t fk = None"
  using assms by (auto simp: fk_error_def split: prod.splits if_splits option.splits)

lemma fk_error_same: "c_tables d = c_tables c \<Longrightarrow> fk_error d t fk = fk_error c t fk"
  by (cases "fk_target fk") (simp add: fk_error_def find_table_def)

lemma on_table_Inr: "on_table n c f = Inr d \<longleftrightarrow> n \<in> set (table_names c) \<and> d = f c"
  using find_table_None [of n c] by (auto simp: on_table_def split: option.splits)

lemma distinct_concat_filter:
  "distinct (concat (map f xs)) \<Longrightarrow> distinct (concat (map f (filter P xs)))"
  by (induction xs) auto

lemma distinct_relations_filter:
  assumes "distinct (concat (map f xs) @ map g ys)"
  shows "distinct (concat (map f (filter P xs)) @ map g (filter Q ys))"
  using assms by (auto simp: distinct_concat_filter distinct_map_filter)

lemma map_filter_Nil: "List.map_filter f xs = [] \<longleftrightarrow> (\<forall>x\<in>set xs. f x = None)"
  by (induction xs) (auto simp: List.map_filter_def split: option.splits)

lemma create_table_ok:
  assumes ok: "catalog_ok c" and no: "create_table_error c t = None"
  shows "catalog_ok (c\<lparr>c_tables := c_tables c @ [t], c_types := c_types c @ table_enums t\<rparr>)"
proof -
  let ?d = "c\<lparr>c_tables := c_tables c @ [t], c_types := c_types c @ table_enums t\<rparr>"
  have fresh: "distinct (table_relations t)" "set (table_relations t) \<inter> set (relation_names c) = {}"
    and fks: "\<And>fk. fk \<in> set (td_foreign_keys t) \<Longrightarrow> fk_error c t fk = None"
    using no by (auto simp: create_table_error_def list_ex_iff map_filter_Nil split: if_splits list.splits)
  have found: "fk_error ?d t' fk = None" if "fk_error c t' fk = None" for t' fk
    by (rule fk_error_mono [OF that]) (simp add: find_table_def find_append)
  have "distinct (relation_names ?d)"
    using ok fresh by (auto simp: catalog_ok_def relation_names_def)
  moreover have "references_ok ?d"
    using ok fks by (auto simp: catalog_ok_def references_ok_def found)
  moreover have "indexes_ok ?d" and "policies_ok ?d" and "security_ok ?d"
    using ok by (force simp: catalog_ok_def indexes_ok_def policies_ok_def security_ok_def table_names_def)+
  ultimately show ?thesis by (simp add: catalog_ok_def)
qed

lemma catalog_ok_same_tables:
  assumes "catalog_ok c" and "c_tables d = c_tables c" and "distinct (relation_names d)"
    and "indexes_ok d" and "set (c_policies d) \<subseteq> set (c_policies c)"
    and "set (c_rls d) \<subseteq> set (c_rls c)" and "set (c_forced d) \<subseteq> set (c_forced c)"
  shows "catalog_ok d"
  using assms
  by (auto simp: catalog_ok_def references_ok_def policies_ok_def security_ok_def table_names_def fk_error_same [OF assms(2)])

lemma drop_table_ok:
  assumes ok: "catalog_ok c" and free: "references c n = []"
  shows "catalog_ok (c
    \<lparr>c_tables := filter (\<lambda>t. td_name t \<noteq> n) (c_tables c),
     c_indexes := filter (\<lambda>i. ix_table i \<noteq> n) (c_indexes c),
     c_rls := removeAll n (c_rls c), c_forced := removeAll n (c_forced c),
     c_policies := filter (\<lambda>p. pol_table p \<noteq> n) (c_policies c)\<rparr>)" (is "catalog_ok ?d")
proof -
  have found: "find_table m ?d = find_table m c" if "m \<noteq> n" for m
    using that by (simp add: find_table_def find_filter_other)
  have "fk_error ?d t fk = None"
    if "t \<in> set (c_tables c)" "td_name t \<noteq> n" "fk \<in> set (td_foreign_keys t)" for t fk
  proof -
    have "fst (fk_target fk) \<noteq> n"
      using free that by (auto simp: references_def filter_empty_conv list_ex_iff)
    moreover have "fk_error c t fk = None"
      using ok that by (auto simp: catalog_ok_def references_ok_def)
    ultimately show ?thesis by (auto simp: fk_error_def found split: prod.splits)
  qed
  then have "references_ok ?d" by (simp add: references_ok_def)
  moreover have "distinct (relation_names ?d)"
    using ok distinct_relations_filter [of table_relations "c_tables c" ix_name "c_indexes c"]
    by (simp add: catalog_ok_def relation_names_def del: distinct_append)
  moreover have "indexes_ok ?d" and "policies_ok ?d" and "security_ok ?d"
    using ok by (fastforce simp: catalog_ok_def indexes_ok_def policies_ok_def security_ok_def table_names_def)+
  ultimately show ?thesis by (simp add: catalog_ok_def)
qed

lemma create_index_ok:
  assumes ok: "catalog_ok c" and no: "create_index_error c i = None"
  shows "catalog_ok (c\<lparr>c_indexes := c_indexes c @ [i]\<rparr>)"
  by (rule catalog_ok_same_tables [OF ok])
    (use assms in \<open>auto simp: create_index_error_def catalog_ok_def relation_names_def indexes_ok_def
       list_all_iff dest!: find_table_Some split: option.splits if_splits\<close>)

lemma apply_ddl_ok:
  assumes ok: "catalog_ok c" and run: "apply_ddl s c = Inr d"
  shows "catalog_ok d"
proof (cases s)
  case (CreateTable t)
  then show ?thesis using run create_table_ok [OF ok] by (auto split: option.splits)
next
  case (CreateIndex i)
  then show ?thesis using run create_index_ok [OF ok] by (auto split: option.splits)
next
  case (DropIndex n)
  with run have d: "d = c\<lparr>c_indexes := filter (\<lambda>i. ix_name i \<noteq> n) (c_indexes c)\<rparr>"
    by (auto split: if_splits)
  have "distinct (relation_names d)"
    using ok by (auto simp: d catalog_ok_def relation_names_def distinct_map_filter)
  then show ?thesis
    by (intro catalog_ok_same_tables [OF ok]) (use ok in \<open>auto simp: d catalog_ok_def indexes_ok_def\<close>)
next
  case (DropTable n)
  then show ?thesis using run drop_table_ok [OF ok] by (auto simp: on_table_Inr split: if_splits)
next
  case (CreatePolicy p)
  with run have d: "d = c\<lparr>c_policies := c_policies c @ [p]\<rparr>" and "pol_table p \<in> set (table_names c)"
    by (auto simp: on_table_Inr split: if_splits)
  moreover have "fk_error d t fk = fk_error c t fk" for t fk
    by (rule fk_error_same) (simp add: d)
  ultimately show ?thesis
    using ok by (auto simp: catalog_ok_def relation_names_def references_ok_def indexes_ok_def
        policies_ok_def security_ok_def table_names_def)
next
  case (EnableRls n)
  with run have d: "d = c\<lparr>c_rls := List.insert n (c_rls c)\<rparr>" and "n \<in> set (table_names c)"
    by (auto simp: on_table_Inr)
  moreover have "fk_error d t fk = fk_error c t fk" for t fk
    by (rule fk_error_same) (simp add: d)
  ultimately show ?thesis
    using ok by (auto simp: catalog_ok_def relation_names_def references_ok_def indexes_ok_def
        policies_ok_def security_ok_def table_names_def)
next
  case (ForceRls n)
  with run have d: "d = c\<lparr>c_forced := List.insert n (c_forced c)\<rparr>" and "n \<in> set (table_names c)"
    by (auto simp: on_table_Inr)
  moreover have "fk_error d t fk = fk_error c t fk" for t fk
    by (rule fk_error_same) (simp add: d)
  ultimately show ?thesis
    using ok by (auto simp: catalog_ok_def relation_names_def references_ok_def indexes_ok_def
        policies_ok_def security_ok_def table_names_def)
next
  case (DropPolicyIfExists n t)
  with run have d: "d = c\<lparr>c_policies := filter (\<lambda>p. \<not> (pol_name p = n \<and> pol_table p = t)) (c_policies c)\<rparr>"
    by (auto simp: on_table_Inr)
  show ?thesis
    by (rule catalog_ok_same_tables [OF ok])
      (use ok in \<open>auto simp: d catalog_ok_def relation_names_def indexes_ok_def\<close>)
next
  case (NoForceRls n)
  with run have d: "d = c\<lparr>c_forced := removeAll n (c_forced c)\<rparr>"
    by (auto simp: on_table_Inr)
  show ?thesis
    by (rule catalog_ok_same_tables [OF ok])
      (use ok in \<open>auto simp: d catalog_ok_def relation_names_def indexes_ok_def\<close>)
next
  case (DisableRls n)
  with run have d: "d = c\<lparr>c_rls := removeAll n (c_rls c)\<rparr>"
    by (auto simp: on_table_Inr)
  show ?thesis
    by (rule catalog_ok_same_tables [OF ok])
      (use ok in \<open>auto simp: d catalog_ok_def relation_names_def indexes_ok_def\<close>)
qed

lemma run_ddl_ok: "catalog_ok c \<Longrightarrow> run_ddl ss c = Inr d \<Longrightarrow> catalog_ok d"
  by (induction ss c rule: run_ddl.induct) (auto split: sum.splits dest: apply_ddl_ok)

lemma empty_catalog_ok: "catalog_ok empty_catalog"
  by (simp add: catalog_ok_def empty_catalog_def relation_names_def references_ok_def
      indexes_ok_def policies_ok_def security_ok_def)

section \<open>Migrations that only create\<close>

text \<open>
  The names, tables and indexes a list of statements brings. \<open>resolved\<close> checks such a list without
  running it, carrying of each table its name, its keys and its columns: every reference and every
  index meets a table that is there by then. With fresh names such a list runs, and \<open>built\<close> is what
  it builds.
\<close>

fun names_of :: "ddl \<Rightarrow> string list" where
  "names_of (CreateTable t) = table_relations t"
| "names_of (CreateIndex i) = [ix_name i]"
| "names_of _ = []"

fun tables_of :: "ddl list \<Rightarrow> table_def list" where
  "tables_of [] = []"
| "tables_of (s # ss) = (case s of CreateTable t \<Rightarrow> t # tables_of ss | _ \<Rightarrow> tables_of ss)"

fun indexes_of :: "ddl list \<Rightarrow> index_def list" where
  "indexes_of [] = []"
| "indexes_of (s # ss) = (case s of CreateIndex i \<Rightarrow> i # indexes_of ss | _ \<Rightarrow> indexes_of ss)"

definition built :: "catalog \<Rightarrow> ddl list \<Rightarrow> catalog" where
  "built c ss = c\<lparr>c_tables := c_tables c @ tables_of ss, c_indexes := c_indexes c @ indexes_of ss,
                  c_types := c_types c @ concat (map table_enums (tables_of ss))\<rparr>"

type_synonym signature = "string \<times> string list list \<times> string list"

definition signature :: "table_def \<Rightarrow> signature" where
  "signature t = (td_name t, snd (td_primary_key t) # map snd (td_uniques t), column_names t)"

definition fk_resolved :: "signature list \<Rightarrow> foreign_key \<Rightarrow> bool" where
  "fk_resolved sgs fk \<longleftrightarrow>
     list_ex (\<lambda>(n, keys, cols). n = fst (fk_target fk) \<and> [snd (fk_target fk)] \<in> set keys) sgs"

definition index_resolved :: "signature list \<Rightarrow> index_def \<Rightarrow> bool" where
  "index_resolved sgs i \<longleftrightarrow>
     list_ex (\<lambda>(n, keys, cols). n = ix_table i \<and> list_all (\<lambda>col. col \<in> set cols) (ix_columns i)) sgs"

definition columns_ok :: "table_def \<Rightarrow> bool" where
  "columns_ok t \<longleftrightarrow> distinct (column_names t) \<and> list_all (\<lambda>col. col \<in> set (column_names t)) (key_columns t)"

fun resolved :: "signature list \<Rightarrow> ddl list \<Rightarrow> bool" where
  "resolved sgs [] = True"
| "resolved sgs (s # ss) = (case s of
     CreateTable t \<Rightarrow> columns_ok t \<and> list_all (fk_resolved (signature t # sgs)) (td_foreign_keys t) \<and>
       resolved (signature t # sgs) ss
   | CreateIndex i \<Rightarrow> index_resolved sgs i \<and> resolved sgs ss
   | _ \<Rightarrow> False)"

lemma distinct_table_names:
  assumes "distinct (relation_names c)"
  shows "distinct (table_names c)"
proof -
  have "distinct (concat (map table_relations ts)) \<Longrightarrow> distinct (map td_name ts)" for ts
    by (induction ts) (auto simp: table_relations_def)
  with assms show ?thesis by (simp add: relation_names_def table_names_def)
qed

lemma find_unique:
  "x \<in> set xs \<Longrightarrow> distinct (map f xs) \<Longrightarrow> find (\<lambda>y. f y = f x) xs = Some x"
  by (induction xs) (auto simp: rev_image_eqI)

lemma find_table_unique:
  "distinct (relation_names c) \<Longrightarrow> t \<in> set (c_tables c) \<Longrightarrow> find_table (td_name t) c = Some t"
  unfolding find_table_def by (rule find_unique) (auto dest: distinct_table_names simp: table_names_def)

lemma referable_iff: "referable t col \<longleftrightarrow> [col] \<in> set (snd (td_primary_key t) # map snd (td_uniques t))"
  by (force simp: referable_def list_ex_iff)

lemma td_name_in: "t \<in> set (c_tables c) \<Longrightarrow> td_name t \<in> set (table_names c)"
  by (simp add: table_names_def)

lemma fk_resolved_no_error:
  assumes "fk_resolved (signature t # sgs) fk" and "set sgs = signature ` set (c_tables c)"
    and "distinct (relation_names c)" and "td_name t \<notin> set (table_names c)"
  shows "fk_error c t fk = None"
proof -
  obtain n col where fk: "fk_target fk = (n, col)" by fastforce
  from assms(1,2) obtain u where "u = t \<or> u \<in> set (c_tables c)" "td_name u = n" "referable u col"
    by (auto simp: fk_resolved_def fk signature_def referable_iff list_ex_iff)
  then show ?thesis
    using assms(4) find_table_unique [OF assms(3), of u] td_name_in [of u c]
    by (auto simp: fk_error_def fk)
qed

lemma resolved_run:
  assumes "resolved sgs ss" and "set sgs = signature ` set (c_tables c)"
    and "distinct (relation_names c @ concat (map names_of ss))"
    and "distinct (map fst (c_types c @ concat (map table_enums (tables_of ss))))"
  shows "run_ddl ss c = Inr (built c ss)"
  using assms
proof (induction ss arbitrary: sgs c)
  case Nil
  then show ?case by (simp add: built_def)
next
  case (Cons s ss)
  show ?case
  proof (cases s)
    case (CreateTable t)
    let ?c = "c\<lparr>c_tables := c_tables c @ [t], c_types := c_types c @ table_enums t\<rparr>"
    have names: "td_name t \<notin> set (table_names c)"
      using Cons.prems(3) by (auto simp: CreateTable relation_names_def table_names_def table_relations_def)
    have "fk_error c t fk = None" if "fk \<in> set (td_foreign_keys t)" for fk
      by (rule fk_resolved_no_error [OF _ Cons.prems(2) _ names])
        (use Cons.prems that in \<open>auto simp: CreateTable list_all_iff\<close>)
    then have "List.map_filter (fk_error c t) (td_foreign_keys t) = []"
      by (simp add: map_filter_Nil)
    moreover have "columns_ok t" using Cons.prems(1) by (simp add: CreateTable)
    ultimately have "create_table_error c t = None"
      using Cons.prems(3,4)
      by (auto simp: CreateTable create_table_error_def columns_ok_def list_ex_iff)
    moreover have "run_ddl ss ?c = Inr (built ?c ss)"
      by (rule Cons.IH [where sgs = "signature t # sgs"])
        (use Cons.prems in \<open>auto simp: CreateTable relation_names_def\<close>)
    ultimately show ?thesis by (simp add: CreateTable built_def)
  next
    case (CreateIndex i)
    let ?c = "c\<lparr>c_indexes := c_indexes c @ [i]\<rparr>"
    obtain t where "t \<in> set (c_tables c)" "td_name t = ix_table i" "set (ix_columns i) \<subseteq> set (column_names t)"
      using Cons.prems(1,2)
      by (auto simp: CreateIndex index_resolved_def signature_def list_ex_iff list_all_iff)
    then have "create_index_error c i = None"
      using Cons.prems(3) find_table_unique [of c t]
      by (auto simp: CreateIndex create_index_error_def list_all_iff)
    moreover have "run_ddl ss ?c = Inr (built ?c ss)"
      by (rule Cons.IH [where sgs = sgs])
        (use Cons.prems in \<open>auto simp: CreateIndex relation_names_def\<close>)
    ultimately show ?thesis by (simp add: CreateIndex built_def)
  qed (use Cons.prems(1) in simp_all)
qed

text \<open>
  The statements that undo them, in reverse order, bring back the catalog, whatever it was, but for
  the enumeration types.
\<close>

fun inverse_ddl :: "ddl \<Rightarrow> ddl list" where
  "inverse_ddl (CreateTable t) = [DropTable (td_name t)]"
| "inverse_ddl (CreateIndex i) = [DropIndex (ix_name i)]"
| "inverse_ddl _ = []"

definition undo :: "ddl list \<Rightarrow> ddl list" where
  "undo ss = concat (map inverse_ddl (rev ss))"

fun creation :: "ddl \<Rightarrow> bool" where
  "creation (CreateTable t) = True"
| "creation (CreateIndex i) = True"
| "creation _ = False"

lemma filter_fresh: "n \<notin> f ` set xs \<Longrightarrow> filter (\<lambda>x. f x \<noteq> n) xs = xs"
  by (induction xs) auto

lemma undo_create_table:
  assumes ok: "catalog_ok c" and no: "create_table_error c t = None"
  shows "apply_ddl (DropTable (td_name t)) (c\<lparr>c_tables := c_tables c @ [t], c_types := ty\<rparr>) = Inr (c\<lparr>c_types := ty\<rparr>)"
proof -
  have new: "td_name t \<notin> set (table_names c)"
    using no by (auto simp: create_table_error_def list_ex_iff table_relations_def relation_names_def
        table_names_def split: if_splits)
  have "fst (fk_target fk) \<noteq> td_name t" if "u \<in> set (c_tables c)" "fk \<in> set (td_foreign_keys u)" for u fk
  proof
    assume target: "fst (fk_target fk) = td_name t"
    have "td_name u \<noteq> td_name t" using new td_name_in [OF that(1)] by auto
    moreover have "fk_error c u fk = None" using ok that by (auto simp: catalog_ok_def references_ok_def)
    ultimately show False
      using target new find_table_None [of "td_name t" c]
      by (auto simp: fk_error_def split: prod.splits)
  qed
  then have refs: "references (c\<lparr>c_tables := c_tables c @ [t], c_types := ty\<rparr>) (td_name t) = []"
    by (auto simp: references_def filter_empty_conv list_ex_iff)
  have "filter (\<lambda>u. td_name u \<noteq> td_name t) (c_tables c) = c_tables c"
    by (rule filter_fresh) (use new in \<open>simp add: table_names_def\<close>)
  moreover have "filter (\<lambda>i. ix_table i \<noteq> td_name t) (c_indexes c) = c_indexes c"
    by (rule filter_fresh) (use ok new td_name_in in \<open>force simp: catalog_ok_def indexes_ok_def\<close>)
  moreover have "filter (\<lambda>p. pol_table p \<noteq> td_name t) (c_policies c) = c_policies c"
    by (rule filter_fresh) (use ok new in \<open>auto simp: catalog_ok_def policies_ok_def\<close>)
  moreover have "removeAll (td_name t) (c_rls c) = c_rls c" "removeAll (td_name t) (c_forced c) = c_forced c"
    using ok new by (auto simp: catalog_ok_def security_ok_def intro!: removeAll_id)
  moreover have "find_table (td_name t) (c\<lparr>c_tables := c_tables c @ [t], c_types := ty\<rparr>) = Some t"
    using new find_table_None [of "td_name t" c] by (simp add: find_table_def find_append)
  ultimately show ?thesis using refs by (simp add: on_table_def)
qed

lemma undo_create_index:
  assumes "create_index_error c i = None"
  shows "apply_ddl (DropIndex (ix_name i)) (c\<lparr>c_indexes := c_indexes c @ [i], c_types := ty\<rparr>) = Inr (c\<lparr>c_types := ty\<rparr>)"
proof -
  have "ix_name i \<notin> set (map ix_name (c_indexes c))"
    using assms by (auto simp: create_index_error_def relation_names_def split: option.splits if_splits)
  then have "filter (\<lambda>j. ix_name j \<noteq> ix_name i) (c_indexes c) = c_indexes c"
    by (intro filter_fresh) simp
  then show ?thesis by simp
qed

lemma undo_run:
  assumes "catalog_ok c" and "list_all creation ss" and "run_ddl ss c = Inr d"
  shows "run_ddl (undo ss) d = Inr (c\<lparr>c_types := c_types d\<rparr>)"
  using assms
proof (induction ss arbitrary: c)
  case Nil
  then show ?case by (simp add: undo_def)
next
  case (Cons s ss)
  obtain c1 where c1: "apply_ddl s c = Inr c1" and run: "run_ddl ss c1 = Inr d"
    using Cons.prems(3) by (auto split: sum.splits)
  have ih: "run_ddl (undo ss) d = Inr (c1\<lparr>c_types := c_types d\<rparr>)"
    by (rule Cons.IH) (use Cons.prems apply_ddl_ok [OF _ c1] run in auto)
  have "run_ddl (inverse_ddl s) (c1\<lparr>c_types := c_types d\<rparr>) = Inr (c\<lparr>c_types := c_types d\<rparr>)"
  proof (cases s)
    case (CreateTable t)
    with c1 have "create_table_error c t = None"
      and "c1 = c\<lparr>c_tables := c_tables c @ [t], c_types := c_types c @ table_enums t\<rparr>"
      by (auto split: option.splits)
    with undo_create_table [OF Cons.prems(1)] show ?thesis by (simp add: CreateTable del: apply_ddl.simps)
  next
    case (CreateIndex i)
    with c1 have "create_index_error c i = None" and "c1 = c\<lparr>c_indexes := c_indexes c @ [i]\<rparr>"
      by (auto split: option.splits)
    with undo_create_index show ?thesis by (simp add: CreateIndex del: apply_ddl.simps)
  qed (use Cons.prems(2) in simp_all)
  with ih show ?case by (simp add: undo_def run_ddl_append)
qed

end
