(* ===== verification/Migration.thy ===== *)
theory Migration
  imports Schema
begin

text \<open>
  The two migrations of \<^verbatim>\<open>alembic/versions\<close> as lists of statements: the initial schema, table by table in
  the order of \<^verbatim>\<open>upgrade\<close> (\<open>create_modules\<close> is the call of \<^verbatim>\<open>op.create_table\<close> for \<^verbatim>\<open>modules\<close> with the
  calls of \<^verbatim>\<open>op.create_index\<close> that follow it), and row level security. \<open>nullable\<close> is the last argument
  of \<open>sa_column\<close>; \<open>stamp_column\<close> is a time with the server default \<^verbatim>\<open>now()\<close>.
\<close>

section \<open>The calls\<close>

definition sa_column :: "string \<Rightarrow> column_type \<Rightarrow> bool \<Rightarrow> column" where
  "sa_column n ty nullable = \<lparr>col_name = n, col_type = ty, col_nullable = nullable, col_default_now = False\<rparr>"

definition stamp_column :: "string \<Rightarrow> column" where
  "stamp_column n = \<lparr>col_name = n, col_type = Timestamptz, col_nullable = False, col_default_now = True\<rparr>"

definition reference :: "string \<Rightarrow> string \<Rightarrow> string \<Rightarrow> string \<Rightarrow> on_delete \<Rightarrow> foreign_key" where
  "reference col target target_col n ondelete =
     \<lparr>fk_column = col, fk_target = (target, target_col), fk_name = n, fk_ondelete = ondelete\<rparr>"

definition create_index :: "string \<Rightarrow> string \<Rightarrow> string list \<Rightarrow> bool \<Rightarrow> ddl" where
  "create_index n t cols unique =
     CreateIndex \<lparr>ix_name = n, ix_table = t, ix_columns = cols, ix_unique = unique\<rparr>"

section \<open>The initial schema\<close>

definition create_modules :: "ddl list" where
  "create_modules =
     [CreateTable
        \<lparr>td_name = ''modules'',
         td_columns =
           [sa_column ''id'' Uuid False, sa_column ''code'' (Varchar 40) False,
            sa_column ''name'' (Varchar 120) False, sa_column ''description'' (Varchar 255) True,
            sa_column ''is_active'' Boolean False, sa_column ''is_core'' Boolean False,
            stamp_column ''created_at'', stamp_column ''updated_at''],
         td_foreign_keys =
           [],
         td_primary_key = (''pk_modules'', [''id'']),
         td_uniques = []\<rparr>,
      create_index ''ix_modules_code'' ''modules'' [''code''] True]"

definition create_permissions :: "ddl list" where
  "create_permissions =
     [CreateTable
        \<lparr>td_name = ''permissions'',
         td_columns =
           [sa_column ''id'' Uuid False, sa_column ''code'' (Varchar 100) False,
            sa_column ''description'' (Varchar 255) True, stamp_column ''created_at'',
            stamp_column ''updated_at''],
         td_foreign_keys =
           [],
         td_primary_key = (''pk_permissions'', [''id'']),
         td_uniques = []\<rparr>,
      create_index ''ix_permissions_code'' ''permissions'' [''code''] True]"

definition create_tenants :: "ddl list" where
  "create_tenants =
     [CreateTable
        \<lparr>td_name = ''tenants'',
         td_columns =
           [sa_column ''id'' Uuid False, sa_column ''name'' (Varchar 200) False,
            sa_column ''slug'' (Varchar 80) False, sa_column ''is_active'' Boolean False,
            sa_column ''isolation_mode'' (Enum ''isolation_mode'' [''shared'', ''schema'', ''database'']) False,
            sa_column ''schema_name'' (Varchar 80) True, sa_column ''settings'' Jsonb False,
            stamp_column ''created_at'', stamp_column ''updated_at'',
            sa_column ''deleted_at'' Timestamptz True],
         td_foreign_keys =
           [],
         td_primary_key = (''pk_tenants'', [''id'']),
         td_uniques = []\<rparr>,
      create_index ''ix_tenants_deleted_at'' ''tenants'' [''deleted_at''] False,
      create_index ''ix_tenants_slug'' ''tenants'' [''slug''] True]"

definition create_audit_logs :: "ddl list" where
  "create_audit_logs =
     [CreateTable
        \<lparr>td_name = ''audit_logs'',
         td_columns =
           [sa_column ''id'' Uuid False, sa_column ''tenant_id'' Uuid False,
            sa_column ''user_id'' Uuid True, sa_column ''action'' (Varchar 100) False,
            sa_column ''resource'' (Varchar 100) False, sa_column ''resource_id'' Uuid True,
            sa_column ''old_values'' Jsonb True, sa_column ''new_values'' Jsonb True,
            sa_column ''ip_address'' (Varchar 64) True, stamp_column ''created_at'',
            stamp_column ''updated_at''],
         td_foreign_keys =
           [reference ''tenant_id'' ''tenants'' ''id'' ''fk_audit_logs_tenant_id_tenants'' Cascade],
         td_primary_key = (''pk_audit_logs'', [''id'']),
         td_uniques = []\<rparr>,
      create_index ''ix_audit_logs_resource'' ''audit_logs'' [''tenant_id'', ''resource'', ''resource_id''] False,
      create_index ''ix_audit_logs_tenant_created'' ''audit_logs'' [''tenant_id'', ''created_at''] False,
      create_index ''ix_audit_logs_tenant_id'' ''audit_logs'' [''tenant_id''] False,
      create_index ''ix_audit_logs_user_id'' ''audit_logs'' [''user_id''] False]"

definition create_categories :: "ddl list" where
  "create_categories =
     [CreateTable
        \<lparr>td_name = ''categories'',
         td_columns =
           [sa_column ''id'' Uuid False, sa_column ''tenant_id'' Uuid False,
            sa_column ''name'' (Varchar 120) False, sa_column ''slug'' (Varchar 140) False,
            sa_column ''description'' Text True, sa_column ''parent_id'' Uuid True,
            stamp_column ''created_at'', stamp_column ''updated_at'',
            sa_column ''deleted_at'' Timestamptz True],
         td_foreign_keys =
           [reference ''parent_id'' ''categories'' ''id'' ''fk_categories_parent_id_categories'' SetNull,
            reference ''tenant_id'' ''tenants'' ''id'' ''fk_categories_tenant_id_tenants'' Cascade],
         td_primary_key = (''pk_categories'', [''id'']),
         td_uniques = [(''uq_categories_tenant_slug'', [''tenant_id'', ''slug''])]\<rparr>,
      create_index ''ix_categories_deleted_at'' ''categories'' [''deleted_at''] False,
      create_index ''ix_categories_slug'' ''categories'' [''slug''] False,
      create_index ''ix_categories_tenant_id'' ''categories'' [''tenant_id''] False]"

definition create_roles :: "ddl list" where
  "create_roles =
     [CreateTable
        \<lparr>td_name = ''roles'',
         td_columns =
           [sa_column ''id'' Uuid False, sa_column ''tenant_id'' Uuid False,
            sa_column ''code'' (Varchar 50) False, sa_column ''name'' (Varchar 100) False,
            sa_column ''description'' (Varchar 255) True, sa_column ''is_system'' Boolean False,
            stamp_column ''created_at'', stamp_column ''updated_at''],
         td_foreign_keys =
           [reference ''tenant_id'' ''tenants'' ''id'' ''fk_roles_tenant_id_tenants'' Cascade],
         td_primary_key = (''pk_roles'', [''id'']),
         td_uniques = [(''uq_roles_tenant_code'', [''tenant_id'', ''code''])]\<rparr>,
      create_index ''ix_roles_tenant_id'' ''roles'' [''tenant_id''] False]"

definition create_tenant_modules :: "ddl list" where
  "create_tenant_modules =
     [CreateTable
        \<lparr>td_name = ''tenant_modules'',
         td_columns =
           [sa_column ''id'' Uuid False, sa_column ''tenant_id'' Uuid False,
            sa_column ''module_id'' Uuid False, sa_column ''enabled'' Boolean False,
            sa_column ''enabled_at'' Timestamptz True, sa_column ''expires_at'' Timestamptz True,
            stamp_column ''created_at'', stamp_column ''updated_at''],
         td_foreign_keys =
           [reference ''module_id'' ''modules'' ''id'' ''fk_tenant_modules_module_id_modules'' Cascade,
            reference ''tenant_id'' ''tenants'' ''id'' ''fk_tenant_modules_tenant_id_tenants'' Cascade],
         td_primary_key = (''pk_tenant_modules'', [''id'']),
         td_uniques = [(''uq_tenant_modules_tenant_module'', [''tenant_id'', ''module_id''])]\<rparr>,
      create_index ''ix_tenant_modules_module_id'' ''tenant_modules'' [''module_id''] False,
      create_index ''ix_tenant_modules_tenant_id'' ''tenant_modules'' [''tenant_id''] False]"

definition create_users :: "ddl list" where
  "create_users =
     [CreateTable
        \<lparr>td_name = ''users'',
         td_columns =
           [sa_column ''id'' Uuid False, sa_column ''tenant_id'' Uuid False,
            sa_column ''email'' (Varchar 255) False,
            sa_column ''hashed_password'' (Varchar 255) False,
            sa_column ''full_name'' (Varchar 200) False, sa_column ''is_active'' Boolean False,
            sa_column ''is_verified'' Boolean False, sa_column ''is_superuser'' Boolean False,
            sa_column ''last_login_at'' Timestamptz True, stamp_column ''created_at'',
            stamp_column ''updated_at'', sa_column ''deleted_at'' Timestamptz True],
         td_foreign_keys =
           [reference ''tenant_id'' ''tenants'' ''id'' ''fk_users_tenant_id_tenants'' Cascade],
         td_primary_key = (''pk_users'', [''id'']),
         td_uniques = [(''uq_users_tenant_email'', [''tenant_id'', ''email''])]\<rparr>,
      create_index ''ix_users_deleted_at'' ''users'' [''deleted_at''] False,
      create_index ''ix_users_email'' ''users'' [''email''] False,
      create_index ''ix_users_tenant_id'' ''users'' [''tenant_id''] False]"

definition create_courses :: "ddl list" where
  "create_courses =
     [CreateTable
        \<lparr>td_name = ''courses'',
         td_columns =
           [sa_column ''id'' Uuid False, sa_column ''tenant_id'' Uuid False,
            sa_column ''title'' (Varchar 200) False, sa_column ''slug'' (Varchar 220) False,
            sa_column ''summary'' (Varchar 500) True, sa_column ''description'' Text True,
            sa_column ''category_id'' Uuid True,
            sa_column ''status'' (Enum ''course_status'' [''draft'', ''published'', ''archived'']) False,
            sa_column ''level'' (Enum ''course_level'' [''beginner'', ''intermediate'', ''advanced'']) False,
            sa_column ''is_free'' Boolean False, sa_column ''price'' (Numeric 10 2) False,
            sa_column ''thumbnail_url'' (Varchar 500) True,
            sa_column ''enrollment_count'' Integer False,
            sa_column ''published_at'' Timestamptz True, stamp_column ''created_at'',
            stamp_column ''updated_at'', sa_column ''deleted_at'' Timestamptz True],
         td_foreign_keys =
           [reference ''category_id'' ''categories'' ''id'' ''fk_courses_category_id_categories'' SetNull,
            reference ''tenant_id'' ''tenants'' ''id'' ''fk_courses_tenant_id_tenants'' Cascade],
         td_primary_key = (''pk_courses'', [''id'']),
         td_uniques = [(''uq_courses_tenant_slug'', [''tenant_id'', ''slug''])]\<rparr>,
      create_index ''ix_courses_category_id'' ''courses'' [''category_id''] False,
      create_index ''ix_courses_deleted_at'' ''courses'' [''deleted_at''] False,
      create_index ''ix_courses_slug'' ''courses'' [''slug''] False,
      create_index ''ix_courses_status'' ''courses'' [''status''] False,
      create_index ''ix_courses_tenant_id'' ''courses'' [''tenant_id''] False,
      create_index ''ix_courses_title'' ''courses'' [''title''] False]"

definition create_role_permissions :: "ddl list" where
  "create_role_permissions =
     [CreateTable
        \<lparr>td_name = ''role_permissions'',
         td_columns =
           [sa_column ''role_id'' Uuid False, sa_column ''permission_id'' Uuid False],
         td_foreign_keys =
           [reference ''permission_id'' ''permissions'' ''id'' ''fk_role_permissions_permission_id_permissions'' Cascade,
            reference ''role_id'' ''roles'' ''id'' ''fk_role_permissions_role_id_roles'' Cascade],
         td_primary_key = (''pk_role_permissions'', [''role_id'', ''permission_id'']),
         td_uniques = []\<rparr>]"

definition create_user_roles :: "ddl list" where
  "create_user_roles =
     [CreateTable
        \<lparr>td_name = ''user_roles'',
         td_columns =
           [sa_column ''user_id'' Uuid False, sa_column ''role_id'' Uuid False],
         td_foreign_keys =
           [reference ''role_id'' ''roles'' ''id'' ''fk_user_roles_role_id_roles'' Cascade,
            reference ''user_id'' ''users'' ''id'' ''fk_user_roles_user_id_users'' Cascade],
         td_primary_key = (''pk_user_roles'', [''user_id'', ''role_id'']),
         td_uniques = []\<rparr>]"

definition create_user_sessions :: "ddl list" where
  "create_user_sessions =
     [CreateTable
        \<lparr>td_name = ''user_sessions'',
         td_columns =
           [sa_column ''id'' Uuid False, sa_column ''tenant_id'' Uuid False,
            sa_column ''user_id'' Uuid False, sa_column ''jti'' Uuid False,
            sa_column ''user_agent'' (Varchar 400) True,
            sa_column ''ip_address'' (Varchar 64) True,
            sa_column ''expires_at'' Timestamptz False, sa_column ''revoked_at'' Timestamptz True,
            stamp_column ''created_at'', stamp_column ''updated_at''],
         td_foreign_keys =
           [reference ''tenant_id'' ''tenants'' ''id'' ''fk_user_sessions_tenant_id_tenants'' Cascade,
            reference ''user_id'' ''users'' ''id'' ''fk_user_sessions_user_id_users'' Cascade],
         td_primary_key = (''pk_user_sessions'', [''id'']),
         td_uniques = []\<rparr>,
      create_index ''ix_user_sessions_jti'' ''user_sessions'' [''jti''] True,
      create_index ''ix_user_sessions_tenant_id'' ''user_sessions'' [''tenant_id''] False,
      create_index ''ix_user_sessions_user_id'' ''user_sessions'' [''user_id''] False]"

definition create_assignments :: "ddl list" where
  "create_assignments =
     [CreateTable
        \<lparr>td_name = ''assignments'',
         td_columns =
           [sa_column ''id'' Uuid False, sa_column ''tenant_id'' Uuid False,
            sa_column ''course_id'' Uuid False, sa_column ''title'' (Varchar 200) False,
            sa_column ''description'' Text True,
            sa_column ''type'' (Enum ''assignment_type'' [''assignment'', ''quiz'']) False,
            sa_column ''max_points'' (Numeric 6 2) False,
            sa_column ''pass_points'' (Numeric 6 2) False, sa_column ''due_at'' Timestamptz True,
            sa_column ''is_published'' Boolean False, stamp_column ''created_at'',
            stamp_column ''updated_at'', sa_column ''deleted_at'' Timestamptz True],
         td_foreign_keys =
           [reference ''course_id'' ''courses'' ''id'' ''fk_assignments_course_id_courses'' Cascade,
            reference ''tenant_id'' ''tenants'' ''id'' ''fk_assignments_tenant_id_tenants'' Cascade],
         td_primary_key = (''pk_assignments'', [''id'']),
         td_uniques = []\<rparr>,
      create_index ''ix_assignments_course_id'' ''assignments'' [''course_id''] False,
      create_index ''ix_assignments_deleted_at'' ''assignments'' [''deleted_at''] False,
      create_index ''ix_assignments_tenant_id'' ''assignments'' [''tenant_id''] False]"

definition create_course_enrollments :: "ddl list" where
  "create_course_enrollments =
     [CreateTable
        \<lparr>td_name = ''course_enrollments'',
         td_columns =
           [sa_column ''id'' Uuid False, sa_column ''tenant_id'' Uuid False,
            sa_column ''course_id'' Uuid False, sa_column ''user_id'' Uuid False,
            sa_column ''status'' (Enum ''enrollment_status'' [''active'', ''completed'', ''cancelled'']) False,
            sa_column ''progress_pct'' Integer False, sa_column ''enrolled_at'' Timestamptz False,
            sa_column ''completed_at'' Timestamptz True, stamp_column ''created_at'',
            stamp_column ''updated_at''],
         td_foreign_keys =
           [reference ''course_id'' ''courses'' ''id'' ''fk_course_enrollments_course_id_courses'' Cascade,
            reference ''tenant_id'' ''tenants'' ''id'' ''fk_course_enrollments_tenant_id_tenants'' Cascade,
            reference ''user_id'' ''users'' ''id'' ''fk_course_enrollments_user_id_users'' Cascade],
         td_primary_key = (''pk_course_enrollments'', [''id'']),
         td_uniques = [(''uq_enrollments_course_user'', [''course_id'', ''user_id''])]\<rparr>,
      create_index ''ix_course_enrollments_course_id'' ''course_enrollments'' [''course_id''] False,
      create_index ''ix_course_enrollments_tenant_id'' ''course_enrollments'' [''tenant_id''] False,
      create_index ''ix_course_enrollments_user_id'' ''course_enrollments'' [''user_id''] False]"

definition create_course_instructors :: "ddl list" where
  "create_course_instructors =
     [CreateTable
        \<lparr>td_name = ''course_instructors'',
         td_columns =
           [sa_column ''id'' Uuid False, sa_column ''tenant_id'' Uuid False,
            sa_column ''course_id'' Uuid False, sa_column ''user_id'' Uuid False,
            sa_column ''is_lead'' Boolean False, stamp_column ''created_at'',
            stamp_column ''updated_at''],
         td_foreign_keys =
           [reference ''course_id'' ''courses'' ''id'' ''fk_course_instructors_course_id_courses'' Cascade,
            reference ''tenant_id'' ''tenants'' ''id'' ''fk_course_instructors_tenant_id_tenants'' Cascade,
            reference ''user_id'' ''users'' ''id'' ''fk_course_instructors_user_id_users'' Cascade],
         td_primary_key = (''pk_course_instructors'', [''id'']),
         td_uniques = [(''uq_course_instructors_course_user'', [''course_id'', ''user_id''])]\<rparr>,
      create_index ''ix_course_instructors_course_id'' ''course_instructors'' [''course_id''] False,
      create_index ''ix_course_instructors_tenant_id'' ''course_instructors'' [''tenant_id''] False,
      create_index ''ix_course_instructors_user_id'' ''course_instructors'' [''user_id''] False]"

definition create_course_modules :: "ddl list" where
  "create_course_modules =
     [CreateTable
        \<lparr>td_name = ''course_modules'',
         td_columns =
           [sa_column ''id'' Uuid False, sa_column ''tenant_id'' Uuid False,
            sa_column ''course_id'' Uuid False, sa_column ''title'' (Varchar 200) False,
            sa_column ''description'' Text True, sa_column ''order_index'' Integer False,
            stamp_column ''created_at'', stamp_column ''updated_at'',
            sa_column ''deleted_at'' Timestamptz True],
         td_foreign_keys =
           [reference ''course_id'' ''courses'' ''id'' ''fk_course_modules_course_id_courses'' Cascade,
            reference ''tenant_id'' ''tenants'' ''id'' ''fk_course_modules_tenant_id_tenants'' Cascade],
         td_primary_key = (''pk_course_modules'', [''id'']),
         td_uniques = []\<rparr>,
      create_index ''ix_course_modules_course_id'' ''course_modules'' [''course_id''] False,
      create_index ''ix_course_modules_deleted_at'' ''course_modules'' [''deleted_at''] False,
      create_index ''ix_course_modules_tenant_id'' ''course_modules'' [''tenant_id''] False]"

definition create_lessons :: "ddl list" where
  "create_lessons =
     [CreateTable
        \<lparr>td_name = ''lessons'',
         td_columns =
           [sa_column ''id'' Uuid False, sa_column ''tenant_id'' Uuid False,
            sa_column ''course_id'' Uuid False, sa_column ''module_id'' Uuid True,
            sa_column ''title'' (Varchar 200) False,
            sa_column ''content_type'' (Enum ''lesson_type'' [''video'', ''document'', ''text'']) False,
            sa_column ''content'' Text True, sa_column ''order_index'' Integer False,
            sa_column ''duration_seconds'' Integer False, sa_column ''is_preview'' Boolean False,
            stamp_column ''created_at'', stamp_column ''updated_at'',
            sa_column ''deleted_at'' Timestamptz True],
         td_foreign_keys =
           [reference ''course_id'' ''courses'' ''id'' ''fk_lessons_course_id_courses'' Cascade,
            reference ''module_id'' ''course_modules'' ''id'' ''fk_lessons_module_id_course_modules'' SetNull,
            reference ''tenant_id'' ''tenants'' ''id'' ''fk_lessons_tenant_id_tenants'' Cascade],
         td_primary_key = (''pk_lessons'', [''id'']),
         td_uniques = []\<rparr>,
      create_index ''ix_lessons_course_id'' ''lessons'' [''course_id''] False,
      create_index ''ix_lessons_deleted_at'' ''lessons'' [''deleted_at''] False,
      create_index ''ix_lessons_module_id'' ''lessons'' [''module_id''] False,
      create_index ''ix_lessons_tenant_id'' ''lessons'' [''tenant_id''] False]"

definition create_quizzes :: "ddl list" where
  "create_quizzes =
     [CreateTable
        \<lparr>td_name = ''quizzes'',
         td_columns =
           [sa_column ''id'' Uuid False, sa_column ''tenant_id'' Uuid False,
            sa_column ''assignment_id'' Uuid False,
            sa_column ''time_limit_seconds'' Integer False,
            sa_column ''shuffle_questions'' Boolean False, stamp_column ''created_at'',
            stamp_column ''updated_at''],
         td_foreign_keys =
           [reference ''assignment_id'' ''assignments'' ''id'' ''fk_quizzes_assignment_id_assignments'' Cascade,
            reference ''tenant_id'' ''tenants'' ''id'' ''fk_quizzes_tenant_id_tenants'' Cascade],
         td_primary_key = (''pk_quizzes'', [''id'']),
         td_uniques = [(''uq_quizzes_assignment_id'', [''assignment_id''])]\<rparr>,
      create_index ''ix_quizzes_tenant_id'' ''quizzes'' [''tenant_id''] False]"

definition create_submissions :: "ddl list" where
  "create_submissions =
     [CreateTable
        \<lparr>td_name = ''submissions'',
         td_columns =
           [sa_column ''id'' Uuid False, sa_column ''tenant_id'' Uuid False,
            sa_column ''assignment_id'' Uuid False, sa_column ''user_id'' Uuid False,
            sa_column ''content'' Text True, sa_column ''file_url'' (Varchar 1000) True,
            sa_column ''answers'' Jsonb True,
            sa_column ''status'' (Enum ''submission_status'' [''submitted'', ''graded'', ''returned'']) False,
            sa_column ''submitted_at'' Timestamptz False, stamp_column ''created_at'',
            stamp_column ''updated_at''],
         td_foreign_keys =
           [reference ''assignment_id'' ''assignments'' ''id'' ''fk_submissions_assignment_id_assignments'' Cascade,
            reference ''tenant_id'' ''tenants'' ''id'' ''fk_submissions_tenant_id_tenants'' Cascade,
            reference ''user_id'' ''users'' ''id'' ''fk_submissions_user_id_users'' Cascade],
         td_primary_key = (''pk_submissions'', [''id'']),
         td_uniques = []\<rparr>,
      create_index ''ix_submissions_assignment_id'' ''submissions'' [''assignment_id''] False,
      create_index ''ix_submissions_tenant_id'' ''submissions'' [''tenant_id''] False,
      create_index ''ix_submissions_user_id'' ''submissions'' [''user_id''] False]"

definition create_document_assets :: "ddl list" where
  "create_document_assets =
     [CreateTable
        \<lparr>td_name = ''document_assets'',
         td_columns =
           [sa_column ''id'' Uuid False, sa_column ''tenant_id'' Uuid False,
            sa_column ''lesson_id'' Uuid False, sa_column ''file_url'' (Varchar 1000) False,
            sa_column ''file_type'' (Varchar 40) False, sa_column ''size_bytes'' Integer False,
            stamp_column ''created_at'', stamp_column ''updated_at''],
         td_foreign_keys =
           [reference ''lesson_id'' ''lessons'' ''id'' ''fk_document_assets_lesson_id_lessons'' Cascade,
            reference ''tenant_id'' ''tenants'' ''id'' ''fk_document_assets_tenant_id_tenants'' Cascade],
         td_primary_key = (''pk_document_assets'', [''id'']),
         td_uniques = [(''uq_document_assets_lesson_id'', [''lesson_id''])]\<rparr>,
      create_index ''ix_document_assets_tenant_id'' ''document_assets'' [''tenant_id''] False]"

definition create_grades :: "ddl list" where
  "create_grades =
     [CreateTable
        \<lparr>td_name = ''grades'',
         td_columns =
           [sa_column ''id'' Uuid False, sa_column ''tenant_id'' Uuid False,
            sa_column ''submission_id'' Uuid False, sa_column ''assignment_id'' Uuid False,
            sa_column ''user_id'' Uuid False, sa_column ''points'' (Numeric 6 2) False,
            sa_column ''max_points'' (Numeric 6 2) False, sa_column ''feedback'' Text True,
            sa_column ''is_auto'' Boolean False, sa_column ''graded_by'' Uuid True,
            sa_column ''graded_at'' Timestamptz False, stamp_column ''created_at'',
            stamp_column ''updated_at''],
         td_foreign_keys =
           [reference ''assignment_id'' ''assignments'' ''id'' ''fk_grades_assignment_id_assignments'' Cascade,
            reference ''submission_id'' ''submissions'' ''id'' ''fk_grades_submission_id_submissions'' Cascade,
            reference ''tenant_id'' ''tenants'' ''id'' ''fk_grades_tenant_id_tenants'' Cascade],
         td_primary_key = (''pk_grades'', [''id'']),
         td_uniques = [(''uq_grades_submission_id'', [''submission_id''])]\<rparr>,
      create_index ''ix_grades_assignment_id'' ''grades'' [''assignment_id''] False,
      create_index ''ix_grades_tenant_id'' ''grades'' [''tenant_id''] False,
      create_index ''ix_grades_user_id'' ''grades'' [''user_id''] False]"

definition create_lesson_progress :: "ddl list" where
  "create_lesson_progress =
     [CreateTable
        \<lparr>td_name = ''lesson_progress'',
         td_columns =
           [sa_column ''id'' Uuid False, sa_column ''tenant_id'' Uuid False,
            sa_column ''lesson_id'' Uuid False, sa_column ''course_id'' Uuid False,
            sa_column ''user_id'' Uuid False,
            sa_column ''status'' (Enum ''progress_status'' [''not_started'', ''in_progress'', ''completed'']) False,
            sa_column ''last_position_seconds'' Integer False,
            sa_column ''completed_at'' Timestamptz True, stamp_column ''created_at'',
            stamp_column ''updated_at''],
         td_foreign_keys =
           [reference ''course_id'' ''courses'' ''id'' ''fk_lesson_progress_course_id_courses'' Cascade,
            reference ''lesson_id'' ''lessons'' ''id'' ''fk_lesson_progress_lesson_id_lessons'' Cascade,
            reference ''tenant_id'' ''tenants'' ''id'' ''fk_lesson_progress_tenant_id_tenants'' Cascade,
            reference ''user_id'' ''users'' ''id'' ''fk_lesson_progress_user_id_users'' Cascade],
         td_primary_key = (''pk_lesson_progress'', [''id'']),
         td_uniques = [(''uq_lesson_progress_lesson_user'', [''lesson_id'', ''user_id''])]\<rparr>,
      create_index ''ix_lesson_progress_course_id'' ''lesson_progress'' [''course_id''] False,
      create_index ''ix_lesson_progress_lesson_id'' ''lesson_progress'' [''lesson_id''] False,
      create_index ''ix_lesson_progress_tenant_id'' ''lesson_progress'' [''tenant_id''] False,
      create_index ''ix_lesson_progress_user_id'' ''lesson_progress'' [''user_id''] False]"

definition create_quiz_questions :: "ddl list" where
  "create_quiz_questions =
     [CreateTable
        \<lparr>td_name = ''quiz_questions'',
         td_columns =
           [sa_column ''id'' Uuid False, sa_column ''tenant_id'' Uuid False,
            sa_column ''quiz_id'' Uuid False, sa_column ''text'' Text False,
            sa_column ''type'' (Enum ''question_type'' [''single'', ''multiple'', ''boolean'']) False,
            sa_column ''points'' (Numeric 6 2) False, sa_column ''order_index'' Integer False,
            stamp_column ''created_at'', stamp_column ''updated_at''],
         td_foreign_keys =
           [reference ''quiz_id'' ''quizzes'' ''id'' ''fk_quiz_questions_quiz_id_quizzes'' Cascade,
            reference ''tenant_id'' ''tenants'' ''id'' ''fk_quiz_questions_tenant_id_tenants'' Cascade],
         td_primary_key = (''pk_quiz_questions'', [''id'']),
         td_uniques = []\<rparr>,
      create_index ''ix_quiz_questions_quiz_id'' ''quiz_questions'' [''quiz_id''] False,
      create_index ''ix_quiz_questions_tenant_id'' ''quiz_questions'' [''tenant_id''] False]"

definition create_video_assets :: "ddl list" where
  "create_video_assets =
     [CreateTable
        \<lparr>td_name = ''video_assets'',
         td_columns =
           [sa_column ''id'' Uuid False, sa_column ''tenant_id'' Uuid False,
            sa_column ''lesson_id'' Uuid False, sa_column ''provider'' (Varchar 40) False,
            sa_column ''url'' (Varchar 1000) False, sa_column ''hls_url'' (Varchar 1000) True,
            sa_column ''duration_seconds'' Integer False, stamp_column ''created_at'',
            stamp_column ''updated_at''],
         td_foreign_keys =
           [reference ''lesson_id'' ''lessons'' ''id'' ''fk_video_assets_lesson_id_lessons'' Cascade,
            reference ''tenant_id'' ''tenants'' ''id'' ''fk_video_assets_tenant_id_tenants'' Cascade],
         td_primary_key = (''pk_video_assets'', [''id'']),
         td_uniques = [(''uq_video_assets_lesson_id'', [''lesson_id''])]\<rparr>,
      create_index ''ix_video_assets_tenant_id'' ''video_assets'' [''tenant_id''] False]"

definition create_quiz_answers :: "ddl list" where
  "create_quiz_answers =
     [CreateTable
        \<lparr>td_name = ''quiz_answers'',
         td_columns =
           [sa_column ''id'' Uuid False, sa_column ''tenant_id'' Uuid False,
            sa_column ''question_id'' Uuid False, sa_column ''text'' Text False,
            sa_column ''is_correct'' Boolean False, stamp_column ''created_at'',
            stamp_column ''updated_at''],
         td_foreign_keys =
           [reference ''question_id'' ''quiz_questions'' ''id'' ''fk_quiz_answers_question_id_quiz_questions'' Cascade,
            reference ''tenant_id'' ''tenants'' ''id'' ''fk_quiz_answers_tenant_id_tenants'' Cascade],
         td_primary_key = (''pk_quiz_answers'', [''id'']),
         td_uniques = []\<rparr>,
      create_index ''ix_quiz_answers_question_id'' ''quiz_answers'' [''question_id''] False,
      create_index ''ix_quiz_answers_tenant_id'' ''quiz_answers'' [''tenant_id''] False]"

definition initial_upgrade :: "ddl list" where
  "initial_upgrade =
     create_modules @ create_permissions @ create_tenants @ create_audit_logs @
     create_categories @ create_roles @ create_tenant_modules @ create_users @
     create_courses @ create_role_permissions @ create_user_roles @ create_user_sessions @
     create_assignments @ create_course_enrollments @ create_course_instructors @
     create_course_modules @ create_lessons @ create_quizzes @ create_submissions @
     create_document_assets @ create_grades @ create_lesson_progress @ create_quiz_questions @
     create_video_assets @ create_quiz_answers"

definition initial_downgrade :: "ddl list" where
  "initial_downgrade =
     [DropIndex ''ix_quiz_answers_tenant_id'', DropIndex ''ix_quiz_answers_question_id'',
      DropTable ''quiz_answers'', DropIndex ''ix_video_assets_tenant_id'',
      DropTable ''video_assets'', DropIndex ''ix_quiz_questions_tenant_id'',
      DropIndex ''ix_quiz_questions_quiz_id'', DropTable ''quiz_questions'',
      DropIndex ''ix_lesson_progress_user_id'', DropIndex ''ix_lesson_progress_tenant_id'',
      DropIndex ''ix_lesson_progress_lesson_id'', DropIndex ''ix_lesson_progress_course_id'',
      DropTable ''lesson_progress'', DropIndex ''ix_grades_user_id'',
      DropIndex ''ix_grades_tenant_id'', DropIndex ''ix_grades_assignment_id'',
      DropTable ''grades'', DropIndex ''ix_document_assets_tenant_id'',
      DropTable ''document_assets'', DropIndex ''ix_submissions_user_id'',
      DropIndex ''ix_submissions_tenant_id'', DropIndex ''ix_submissions_assignment_id'',
      DropTable ''submissions'', DropIndex ''ix_quizzes_tenant_id'', DropTable ''quizzes'',
      DropIndex ''ix_lessons_tenant_id'', DropIndex ''ix_lessons_module_id'',
      DropIndex ''ix_lessons_deleted_at'', DropIndex ''ix_lessons_course_id'',
      DropTable ''lessons'', DropIndex ''ix_course_modules_tenant_id'',
      DropIndex ''ix_course_modules_deleted_at'', DropIndex ''ix_course_modules_course_id'',
      DropTable ''course_modules'', DropIndex ''ix_course_instructors_user_id'',
      DropIndex ''ix_course_instructors_tenant_id'',
      DropIndex ''ix_course_instructors_course_id'', DropTable ''course_instructors'',
      DropIndex ''ix_course_enrollments_user_id'', DropIndex ''ix_course_enrollments_tenant_id'',
      DropIndex ''ix_course_enrollments_course_id'', DropTable ''course_enrollments'',
      DropIndex ''ix_assignments_tenant_id'', DropIndex ''ix_assignments_deleted_at'',
      DropIndex ''ix_assignments_course_id'', DropTable ''assignments'',
      DropIndex ''ix_user_sessions_user_id'', DropIndex ''ix_user_sessions_tenant_id'',
      DropIndex ''ix_user_sessions_jti'', DropTable ''user_sessions'', DropTable ''user_roles'',
      DropTable ''role_permissions'', DropIndex ''ix_courses_title'',
      DropIndex ''ix_courses_tenant_id'', DropIndex ''ix_courses_status'',
      DropIndex ''ix_courses_slug'', DropIndex ''ix_courses_deleted_at'',
      DropIndex ''ix_courses_category_id'', DropTable ''courses'',
      DropIndex ''ix_users_tenant_id'', DropIndex ''ix_users_email'',
      DropIndex ''ix_users_deleted_at'', DropTable ''users'',
      DropIndex ''ix_tenant_modules_tenant_id'', DropIndex ''ix_tenant_modules_module_id'',
      DropTable ''tenant_modules'', DropIndex ''ix_roles_tenant_id'', DropTable ''roles'',
      DropIndex ''ix_categories_tenant_id'', DropIndex ''ix_categories_slug'',
      DropIndex ''ix_categories_deleted_at'', DropTable ''categories'',
      DropIndex ''ix_audit_logs_user_id'', DropIndex ''ix_audit_logs_tenant_id'',
      DropIndex ''ix_audit_logs_tenant_created'', DropIndex ''ix_audit_logs_resource'',
      DropTable ''audit_logs'', DropIndex ''ix_tenants_slug'',
      DropIndex ''ix_tenants_deleted_at'', DropTable ''tenants'',
      DropIndex ''ix_permissions_code'', DropTable ''permissions'', DropIndex ''ix_modules_code'',
      DropTable ''modules'']"

section \<open>Row level security\<close>

definition RLS_TABLES :: "string list" where
  "RLS_TABLES =
     [''users'', ''roles'', ''user_sessions'', ''categories'', ''courses'',
      ''course_instructors'', ''course_enrollments'', ''course_modules'', ''lessons'',
      ''video_assets'', ''document_assets'', ''lesson_progress'', ''assignments'', ''quizzes'',
      ''quiz_questions'', ''quiz_answers'', ''submissions'', ''grades'', ''audit_logs'']"

text \<open>The text of the policy; \<open>quoted\<close> puts a literal between single quotes.\<close>

definition quoted :: "string \<Rightarrow> string" where
  "quoted s = [CHR 0x27] @ s @ [CHR 0x27]"

definition policy_predicate :: string where
  "policy_predicate =
     ''(tenant_id = NULLIF(current_setting('' @ quoted ''app.tenant_id'' @ '', true), '' @ quoted [] @
     '')::uuid'' @
     '' OR current_setting('' @ quoted ''app.bypass_rls'' @ '', true) = '' @ quoted ''on'' @ '')''"

definition rls_upgrade :: "ddl list" where
  "rls_upgrade = concat (map (\<lambda>table.
     [EnableRls table,
      ForceRls table,
      CreatePolicy \<lparr>pol_name = ''tenant_isolation'', pol_table = table,
                    pol_using = policy_predicate, pol_check = policy_predicate\<rparr>]) RLS_TABLES)"

definition rls_downgrade :: "ddl list" where
  "rls_downgrade = concat (map (\<lambda>table.
     [DropPolicyIfExists ''tenant_isolation'' table, NoForceRls table, DisableRls table]) RLS_TABLES)"

end
