(* ===== verification/Metadata.thy ===== *)
theory Metadata
  imports Migration "HOL-Library.Multiset"
begin

text \<open>
  The tables as the program declares them: the mixins and the naming convention of
  \<^verbatim>\<open>app/core/database/base.py\<close> and one declaration per class of the \<^verbatim>\<open>models.py\<close> files (\<open>declare_users\<close> is
  the class \<^verbatim>\<open>User\<close>). \<open>declared_table\<close> and \<open>declared_indexes\<close> are the table and the indexes that
  SQLAlchemy derives from a declaration: columns by \<^verbatim>\<open>sort_order\<close>, a name by the convention for every
  constraint that has none. The main facts compare this with what the migrations build.
\<close>

section \<open>Declarations\<close>

record mapped_column =
  mc_name :: string
  mc_type :: column_type
  mc_nullable :: bool
  mc_primary_key :: bool
  mc_foreign_key :: "((string \<times> string) \<times> on_delete) option"
  mc_unique :: bool
  mc_index :: bool
  mc_default_now :: bool
  mc_sort_order :: int

record mapped_class =
  mp_table :: string
  mp_mixins :: "mapped_column list"
  mp_columns :: "mapped_column list"
  mp_uniques :: "(string \<times> string list) list"
  mp_indexes :: "(string \<times> string list) list"

text \<open>\<^verbatim>\<open>mapped_column(type, nullable=...)\<close>, and its other keyword arguments one by one.\<close>

definition mapped :: "string \<Rightarrow> column_type \<Rightarrow> bool \<Rightarrow> mapped_column" where
  "mapped n ty nullable =
     \<lparr>mc_name = n, mc_type = ty, mc_nullable = nullable, mc_primary_key = False,
      mc_foreign_key = None, mc_unique = False, mc_index = False, mc_default_now = False,
      mc_sort_order = 0\<rparr>"

definition primary_key :: "mapped_column \<Rightarrow> mapped_column" where
  "primary_key c = c\<lparr>mc_primary_key := True\<rparr>"

definition refers :: "string \<times> string \<Rightarrow> on_delete \<Rightarrow> mapped_column \<Rightarrow> mapped_column" where
  "refers target ondelete c = c\<lparr>mc_foreign_key := Some (target, ondelete)\<rparr>"

definition unique :: "mapped_column \<Rightarrow> mapped_column" where
  "unique c = c\<lparr>mc_unique := True\<rparr>"

definition indexed :: "mapped_column \<Rightarrow> mapped_column" where
  "indexed c = c\<lparr>mc_index := True\<rparr>"

definition default_now :: "mapped_column \<Rightarrow> mapped_column" where
  "default_now c = c\<lparr>mc_default_now := True\<rparr>"

definition sort_at :: "int \<Rightarrow> mapped_column \<Rightarrow> mapped_column" where
  "sort_at n c = c\<lparr>mc_sort_order := n\<rparr>"

section \<open>\<^verbatim>\<open>app/core/database/base.py\<close>\<close>

text \<open>\<^verbatim>\<open>NAMING_CONVENTION\<close>: the names of an index, a unique constraint, a reference and a key.\<close>

definition index_name :: "string \<Rightarrow> string \<Rightarrow> string" where
  "index_name table col = ''ix_'' @ table @ ''_'' @ col"

definition unique_name :: "string \<Rightarrow> string \<Rightarrow> string" where
  "unique_name table col = ''uq_'' @ table @ ''_'' @ col"

definition reference_name :: "string \<Rightarrow> string \<Rightarrow> string \<Rightarrow> string" where
  "reference_name table col referred = ''fk_'' @ table @ ''_'' @ col @ ''_'' @ referred"

definition key_name :: "string \<Rightarrow> string" where
  "key_name table = ''pk_'' @ table"

definition UUIDMixin :: "mapped_column list" where
  "UUIDMixin =
     [sort_at (-100) (primary_key (mapped ''id'' Uuid False))]"

definition TimestampMixin :: "mapped_column list" where
  "TimestampMixin =
     [sort_at 100 (default_now (mapped ''created_at'' Timestamptz False)),
      sort_at 101 (default_now (mapped ''updated_at'' Timestamptz False))]"

definition SoftDeleteMixin :: "mapped_column list" where
  "SoftDeleteMixin =
     [sort_at 102 (indexed (mapped ''deleted_at'' Timestamptz True))]"

definition TenantMixin :: "mapped_column list" where
  "TenantMixin =
     [sort_at (-90) (indexed (refers (''tenants'', ''id'') Cascade (mapped ''tenant_id'' Uuid False)))]"

section \<open>\<^verbatim>\<open>app/core/tenancy/models.py\<close>\<close>

definition declare_tenants :: mapped_class where
  "declare_tenants =
     \<lparr>mp_table = ''tenants'', mp_mixins = UUIDMixin @ TimestampMixin @ SoftDeleteMixin,
      mp_columns =
        [mapped ''name'' (Varchar 200) False,
         indexed (unique (mapped ''slug'' (Varchar 80) False)),
         mapped ''is_active'' Boolean False,
         mapped ''isolation_mode'' (Enum ''isolation_mode'' [''shared'', ''schema'', ''database'']) False,
         mapped ''schema_name'' (Varchar 80) True,
         mapped ''settings'' Jsonb False],
      mp_uniques = [],
      mp_indexes = []\<rparr>"

section \<open>\<^verbatim>\<open>app/core/licensing/models.py\<close>\<close>

definition declare_modules :: mapped_class where
  "declare_modules =
     \<lparr>mp_table = ''modules'', mp_mixins = UUIDMixin @ TimestampMixin,
      mp_columns =
        [indexed (unique (mapped ''code'' (Varchar 40) False)),
         mapped ''name'' (Varchar 120) False,
         mapped ''description'' (Varchar 255) True,
         mapped ''is_active'' Boolean False,
         mapped ''is_core'' Boolean False],
      mp_uniques = [],
      mp_indexes = []\<rparr>"

definition declare_tenant_modules :: mapped_class where
  "declare_tenant_modules =
     \<lparr>mp_table = ''tenant_modules'', mp_mixins = UUIDMixin @ TimestampMixin,
      mp_columns =
        [indexed (refers (''tenants'', ''id'') Cascade (mapped ''tenant_id'' Uuid False)),
         indexed (refers (''modules'', ''id'') Cascade (mapped ''module_id'' Uuid False)),
         mapped ''enabled'' Boolean False,
         mapped ''enabled_at'' Timestamptz True,
         mapped ''expires_at'' Timestamptz True],
      mp_uniques = [(''uq_tenant_modules_tenant_module'', [''tenant_id'', ''module_id''])],
      mp_indexes = []\<rparr>"

section \<open>\<^verbatim>\<open>app/core/audit/models.py\<close>\<close>

definition declare_audit_logs :: mapped_class where
  "declare_audit_logs =
     \<lparr>mp_table = ''audit_logs'', mp_mixins = UUIDMixin @ TenantMixin @ TimestampMixin,
      mp_columns =
        [indexed (mapped ''user_id'' Uuid True),
         mapped ''action'' (Varchar 100) False,
         mapped ''resource'' (Varchar 100) False,
         mapped ''resource_id'' Uuid True,
         mapped ''old_values'' Jsonb True,
         mapped ''new_values'' Jsonb True,
         mapped ''ip_address'' (Varchar 64) True],
      mp_uniques = [],
      mp_indexes = [(''ix_audit_logs_tenant_created'', [''tenant_id'', ''created_at'']),
         (''ix_audit_logs_resource'', [''tenant_id'', ''resource'', ''resource_id''])]\<rparr>"

section \<open>\<^verbatim>\<open>app/modules/auth/models.py\<close>\<close>

definition declare_user_roles :: mapped_class where
  "declare_user_roles =
     \<lparr>mp_table = ''user_roles'', mp_mixins = [],
      mp_columns =
        [refers (''users'', ''id'') Cascade (primary_key (mapped ''user_id'' Uuid False)),
         refers (''roles'', ''id'') Cascade (primary_key (mapped ''role_id'' Uuid False))],
      mp_uniques = [], mp_indexes = []\<rparr>"

definition declare_role_permissions :: mapped_class where
  "declare_role_permissions =
     \<lparr>mp_table = ''role_permissions'', mp_mixins = [],
      mp_columns =
        [refers (''roles'', ''id'') Cascade (primary_key (mapped ''role_id'' Uuid False)),
         refers (''permissions'', ''id'') Cascade (primary_key (mapped ''permission_id'' Uuid False))],
      mp_uniques = [], mp_indexes = []\<rparr>"

definition declare_permissions :: mapped_class where
  "declare_permissions =
     \<lparr>mp_table = ''permissions'', mp_mixins = UUIDMixin @ TimestampMixin,
      mp_columns =
        [indexed (unique (mapped ''code'' (Varchar 100) False)),
         mapped ''description'' (Varchar 255) True],
      mp_uniques = [],
      mp_indexes = []\<rparr>"

definition declare_roles :: mapped_class where
  "declare_roles =
     \<lparr>mp_table = ''roles'', mp_mixins = UUIDMixin @ TenantMixin @ TimestampMixin,
      mp_columns =
        [mapped ''code'' (Varchar 50) False,
         mapped ''name'' (Varchar 100) False,
         mapped ''description'' (Varchar 255) True,
         mapped ''is_system'' Boolean False],
      mp_uniques = [(''uq_roles_tenant_code'', [''tenant_id'', ''code''])],
      mp_indexes = []\<rparr>"

definition declare_users :: mapped_class where
  "declare_users =
     \<lparr>mp_table = ''users'', mp_mixins = UUIDMixin @ TenantMixin @ TimestampMixin @ SoftDeleteMixin,
      mp_columns =
        [indexed (mapped ''email'' (Varchar 255) False),
         mapped ''hashed_password'' (Varchar 255) False,
         mapped ''full_name'' (Varchar 200) False,
         mapped ''is_active'' Boolean False,
         mapped ''is_verified'' Boolean False,
         mapped ''is_superuser'' Boolean False,
         mapped ''last_login_at'' Timestamptz True],
      mp_uniques = [(''uq_users_tenant_email'', [''tenant_id'', ''email''])],
      mp_indexes = []\<rparr>"

definition declare_user_sessions :: mapped_class where
  "declare_user_sessions =
     \<lparr>mp_table = ''user_sessions'', mp_mixins = UUIDMixin @ TenantMixin @ TimestampMixin,
      mp_columns =
        [indexed (refers (''users'', ''id'') Cascade (mapped ''user_id'' Uuid False)),
         indexed (unique (mapped ''jti'' Uuid False)),
         mapped ''user_agent'' (Varchar 400) True,
         mapped ''ip_address'' (Varchar 64) True,
         mapped ''expires_at'' Timestamptz False,
         mapped ''revoked_at'' Timestamptz True],
      mp_uniques = [],
      mp_indexes = []\<rparr>"

section \<open>\<^verbatim>\<open>app/modules/courses/models.py\<close>\<close>

definition declare_categories :: mapped_class where
  "declare_categories =
     \<lparr>mp_table = ''categories'', mp_mixins = UUIDMixin @ TenantMixin @ TimestampMixin @ SoftDeleteMixin,
      mp_columns =
        [mapped ''name'' (Varchar 120) False,
         indexed (mapped ''slug'' (Varchar 140) False),
         mapped ''description'' Text True,
         refers (''categories'', ''id'') SetNull (mapped ''parent_id'' Uuid True)],
      mp_uniques = [(''uq_categories_tenant_slug'', [''tenant_id'', ''slug''])],
      mp_indexes = []\<rparr>"

definition declare_courses :: mapped_class where
  "declare_courses =
     \<lparr>mp_table = ''courses'', mp_mixins = UUIDMixin @ TenantMixin @ TimestampMixin @ SoftDeleteMixin,
      mp_columns =
        [indexed (mapped ''title'' (Varchar 200) False),
         indexed (mapped ''slug'' (Varchar 220) False),
         mapped ''summary'' (Varchar 500) True,
         mapped ''description'' Text True,
         indexed (refers (''categories'', ''id'') SetNull (mapped ''category_id'' Uuid True)),
         indexed (mapped ''status'' (Enum ''course_status'' [''draft'', ''published'', ''archived'']) False),
         mapped ''level'' (Enum ''course_level'' [''beginner'', ''intermediate'', ''advanced'']) False,
         mapped ''is_free'' Boolean False,
         mapped ''price'' (Numeric 10 2) False,
         mapped ''thumbnail_url'' (Varchar 500) True,
         mapped ''enrollment_count'' Integer False,
         mapped ''published_at'' Timestamptz True],
      mp_uniques = [(''uq_courses_tenant_slug'', [''tenant_id'', ''slug''])],
      mp_indexes = []\<rparr>"

definition declare_course_instructors :: mapped_class where
  "declare_course_instructors =
     \<lparr>mp_table = ''course_instructors'', mp_mixins = UUIDMixin @ TenantMixin @ TimestampMixin,
      mp_columns =
        [indexed (refers (''courses'', ''id'') Cascade (mapped ''course_id'' Uuid False)),
         indexed (refers (''users'', ''id'') Cascade (mapped ''user_id'' Uuid False)),
         mapped ''is_lead'' Boolean False],
      mp_uniques = [(''uq_course_instructors_course_user'', [''course_id'', ''user_id''])],
      mp_indexes = []\<rparr>"

definition declare_course_enrollments :: mapped_class where
  "declare_course_enrollments =
     \<lparr>mp_table = ''course_enrollments'', mp_mixins = UUIDMixin @ TenantMixin @ TimestampMixin,
      mp_columns =
        [indexed (refers (''courses'', ''id'') Cascade (mapped ''course_id'' Uuid False)),
         indexed (refers (''users'', ''id'') Cascade (mapped ''user_id'' Uuid False)),
         mapped ''status'' (Enum ''enrollment_status'' [''active'', ''completed'', ''cancelled'']) False,
         mapped ''progress_pct'' Integer False,
         mapped ''enrolled_at'' Timestamptz False,
         mapped ''completed_at'' Timestamptz True],
      mp_uniques = [(''uq_enrollments_course_user'', [''course_id'', ''user_id''])],
      mp_indexes = []\<rparr>"

section \<open>\<^verbatim>\<open>app/modules/learning/models.py\<close>\<close>

definition declare_course_modules :: mapped_class where
  "declare_course_modules =
     \<lparr>mp_table = ''course_modules'', mp_mixins = UUIDMixin @ TenantMixin @ TimestampMixin @ SoftDeleteMixin,
      mp_columns =
        [indexed (refers (''courses'', ''id'') Cascade (mapped ''course_id'' Uuid False)),
         mapped ''title'' (Varchar 200) False,
         mapped ''description'' Text True,
         mapped ''order_index'' Integer False],
      mp_uniques = [],
      mp_indexes = []\<rparr>"

definition declare_lessons :: mapped_class where
  "declare_lessons =
     \<lparr>mp_table = ''lessons'', mp_mixins = UUIDMixin @ TenantMixin @ TimestampMixin @ SoftDeleteMixin,
      mp_columns =
        [indexed (refers (''courses'', ''id'') Cascade (mapped ''course_id'' Uuid False)),
         indexed (refers (''course_modules'', ''id'') SetNull (mapped ''module_id'' Uuid True)),
         mapped ''title'' (Varchar 200) False,
         mapped ''content_type'' (Enum ''lesson_type'' [''video'', ''document'', ''text'']) False,
         mapped ''content'' Text True,
         mapped ''order_index'' Integer False,
         mapped ''duration_seconds'' Integer False,
         mapped ''is_preview'' Boolean False],
      mp_uniques = [],
      mp_indexes = []\<rparr>"

definition declare_video_assets :: mapped_class where
  "declare_video_assets =
     \<lparr>mp_table = ''video_assets'', mp_mixins = UUIDMixin @ TenantMixin @ TimestampMixin,
      mp_columns =
        [unique (refers (''lessons'', ''id'') Cascade (mapped ''lesson_id'' Uuid False)),
         mapped ''provider'' (Varchar 40) False,
         mapped ''url'' (Varchar 1000) False,
         mapped ''hls_url'' (Varchar 1000) True,
         mapped ''duration_seconds'' Integer False],
      mp_uniques = [],
      mp_indexes = []\<rparr>"

definition declare_document_assets :: mapped_class where
  "declare_document_assets =
     \<lparr>mp_table = ''document_assets'', mp_mixins = UUIDMixin @ TenantMixin @ TimestampMixin,
      mp_columns =
        [unique (refers (''lessons'', ''id'') Cascade (mapped ''lesson_id'' Uuid False)),
         mapped ''file_url'' (Varchar 1000) False,
         mapped ''file_type'' (Varchar 40) False,
         mapped ''size_bytes'' Integer False],
      mp_uniques = [],
      mp_indexes = []\<rparr>"

definition declare_lesson_progress :: mapped_class where
  "declare_lesson_progress =
     \<lparr>mp_table = ''lesson_progress'', mp_mixins = UUIDMixin @ TenantMixin @ TimestampMixin,
      mp_columns =
        [indexed (refers (''lessons'', ''id'') Cascade (mapped ''lesson_id'' Uuid False)),
         indexed (refers (''courses'', ''id'') Cascade (mapped ''course_id'' Uuid False)),
         indexed (refers (''users'', ''id'') Cascade (mapped ''user_id'' Uuid False)),
         mapped ''status'' (Enum ''progress_status'' [''not_started'', ''in_progress'', ''completed'']) False,
         mapped ''last_position_seconds'' Integer False,
         mapped ''completed_at'' Timestamptz True],
      mp_uniques = [(''uq_lesson_progress_lesson_user'', [''lesson_id'', ''user_id''])],
      mp_indexes = []\<rparr>"

section \<open>\<^verbatim>\<open>app/modules/assignments/models.py\<close>\<close>

definition declare_assignments :: mapped_class where
  "declare_assignments =
     \<lparr>mp_table = ''assignments'', mp_mixins = UUIDMixin @ TenantMixin @ TimestampMixin @ SoftDeleteMixin,
      mp_columns =
        [indexed (refers (''courses'', ''id'') Cascade (mapped ''course_id'' Uuid False)),
         mapped ''title'' (Varchar 200) False,
         mapped ''description'' Text True,
         mapped ''type'' (Enum ''assignment_type'' [''assignment'', ''quiz'']) False,
         mapped ''max_points'' (Numeric 6 2) False,
         mapped ''pass_points'' (Numeric 6 2) False,
         mapped ''due_at'' Timestamptz True,
         mapped ''is_published'' Boolean False],
      mp_uniques = [],
      mp_indexes = []\<rparr>"

definition declare_quizzes :: mapped_class where
  "declare_quizzes =
     \<lparr>mp_table = ''quizzes'', mp_mixins = UUIDMixin @ TenantMixin @ TimestampMixin,
      mp_columns =
        [unique (refers (''assignments'', ''id'') Cascade (mapped ''assignment_id'' Uuid False)),
         mapped ''time_limit_seconds'' Integer False,
         mapped ''shuffle_questions'' Boolean False],
      mp_uniques = [],
      mp_indexes = []\<rparr>"

definition declare_quiz_questions :: mapped_class where
  "declare_quiz_questions =
     \<lparr>mp_table = ''quiz_questions'', mp_mixins = UUIDMixin @ TenantMixin @ TimestampMixin,
      mp_columns =
        [indexed (refers (''quizzes'', ''id'') Cascade (mapped ''quiz_id'' Uuid False)),
         mapped ''text'' Text False,
         mapped ''type'' (Enum ''question_type'' [''single'', ''multiple'', ''boolean'']) False,
         mapped ''points'' (Numeric 6 2) False,
         mapped ''order_index'' Integer False],
      mp_uniques = [],
      mp_indexes = []\<rparr>"

definition declare_quiz_answers :: mapped_class where
  "declare_quiz_answers =
     \<lparr>mp_table = ''quiz_answers'', mp_mixins = UUIDMixin @ TenantMixin @ TimestampMixin,
      mp_columns =
        [indexed (refers (''quiz_questions'', ''id'') Cascade (mapped ''question_id'' Uuid False)),
         mapped ''text'' Text False,
         mapped ''is_correct'' Boolean False],
      mp_uniques = [],
      mp_indexes = []\<rparr>"

definition declare_submissions :: mapped_class where
  "declare_submissions =
     \<lparr>mp_table = ''submissions'', mp_mixins = UUIDMixin @ TenantMixin @ TimestampMixin,
      mp_columns =
        [indexed (refers (''assignments'', ''id'') Cascade (mapped ''assignment_id'' Uuid False)),
         indexed (refers (''users'', ''id'') Cascade (mapped ''user_id'' Uuid False)),
         mapped ''content'' Text True,
         mapped ''file_url'' (Varchar 1000) True,
         mapped ''answers'' Jsonb True,
         mapped ''status'' (Enum ''submission_status'' [''submitted'', ''graded'', ''returned'']) False,
         mapped ''submitted_at'' Timestamptz False],
      mp_uniques = [],
      mp_indexes = []\<rparr>"

definition declare_grades :: mapped_class where
  "declare_grades =
     \<lparr>mp_table = ''grades'', mp_mixins = UUIDMixin @ TenantMixin @ TimestampMixin,
      mp_columns =
        [unique (refers (''submissions'', ''id'') Cascade (mapped ''submission_id'' Uuid False)),
         indexed (refers (''assignments'', ''id'') Cascade (mapped ''assignment_id'' Uuid False)),
         indexed (mapped ''user_id'' Uuid False),
         mapped ''points'' (Numeric 6 2) False,
         mapped ''max_points'' (Numeric 6 2) False,
         mapped ''feedback'' Text True,
         mapped ''is_auto'' Boolean False,
         mapped ''graded_by'' Uuid True,
         mapped ''graded_at'' Timestamptz False],
      mp_uniques = [],
      mp_indexes = []\<rparr>"

section \<open>What is derived from a declaration\<close>

definition class_columns :: "mapped_class \<Rightarrow> mapped_column list" where
  "class_columns k = sort_key mc_sort_order (mp_mixins k @ mp_columns k)"

definition column_of :: "mapped_column \<Rightarrow> column" where
  "column_of c = \<lparr>col_name = mc_name c, col_type = mc_type c,
     col_nullable = (mc_nullable c \<and> \<not> mc_primary_key c), col_default_now = mc_default_now c\<rparr>"

definition references_of :: "string \<Rightarrow> mapped_column list \<Rightarrow> foreign_key list" where
  "references_of table cols = concat (map (\<lambda>c. case mc_foreign_key c of
     None \<Rightarrow> []
   | Some (target, ondelete) \<Rightarrow>
       [\<lparr>fk_column = mc_name c, fk_target = target,
         fk_name = reference_name table (mc_name c) (fst target), fk_ondelete = ondelete\<rparr>]) cols)"

text \<open>\<^verbatim>\<open>unique=True\<close> is a constraint of its own, unless the column also has an index: then that is unique.\<close>

definition uniques_of :: "string \<Rightarrow> mapped_column list \<Rightarrow> (string \<times> string list) list" where
  "uniques_of table cols =
     map (\<lambda>c. (unique_name table (mc_name c), [mc_name c])) (filter (\<lambda>c. mc_unique c \<and> \<not> mc_index c) cols)"

definition derived_table :: "mapped_class \<Rightarrow> mapped_column list \<Rightarrow> table_def" where
  "derived_table k cols =
     \<lparr>td_name = mp_table k, td_columns = map column_of cols,
      td_foreign_keys = references_of (mp_table k) cols,
      td_primary_key = (key_name (mp_table k), map mc_name (filter mc_primary_key cols)),
      td_uniques = mp_uniques k @ uniques_of (mp_table k) cols\<rparr>"

definition declared_table :: "mapped_class \<Rightarrow> table_def" where
  "declared_table k = derived_table k (class_columns k)"

definition declared_indexes :: "mapped_class \<Rightarrow> index_def list" where
  "declared_indexes k =
     map (\<lambda>(n, cols). \<lparr>ix_name = n, ix_table = mp_table k, ix_columns = cols, ix_unique = False\<rparr>) (mp_indexes k) @
     map (\<lambda>c. \<lparr>ix_name = index_name (mp_table k) (mc_name c), ix_table = mp_table k,
              ix_columns = [mc_name c], ix_unique = mc_unique c\<rparr>)
       (filter mc_index (class_columns k))"

definition mapped_classes :: "mapped_class list" where
  "mapped_classes =
     [declare_tenants, declare_modules, declare_tenant_modules, declare_audit_logs,
      declare_user_roles, declare_role_permissions, declare_permissions, declare_roles,
      declare_users, declare_user_sessions, declare_categories, declare_courses,
      declare_course_instructors, declare_course_enrollments, declare_course_modules,
      declare_lessons, declare_video_assets, declare_document_assets, declare_lesson_progress,
      declare_assignments, declare_quizzes, declare_quiz_questions, declare_quiz_answers,
      declare_submissions, declare_grades]"

end
