(* ===== verification/SchemaCheck.thy ===== *)
theory SchemaCheck
  imports Metadata
begin

text \<open>
  What the migrations build. The initial schema is the one the classes declare, its downgrade undoes
  it but for the enumeration types, and row security is on exactly the tables of the tenants. The
  finite checks (fresh names, references in order, the declarations table by table) are evaluated;
  that they are enough are lemmas over all scripts.
\<close>

section \<open>The initial schema\<close>

text \<open>The names are compared through a number, which evaluates faster than the text.\<close>

definition name_hash :: "string \<Rightarrow> int" where
  "name_hash s = foldl (\<lambda>h c. (31 * h + of_char c) mod 1000003) 7 s"

lemma distinct_by_hash: "distinct (map name_hash ns) \<Longrightarrow> distinct ns"
  by (simp add: distinct_map)

lemma initial_names: "distinct (concat (map names_of initial_upgrade))"
  by (rule distinct_by_hash) code_simp

lemma initial_types: "distinct (map fst (concat (map table_enums (tables_of initial_upgrade))))"
  by code_simp

lemma initial_resolved: "resolved [] initial_upgrade"
  by code_simp

lemma initial_creates: "list_all creation initial_upgrade"
  by code_simp

lemma initial_downgrade_undo: "initial_downgrade = undo initial_upgrade"
  by code_simp

definition migrated :: catalog where
  "migrated = built empty_catalog initial_upgrade"

lemma initial_upgrade_runs: "run_ddl initial_upgrade empty_catalog = Inr migrated"
  unfolding migrated_def
  by (rule resolved_run [OF initial_resolved])
    (use initial_names initial_types in \<open>simp_all add: empty_catalog_def relation_names_def\<close>)

lemma migrated_ok: "catalog_ok migrated"
  by (rule run_ddl_ok [OF empty_catalog_ok initial_upgrade_runs])

lemma migrated_fields:
  "c_tables migrated = tables_of initial_upgrade" "c_indexes migrated = indexes_of initial_upgrade"
  "c_rls migrated = []" "c_forced migrated = []" "c_policies migrated = []"
  by (simp_all add: migrated_def built_def empty_catalog_def)

section \<open>The declarations\<close>

text \<open>A class is migrated when the catalog has its table and its indexes, and no other index on it.\<close>

definition same_table :: "table_def \<Rightarrow> table_def \<Rightarrow> bool" where
  "same_table t u \<longleftrightarrow>
     td_name t = td_name u \<and> td_columns t = td_columns u \<and> td_primary_key t = td_primary_key u \<and>
     set (td_foreign_keys t) = set (td_foreign_keys u) \<and> set (td_uniques t) = set (td_uniques u)"

definition table_agrees :: "mapped_class \<Rightarrow> table_def \<Rightarrow> bool" where
  "table_agrees k t \<longleftrightarrow> same_table t (declared_table k)"

lemma table_agrees_name: "table_agrees k t \<Longrightarrow> td_name t = mp_table k"
  by (simp add: table_agrees_def same_table_def declared_table_def derived_table_def)

definition class_migrated :: "catalog \<Rightarrow> mapped_class \<Rightarrow> bool" where
  "class_migrated c k \<longleftrightarrow>
     (case find_table (mp_table k) c of None \<Rightarrow> False | Some t \<Rightarrow> table_agrees k t) \<and>
     set (filter (\<lambda>i. ix_table i = mp_table k) (c_indexes c)) = set (declared_indexes k)"

text \<open>One part of the script agrees with one class.\<close>

definition block_agrees :: "mapped_class \<Rightarrow> ddl list \<Rightarrow> bool" where
  "block_agrees k ss \<longleftrightarrow>
     (case tables_of ss of [t] \<Rightarrow> table_agrees k t | _ \<Rightarrow> False) \<and>
     list_all (\<lambda>i. ix_table i = mp_table k) (indexes_of ss) \<and>
     set (indexes_of ss) = set (declared_indexes k)"

lemma tables_of_append: "tables_of (ss @ ts) = tables_of ss @ tables_of ts"
  by (induction ss) (auto split: ddl.splits)

lemma indexes_of_append: "indexes_of (ss @ ts) = indexes_of ss @ indexes_of ts"
  by (induction ss) (auto split: ddl.splits)

lemma tables_of_concat: "tables_of (concat bs) = concat (map tables_of bs)"
  by (induction bs) (simp_all add: tables_of_append)

lemma indexes_of_concat: "indexes_of (concat bs) = concat (map indexes_of bs)"
  by (induction bs) (simp_all add: indexes_of_append)

lemma block_agrees_table: "block_agrees k ss \<Longrightarrow> \<exists>t. tables_of ss = [t] \<and> table_agrees k t"
  by (auto simp: block_agrees_def split: list.splits)

lemma blocks_table_names:
  "list_all2 block_agrees ks bs \<Longrightarrow> map td_name (tables_of (concat bs)) = map mp_table ks"
  by (induction rule: list_all2_induct)
    (auto simp: tables_of_append table_agrees_name dest!: block_agrees_table)

lemma blocks_migrated:
  assumes "list_all2 block_agrees ks bs" and "distinct (map mp_table ks)"
    and c: "c_tables c = tables_of (concat bs)" "c_indexes c = indexes_of (concat bs)" and "k \<in> set ks"
  shows "class_migrated c k"
proof -
  obtain b where b: "b \<in> set bs" "block_agrees k b"
    using assms(1,5) by (metis in_set_conv_nth list_all2_conv_all_nth)
  then obtain t where t: "t \<in> set (c_tables c)" "table_agrees k t"
    using block_agrees_table [OF b(2)] by (force simp: c tables_of_concat)
  have "distinct (map td_name (c_tables c))"
    using blocks_table_names [OF assms(1)] assms(2) by (simp add: c)
  then have found: "find_table (mp_table k) c = Some t"
    using find_unique [OF t(1), of td_name] table_agrees_name [OF t(2)] by (simp add: find_table_def)
  have own: "i \<in> set (indexes_of b)" if b': "b' \<in> set bs" "i \<in> set (indexes_of b')" "ix_table i = mp_table k" for b' i
  proof -
    obtain j where j: "j < length bs" "b' = bs ! j" using b'(1) by (auto simp: in_set_conv_nth)
    then have agrees: "block_agrees (ks ! j) b'" and len: "length ks = length bs"
      using assms(1) by (auto simp: list_all2_conv_all_nth)
    then have "mp_table (ks ! j) = mp_table k"
      using b'(2,3) by (auto simp: block_agrees_def list_all_iff)
    then have "ks ! j = k"
      using inj_onD [of mp_table "set ks" "ks ! j" k] assms(2,5) j(1) len by (simp add: distinct_map)
    with agrees b(2) b'(2) show ?thesis by (simp add: block_agrees_def)
  qed
  have mine: "ix_table i = mp_table k" if "i \<in> set (indexes_of b)" for i
    using b(2) that by (simp add: block_agrees_def list_all_iff)
  have "set (filter (\<lambda>i. ix_table i = mp_table k) (c_indexes c)) = set (indexes_of b)" (is "?l = ?r")
  proof
    show "?l \<subseteq> ?r" using own by (auto simp: c indexes_of_concat)
    show "?r \<subseteq> ?l" using b(1) mine by (auto simp: c indexes_of_concat)
  qed
  with found show ?thesis
    using t(2) b(2) by (simp add: class_migrated_def block_agrees_def)
qed

text \<open>The classes in the order in which their tables are created.\<close>

definition migration_order :: "(mapped_class \<times> ddl list) list" where
  "migration_order =
     [(declare_modules, create_modules), (declare_permissions, create_permissions),
      (declare_tenants, create_tenants), (declare_audit_logs, create_audit_logs),
      (declare_categories, create_categories), (declare_roles, create_roles),
      (declare_tenant_modules, create_tenant_modules), (declare_users, create_users),
      (declare_courses, create_courses), (declare_role_permissions, create_role_permissions),
      (declare_user_roles, create_user_roles), (declare_user_sessions, create_user_sessions),
      (declare_assignments, create_assignments),
      (declare_course_enrollments, create_course_enrollments),
      (declare_course_instructors, create_course_instructors),
      (declare_course_modules, create_course_modules), (declare_lessons, create_lessons),
      (declare_quizzes, create_quizzes), (declare_submissions, create_submissions),
      (declare_document_assets, create_document_assets), (declare_grades, create_grades),
      (declare_lesson_progress, create_lesson_progress),
      (declare_quiz_questions, create_quiz_questions),
      (declare_video_assets, create_video_assets), (declare_quiz_answers, create_quiz_answers)]"

lemma migration_order_blocks: "initial_upgrade = concat (map snd migration_order)"
  by (simp add: initial_upgrade_def migration_order_def)

lemma migration_order_classes: "mset (map fst migration_order) = mset mapped_classes"
  unfolding migration_order_def mapped_classes_def by (simp add: ac_simps)

lemma migration_order_agrees: "list_all2 block_agrees (map fst migration_order) (map snd migration_order)"
  by code_simp

lemma migrated_table_names: "mset (table_names migrated) = mset (map mp_table mapped_classes)"
proof -
  have "table_names migrated = map mp_table (map fst migration_order)"
    unfolding table_names_def migrated_fields migration_order_blocks
    by (rule blocks_table_names [OF migration_order_agrees])
  then have "mset (table_names migrated) = image_mset mp_table (mset (map fst migration_order))"
    by (simp only: mset_map)
  also have "\<dots> = image_mset mp_table (mset mapped_classes)"
    by (simp only: migration_order_classes)
  finally show ?thesis by simp
qed

lemma mapped_class_migrated:
  assumes "k \<in> set mapped_classes"
  shows "class_migrated migrated k"
proof (rule blocks_migrated [OF migration_order_agrees])
  show "k \<in> set (map fst migration_order)"
    using assms migration_order_classes by (metis set_mset_mset)
  have "distinct (table_names migrated)"
    using migrated_ok by (simp add: catalog_ok_def distinct_table_names)
  then show "distinct (map mp_table (map fst migration_order))"
    using blocks_table_names [OF migration_order_agrees]
    by (simp add: table_names_def migrated_fields migration_order_blocks)
qed (simp_all add: migrated_fields migration_order_blocks)

section \<open>Row level security\<close>

definition rls_on :: "string \<Rightarrow> ddl list" where
  "rls_on table = [EnableRls table, ForceRls table,
     CreatePolicy \<lparr>pol_name = ''tenant_isolation'', pol_table = table,
                   pol_using = policy_predicate, pol_check = policy_predicate\<rparr>]"

definition isolation_policy :: "string \<Rightarrow> policy" where
  "isolation_policy table = \<lparr>pol_name = ''tenant_isolation'', pol_table = table,
     pol_using = policy_predicate, pol_check = policy_predicate\<rparr>"

lemma on_table_known: "n \<in> set (table_names c) \<Longrightarrow> on_table n c f = Inr (f c)"
  by (simp add: on_table_Inr)

lemma rls_on_run:
  assumes "distinct ts" and "set ts \<subseteq> set (table_names c)"
    and "\<And>p. p \<in> set (c_policies c) \<Longrightarrow> pol_table p \<notin> set ts"
  shows "run_ddl (concat (map rls_on ts)) c = Inr (c
    \<lparr>c_rls := fold List.insert ts (c_rls c), c_forced := fold List.insert ts (c_forced c),
     c_policies := c_policies c @ map isolation_policy ts\<rparr>)"
  using assms
proof (induction ts arbitrary: c)
  case Nil
  then show ?case by simp
next
  case (Cons t ts)
  let ?c = "c\<lparr>c_rls := List.insert t (c_rls c), c_forced := List.insert t (c_forced c),
              c_policies := c_policies c @ [isolation_policy t]\<rparr>"
  have "\<not> list_ex (\<lambda>q. pol_name q = ''tenant_isolation'' \<and> pol_table q = t) (c_policies c)"
    using Cons.prems(3) by (auto simp: list_ex_iff)
  then have "run_ddl (rls_on t @ concat (map rls_on ts)) c = run_ddl (concat (map rls_on ts)) ?c"
    using Cons.prems(2) by (simp add: rls_on_def isolation_policy_def on_table_known table_names_def)
  also have "\<dots> = Inr (?c\<lparr>c_rls := fold List.insert ts (c_rls ?c), c_forced := fold List.insert ts (c_forced ?c),
     c_policies := c_policies ?c @ map isolation_policy ts\<rparr>)"
    by (rule Cons.IH) (use Cons.prems in \<open>auto simp: table_names_def isolation_policy_def\<close>)
  finally show ?case by simp
qed

lemma rls_off_run:
  assumes "set ts \<subseteq> set (table_names c)"
  shows "run_ddl (concat (map (\<lambda>table.
      [DropPolicyIfExists ''tenant_isolation'' table, NoForceRls table, DisableRls table]) ts)) c = Inr (c
    \<lparr>c_rls := filter (\<lambda>n. n \<notin> set ts) (c_rls c), c_forced := filter (\<lambda>n. n \<notin> set ts) (c_forced c),
     c_policies := filter (\<lambda>p. \<not> (pol_name p = ''tenant_isolation'' \<and> pol_table p \<in> set ts)) (c_policies c)\<rparr>)"
  using assms
proof (induction ts arbitrary: c)
  case Nil
  then show ?case by simp
next
  case (Cons t ts)
  then show ?case
    by (simp add: on_table_known table_names_def removeAll_filter_not_eq conj_commute)
      (rule catalog.equality; auto intro!: filter_cong)
qed

lemma set_fold_insert: "set (fold List.insert xs ys) = set xs \<union> set ys"
  by (induction xs arbitrary: ys) auto

lemma rls_upgrade_eq: "rls_upgrade = concat (map rls_on RLS_TABLES)"
  by (simp add: rls_upgrade_def rls_on_def [abs_def])

lemma RLS_TABLES_distinct: "distinct RLS_TABLES"
  by (rule distinct_by_hash) code_simp

text \<open>The list of the migration is the list of the tables that have a tenant, but for one.\<close>

lemma RLS_TABLES_tenants:
  "set RLS_TABLES = set (map td_name
     (filter (\<lambda>t. ''tenant_id'' \<in> set (column_names t) \<and> td_name t \<noteq> ''tenant_modules'')
       (tables_of initial_upgrade)))"
  by code_simp

lemma RLS_TABLES_known: "set RLS_TABLES \<subseteq> set (table_names migrated)"
  unfolding RLS_TABLES_tenants table_names_def migrated_fields by auto

section \<open>Properties\<close>

text \<open>
  C25. The initial migration runs on an empty database and builds exactly what the mapped classes
  declare: the same tables, each with the same columns in the same order (type, nullability,
  server default), the same key, the same references with their \<^verbatim>\<open>ON DELETE\<close>, the same unique
  constraints and the same indexes, all under the names of the naming convention; and the result is
  well formed.
\<close>

theorem initial_schema_declared:
  "\<exists>c. run_ddl initial_upgrade empty_catalog = Inr c \<and> catalog_ok c \<and>
     mset (table_names c) = mset (map mp_table mapped_classes) \<and>
     list_all (class_migrated c) mapped_classes"
  using initial_upgrade_runs migrated_ok migrated_table_names mapped_class_migrated
  by (auto simp: list_all_iff)

text \<open>
  C37. The downgrade of the initial migration undoes its upgrade: whatever well-formed catalog the
  upgrade was applied to comes back, table by table and index by index, but for the enumeration
  types, which stay.
\<close>

theorem initial_downgrade_undoes:
  assumes "catalog_ok c" and "run_ddl initial_upgrade c = Inr d"
  shows "run_ddl initial_downgrade d = Inr (c\<lparr>c_types := c_types d\<rparr>)"
  unfolding initial_downgrade_undo by (rule undo_run [OF assms(1) initial_creates assms(2)])

theorem initial_downgrade_undoes_witness:
  "run_ddl initial_downgrade migrated = Inr (empty_catalog\<lparr>c_types := c_types migrated\<rparr>)"
  by (rule initial_downgrade_undoes [OF empty_catalog_ok initial_upgrade_runs])

text \<open>
  C39. Because the types stay, the initial migration cannot be applied again after it has been
  undone: the second upgrade stops at the first table with an enumeration.
\<close>

theorem initial_upgrade_once:
  "run_ddl (initial_upgrade @ initial_downgrade @ initial_upgrade) empty_catalog =
     Inl (DuplicateType ''tenants'')"
proof -
  let ?types = "concat (map table_enums (tables_of initial_upgrade))"
  have "run_ddl initial_downgrade migrated = Inr (empty_catalog\<lparr>c_types := c_types migrated\<rparr>)"
    unfolding initial_downgrade_undo
    by (rule undo_run [OF empty_catalog_ok initial_creates initial_upgrade_runs])
  moreover have "empty_catalog\<lparr>c_types := c_types migrated\<rparr> = empty_catalog\<lparr>c_types := ?types\<rparr>"
    by (simp add: migrated_def built_def empty_catalog_def)
  moreover have "run_ddl initial_upgrade (empty_catalog\<lparr>c_types := ?types\<rparr>) = Inl (DuplicateType ''tenants'')"
    by code_simp
  ultimately show ?thesis
    by (simp add: run_ddl_append initial_upgrade_runs)
qed

text \<open>
  C24. After both migrations row level security is enabled, forced and given a policy on exactly the
  tables that have a tenant, \<^verbatim>\<open>tenant_modules\<close> excepted, and every policy checks what is written with
  the same condition as what is read.
\<close>

theorem row_security_complete:
  "\<exists>c. run_ddl (initial_upgrade @ rls_upgrade) empty_catalog = Inr c \<and>
     (let scoped = set (map td_name (filter (\<lambda>t. ''tenant_id'' \<in> set (column_names t) \<and>
                     td_name t \<noteq> ''tenant_modules'') (c_tables c)))
      in set (c_rls c) = scoped \<and> set (c_forced c) = scoped \<and>
         set (map pol_table (c_policies c)) = scoped) \<and>
     list_all (\<lambda>p. pol_using p = policy_predicate \<and> pol_check p = policy_predicate) (c_policies c)"
proof -
  have "run_ddl (initial_upgrade @ rls_upgrade) empty_catalog = Inr (migrated
    \<lparr>c_rls := fold List.insert RLS_TABLES (c_rls migrated),
     c_forced := fold List.insert RLS_TABLES (c_forced migrated),
     c_policies := c_policies migrated @ map isolation_policy RLS_TABLES\<rparr>)"
    unfolding run_ddl_append_Inr [OF initial_upgrade_runs] rls_upgrade_eq
    by (rule rls_on_run [OF RLS_TABLES_distinct RLS_TABLES_known]) (simp add: migrated_fields)
  then show ?thesis
    using RLS_TABLES_tenants
    by (simp add: Let_def set_fold_insert migrated_fields isolation_policy_def list_all_iff image_image)
qed

text \<open>
  C38. The downgrade of the second migration undoes its upgrade, on every catalog that has the tables
  and no row security yet.
\<close>

theorem rls_downgrade_undoes:
  assumes "set RLS_TABLES \<subseteq> set (table_names c)"
    and "c_rls c = []" and "c_forced c = []" and "c_policies c = []"
  shows "run_ddl (rls_upgrade @ rls_downgrade) c = Inr c"
proof -
  let ?d = "c\<lparr>c_rls := fold List.insert RLS_TABLES (c_rls c), c_forced := fold List.insert RLS_TABLES (c_forced c),
     c_policies := c_policies c @ map isolation_policy RLS_TABLES\<rparr>"
  have "run_ddl rls_upgrade c = Inr ?d"
    unfolding rls_upgrade_eq by (rule rls_on_run [OF RLS_TABLES_distinct assms(1)]) (simp add: assms)
  moreover have "set RLS_TABLES \<subseteq> set (table_names ?d)" using assms(1) by (simp add: table_names_def)
  moreover have "filter (\<lambda>n. n \<notin> set RLS_TABLES) (fold List.insert RLS_TABLES []) = []"
    by (simp add: filter_empty_conv set_fold_insert)
  moreover have "filter (\<lambda>p. \<not> (pol_name p = ''tenant_isolation'' \<and> pol_table p \<in> set RLS_TABLES))
      (map isolation_policy RLS_TABLES) = []"
    by (auto simp: filter_empty_conv isolation_policy_def)
  ultimately show ?thesis
    by (simp add: run_ddl_append_Inr rls_downgrade_def rls_off_run assms del: run_ddl.simps)
qed

theorem rls_downgrade_undoes_witness:
  "run_ddl (rls_upgrade @ rls_downgrade) migrated = Inr migrated"
  by (rule rls_downgrade_undoes [OF RLS_TABLES_known]) (simp_all add: migrated_fields)

end
