(* ===== verification/Effects.thy ===== *)
theory Effects
  imports Events
begin

text \<open>
  What the operations of the course modules have in common: the lookup of one row of the tenant, the
  state after an insert and after an update, and the publication of an event in the middle of a
  transaction. Publishing commits an audit row in a session of its own; \<open>steady\<close> says that the
  pending changes of the request do not depend on the audit log, so that what the request sees of
  every other table is the same before and after (\<open>publish_view\<close>).
\<close>

section \<open>Lookups\<close>

text \<open>The live rows of a tenant with a property; \<open>live_row\<close> is the one with a given key.\<close>

definition live_of :: "'r model \<Rightarrow> uuid \<Rightarrow> ('r \<Rightarrow> bool) \<Rightarrow> database \<Rightarrow> 'r list" where
  "live_of M t p d = filter (\<lambda>r.
     (case m_owner M of None \<Rightarrow> True | Some own \<Rightarrow> own r = t) \<and>
     (case m_deleted M of None \<Rightarrow> True | Some del \<Rightarrow> del r = None) \<and> p r) (m_rows M d)"

definition live_row :: "'r model \<Rightarrow> uuid \<Rightarrow> uuid \<Rightarrow> database \<Rightarrow> 'r option" where
  "live_row M t i d = first_row (live_of M t (\<lambda>r. m_id M r = i) d)"

definition missing :: "'r model \<Rightarrow> uuid \<Rightarrow> exn" where
  "missing M i = app_exn NotFoundError (m_name M @ '' '' @ uuid_str i @ '' not found'')"

lemma live_rowD: "live_row M t i d = Some r \<Longrightarrow> r \<in> set (live_of M t (\<lambda>r. m_id M r = i) d)"
  unfolding live_row_def by (rule first_row_SomeD)

context tenant_table
begin

lemma live_rows_of: "serving t w \<Longrightarrow> filter p (live_rows M w) = live_of M t p (view w)"
  unfolding serving_live live_of_def by (auto simp: owned conj_assoc intro!: filter_cong)

lemma find_run:
  assumes "serving t w" and "consistent M (view w)"
    and "\<And>r s. own r = t \<Longrightarrow> own s = t \<Longrightarrow> p r \<Longrightarrow> p s \<Longrightarrow> m_clash M r s \<or> m_id M r = m_id M s"
  shows "repo_find M p w = (Inr (first_row (live_of M t p (view w))), w)"
proof -
  have "sorted_wrt (\<lambda>r s. False) (live_of M t p (view w))"
    unfolding live_of_def
    by (rule sorted_wrt_mono_rel [OF _ sorted_wrt_filter [OF assms(2) [unfolded consistent_def]]])
      (use assms(3) in \<open>auto simp: owned\<close>)
  then have "scalar_one_or_none (live_of M t p (view w)) = Inr (first_row (live_of M t p (view w)))"
    by (cases "live_of M t p (view w)"; cases "tl (live_of M t p (view w))") auto
  then show ?thesis
    by (simp add: repo_find_eq live_rows_of [OF assms(1)])
qed

lemma get_run:
  assumes "serving t w" and "consistent M (view w)"
  shows "repo_get M i w = (Inr (live_row M t i (view w)), w)"
  unfolding repo_get_def live_row_def by (rule find_run [OF assms]) simp

lemma get_or_404_run:
  assumes "serving t w" and "consistent M (view w)"
  shows "repo_get_or_404 M i w =
    (case live_row M t i (view w) of None \<Rightarrow> Inl (missing M i) | Some r \<Rightarrow> Inr r, w)"
  unfolding repo_get_or_404_def missing_def andthen_Inr [of "repo_get M i", OF get_run [OF assms]]
  by (simp add: act_simps split: option.split)

lemma andthen_get_or_404:
  assumes "serving t w" and "consistent M (view w)"
  shows "andthen (repo_get_or_404 M i) f w =
    (case live_row M t i (view w) of None \<Rightarrow> (Inl (missing M i), w) | Some r \<Rightarrow> f r w)"
  by (simp add: andthen_def get_or_404_run [OF assms] split: option.split)

lemma andthen_get:
  assumes "serving t w" and "consistent M (view w)"
  shows "andthen (repo_get M i) f w = f (live_row M t i (view w)) w"
  by (simp add: andthen_Inr [of "repo_get M i", OF get_run [OF assms]])

text \<open>A live row whose property determines it is the one a look-up by the property finds.\<close>

lemma found_unique:
  assumes "consistent M d" and "r \<in> set (m_rows M d)" and "own r = t" and "p r"
    and "case m_deleted M of None \<Rightarrow> True | Some del \<Rightarrow> del r = None"
    and "\<And>r s. own r = t \<Longrightarrow> own s = t \<Longrightarrow> p r \<Longrightarrow> p s \<Longrightarrow> m_clash M r s \<or> m_id M r = m_id M s"
  shows "first_row (live_of M t p d) = Some r"
proof -
  have in_rows: "r \<in> set (live_of M t p d)" using assms(2-5) by (simp add: live_of_def owned)
  have "sorted_wrt (\<lambda>r s. False) (live_of M t p d)"
    unfolding live_of_def
    by (rule sorted_wrt_mono_rel [OF _ sorted_wrt_filter [OF assms(1) [unfolded consistent_def]]])
      (use assms(6) in \<open>auto simp: owned\<close>)
  with in_rows show ?thesis
    by (cases "live_of M t p d"; cases "tl (live_of M t p d)") auto
qed

lemma live_row_own: "live_row M t i d = Some r \<Longrightarrow> r \<in> set (m_rows M d) \<and> own r = t \<and> m_id M r = i"
  using live_rowD by (fastforce simp: live_of_def owned)

text \<open>The row of a key is the only row with it.\<close>

lemma live_row_unique:
  assumes "consistent M d" and "live_row M t i d = Some r" and "s \<in> set (m_rows M d)" and "m_id M s = i"
  shows "s = r"
  using consistent_distinct [OF assms(1)] live_row_own [OF assms(2)] assms(3,4)
  by (auto simp: distinct_map dest: inj_onD)

end

section \<open>After a write\<close>

definition inserted :: "'r model \<Rightarrow> 'r \<Rightarrow> 'c world \<Rightarrow> 'c world" where
  "inserted M r w = w\<lparr>w_delta := (\<lambda>d. m_put M (m_rows M d @ [m_stored M r]) d) \<circ> w_delta w\<rparr>"

definition updated :: "'r model \<Rightarrow> uuid \<Rightarrow> ('r \<Rightarrow> 'r) \<Rightarrow> 'c world \<Rightarrow> 'c world" where
  "updated M k f w = w\<lparr>w_delta := update_rows M (\<lambda>r. m_id M r = k \<and> row_visible M w r) f \<circ> w_delta w\<rparr>"

lemma inserted_sel [simp]:
  "w_ctx (inserted M r w) = w_ctx w" "w_settings (inserted M r w) = w_settings w"
  "w_now (inserted M r w) = w_now w" "w_draw (inserted M r w) = w_draw w"
  "w_committed (inserted M r w) = w_committed w" "w_redis (inserted M r w) = w_redis w"
  "serving t (inserted M r w) = serving t w"
  "row_visible N (inserted M r w) = row_visible N w"
  by (simp_all add: inserted_def)

lemma updated_sel [simp]:
  "w_ctx (updated M k f w) = w_ctx w" "w_settings (updated M k f w) = w_settings w"
  "w_now (updated M k f w) = w_now w" "w_draw (updated M k f w) = w_draw w"
  "w_committed (updated M k f w) = w_committed w" "w_redis (updated M k f w) = w_redis w"
  "serving t (updated M k f w) = serving t w"
  "row_visible N (updated M k f w) = row_visible N w"
  by (simp_all add: updated_def)

lemma view_inserted: "view (inserted M r w) = m_put M (m_rows M (view w) @ [m_stored M r]) (view w)"
  by (simp add: inserted_def view_def)

lemma view_updated:
  "view (updated M k f w) = update_rows M (\<lambda>r. m_id M r = k \<and> row_visible M w r) f (view w)"
  by (simp add: updated_def view_def)

lemma sql_insert_inserted: "sql_insert M r w = (Inr v, w') \<longleftrightarrow> insert_error M r w = None \<and> w' = inserted M r w"
  by (simp add: sql_insert_Inr inserted_def)

lemma sql_update_updated: "sql_update M k f w = (Inr v, w') \<longleftrightarrow> update_error M k f w = None \<and> w' = updated M k f w"
  by (simp add: sql_update_Inr updated_def)

lemma andthen_insert:
  "andthen (sql_insert M r) f w =
     (case insert_error M r w of Some e \<Rightarrow> (Inl (Unhandled e), w) | None \<Rightarrow> f () (inserted M r w))"
  by (simp add: andthen_sql_insert inserted_def split: option.split)

lemma andthen_update:
  "andthen (sql_update M k f) g w =
     (case update_error M k f w of Some e \<Rightarrow> (Inl (Unhandled e), w) | None \<Rightarrow> g () (updated M k f w))"
  by (simp add: andthen_sql_update updated_def split: option.split)

lemma andthen_repo_create:
  assumes "current_tenant_id (w_ctx w) = Some t"
  shows "andthen (repo_create x M mk) f w =
    (let r = mk (uuid4 x (w_draw w)) (w_now w) t; w1 = w\<lparr>w_draw := Suc (w_draw w)\<rparr>
     in case insert_error M r w1 of Some e \<Rightarrow> (Inl (Unhandled e), w1) | None \<Rightarrow> f r (inserted M r w1))"
  by (simp add: repo_create_def repo_add_def andthen_assoc andthen_require_tenant [OF assms]
      act_simps andthen_insert Let_def)

section \<open>Stored values\<close>

text \<open>Every row is as its column types store it: nothing is left to round, and everything fits.\<close>

definition typed :: "'r model \<Rightarrow> database \<Rightarrow> bool" where
  "typed M d \<longleftrightarrow> (\<forall>r \<in> set (m_rows M d). m_stored M r = r \<and> m_fits M r)"

text \<open>A row looked up before is either not there and created, or there and updated.\<close>

definition upsert :: "'c env \<Rightarrow> 'r model \<Rightarrow> (uuid \<Rightarrow> time \<Rightarrow> uuid \<Rightarrow> 'r) \<Rightarrow> ('r \<Rightarrow> 'r) \<Rightarrow> 'r option \<Rightarrow> ('c, 'r) io" where
  "upsert x M mk f old = (case old of
     None \<Rightarrow> repo_create x M mk
   | Some r \<Rightarrow> andthen (sql_update M (m_id M r) f) (\<lambda>_. ret (f r)))"

definition upserted :: "'r model \<Rightarrow> 'r option \<Rightarrow> 'r \<Rightarrow> 'r list \<Rightarrow> 'r list" where
  "upserted M old g rows = (case old of
     None \<Rightarrow> rows @ [m_stored M g]
   | Some r \<Rightarrow> map (\<lambda>s. if s = r then m_stored M g else s) rows)"

section \<open>Publishing in the middle of a transaction\<close>

definition no_logs :: "database \<Rightarrow> database" where
  "no_logs d = d\<lparr>t_audit_logs := []\<rparr>"

definition steady :: "'c world \<Rightarrow> bool" where
  "steady w \<longleftrightarrow> (\<forall>d l. no_logs (w_delta w (d\<lparr>t_audit_logs := l\<rparr>)) = no_logs (w_delta w d))"

lemma steady_start: "w_delta w = id \<Longrightarrow> steady w"
  by (simp add: steady_def no_logs_def)

lemma steady_cong: "w_delta w' = w_delta w \<Longrightarrow> steady w' = steady w"
  by (simp add: steady_def)

lemma steady_simps [simp]:
  "steady (w\<lparr>w_draw := n\<rparr>) = steady w" "steady (w\<lparr>w_redis := c\<rparr>) = steady w"
  "steady (w\<lparr>w_log := l\<rparr>) = steady w"
  by (simp_all add: steady_def)

lemma audited_view:
  assumes "audited t w w'" and "steady w"
  shows "no_logs (view w') = no_logs (view w)" and "steady w'" and "serving u w' = serving u w"
    and "row_visible M w' = row_visible M w"
proof -
  obtain rows where "w_committed w' = (w_committed w)\<lparr>t_audit_logs := t_audit_logs (w_committed w) @ rows\<rparr>"
    using assms(1) by (auto simp: audited_def)
  with audited_sel(1) [OF assms(1)] assms(2) show "no_logs (view w') = no_logs (view w)"
    by (simp add: view_def steady_def)
  show "steady w'" using assms(2) audited_sel(1) [OF assms(1)] by (simp add: steady_def)
  show "serving u w' = serving u w" using audited_sel [OF assms(1)] by (simp add: serving_def)
  show "row_visible M w' = row_visible M w"
    using audited_sel [OF assms(1)]
    by (auto simp: row_visible_def tenant_isolation_def fun_eq_iff split: option.split)
qed

text \<open>Equal but for the audit log: every other table is the same.\<close>

lemma no_logs_eq:
  assumes "no_logs d = no_logs e"
  shows "t_tenants d = t_tenants e" "t_modules d = t_modules e" "t_tenant_modules d = t_tenant_modules e"
    "t_permissions d = t_permissions e" "t_roles d = t_roles e"
    "t_role_permissions d = t_role_permissions e" "t_users d = t_users e"
    "t_user_roles d = t_user_roles e" "t_user_sessions d = t_user_sessions e"
    "t_categories d = t_categories e" "t_courses d = t_courses e"
    "t_course_instructors d = t_course_instructors e"
    "t_course_enrollments d = t_course_enrollments e" "t_course_modules d = t_course_modules e"
    "t_lessons d = t_lessons e" "t_video_assets d = t_video_assets e"
    "t_document_assets d = t_document_assets e" "t_lesson_progress d = t_lesson_progress e"
    "t_assignments d = t_assignments e" "t_quizzes d = t_quizzes e"
    "t_quiz_questions d = t_quiz_questions e" "t_quiz_answers d = t_quiz_answers e"
    "t_submissions d = t_submissions e" "t_grades d = t_grades e"
  using assms by (cases d, cases e, simp add: no_logs_def)+

text \<open>
  A table other than the audit log: reading and writing it leave the log alone. Storing a row a second
  time changes nothing.
\<close>

locale quiet_table = tenant_table M own for M :: "'r model" and own :: "'r \<Rightarrow> uuid" +
  assumes quiet_rows: "m_rows M (d\<lparr>t_audit_logs := l\<rparr>) = m_rows M d"
    and quiet_put: "m_put M rs (d\<lparr>t_audit_logs := l\<rparr>) = (m_put M rs d)\<lparr>t_audit_logs := l\<rparr>"
    and stored_stored: "m_stored M (m_stored M r) = m_stored M r"
    and fits_stored: "m_fits M r \<Longrightarrow> m_fits M (m_stored M r)"
begin

lemma rows_no_logs: "m_rows M (no_logs d) = m_rows M d"
  unfolding no_logs_def by (rule quiet_rows)

lemma put_no_logs: "no_logs (m_put M rs d) = m_put M rs (no_logs d)"
  unfolding no_logs_def by (rule quiet_put [symmetric])

lemma no_logs_rows: "no_logs d = no_logs e \<Longrightarrow> m_rows M d = m_rows M e"
  using rows_no_logs [of d] rows_no_logs [of e] by simp

lemma no_logs_put: "no_logs d = no_logs e \<Longrightarrow> no_logs (m_put M rs d) = no_logs (m_put M rs e)"
  by (simp add: put_no_logs)

lemma consistent_no_logs: "no_logs d = no_logs e \<Longrightarrow> consistent M d = consistent M e"
  by (simp add: consistent_def no_logs_rows [of d e])

lemma live_of_no_logs: "no_logs d = no_logs e \<Longrightarrow> live_of M t p d = live_of M t p e"
  by (simp add: live_of_def no_logs_rows [of d e])

lemma steady_put:
  assumes "steady w"
  shows "steady (w\<lparr>w_delta := (\<lambda>d. m_put M (f (m_rows M d)) d) \<circ> w_delta w\<rparr>)"
proof -
  have "no_logs (m_put M (f (m_rows M (w_delta w (d\<lparr>t_audit_logs := l\<rparr>)))) (w_delta w (d\<lparr>t_audit_logs := l\<rparr>))) =
      no_logs (m_put M (f (m_rows M (w_delta w d))) (w_delta w d))" for d l
  proof -
    have "no_logs (w_delta w (d\<lparr>t_audit_logs := l\<rparr>)) = no_logs (w_delta w d)"
      using assms by (simp add: steady_def)
    from no_logs_rows [OF this] no_logs_put [OF this] show ?thesis by simp
  qed
  then show ?thesis by (simp add: steady_def)
qed

lemma steady_inserted [simp]: "steady w \<Longrightarrow> steady (inserted M r w)"
  unfolding inserted_def by (rule steady_put [where f = "\<lambda>rs. rs @ [m_stored M r]"])

lemma steady_updated [simp]: "steady w \<Longrightarrow> steady (updated M k f w)"
  unfolding updated_def update_rows_def
  by (rule steady_put [where f = "map (\<lambda>r. if m_id M r = k \<and> row_visible M w r then m_stored M (f r) else r)"])

lemma rows_inserted: "m_rows M (view (inserted M r w)) = m_rows M (view w) @ [m_stored M r]"
  by (simp add: view_inserted rows_put)

lemma rows_updated:
  assumes "serving t w"
  shows "m_rows M (view (updated M k f w)) =
    map (\<lambda>r. if m_id M r = k \<and> own r = t then m_stored M (f r) else r) (m_rows M (view w))"
  by (simp add: view_updated update_rows_def rows_put serving_visible [OF assms])

lemma consistent_inserted:
  "consistent M (view w) \<Longrightarrow> insert_error M r w = None \<Longrightarrow> consistent M (view (inserted M r w))"
  by (rule insert_consistent [of w r]) (simp_all add: sql_insert_inserted)

lemma consistent_updated:
  assumes "consistent M (view w)" and "\<And>r. m_id M (f r) = m_id M r" and "\<And>r s. m_clash M (f r) s = m_clash M r s"
  shows "consistent M (view (updated M k f w))"
  unfolding view_updated by (rule update_rows_consistent [OF assms])

lemma typed_inserted:
  assumes "typed M (view w)" and "insert_error M r w = None"
  shows "typed M (view (inserted M r w))"
  using assms
  by (auto simp: typed_def view_inserted rows_put stored_stored fits_stored insert_error_def split: if_splits)

lemma typed_updated:
  assumes "typed M (view w)" and "update_error M k f w = None"
  shows "typed M (view (updated M k f w))"
proof -
  have "m_fits M (f r)" if "r \<in> set (m_rows M (view w))" "m_id M r = k" "row_visible M w r" for r
    using assms(2) that by (auto simp: update_error_def Let_def list_all_iff split: if_splits)
  with assms(1) show ?thesis
    by (auto simp: typed_def view_updated update_rows_def rows_put stored_stored fits_stored)
qed

text \<open>The update of one row of the tenant, and the insert or update of a row looked up before.\<close>

lemma view_updated_row:
  assumes "serving t w" and "consistent M (view w)" and "r \<in> set (m_rows M (view w))" and "own r = t"
  shows "view (updated M (m_id M r) f w) =
    m_put M (map (\<lambda>s. if s = r then m_stored M (f r) else s) (m_rows M (view w))) (view w)"
proof -
  have "s = r \<longleftrightarrow> m_id M s = m_id M r \<and> own s = t" if "s \<in> set (m_rows M (view w))" for s
    using consistent_distinct [OF assms(2)] assms(3,4) that by (auto simp: distinct_map inj_on_def)
  then have "map (\<lambda>s. if m_id M s = m_id M r \<and> own s = t then m_stored M (f s) else s) (m_rows M (view w)) =
      map (\<lambda>s. if s = r then m_stored M (f r) else s) (m_rows M (view w))"
    by (intro map_cong) auto
  then show ?thesis
    by (simp only: view_updated update_rows_def serving_visible [OF assms(1)])
qed

lemma upsert_returns:
  assumes "serving t w" and "consistent M (view w)"
    and old: "old = first_row (live_of M t p (view w))"
    and new: "old = None \<Longrightarrow> insert_error M (mk (uuid4 x (w_draw w)) (w_now w) t) w = None"
    and upd: "\<And>r. old = Some r \<Longrightarrow> r \<in> set (m_rows M (view w)) \<Longrightarrow>
      own (f r) = own r \<and> m_fits M (f r) \<and> m_refs M (view w) (f r) \<and> (\<forall>s. m_clash M (f r) s \<longrightarrow> m_clash M r s)"
  shows "\<exists>g w'. upsert x M mk f old w = (Inr g, w')"
proof (cases old)
  case None
  have "insert_error M r (w\<lparr>w_draw := n\<rparr>) = insert_error M r w" for r n
    by (simp add: insert_error_def)
  then show ?thesis
    using None new andthen_repo_create [OF servingD(3) [OF assms(1)], of x M mk ret]
    by (simp add: upsert_def andthen_ret_right Let_def ret_def)
next
  case (Some r)
  then have r: "r \<in> set (m_rows M (view w))" "own r = t"
    using old first_row_SomeD [of "live_of M t p (view w)" r] by (auto simp: live_of_def owned)
  have "update_error M (m_id M r) f w = None"
    by (rule update_allowed [OF assms(2) r(1)]) (use upd [OF Some r(1)] r(2) in \<open>auto simp: serving_visible [OF assms(1)]\<close>)
  then show ?thesis using Some by (simp add: upsert_def andthen_update ret_def)
qed

lemma upsert_ok:
  assumes "serving t w" and "steady w" and "consistent M (view w)"
    and old: "old = first_row (live_of M t p (view w))"
    and f: "\<And>r. m_id M (f r) = m_id M r" "\<And>r s. m_clash M (f r) s = m_clash M r s"
    and run: "upsert x M mk f old w = (Inr g, w')"
  shows "serving t w'" and "steady w'" and "consistent M (view w')"
    and "view w' = m_put M (upserted M old g (m_rows M (view w))) (view w)"
    and "g = (case old of None \<Rightarrow> mk (uuid4 x (w_draw w)) (w_now w) t | Some r \<Rightarrow> f r)"
    and "typed M (view w) \<Longrightarrow> typed M (view w')"
    and "m_fits M g"
proof -
  have "serving t w' \<and> steady w' \<and> consistent M (view w') \<and>
    view w' = m_put M (upserted M old g (m_rows M (view w))) (view w) \<and>
    g = (case old of None \<Rightarrow> mk (uuid4 x (w_draw w)) (w_now w) t | Some r \<Rightarrow> f r) \<and>
    (typed M (view w) \<longrightarrow> typed M (view w')) \<and> m_fits M g"
  proof (cases old)
    case None
    let ?w = "w\<lparr>w_draw := Suc (w_draw w)\<rparr>"
    have ins: "insert_error M g ?w = None" and out: "g = mk (uuid4 x (w_draw w)) (w_now w) t" "w' = inserted M g ?w"
      using run None andthen_repo_create [OF servingD(3) [OF assms(1)], of x M mk ret]
      by (auto simp: upsert_def andthen_ret_right Let_def ret_def split: option.splits)
    have "consistent M (view w')"
      unfolding out(2) by (rule consistent_inserted [OF _ ins]) (use assms(3) in simp)
    moreover have "typed M (view w) \<longrightarrow> typed M (view w')"
      unfolding out(2) using typed_inserted [OF _ ins] by simp
    moreover have "m_fits M g" using ins by (auto simp: insert_error_def split: if_splits)
    ultimately show ?thesis
      using assms(1,2) None by (simp add: out(2) view_inserted upserted_def) (simp add: out(1))
  next
    case (Some r)
    then have r: "r \<in> set (m_rows M (view w))" "own r = t"
      using old first_row_SomeD [of "live_of M t p (view w)" r] by (auto simp: live_of_def owned)
    have upd: "update_error M (m_id M r) f w = None" and out: "g = f r" "w' = updated M (m_id M r) f w"
      using run Some by (auto simp: upsert_def andthen_update ret_def split: option.splits)
    have "consistent M (view w')" unfolding out(2) by (rule consistent_updated [OF assms(3) f])
    moreover have "typed M (view w) \<longrightarrow> typed M (view w')"
      unfolding out(2) using typed_updated [OF _ upd] by simp
    moreover have "m_fits M g"
      using upd r serving_visible [OF assms(1), of r]
      by (auto simp: out update_error_def Let_def list_all_iff split: if_splits)
    ultimately show ?thesis
      using assms(1,2) Some view_updated_row [OF assms(1,3) r, of f] by (simp add: out upserted_def)
  qed
  then show "serving t w'" and "steady w'" and "consistent M (view w')"
    and "view w' = m_put M (upserted M old g (m_rows M (view w))) (view w)"
    and "g = (case old of None \<Rightarrow> mk (uuid4 x (w_draw w)) (w_now w) t | Some r \<Rightarrow> f r)"
    and "typed M (view w) \<Longrightarrow> typed M (view w')" and "m_fits M g"
    by blast+
qed

end

text \<open>
  Publishing returns, and leaves to the request a state in which only the readings of the clock and
  the audit log are new.
\<close>

lemma andthen_publish:
  assumes "steady w"
  obtains w' where "andthen (publish_event x (Some t) uid p) (\<lambda>_. ret r) w = (Inr r, w')"
    and "no_logs (view w') = no_logs (view w)" and "steady w'" and "\<And>u. serving u w' = serving u w"
    and "audited (Some t) w w'"
proof -
  obtain w' where run: "publish_event x (Some t) uid p w = (Inr (), w')" and aud: "audited (Some t) w w'"
    by (rule publish_appE)
  show thesis
    by (rule that [of w']) (simp_all add: andthen_Inr [of "publish_event x (Some t) uid p", OF run] act_simps audited_view [OF aud assms] aud)
qed

lemma publish_returned:
  assumes "steady w"
  shows "\<exists>w'. andthen (publish_event x (Some t) uid p) (\<lambda>_. ret r) w = (Inr r, w')"
  by (rule andthen_publish [OF assms, of x t uid p r]) blast

lemma publish_done:
  assumes "andthen (publish_event x (Some t) uid p) (\<lambda>_. ret r) w = (Inr v, w')" and "steady w"
  shows "v = r" and "no_logs (view w') = no_logs (view w)" and "steady w'"
    and "serving u w' = serving u w" and "audited (Some t) w w'"
proof -
  obtain w1 where "andthen (publish_event x (Some t) uid p) (\<lambda>_. ret r) w = (Inr r, w1)"
    and w1: "no_logs (view w1) = no_logs (view w)" "steady w1" "\<And>u. serving u w1 = serving u w"
      "audited (Some t) w w1"
    by (rule andthen_publish [OF assms(2), of x t uid p r]) blast
  with assms(1) have eq: "v = r" "w' = w1" by simp_all
  from w1 show "v = r" "no_logs (view w') = no_logs (view w)" "steady w'"
    "serving u w' = serving u w" "audited (Some t) w w'"
    unfolding eq by blast+
qed

end
