(* ===== verification/Numbers.thy ===== *)
theory Numbers
  imports Models
begin

text \<open>
  How the database stores numbers: \<^verbatim>\<open>NUMERIC(p, s)\<close> rounds to \<open>s\<close> places, half away from zero, and
  then refuses what has more than \<open>p - s\<close> digits before the point; \<^verbatim>\<open>INTEGER\<close> has 32 bits. Rounding
  twice changes nothing, and is off by at most half a unit of the last place.
\<close>

definition round_to :: "nat \<Rightarrow> rat \<Rightarrow> rat" where
  "round_to s x = sgn x * (of_int \<lfloor>\<bar>x\<bar> * 10 ^ s + 1 / 2\<rfloor> / 10 ^ s)"

definition numeric_fits :: "nat \<Rightarrow> nat \<Rightarrow> rat \<Rightarrow> bool" where
  "numeric_fits p s x \<longleftrightarrow> \<bar>round_to s x\<bar> < 10 ^ (p - s)"

definition int4 :: "int \<Rightarrow> bool" where
  "int4 i \<longleftrightarrow> - (2 ^ 31) \<le> i \<and> i < 2 ^ 31"

lemma round_to_places: "round_to s (of_int n / 10 ^ s) = of_int n / 10 ^ s"
proof -
  have "\<bar>of_int n / (10::rat) ^ s\<bar> * 10 ^ s = of_int \<bar>n\<bar>"
    by simp
  moreover have "\<lfloor>of_int \<bar>n\<bar> + 1 / (2::rat)\<rfloor> = \<bar>n\<bar>"
    by linarith
  moreover have "sgn (of_int n / (10::rat) ^ s) * of_int \<bar>n\<bar> = of_int n"
    by (auto simp: sgn_if zero_less_divide_iff)
  ultimately show ?thesis
    by (simp add: round_to_def del: of_int_abs)
qed

lemma round_to_form: "\<exists>n. round_to s x = of_int n / 10 ^ s"
proof -
  have "round_to s x = of_int ((if x = 0 then 0 else if 0 < x then 1 else -1) * \<lfloor>\<bar>x\<bar> * 10 ^ s + 1 / 2\<rfloor>) / 10 ^ s"
    by (simp add: round_to_def sgn_if)
  then show ?thesis by blast
qed

lemma round_to_idem [simp]: "round_to s (round_to s x) = round_to s x"
  using round_to_form [of s x] round_to_places by metis

lemma numeric_fits_round_to [simp]: "numeric_fits p s (round_to s x) = numeric_fits p s x"
  by (simp add: numeric_fits_def)

lemma round_to_zero [simp]: "round_to s 0 = 0"
  by (simp add: round_to_def)

lemma round_to_nonneg: "0 \<le> x \<Longrightarrow> 0 \<le> round_to s x"
  by (simp add: round_to_def sgn_if)

lemma round_to_error: "\<bar>round_to s x - x\<bar> \<le> 1 / (2 * 10 ^ s)"
proof -
  let ?y = "\<bar>x\<bar> * 10 ^ s"
  have x: "x = sgn x * (?y / 10 ^ s)"
    by (simp add: sgn_if)
  have "round_to s x - x = sgn x * ((of_int \<lfloor>?y + 1 / 2\<rfloor> - ?y) / 10 ^ s)"
    by (subst (2) x) (simp add: round_to_def diff_divide_distrib right_diff_distrib)
  moreover have "\<bar>of_int \<lfloor>?y + 1 / 2\<rfloor> - ?y\<bar> \<le> 1 / 2"
    by linarith
  then have "\<bar>(of_int \<lfloor>?y + 1 / 2\<rfloor> - ?y) / 10 ^ s\<bar> \<le> 1 / (2 * 10 ^ s)"
    by (simp add: abs_divide field_simps)
  moreover have "\<bar>sgn x * z\<bar> \<le> \<bar>z\<bar>" for z :: rat
    by (simp add: abs_mult abs_sgn_eq)
  ultimately show ?thesis
    by (metis order_trans)
qed

lemma round_to_mono_bound:
  assumes "0 \<le> x" and "x \<le> of_int n / 10 ^ s"
  shows "round_to s x \<le> of_int n / 10 ^ s"
proof -
  have "x * 10 ^ s \<le> of_int n" using assms(2) by (simp add: field_simps)
  then have "\<lfloor>x * 10 ^ s + 1 / 2\<rfloor> \<le> n" by linarith
  then show ?thesis using assms
    by (auto simp: round_to_def sgn_if divide_right_mono)
qed

end
