(* ===== verification/Samples.thy ===== *)
theory Samples
  imports Outside
begin

text \<open>
  A small school on which the properties of the course modules are applied: one tenant with a learner
  and a teacher, a published course and a draft, an enrollment that was cancelled, two lessons, a quiz
  of two questions and a plain assignment with a submission that has been graded.
\<close>

definition school_tenant :: tenant where
  "school_tenant =
     \<lparr>row_id = 1, created_at = 0, tenant_deleted_at = None, tenant_name = ''Acme'', slug = ''acme'',
      tenant_is_active = True, isolation_mode = Shared, schema_name = None, tenant_settings = JObj []\<rparr>"

definition school_user :: "uuid \<Rightarrow> string \<Rightarrow> user" where
  "school_user i e =
     \<lparr>row_id = i, created_at = 0, tenant_id = 1, deleted_at = None, email = e, hashed_password = ''plain:secret'',
      full_name = ''Somebody'', is_active = True, is_verified = True, is_superuser = False, last_login_at = None\<rparr>"

definition school_course :: "uuid \<Rightarrow> string \<Rightarrow> course_status \<Rightarrow> int \<Rightarrow> course" where
  "school_course i s st n =
     \<lparr>row_id = i, created_at = uint i, tenant_id = 1, deleted_at = None, course_title = s, course_slug = s,
      course_summary = None, course_description = None, course_category_id = None, course_status = st,
      course_level = Beginner, course_is_free = True, course_price = 0, course_thumbnail_url = None,
      enrollment_count = n, published_at = None\<rparr>"

definition school_enrollment :: course_enrollment where
  "school_enrollment =
     \<lparr>row_id = 20, created_at = 0, tenant_id = 1, enr_course_id = 10, enr_user_id = 6,
      enr_status = EnrCancelled, enr_progress_pct = 0, enrolled_at = 0, enr_completed_at = None\<rparr>"

definition school_lesson :: "uuid \<Rightarrow> int \<Rightarrow> lesson" where
  "school_lesson i n =
     \<lparr>row_id = i, created_at = 0, tenant_id = 1, deleted_at = None, les_course_id = 10, les_module_id = None,
      les_title = ''Lesson'', les_content_type = TextLesson, les_content = None, les_order_index = n,
      les_duration_seconds = 60, les_is_preview = False\<rparr>"

definition school_progress :: lesson_progress where
  "school_progress =
     \<lparr>row_id = 35, created_at = 0, tenant_id = 1, lp_lesson_id = 30, lp_course_id = 10, lp_user_id = 6,
      lp_status = InProgress, lp_last_position_seconds = 12, lp_completed_at = None\<rparr>"

definition school_assignment :: "uuid \<Rightarrow> assignment_type \<Rightarrow> assignment" where
  "school_assignment i k =
     \<lparr>row_id = i, created_at = uint i, tenant_id = 1, deleted_at = None, asg_course_id = 10, asg_title = ''Work'',
      asg_description = None, asg_type = k, asg_max_points = 100, asg_pass_points = 50, asg_due_at = None,
      asg_is_published = True\<rparr>"

definition school_quiz :: quiz where
  "school_quiz =
     \<lparr>row_id = 50, created_at = 0, tenant_id = 1, quiz_assignment_id = 40, quiz_time_limit_seconds = 0,
      quiz_shuffle_questions = False\<rparr>"

definition school_question :: "uuid \<Rightarrow> rat \<Rightarrow> quiz_question" where
  "school_question i p =
     \<lparr>row_id = i, created_at = 0, tenant_id = 1, qq_quiz_id = 50, qq_text = ''?'', qq_type = SingleChoice,
      qq_points = p, qq_order_index = uint i\<rparr>"

definition school_answer :: "uuid \<Rightarrow> uuid \<Rightarrow> bool \<Rightarrow> quiz_answer" where
  "school_answer i q b =
     \<lparr>row_id = i, created_at = 0, tenant_id = 1, qa_question_id = q, qa_text = ''!'', qa_is_correct = b\<rparr>"

definition school_submission :: submission where
  "school_submission =
     \<lparr>row_id = 80, created_at = 0, tenant_id = 1, sub_assignment_id = 41, sub_user_id = 5,
      sub_content = Some ''essay'', sub_file_url = None, sub_answers = None, sub_status = Graded,
      submitted_at = 0\<rparr>"

definition school_grade :: grade where
  "school_grade =
     \<lparr>row_id = 90, created_at = 0, tenant_id = 1, gr_submission_id = 80, gr_assignment_id = 41, gr_user_id = 5,
      gr_points = 60, gr_max_points = 100, gr_feedback = None, gr_is_auto = False, gr_graded_by = Some 6,
      gr_graded_at = 0\<rparr>"

definition sample_school :: database where
  "sample_school = empty_database
     \<lparr>t_tenants := [school_tenant], t_users := [school_user 5 ''ann@acme.io'', school_user 6 ''tom@acme.io''],
      t_courses := [school_course 10 ''algebra'' Published 3, school_course 11 ''logic'' Draft 0],
      t_course_enrollments := [school_enrollment], t_lessons := [school_lesson 30 2, school_lesson 31 1],
      t_lesson_progress := [school_progress],
      t_assignments := [school_assignment 40 QuizAssignment, school_assignment 41 PlainAssignment],
      t_quizzes := [school_quiz], t_quiz_questions := [school_question 60 1, school_question 61 2],
      t_quiz_answers := [school_answer 70 60 True, school_answer 71 60 False, school_answer 72 61 True],
      t_submissions := [school_submission], t_grades := [school_grade]\<rparr>"

abbreviation school_world :: "store world" where
  "school_world \<equiv> sample_world sample_school None (Some 1)"

end
