(* ===== verification/Courses.thy ===== *)
theory Courses
  imports Identity Effects Numbers Samples
begin

text \<open>
  The course catalog of \<^verbatim>\<open>app/modules/courses\<close>: categories, courses and enrollments with their
  tables, the filtered list, the detail page, enrolling, and the administration of courses.
\<close>

section \<open>Models\<close>

definition category_exists :: "database \<Rightarrow> uuid \<Rightarrow> bool" where
  "category_exists d i \<longleftrightarrow> list_ex (\<lambda>r. row_id r = i) (t_categories d)"

definition course_exists :: "database \<Rightarrow> uuid \<Rightarrow> bool" where
  "course_exists d i \<longleftrightarrow> list_ex (\<lambda>r. row_id r = i) (t_courses d)"

definition optional :: "('a \<Rightarrow> bool) \<Rightarrow> 'a option \<Rightarrow> bool" where
  "optional p v = (case v of None \<Rightarrow> True | Some x \<Rightarrow> p x)"

definition Category :: "category model" where
  "Category =
     \<lparr>m_name = ''Category'', m_rows = t_categories, m_put = (\<lambda>rs d. d\<lparr>t_categories := rs\<rparr>),
      m_id = row_id, m_owner = Some tenant_id, m_deleted = Some deleted_at,
      m_mark_deleted = (\<lambda>now r. r\<lparr>deleted_at := Some now\<rparr>),
      m_clash = (\<lambda>r s. tenant_id r = tenant_id s \<and> cat_slug r = cat_slug s),
      m_fits = (\<lambda>r. length (cat_name r) \<le> 120 \<and> length (cat_slug r) \<le> 140),
      m_refs = (\<lambda>d r. tenant_exists d (tenant_id r) \<and> optional (category_exists d) (cat_parent_id r)),
      m_stored = id, m_column = soft_column, m_search = (\<lambda>_ _. True)\<rparr>"

fun status_rank :: "course_status \<Rightarrow> int" where
  "status_rank Draft = 0"
| "status_rank Published = 1"
| "status_rank Archived = 2"

fun level_rank :: "course_level \<Rightarrow> int" where
  "level_rank Beginner = 0"
| "level_rank Intermediate = 1"
| "level_rank Advanced = 2"

definition course_column :: "string \<Rightarrow> course attribute" where
  "course_column name =
     (if name = ''title'' then Column (\<lambda>r. CellText (course_title r))
      else if name = ''slug'' then Column (\<lambda>r. CellText (course_slug r))
      else if name = ''summary'' then Column (\<lambda>r. cell_option CellText (course_summary r))
      else if name = ''description'' then Column (\<lambda>r. cell_option CellText (course_description r))
      else if name = ''category_id'' then Column (\<lambda>r. cell_option cell_uuid (course_category_id r))
      else if name = ''status'' then Column (\<lambda>r. CellInt (status_rank (course_status r)))
      else if name = ''level'' then Column (\<lambda>r. CellInt (level_rank (course_level r)))
      else if name = ''is_free'' then Column (\<lambda>r. cell_bool (course_is_free r))
      else if name = ''price'' then Column (\<lambda>r. CellInt \<lfloor>course_price r * 100\<rfloor>)
      else if name = ''thumbnail_url'' then Column (\<lambda>r. cell_option CellText (course_thumbnail_url r))
      else if name = ''enrollment_count'' then Column (\<lambda>r. CellInt (enrollment_count r))
      else if name = ''published_at'' then Column (\<lambda>r. cell_option cell_time (published_at r))
      else soft_column name)"

definition course_search :: "string \<Rightarrow> course \<Rightarrow> bool" where
  "course_search term r \<longleftrightarrow>
     ilike (course_title r) (contains_pattern term) \<or>
     (case course_summary r of None \<Rightarrow> False | Some s \<Rightarrow> ilike s (contains_pattern term))"

definition Course :: "course model" where
  "Course =
     \<lparr>m_name = ''Course'', m_rows = t_courses, m_put = (\<lambda>rs d. d\<lparr>t_courses := rs\<rparr>), m_id = row_id,
      m_owner = Some tenant_id, m_deleted = Some deleted_at,
      m_mark_deleted = (\<lambda>now r. r\<lparr>deleted_at := Some now\<rparr>),
      m_clash = (\<lambda>r s. tenant_id r = tenant_id s \<and> course_slug r = course_slug s),
      m_fits = (\<lambda>r. length (course_title r) \<le> 200 \<and> length (course_slug r) \<le> 220 \<and>
                    width 500 (course_summary r) \<and> numeric_fits 10 2 (course_price r) \<and>
                    width 500 (course_thumbnail_url r) \<and> int4 (enrollment_count r)),
      m_refs = (\<lambda>d r. tenant_exists d (tenant_id r) \<and> optional (category_exists d) (course_category_id r)),
      m_stored = (\<lambda>r. r\<lparr>course_price := round_to 2 (course_price r)\<rparr>),
      m_column = course_column, m_search = course_search\<rparr>"

definition CourseInstructor :: "course_instructor model" where
  "CourseInstructor =
     \<lparr>m_name = ''CourseInstructor'', m_rows = t_course_instructors,
      m_put = (\<lambda>rs d. d\<lparr>t_course_instructors := rs\<rparr>), m_id = row_id,
      m_owner = Some tenant_id, m_deleted = None, m_mark_deleted = (\<lambda>_ r. r),
      m_clash = (\<lambda>r s. ci_course_id r = ci_course_id s \<and> ci_user_id r = ci_user_id s),
      m_fits = (\<lambda>_. True),
      m_refs = (\<lambda>d r. tenant_exists d (tenant_id r) \<and> course_exists d (ci_course_id r) \<and>
                      user_exists d (ci_user_id r)),
      m_stored = id, m_column = tenant_column, m_search = (\<lambda>_ _. True)\<rparr>"

definition CourseEnrollment :: "course_enrollment model" where
  "CourseEnrollment =
     \<lparr>m_name = ''CourseEnrollment'', m_rows = t_course_enrollments,
      m_put = (\<lambda>rs d. d\<lparr>t_course_enrollments := rs\<rparr>), m_id = row_id,
      m_owner = Some tenant_id, m_deleted = None, m_mark_deleted = (\<lambda>_ r. r),
      m_clash = (\<lambda>r s. enr_course_id r = enr_course_id s \<and> enr_user_id r = enr_user_id s),
      m_fits = (\<lambda>r. int4 (enr_progress_pct r)),
      m_refs = (\<lambda>d r. tenant_exists d (tenant_id r) \<and> course_exists d (enr_course_id r) \<and>
                      user_exists d (enr_user_id r)),
      m_stored = id, m_column = tenant_column, m_search = (\<lambda>_ _. True)\<rparr>"

interpretation category_rows: quiet_table Category tenant_id
  by unfold_locales (simp_all add: Category_def foreign_def foreign_links_def others_def)

interpretation course_rows: quiet_table Course tenant_id
  by unfold_locales (simp_all add: Course_def foreign_def foreign_links_def others_def)

interpretation instructor_rows: quiet_table CourseInstructor tenant_id
  by unfold_locales (simp_all add: CourseInstructor_def foreign_def foreign_links_def others_def)

interpretation enrollment_rows: quiet_table CourseEnrollment tenant_id
  by unfold_locales (simp_all add: CourseEnrollment_def foreign_def foreign_links_def others_def)

section \<open>Repositories\<close>

record course_filter = page_params +
  cf_category_id :: "uuid option"
  cf_level :: "course_level option"
  cf_status :: "course_status option"
  cf_is_free :: "bool option"

text \<open>\<^verbatim>\<open>CourseRepository.filtered\<close> narrows the statement of \<^verbatim>\<open>_select\<close> step by step.\<close>

definition filtered :: "course_filter \<Rightarrow> bool \<Rightarrow> course select \<Rightarrow> course select" where
  "filtered f published_only s0 =
     (let s1 = (case pg_search f of None \<Rightarrow> s0
                | Some term \<Rightarrow> if term = [] then s0 else and_where (course_search term) s0);
          s2 = (case cf_category_id f of None \<Rightarrow> s1
                | Some c \<Rightarrow> and_where (\<lambda>r. course_category_id r = Some c) s1);
          s3 = (case cf_level f of None \<Rightarrow> s2 | Some l \<Rightarrow> and_where (\<lambda>r. course_level r = l) s2);
          s4 = (case cf_is_free f of None \<Rightarrow> s3 | Some b \<Rightarrow> and_where (\<lambda>r. course_is_free r = b) s3)
      in if published_only then and_where (\<lambda>r. course_status r = Published) s4
         else (case cf_status f of None \<Rightarrow> s4
               | Some st \<Rightarrow> and_where (\<lambda>r. course_status r = st) s4))"

definition get_for_user_course :: "uuid \<Rightarrow> uuid \<Rightarrow> ('c, course_enrollment option) io" where
  "get_for_user_course uid cid =
     repo_find CourseEnrollment (\<lambda>e. enr_user_id e = uid \<and> enr_course_id e = cid)"

definition enrollments_for_user :: "uuid \<Rightarrow> ('c, course_enrollment select) io" where
  "enrollments_for_user uid =
     andthen (repo_select CourseEnrollment) (\<lambda>s. ret (and_where (\<lambda>e. enr_user_id e = uid) s))"

section \<open>The service\<close>

definition list_courses :: "'c env \<Rightarrow> course_filter \<Rightarrow> bool \<Rightarrow> ('c, course list \<times> int) io" where
  "list_courses x f published_only =
     andthen (repo_select Course) (\<lambda>s0.
       let stmt = filtered f published_only s0
       in andthen (run_count Course stmt) (\<lambda>total.
          andthen (lift_result (apply_sort x Course
            (case pg_sort f of None \<Rightarrow> Some ''-created_at''
             | Some s \<Rightarrow> if s = [] then Some ''-created_at'' else Some s) stmt)) (\<lambda>sorted.
          andthen (run_select Course (paged (page_offset f) (page_limit f) sorted)) (\<lambda>items.
          ret (items, total)))))"

definition get_course :: "uuid \<Rightarrow> bool \<Rightarrow> ('c, course) io" where
  "get_course cid published_only =
     andthen (repo_get_or_404 Course cid) (\<lambda>c.
     if published_only \<and> course_status c \<noteq> Published
     then raise (app_exn NotFoundError ''Course not found'') else ret c)"

text \<open>A new enrollment; \<^verbatim>\<open>progress_pct\<close> and \<^verbatim>\<open>completed_at\<close> take their defaults.\<close>

definition new_enrollment :: "uuid \<Rightarrow> uuid \<Rightarrow> time \<Rightarrow> uuid \<Rightarrow> time \<Rightarrow> uuid \<Rightarrow> course_enrollment" where
  "new_enrollment cid uid enrolled i now tid =
     \<lparr>row_id = i, created_at = now, tenant_id = tid, enr_course_id = cid, enr_user_id = uid,
      enr_status = EnrActive, enr_progress_pct = 0, enrolled_at = enrolled, enr_completed_at = None\<rparr>"

definition enroll :: "'c env \<Rightarrow> uuid \<Rightarrow> uuid \<Rightarrow> ('c, course_enrollment) io" where
  "enroll x cid uid =
     andthen require_tenant (\<lambda>tid.
     andthen (repo_get_or_404 Course cid) (\<lambda>c.
     andthen (ensure (course_status c = Published)
       (app_exn ValidationError ''Course is not open for enrollment'')) (\<lambda>_.
     andthen (get_for_user_course uid cid) (\<lambda>existing.
     andthen (ensure (case existing of None \<Rightarrow> True | Some e \<Rightarrow> enr_status e = EnrCancelled)
       (app_exn ConflictError ''Already enrolled in this course'')) (\<lambda>_.
     andthen (draw (clock x)) (\<lambda>enrolled.
     andthen (repo_create x CourseEnrollment (new_enrollment cid uid enrolled)) (\<lambda>e.
     andthen (sql_update Course (row_id c) (\<lambda>r. r\<lparr>enrollment_count := enrollment_count c + 1\<rparr>)) (\<lambda>_.
     andthen (publish_event x (Some tid) (Some uid) (CourseEnrolledEvent cid (row_id e))) (\<lambda>_.
     ret e)))))))))"

record course_create =
  cc_title :: string
  cc_slug :: string
  cc_summary :: "string option"
  cc_description :: "string option"
  cc_category_id :: "uuid option"
  cc_level :: course_level
  cc_is_free :: bool
  cc_price :: rat
  cc_thumbnail_url :: "string option"

definition course_create_valid :: "course_create \<Rightarrow> bool" where
  "course_create_valid d \<longleftrightarrow>
     2 \<le> length (cc_title d) \<and> length (cc_title d) \<le> 200 \<and>
     2 \<le> length (cc_slug d) \<and> length (cc_slug d) \<le> 220 \<and> width 500 (cc_summary d)"

text \<open>\<^verbatim>\<open>create(**data.model_dump())\<close>: the other columns take their defaults.\<close>

definition new_course :: "course_create \<Rightarrow> uuid \<Rightarrow> time \<Rightarrow> uuid \<Rightarrow> course" where
  "new_course d i now tid =
     \<lparr>row_id = i, created_at = now, tenant_id = tid, deleted_at = None,
      course_title = cc_title d, course_slug = cc_slug d, course_summary = cc_summary d,
      course_description = cc_description d, course_category_id = cc_category_id d,
      course_status = Draft, course_level = cc_level d, course_is_free = cc_is_free d,
      course_price = cc_price d, course_thumbnail_url = cc_thumbnail_url d,
      enrollment_count = 0, published_at = None\<rparr>"

definition create_course :: "'c env \<Rightarrow> course_create \<Rightarrow> ('c, course) io" where
  "create_course x d =
     andthen require_tenant (\<lambda>tid.
     andthen (repo_exists Course (\<lambda>r. course_slug r = cc_slug d)) (\<lambda>taken.
     andthen (ensure (\<not> taken)
       (app_exn ConflictError (''Course slug '' @ [CHR 0x27] @ cc_slug d @ [CHR 0x27] @ '' already exists''))) (\<lambda>_.
     andthen (repo_create x Course (new_course d)) (\<lambda>c.
     andthen get_context (\<lambda>rc.
     andthen (publish_event x (Some tid) (current_user_id rc) (CourseCreatedEvent (row_id c) (course_title c))) (\<lambda>_.
     ret c))))))"

text \<open>
  The fields of an update that the request has set: \<^term>\<open>Some None\<close> is an explicit null. A null in a
  column that must not be null fails when the session is flushed.
\<close>

record course_update =
  cu_title :: "string option option"
  cu_summary :: "string option option"
  cu_description :: "string option option"
  cu_category_id :: "uuid option option"
  cu_level :: "course_level option option"
  cu_status :: "course_status option option"
  cu_is_free :: "bool option option"
  cu_price :: "rat option option"
  cu_thumbnail_url :: "string option option"

definition course_update_valid :: "course_update \<Rightarrow> bool" where
  "course_update_valid u \<longleftrightarrow> (case cu_title u of Some (Some t) \<Rightarrow> 2 \<le> length t \<and> length t \<le> 200 | _ \<Rightarrow> True)"

definition set_value :: "'a option option \<Rightarrow> 'a \<Rightarrow> 'a" where
  "set_value v old = (case v of Some (Some new) \<Rightarrow> new | _ \<Rightarrow> old)"

definition set_column :: "'a option option \<Rightarrow> 'a option \<Rightarrow> 'a option" where
  "set_column v old = (case v of Some new \<Rightarrow> new | None \<Rightarrow> old)"

definition sets_null :: "course_update \<Rightarrow> bool" where
  "sets_null u \<longleftrightarrow> cu_title u = Some None \<or> cu_level u = Some None \<or> cu_status u = Some None \<or>
     cu_is_free u = Some None \<or> cu_price u = Some None"

definition apply_update :: "course_update \<Rightarrow> course \<Rightarrow> course" where
  "apply_update u r = r
     \<lparr>course_title := set_value (cu_title u) (course_title r),
      course_summary := set_column (cu_summary u) (course_summary r),
      course_description := set_column (cu_description u) (course_description r),
      course_category_id := set_column (cu_category_id u) (course_category_id r),
      course_level := set_value (cu_level u) (course_level r),
      course_status := set_value (cu_status u) (course_status r),
      course_is_free := set_value (cu_is_free u) (course_is_free r),
      course_price := set_value (cu_price u) (course_price r),
      course_thumbnail_url := set_column (cu_thumbnail_url u) (course_thumbnail_url r)\<rparr>"

definition update_course :: "'c env \<Rightarrow> uuid \<Rightarrow> course_update \<Rightarrow> ('c, course) io" where
  "update_course x cid u =
     andthen (repo_get_or_404 Course cid) (\<lambda>c.
     andthen (if cu_status u = Some (Some Published) \<and> published_at c = None
              then andthen (draw (clock x)) (\<lambda>now. ret (Some now)) else ret (published_at c)) (\<lambda>published.
     let new = apply_update u (c\<lparr>published_at := published\<rparr>)
     in andthen (ensure (\<not> sets_null u) (Unhandled (IntegrityError ''Course''))) (\<lambda>_.
        andthen (sql_update Course (row_id c) (\<lambda>r. apply_update u (r\<lparr>published_at := published\<rparr>))) (\<lambda>_.
        ret new))))"

definition delete_course :: "uuid \<Rightarrow> ('c, unit) io" where
  "delete_course cid =
     andthen (repo_get_or_404 Course cid) (\<lambda>c. repo_delete Course c False)"

end
