(* ===== verification/Catalog.thy ===== *)
theory Catalog
  imports Courses
begin

text \<open>
  The course catalog at work: who may enroll and what enrolling leaves behind, what a learner sees in
  the list, how a course is published and deleted. \<open>enroll_refusal\<close> is the specification of the
  guards of \<open>enroll\<close> over the rows of the tenant.
\<close>

section \<open>Enrolling\<close>

definition enrollment_of :: "uuid \<Rightarrow> uuid \<Rightarrow> uuid \<Rightarrow> database \<Rightarrow> course_enrollment option" where
  "enrollment_of t uid cid d =
     first_row (live_of CourseEnrollment t (\<lambda>e. enr_user_id e = uid \<and> enr_course_id e = cid) d)"

definition enroll_refusal :: "uuid \<Rightarrow> uuid \<Rightarrow> uuid \<Rightarrow> database \<Rightarrow> exn option" where
  "enroll_refusal t cid uid d = (case live_row Course t cid d of
     None \<Rightarrow> Some (missing Course cid)
   | Some c \<Rightarrow>
       if course_status c \<noteq> Published
       then Some (app_exn ValidationError ''Course is not open for enrollment'')
       else (case enrollment_of t uid cid d of
               None \<Rightarrow> None
             | Some e \<Rightarrow> if enr_status e \<noteq> EnrCancelled
                         then Some (app_exn ConflictError ''Already enrolled in this course'') else None))"

text \<open>The table after the count of a course of the tenant has been raised.\<close>

definition count_raised :: "uuid \<Rightarrow> uuid \<Rightarrow> int \<Rightarrow> course list \<Rightarrow> course list" where
  "count_raised t cid n = map (\<lambda>c. if row_id c = cid \<and> tenant_id c = t
     then c\<lparr>enrollment_count := n, course_price := round_to 2 (course_price c)\<rparr> else c)"

lemma run_get_for_user_course:
  assumes "serving t w" and "consistent CourseEnrollment (view w)"
  shows "get_for_user_course uid cid w = (Inr (enrollment_of t uid cid (view w)), w)"
  unfolding get_for_user_course_def enrollment_of_def
  by (rule enrollment_rows.find_run [OF assms]) (simp add: CourseEnrollment_def)

text \<open>\<^verbatim>\<open>enroll\<close> past its guards.\<close>

definition enroll_accepted :: "'c env \<Rightarrow> uuid \<Rightarrow> course \<Rightarrow> uuid \<Rightarrow> ('c, course_enrollment) io" where
  "enroll_accepted x t c uid =
     andthen (draw (clock x)) (\<lambda>enrolled.
     andthen (repo_create x CourseEnrollment (new_enrollment (row_id c) uid enrolled)) (\<lambda>e.
     andthen (sql_update Course (row_id c) (\<lambda>r. r\<lparr>enrollment_count := enrollment_count c + 1\<rparr>)) (\<lambda>_.
     andthen (publish_event x (Some t) (Some uid) (CourseEnrolledEvent (row_id c) (row_id e))) (\<lambda>_.
     ret e))))"

lemma enroll_guards:
  assumes "serving t w" and "consistent Course (view w)" and "consistent CourseEnrollment (view w)"
  shows "enroll x cid uid w = (case enroll_refusal t cid uid (view w) of
     Some e \<Rightarrow> (Inl e, w)
   | None \<Rightarrow> enroll_accepted x t (the (live_row Course t cid (view w))) uid w)"
proof (cases "live_row Course t cid (view w)")
  case None
  then show ?thesis
    by (simp add: enroll_def enroll_refusal_def andthen_require_tenant [OF servingD(3) [OF assms(1)]]
        course_rows.andthen_get_or_404 [OF assms(1,2)])
next
  case (Some c)
  then have "row_id c = cid"
    using course_rows.live_row_own [OF Some] by (simp add: Course_def)
  with Some show ?thesis
    by (auto simp: enroll_def enroll_refusal_def andthen_require_tenant [OF servingD(3) [OF assms(1)]]
        course_rows.andthen_get_or_404 [OF assms(1,2)] act_simps enroll_accepted_def
        andthen_Inr [of "get_for_user_course uid cid", OF run_get_for_user_course [OF assms(1,3)]]
        split: option.split)
qed

lemma enrollment_insert_other: "m_rows Course (view (inserted CourseEnrollment e w)) = m_rows Course (view w)"
  by (simp add: view_inserted) (simp add: Course_def CourseEnrollment_def)

lemma course_update_other:
  "m_rows CourseEnrollment (view (updated Course k f w)) = m_rows CourseEnrollment (view w)"
  by (simp add: view_updated update_rows_def) (simp add: Course_def CourseEnrollment_def)

lemma enroll_accepted_ok:
  assumes sv: "serving t w" and st: "steady w"
    and run: "enroll_accepted x t c uid w = (Inr e, w')"
  shows "e = new_enrollment (row_id c) uid (clock x (w_draw w)) (uuid4 x (Suc (w_draw w))) (w_now w) t"
    and "t_course_enrollments (view w') = t_course_enrollments (view w) @ [e]"
    and "t_courses (view w') = count_raised t (row_id c) (enrollment_count c + 1) (t_courses (view w))"
    and "\<And>r. r \<in> set (t_course_enrollments (view w)) \<Longrightarrow> \<not> (enr_course_id r = row_id c \<and> enr_user_id r = uid)"
    and "steady w'" and "serving t w'"
    and "consistent CourseEnrollment (view w) \<Longrightarrow> consistent CourseEnrollment (view w')"
    and "consistent Course (view w) \<Longrightarrow> consistent Course (view w')"
proof -
  let ?e = "new_enrollment (row_id c) uid (clock x (w_draw w)) (uuid4 x (Suc (w_draw w))) (w_now w) t"
  let ?w0 = "w\<lparr>w_draw := Suc (Suc (w_draw w))\<rparr>"
  let ?w1 = "inserted CourseEnrollment ?e ?w0"
  let ?f = "\<lambda>r. r\<lparr>enrollment_count := enrollment_count c + 1\<rparr>"
  let ?w2 = "updated Course (row_id c) ?f ?w1"
  have ctx: "current_tenant_id (w_ctx (w\<lparr>w_draw := n\<rparr>)) = Some t" for n
    using servingD(3) [OF sv] by simp
  have ins: "insert_error CourseEnrollment ?e ?w0 = None"
    and rest: "andthen (publish_event x (Some t) (Some uid) (CourseEnrolledEvent (row_id c) (row_id ?e))) (\<lambda>_. ret ?e) ?w2 = (Inr e, w')"
    using run
    by (auto simp: enroll_accepted_def act_simps andthen_repo_create [OF ctx] Let_def andthen_update
        split: option.splits)
  have st2: "steady ?w2" using st by simp
  note pub = publish_done [OF rest st2]
  have e: "e = ?e" by (rule pub(1))
  show "e = ?e" by (rule e)
  show "steady w'" "serving t w'" using pub(3,4) sv by simp_all
  have rows: "m_rows CourseEnrollment (view w') = m_rows CourseEnrollment (view w) @ [m_stored CourseEnrollment ?e]"
    using enrollment_rows.no_logs_rows [OF pub(2)]
    by (simp add: course_update_other enrollment_rows.rows_inserted)
  then show "t_course_enrollments (view w') = t_course_enrollments (view w) @ [e]"
    by (simp add: e CourseEnrollment_def)
  have "m_rows Course (view w') = map (\<lambda>r. if m_id Course r = row_id c \<and> tenant_id r = t
      then m_stored Course (?f r) else r) (m_rows Course (view w))"
    using course_rows.no_logs_rows [OF pub(2)] sv
    by (simp add: course_rows.rows_updated [of t] enrollment_insert_other)
  then show "t_courses (view w') = count_raised t (row_id c) (enrollment_count c + 1) (t_courses (view w))"
    by (simp add: Course_def count_raised_def cong: if_cong map_cong)
  show "\<not> (enr_course_id r = row_id c \<and> enr_user_id r = uid)" if "r \<in> set (t_course_enrollments (view w))" for r
    using enrollment_rows.insert_error_fresh [OF ins, of r] that
    by (auto simp: CourseEnrollment_def new_enrollment_def)
  show "consistent CourseEnrollment (view w')" if "consistent CourseEnrollment (view w)"
  proof -
    have "consistent CourseEnrollment (view ?w1)"
      by (rule enrollment_rows.consistent_inserted [OF _ ins]) (use that in simp)
    then show ?thesis
      using rows by (simp add: consistent_def enrollment_rows.rows_inserted)
  qed
  show "consistent Course (view w')" if "consistent Course (view w)"
  proof -
    have "consistent Course (view ?w1)"
      using that by (simp add: consistent_def enrollment_insert_other)
    then have "consistent Course (view ?w2)"
      by (rule course_rows.consistent_updated) (simp_all add: Course_def)
    then show ?thesis
      using course_rows.consistent_no_logs [OF pub(2)] by simp
  qed
qed

text \<open>
  What can still stop an accepted enrollment is the database: \<open>enroll_blocked\<close> says which statement it
  refuses, and why.
\<close>

definition enroll_blocked :: "uuid \<Rightarrow> uuid \<Rightarrow> uuid \<Rightarrow> uuid \<Rightarrow> database \<Rightarrow> py_exception \<Rightarrow> bool" where
  "enroll_blocked t cid uid i d e \<longleftrightarrow>
     (e = IntegrityError ''CourseEnrollment'' \<and>
       (\<not> user_exists d uid \<or> \<not> tenant_exists d t \<or>
        list_ex (\<lambda>r. row_id r = i \<or> enr_course_id r = cid \<and> enr_user_id r = uid) (t_course_enrollments d))) \<or>
     list_ex (\<lambda>c. row_id c = cid \<and>
       (e = DataError \<and> \<not> m_fits Course (c\<lparr>enrollment_count := enrollment_count c + 1\<rparr>) \<or>
        e = IntegrityError ''Course'' \<and> \<not> optional (category_exists d) (course_category_id c))) (t_courses d)"

lemma raise_count_error:
  assumes sv: "serving t w" and cons: "consistent Course (view w)" and c: "c \<in> set (t_courses (view w))" "tenant_id c = t"
    and err: "update_error Course (row_id c) (\<lambda>r. r\<lparr>enrollment_count := enrollment_count c + 1\<rparr>) w = Some p"
  shows "p = DataError \<and> \<not> m_fits Course (c\<lparr>enrollment_count := enrollment_count c + 1\<rparr>) \<or>
    p = IntegrityError ''Course'' \<and> \<not> m_refs Course (view w) c"
proof -
  let ?f = "\<lambda>r. r\<lparr>enrollment_count := enrollment_count c + 1\<rparr>"
  have row: "c \<in> set (m_rows Course (view w))" "m_id Course c = row_id c" using c(1) by (simp_all add: Course_def)
  have vis: "row_visible Course w c" "row_visible Course w (?f c)"
    using course_rows.serving_visible [OF sv] c(2) by simp_all
  have old: "filter (\<lambda>s. m_id Course s = row_id c \<and> row_visible Course w s) (m_rows Course (view w)) = [c]"
    unfolding row(2) [symmetric]
    by (rule distinct_map_filter_single [OF course_rows.consistent_distinct [OF cons] row(1)]) (use vis in auto)
  have refs: "m_refs Course d (?f c) = m_refs Course d c" for d by (simp add: Course_def)
  have clash: "m_clash Course (?f c) s \<Longrightarrow> m_clash Course c s" for s by (simp add: Course_def)
  show ?thesis
  proof (cases "m_fits Course (?f c)")
    case False
    with err old show ?thesis by (simp add: update_error_def)
  next
    case True
    have "\<not> m_refs Course (view w) c"
      using course_rows.update_allowed [where f = ?f and r = c, OF cons row(1) vis(1) clash vis(2) True] err row(2) refs
      by auto
    with err old True vis refs show ?thesis
      by (simp add: update_error_def split: if_splits) (simp_all add: Course_def)
  qed
qed

lemma enroll_accepted_error:
  assumes sv: "serving t w" and st: "steady w" and cons: "consistent Course (view w)"
    and c: "c \<in> set (t_courses (view w))" "tenant_id c = t"
    and run: "enroll_accepted x t c uid w = (Inl e, w')"
  shows "\<exists>p. e = Unhandled p \<and> enroll_blocked t (row_id c) uid (uuid4 x (Suc (w_draw w))) (view w) p \<and>
    w_committed w' = w_committed w"
proof -
  let ?e = "new_enrollment (row_id c) uid (clock x (w_draw w)) (uuid4 x (Suc (w_draw w))) (w_now w) t"
  let ?w0 = "w\<lparr>w_draw := Suc (Suc (w_draw w))\<rparr>"
  let ?w1 = "inserted CourseEnrollment ?e ?w0"
  let ?f = "\<lambda>r. r\<lparr>enrollment_count := enrollment_count c + 1\<rparr>"
  have ctx: "current_tenant_id (w_ctx (w\<lparr>w_draw := n\<rparr>)) = Some t" for n
    using servingD(3) [OF sv] by simp
  have "andthen (publish_event x (Some t) (Some uid) p) (\<lambda>_. ret r) v \<noteq> (Inl e, w')"
    if "steady v" for p v and r :: course_enrollment
    by (rule andthen_publish [OF that, of x t "Some uid" p r]) simp
  then have "(\<exists>p. e = Unhandled p \<and> insert_error CourseEnrollment ?e ?w0 = Some p \<and> w' = ?w0) \<or>
      (\<exists>p. e = Unhandled p \<and> insert_error CourseEnrollment ?e ?w0 = None \<and>
        update_error Course (row_id c) ?f ?w1 = Some p \<and> w' = ?w1)"
    using run st
    by (auto simp: enroll_accepted_def act_simps andthen_repo_create [OF ctx] Let_def andthen_update
        split: option.splits)
  then show ?thesis
  proof (elim disjE exE conjE)
    fix p
    assume e: "e = Unhandled p" "insert_error CourseEnrollment ?e ?w0 = Some p" "w' = ?w0"
    have "row_visible CourseEnrollment ?w0 ?e"
      using enrollment_rows.serving_visible [of t ?w0] sv by (simp add: new_enrollment_def)
    moreover have "course_exists (view w) (row_id c)"
      using c(1) by (auto simp: course_exists_def list_ex_iff)
    ultimately have "p = IntegrityError ''CourseEnrollment''" and
      "\<not> user_exists (view w) uid \<or> \<not> tenant_exists (view w) t \<or>
        list_ex (\<lambda>r. row_id r = row_id ?e \<or> enr_course_id r = row_id c \<and> enr_user_id r = uid) (t_course_enrollments (view w))"
      using e(2) by (auto simp: insert_error_def CourseEnrollment_def new_enrollment_def int4_def list_ex_iff split: if_splits)
    then show ?thesis using e by (simp add: enroll_blocked_def new_enrollment_def)
  next
    fix p
    assume e: "e = Unhandled p" "insert_error CourseEnrollment ?e ?w0 = None"
      "update_error Course (row_id c) ?f ?w1 = Some p" "w' = ?w1"
    have "serving t ?w1" using sv by simp
    moreover have "consistent Course (view ?w1)" and "c \<in> set (t_courses (view ?w1))"
      using cons c(1) enrollment_insert_other [of ?e ?w0] by (simp_all add: consistent_def) (simp add: Course_def)
    ultimately have p: "p = DataError \<and> \<not> m_fits Course (?f c) \<or>
        p = IntegrityError ''Course'' \<and> \<not> m_refs Course (view ?w1) c"
      using raise_count_error [OF _ _ _ c(2) e(3)] by blast
    have "tenant_exists (view w) t"
      using e(2) by (auto simp: insert_error_def CourseEnrollment_def new_enrollment_def split: if_splits)
    moreover have "category_exists (view ?w1) = category_exists (view w)"
      by (simp add: fun_eq_iff category_exists_def view_inserted) (simp add: CourseEnrollment_def)
    then have "m_refs Course (view ?w1) c = (tenant_exists (view w) t \<and> optional (category_exists (view w)) (course_category_id c))"
      using c(2) by (simp add: view_inserted Course_def CourseEnrollment_def tenant_exists_def)
    ultimately have "enroll_blocked t (row_id c) uid (uuid4 x (Suc (w_draw w))) (view w) p"
      using p c(1) unfolding enroll_blocked_def list_ex_iff by blast
    then show ?thesis using e by simp
  qed
qed

lemma live_course_id: "live_row Course t cid d = Some c \<Longrightarrow> row_id c = cid"
  by (drule course_rows.live_row_own) (simp add: Course_def)

text \<open>
  C16. Enrolling follows its specification. Either it is refused for the reason \<open>enroll_refusal\<close>
  gives (no such live course of the tenant, not published, already enrolled and not cancelled), with
  nothing changed. Or no guard refuses it, and it fails in the database with nothing committed, which happens
  only for the reasons of \<open>enroll_blocked\<close>: the course and the user have an enrollment row already (one
  that was cancelled), the user is gone, the identifier drawn is taken, the course does not fit its columns
  with the count raised, or names a category that is gone. Or it returns: the user had no enrollment in the
  course and now has exactly one more, active, with progress 0 and not completed, and the count of the
  course is one higher, every other row of the two tables being as before.
\<close>

theorem enroll_spec:
  assumes "serving t w" and "steady w" and "consistent Course (view w)" and "consistent CourseEnrollment (view w)"
  shows "case enroll x cid uid w of
      (Inl e, w') \<Rightarrow> (enroll_refusal t cid uid (view w) = Some e \<and> w' = w) \<or>
                    (enroll_refusal t cid uid (view w) = None \<and> w_committed w' = w_committed w \<and>
                     (\<exists>p. e = Unhandled p \<and> enroll_blocked t cid uid (uuid4 x (Suc (w_draw w))) (view w) p))
    | (Inr e, w') \<Rightarrow> enroll_refusal t cid uid (view w) = None \<and>
        enrollment_of t uid cid (view w) = None \<and>
        e = \<lparr>row_id = uuid4 x (Suc (w_draw w)), created_at = w_now w, tenant_id = t, enr_course_id = cid,
             enr_user_id = uid, enr_status = EnrActive, enr_progress_pct = 0,
             enrolled_at = clock x (w_draw w), enr_completed_at = None\<rparr> \<and>
        t_course_enrollments (view w') = t_course_enrollments (view w) @ [e] \<and>
        (\<exists>c. live_row Course t cid (view w) = Some c \<and>
          t_courses (view w') = count_raised t cid (enrollment_count c + 1) (t_courses (view w)))"
proof (cases "enroll_refusal t cid uid (view w)")
  case (Some e)
  then show ?thesis by (simp add: enroll_guards [OF assms(1,3,4)])
next
  case None
  then obtain c where c: "live_row Course t cid (view w) = Some c"
    by (auto simp: enroll_refusal_def split: option.splits)
  then have run: "enroll x cid uid w = enroll_accepted x t c uid w"
    by (simp add: enroll_guards [OF assms(1,3,4)] None)
  have row: "c \<in> set (t_courses (view w))" "tenant_id c = t"
    using course_rows.live_row_own [OF c] by (simp_all add: Course_def)
  obtain r w' where acc: "enroll_accepted x t c uid w = (r, w')" by fastforce
  show ?thesis
  proof (cases r)
    case (Inl e)
    then show ?thesis
      using enroll_accepted_error [OF assms(1-3) row acc [unfolded Inl]] acc live_course_id [OF c] by (auto simp: run None)
  next
    case (Inr e)
    note ok = enroll_accepted_ok [OF assms(1,2) acc [unfolded Inr], unfolded live_course_id [OF c]]
    have "enrollment_of t uid cid (view w) = None"
      using ok(4) by (auto simp: enrollment_of_def live_of_def filter_empty_conv CourseEnrollment_def)
    then show ?thesis using ok(1,2,3) c Inr acc by (auto simp: run None new_enrollment_def)
  qed
qed

text \<open>The sample school: who can enroll there, and who cannot.\<close>

lemma school_catalog:
  "serving 1 school_world" "steady school_world"
  "consistent Course (view school_world)" "consistent CourseEnrollment (view school_world)"
  "live_row Course 1 10 (view school_world) = Some (school_course 10 ''algebra'' Published 3)"
  "enrollment_of 1 6 10 (view school_world) = Some school_enrollment"
  by (simp_all add: serving_def steady_start consistent_def sample_school_def Course_def CourseEnrollment_def
      school_course_def school_enrollment_def live_row_def live_of_def enrollment_of_def)

lemma school_enroll: "\<not> isl (fst (enroll sample_env 10 5 school_world))"
  by code_simp

lemma school_enrolled:
  obtains e w where "enroll sample_env 10 5 school_world = (Inr e, w)"
  using school_enroll
  by (cases "enroll sample_env 10 5 school_world"; cases "fst (enroll sample_env 10 5 school_world)") auto

theorem enroll_spec_witness:
  "\<exists>e w. enroll sample_env 10 5 school_world = (Inr e, w) \<and>
     t_course_enrollments (view w) = [school_enrollment, e]"
proof -
  obtain e w where run: "enroll sample_env 10 5 school_world = (Inr e, w)" by (rule school_enrolled)
  with enroll_spec [OF school_catalog(1-4), where x = sample_env and cid = 10 and uid = 5] show ?thesis
    by (simp add: sample_school_def)
qed

lemma live_row_count_raised:
  assumes "live_row Course t cid d = Some c" and "t_courses d' = count_raised t cid n (t_courses d)"
  shows "\<exists>c'. live_row Course t cid d' = Some c' \<and> course_status c' = course_status c"
proof -
  let ?p = "\<lambda>r. tenant_id r = t \<and> deleted_at r = None \<and> row_id r = cid"
  let ?f = "\<lambda>c. if row_id c = cid \<and> tenant_id c = t
     then c\<lparr>enrollment_count := n, course_price := round_to 2 (course_price c)\<rparr> else c"
  have p: "?p (?f r) = ?p r" for r :: course by simp
  have "filter ?p (map ?f rs) = map ?f (filter ?p rs)" for rs :: "course list"
    using p by (simp add: filter_map comp_def)
  then have "live_of Course t (\<lambda>r. row_id r = cid) d' = map ?f (live_of Course t (\<lambda>r. row_id r = cid) d)"
    by (simp add: live_of_def Course_def assms(2) count_raised_def)
  then show ?thesis
    using assms(1) by (cases "live_of Course t (\<lambda>r. row_id r = cid) d") (auto simp: live_row_def Course_def)
qed

text \<open>
  C27. No user is enrolled twice: once \<^verbatim>\<open>enroll\<close> has returned, calling it again for the same user and
  course is refused as a conflict.
\<close>

theorem enroll_once:
  assumes "serving t w" and "steady w" and "consistent Course (view w)" and "consistent CourseEnrollment (view w)"
    and "enroll x cid uid w = (Inr e, w')"
  shows "enroll x cid uid w' = (Inl (app_exn ConflictError ''Already enrolled in this course''), w')"
proof -
  obtain c where c: "live_row Course t cid (view w) = Some c" "course_status c = Published"
    and acc: "enroll_accepted x t c uid w = (Inr e, w')"
    using assms(5) by (auto simp: enroll_guards [OF assms(1,3,4)] enroll_refusal_def split: option.splits if_splits)
  note ok = enroll_accepted_ok [OF assms(1,2) acc, unfolded live_course_id [OF c(1)]]
  obtain c' where "live_row Course t cid (view w') = Some c'" "course_status c' = Published"
    using live_row_count_raised [OF c(1) ok(3)] c(2) by auto
  moreover have "live_of CourseEnrollment t (\<lambda>e. enr_user_id e = uid \<and> enr_course_id e = cid) (view w') = [e]"
    using ok(4) by (simp add: live_of_def CourseEnrollment_def ok(2) ok(1) new_enrollment_def filter_empty_conv) auto
  then have "enrollment_of t uid cid (view w') = Some e" by (simp add: enrollment_of_def)
  moreover have "enr_status e = EnrActive" by (simp add: ok(1) new_enrollment_def)
  ultimately show ?thesis
    using enroll_guards [OF ok(6) ok(8) [OF assms(3)] ok(7) [OF assms(4)]]
    by (simp add: enroll_refusal_def)
qed

theorem enroll_once_witness:
  "\<exists>e w. enroll sample_env 10 5 school_world = (Inr e, w) \<and>
     enroll sample_env 10 5 w = (Inl (app_exn ConflictError ''Already enrolled in this course''), w)"
proof -
  obtain e w where run: "enroll sample_env 10 5 school_world = (Inr e, w)" by (rule school_enrolled)
  with enroll_once [OF school_catalog(1-4) run] show ?thesis by blast
qed

text \<open>
  C40. A cancelled enrollment cannot be taken up again: the guards let the request through, and the
  unique constraint on course and user then makes the insert fail, whatever else holds.
\<close>

theorem cancelled_enrollment_fails:
  assumes "serving t w" and "consistent Course (view w)" and "consistent CourseEnrollment (view w)"
    and "live_row Course t cid (view w) = Some c" and "course_status c = Published"
    and "enrollment_of t uid cid (view w) = Some e" and "enr_status e = EnrCancelled"
  shows "fst (enroll x cid uid w) = Inl (Unhandled (IntegrityError ''CourseEnrollment''))"
proof -
  let ?new = "new_enrollment cid uid (clock x (w_draw w)) (uuid4 x (Suc (w_draw w))) (w_now w) t"
  let ?w = "w\<lparr>w_draw := Suc (Suc (w_draw w))\<rparr>"
  have e: "e \<in> set (t_course_enrollments (view w))" "enr_user_id e = uid" "enr_course_id e = cid"
    using assms(6) by (auto simp: enrollment_of_def live_of_def CourseEnrollment_def dest!: first_row_SomeD)
  have "row_visible CourseEnrollment ?w ?new"
    using enrollment_rows.serving_visible [of t ?w] assms(1) by (simp add: new_enrollment_def)
  moreover have "list_ex (\<lambda>s. m_id CourseEnrollment s = m_id CourseEnrollment ?new \<or> m_clash CourseEnrollment ?new s)
      (m_rows CourseEnrollment (view ?w))"
    using e by (auto simp: list_ex_iff CourseEnrollment_def new_enrollment_def)
  moreover have "m_fits CourseEnrollment ?new"
    by (simp add: CourseEnrollment_def new_enrollment_def int4_def)
  ultimately have "insert_error CourseEnrollment ?new ?w = Some (IntegrityError ''CourseEnrollment'')"
    by (simp add: insert_error_def) (simp add: CourseEnrollment_def)
  moreover have "enroll_refusal t cid uid (view w) = None"
    using assms(4-7) by (simp add: enroll_refusal_def)
  moreover have "current_tenant_id (w_ctx (w\<lparr>w_draw := n\<rparr>)) = Some t" for n
    using servingD(3) [OF assms(1)] by simp
  ultimately show ?thesis
    by (simp add: enroll_guards [OF assms(1-3)] assms(4) enroll_accepted_def act_simps
        andthen_repo_create live_course_id [OF assms(4)] Let_def)
qed

theorem cancelled_enrollment_fails_witness:
  "fst (enroll sample_env 10 6 school_world) = Inl (Unhandled (IntegrityError ''CourseEnrollment''))"
  by (rule cancelled_enrollment_fails [OF school_catalog(1,3,4,5) _ school_catalog(6)])
    (simp_all add: school_course_def school_enrollment_def)

end
