(* ===== verification/Listing.thy ===== *)
theory Listing
  imports Catalog "HOL-Library.Multiset"
begin

text \<open>
  Lists and pages. \<open>course_matches\<close> is the specification of the filters of the course list; every page
  is a window of one ordered list of the matching rows, and the pages together are that list.
\<close>

section \<open>Windows\<close>

lemma concat_pages: "concat (map (\<lambda>p. take n (drop (p * n) L)) [0..<k]) = take (k * n) L"
proof (induction k)
  case 0
  then show ?case by simp
next
  case (Suc k)
  have "take (k * n + n) L = take (k * n) L @ take n (drop (k * n) L)"
    by (rule take_add)
  with Suc show ?case by (simp add: add.commute)
qed

lemma ordered_mset: "mset (ordered s rows) = mset rows"
  by (auto simp: ordered_def sort_desc_def split: option.splits)

text \<open>With distinct keys the order leaves no choice; rows with equal keys a server may return in any order.\<close>

definition strictly_ordered :: "bool \<Rightarrow> ('r \<Rightarrow> cell) \<Rightarrow> 'r list \<Rightarrow> bool" where
  "strictly_ordered desc key rows \<longleftrightarrow> sorted_wrt (\<lambda>r s. if desc then key s < key r else key r < key s) rows"

lemma ordered_strictly:
  assumes "sel_order s = Some (desc, key)" and "distinct (map key rows)"
  shows "strictly_ordered desc key (ordered s rows)"
proof -
  have up: "sorted_wrt (\<lambda>r q. key r < key q) (sort_key key rs)" if "distinct (map key rs)" for rs
  proof -
    have "sorted_wrt (<) (map key (sort_key key rs))"
      using that by (simp add: strict_sorted_iff distinct_map)
    then show ?thesis by (simp add: sorted_wrt_map)
  qed
  have "distinct (map key (rev rows))" using assms(2) by (simp add: rev_map [symmetric])
  from up [OF this] up [OF assms(2)] show ?thesis
    by (simp add: strictly_ordered_def ordered_def assms(1) sort_desc_def sorted_wrt_rev)
qed

lemma ordered_length [simp]: "length (ordered s rows) = length rows"
  using ordered_mset [of s rows] by (metis size_mset)

lemma page_count_enough:
  fixes n tot :: int
  assumes "1 \<le> n" and "0 \<le> tot"
  shows "tot \<le> ((tot + n - 1) div n) * n" and "0 \<le> (tot + n - 1) div n"
proof -
  have "(tot + n - 1) div n * n = tot + n - 1 - (tot + n - 1) mod n"
    by (simp add: minus_mod_eq_div_mult [symmetric])
  moreover have "(tot + n - 1) mod n \<le> n - 1"
    using assms(1) pos_mod_bound [of n "tot + n - 1"] by linarith
  ultimately show "tot \<le> ((tot + n - 1) div n) * n" by linarith
  show "0 \<le> (tot + n - 1) div n"
    using assms by (simp add: pos_imp_zdiv_nonneg_iff)
qed

text \<open>The statement a sort makes differs from the one it is given in its order only.\<close>

lemma apply_sort_Inr:
  assumes "apply_sort x M srt s = Inr s'"
  shows "sel_where s' = sel_where s" and "sel_offset s' = sel_offset s" and "sel_limit s' = sel_limit s"
  using assms
  by (auto simp: apply_sort_def Let_def order_by_def split: option.splits if_splits attribute.splits)

lemma matching_where: "sel_where s = sel_where s' \<Longrightarrow> matching M s w = matching M s' w"
  by (simp add: matching_def)

section \<open>The course list\<close>

definition course_matches :: "course_filter \<Rightarrow> bool \<Rightarrow> course \<Rightarrow> bool" where
  "course_matches f published_only c \<longleftrightarrow>
     (case pg_search f of None \<Rightarrow> True | Some term \<Rightarrow> term = [] \<or> course_search term c) \<and>
     (case cf_category_id f of None \<Rightarrow> True | Some k \<Rightarrow> course_category_id c = Some k) \<and>
     (case cf_level f of None \<Rightarrow> True | Some l \<Rightarrow> course_level c = l) \<and>
     (case cf_is_free f of None \<Rightarrow> True | Some b \<Rightarrow> course_is_free c = b) \<and>
     (if published_only then course_status c = Published
      else case cf_status f of None \<Rightarrow> True | Some st \<Rightarrow> course_status c = st)"

lemma filtered_where: "sel_where (filtered f b s) c \<longleftrightarrow> sel_where s c \<and> course_matches f b c"
  by (auto simp: filtered_def course_matches_def Let_def split: option.split)

lemma filtered_plain:
  "sel_offset (filtered f b s) = sel_offset s" "sel_limit (filtered f b s) = sel_limit s"
  by (simp_all add: filtered_def Let_def split: option.split)

definition sort_of :: "course_filter \<Rightarrow> string" where
  "sort_of f = (case pg_sort f of None \<Rightarrow> ''-created_at'' | Some s \<Rightarrow> if s = [] then ''-created_at'' else s)"

lemma matching_filtered:
  assumes "serving t w"
  shows "matching Course (filtered f b (tenant_select Course (current_tenant_id (w_ctx w)))) w =
    live_of Course t (course_matches f b) (view w)"
proof -
  have "matching Course (filtered f b (tenant_select Course (current_tenant_id (w_ctx w)))) w =
    filter (course_matches f b) (live_rows Course w)"
    by (auto simp: live_rows_def matching_def filtered_where intro!: filter_cong)
  then show ?thesis by (simp add: course_rows.live_rows_of [OF assms])
qed

lemma list_courses_run:
  assumes "serving t w"
  shows "list_courses x f b w =
    (case apply_sort x Course (Some (sort_of f)) (filtered f b (tenant_select Course (Some t))) of
       Inl e \<Rightarrow> Inl e
     | Inr s \<Rightarrow> (let rows = live_of Course t (course_matches f b) (view w)
                 in Inr (take (nat (page_limit f)) (drop (nat (page_offset f)) (ordered s rows)), int (length rows))), w)"
proof -
  let ?stmt = "filtered f b (tenant_select Course (Some t))"
  have sort: "(case pg_sort f of None \<Rightarrow> Some ''-created_at''
      | Some s \<Rightarrow> if s = [] then Some ''-created_at'' else Some s) = Some (sort_of f)"
    by (simp add: sort_of_def split: option.split)
  have rows: "matching Course ?stmt w = live_of Course t (course_matches f b) (view w)"
    using matching_filtered [OF assms, of f b] servingD(3) [OF assms] by simp
  have "window (paged (page_offset f) (page_limit f) s) (ordered (paged (page_offset f) (page_limit f) s)
      (matching Course (paged (page_offset f) (page_limit f) s) w)) =
    take (nat (page_limit f)) (drop (nat (page_offset f)) (ordered s (matching Course ?stmt w)))"
    if "apply_sort x Course (Some (sort_of f)) ?stmt = Inr s" for s
    using apply_sort_Inr [OF that]
    by (simp add: paged_def window_def ordered_def matching_def Let_def)
  then show ?thesis
    by (simp add: list_courses_def act_simps servingD(3) [OF assms] sort rows Let_def window_plain
        filtered_plain split: sum.split)
qed

text \<open>The pages of a list, as the client walks through them.\<close>

definition course_page :: "'c env \<Rightarrow> course_filter \<Rightarrow> bool \<Rightarrow> 'c world \<Rightarrow> int \<Rightarrow> course list" where
  "course_page x f b w p = (case fst (list_courses x (f\<lparr>pg_page := p\<rparr>) b w) of Inl e \<Rightarrow> [] | Inr (rows, n) \<Rightarrow> rows)"

text \<open>The column that a filter sorts by, and whether downwards.\<close>

definition list_order :: "course_filter \<Rightarrow> bool \<times> course attribute" where
  "list_order f = (let desc = prefix ''-'' (sort_of f)
     in (desc, m_column Course (if desc then drop 1 (sort_of f) else sort_of f)))"

lemma list_order_sort:
  assumes "list_order f = (desc, Column key)" and "apply_sort x Course (Some (sort_of f)) stmt = Inr s"
  shows "sel_order s = Some (desc, key)"
proof -
  have "sort_of f \<noteq> []" by (simp add: sort_of_def split: option.split)
  with assms show ?thesis by (auto simp: apply_sort_def list_order_def order_by_def Let_def)
qed


definition any_course :: course_filter where
  "any_course = \<lparr>pg_page = 1, pg_size = 20, pg_search = None, pg_sort = None, cf_category_id = None,
     cf_level = None, cf_status = None, cf_is_free = None\<rparr>"

lemma school_list:
  "list_courses sample_env any_course False school_world =
     (Inr ([school_course 11 ''logic'' Draft 0, school_course 10 ''algebra'' Published 3], 2), school_world)"
  unfolding list_courses_run [OF school_catalog(1)]
  by (simp add: any_course_def sort_of_def apply_sort_def Let_def prefix_def
      Course_def course_column_def soft_column_def tenant_column_def entity_column_def order_by_def ordered_def
      sort_desc_def live_of_def course_matches_def sample_school_def page_limit_def page_offset_def
      school_course_def cell_time_def less_eq_cell_def)


end
