(* ===== verification/Learning.thy ===== *)
theory Learning
  imports Listing
begin

text \<open>
  Lessons and progress, \<^verbatim>\<open>app/modules/learning\<close>: the tables, the ordered lessons of a course with the
  assets that are loaded with them, the completion of a lesson, and the learner's own progress. The
  columns of a table that no request sorts by are those of its mixins.
\<close>

section \<open>Models\<close>

definition section_exists :: "database \<Rightarrow> uuid \<Rightarrow> bool" where
  "section_exists d i \<longleftrightarrow> list_ex (\<lambda>r. row_id r = i) (t_course_modules d)"

definition lesson_exists :: "database \<Rightarrow> uuid \<Rightarrow> bool" where
  "lesson_exists d i \<longleftrightarrow> list_ex (\<lambda>r. row_id r = i) (t_lessons d)"

definition CourseModule :: "course_module model" where
  "CourseModule =
     \<lparr>m_name = ''CourseModule'', m_rows = t_course_modules,
      m_put = (\<lambda>rs d. d\<lparr>t_course_modules := rs\<rparr>), m_id = row_id, m_owner = Some tenant_id,
      m_deleted = Some deleted_at, m_mark_deleted = (\<lambda>now r. r\<lparr>deleted_at := Some now\<rparr>),
      m_clash = (\<lambda>_ _. False),
      m_fits = (\<lambda>r. length (cm_title r) \<le> 200 \<and> int4 (cm_order_index r)),
      m_refs = (\<lambda>d r. tenant_exists d (tenant_id r) \<and> course_exists d (cm_course_id r)),
      m_stored = id, m_column = soft_column, m_search = (\<lambda>_ _. True)\<rparr>"

definition Lesson :: "lesson model" where
  "Lesson =
     \<lparr>m_name = ''Lesson'', m_rows = t_lessons, m_put = (\<lambda>rs d. d\<lparr>t_lessons := rs\<rparr>), m_id = row_id,
      m_owner = Some tenant_id, m_deleted = Some deleted_at,
      m_mark_deleted = (\<lambda>now r. r\<lparr>deleted_at := Some now\<rparr>), m_clash = (\<lambda>_ _. False),
      m_fits = (\<lambda>r. length (les_title r) \<le> 200 \<and> int4 (les_order_index r) \<and> int4 (les_duration_seconds r)),
      m_refs = (\<lambda>d r. tenant_exists d (tenant_id r) \<and> course_exists d (les_course_id r) \<and>
                      optional (section_exists d) (les_module_id r)),
      m_stored = id, m_column = soft_column, m_search = (\<lambda>_ _. True)\<rparr>"

definition VideoAsset :: "video_asset model" where
  "VideoAsset =
     \<lparr>m_name = ''VideoAsset'', m_rows = t_video_assets, m_put = (\<lambda>rs d. d\<lparr>t_video_assets := rs\<rparr>),
      m_id = row_id, m_owner = Some tenant_id, m_deleted = None, m_mark_deleted = (\<lambda>_ r. r),
      m_clash = (\<lambda>r s. va_lesson_id r = va_lesson_id s),
      m_fits = (\<lambda>r. length (va_provider r) \<le> 40 \<and> length (va_url r) \<le> 1000 \<and>
                    width 1000 (va_hls_url r) \<and> int4 (va_duration_seconds r)),
      m_refs = (\<lambda>d r. tenant_exists d (tenant_id r) \<and> lesson_exists d (va_lesson_id r)),
      m_stored = id, m_column = tenant_column, m_search = (\<lambda>_ _. True)\<rparr>"

definition DocumentAsset :: "document_asset model" where
  "DocumentAsset =
     \<lparr>m_name = ''DocumentAsset'', m_rows = t_document_assets,
      m_put = (\<lambda>rs d. d\<lparr>t_document_assets := rs\<rparr>), m_id = row_id, m_owner = Some tenant_id,
      m_deleted = None, m_mark_deleted = (\<lambda>_ r. r),
      m_clash = (\<lambda>r s. da_lesson_id r = da_lesson_id s),
      m_fits = (\<lambda>r. length (da_file_url r) \<le> 1000 \<and> length (da_file_type r) \<le> 40 \<and>
                    int4 (da_size_bytes r)),
      m_refs = (\<lambda>d r. tenant_exists d (tenant_id r) \<and> lesson_exists d (da_lesson_id r)),
      m_stored = id, m_column = tenant_column, m_search = (\<lambda>_ _. True)\<rparr>"

definition LessonProgress :: "lesson_progress model" where
  "LessonProgress =
     \<lparr>m_name = ''LessonProgress'', m_rows = t_lesson_progress,
      m_put = (\<lambda>rs d. d\<lparr>t_lesson_progress := rs\<rparr>), m_id = row_id, m_owner = Some tenant_id,
      m_deleted = None, m_mark_deleted = (\<lambda>_ r. r),
      m_clash = (\<lambda>r s. lp_lesson_id r = lp_lesson_id s \<and> lp_user_id r = lp_user_id s),
      m_fits = (\<lambda>r. int4 (lp_last_position_seconds r)),
      m_refs = (\<lambda>d r. tenant_exists d (tenant_id r) \<and> lesson_exists d (lp_lesson_id r) \<and>
                      course_exists d (lp_course_id r) \<and> user_exists d (lp_user_id r)),
      m_stored = id, m_column = tenant_column, m_search = (\<lambda>_ _. True)\<rparr>"

interpretation section_rows: quiet_table CourseModule tenant_id
  by unfold_locales (simp_all add: CourseModule_def foreign_def foreign_links_def others_def)

interpretation lesson_rows: quiet_table Lesson tenant_id
  by unfold_locales (simp_all add: Lesson_def foreign_def foreign_links_def others_def)

interpretation video_rows: quiet_table VideoAsset tenant_id
  by unfold_locales (simp_all add: VideoAsset_def foreign_def foreign_links_def others_def)

interpretation document_rows: quiet_table DocumentAsset tenant_id
  by unfold_locales (simp_all add: DocumentAsset_def foreign_def foreign_links_def others_def)

interpretation progress_rows: quiet_table LessonProgress tenant_id
  by unfold_locales (simp_all add: LessonProgress_def foreign_def foreign_links_def others_def)

section \<open>Repositories\<close>

definition lessons_for_course :: "uuid \<Rightarrow> ('c, lesson select) io" where
  "lessons_for_course cid =
     andthen (repo_select Lesson) (\<lambda>s.
     ret (order_by False (\<lambda>l. CellInt (les_order_index l)) (and_where (\<lambda>l. les_course_id l = cid) s)))"

definition get_for_user_lesson :: "uuid \<Rightarrow> uuid \<Rightarrow> ('c, lesson_progress option) io" where
  "get_for_user_lesson uid lid =
     repo_find LessonProgress (\<lambda>p. lp_user_id p = uid \<and> lp_lesson_id p = lid)"

definition progress_for_user :: "uuid \<Rightarrow> ('c, lesson_progress select) io" where
  "progress_for_user uid =
     andthen (repo_select LessonProgress) (\<lambda>s. ret (and_where (\<lambda>p. lp_user_id p = uid) s))"

section \<open>The service\<close>

definition list_lessons :: "uuid \<Rightarrow> ('c, lesson list) io" where
  "list_lessons cid = andthen (lessons_for_course cid) (\<lambda>stmt. run_select Lesson stmt)"

text \<open>The relationships \<^verbatim>\<open>video\<close> and \<^verbatim>\<open>document\<close>, which only row level security filters.\<close>

definition related :: "'r model \<Rightarrow> ('r \<Rightarrow> bool) \<Rightarrow> 'c world \<Rightarrow> 'r list" where
  "related M p w = filter (\<lambda>r. row_visible M w r \<and> p r) (m_rows M (view w))"

definition lesson_video :: "'c world \<Rightarrow> lesson \<Rightarrow> video_asset option" where
  "lesson_video w l = first_row (related VideoAsset (\<lambda>v. va_lesson_id v = row_id l) w)"

definition lesson_document :: "'c world \<Rightarrow> lesson \<Rightarrow> document_asset option" where
  "lesson_document w l = first_row (related DocumentAsset (\<lambda>v. da_lesson_id v = row_id l) w)"

text \<open>The row of a lesson that has just been completed for the first time.\<close>

definition new_progress :: "lesson \<Rightarrow> uuid \<Rightarrow> int \<Rightarrow> time \<Rightarrow> uuid \<Rightarrow> time \<Rightarrow> uuid \<Rightarrow> lesson_progress" where
  "new_progress l uid pos completed i now tid =
     \<lparr>row_id = i, created_at = now, tenant_id = tid, lp_lesson_id = row_id l,
      lp_course_id = les_course_id l, lp_user_id = uid, lp_status = Completed,
      lp_last_position_seconds = pos, lp_completed_at = Some completed\<rparr>"

definition complete_progress :: "int \<Rightarrow> time \<Rightarrow> lesson_progress \<Rightarrow> lesson_progress" where
  "complete_progress pos completed p =
     p\<lparr>lp_status := Completed, lp_completed_at := Some completed, lp_last_position_seconds := pos\<rparr>"

definition complete_lesson :: "'c env \<Rightarrow> uuid \<Rightarrow> uuid \<Rightarrow> int \<Rightarrow> ('c, lesson_progress) io" where
  "complete_lesson x lid uid pos =
     andthen require_tenant (\<lambda>tid.
     andthen (repo_get_or_404 Lesson lid) (\<lambda>l.
     andthen (get_for_user_lesson uid lid) (\<lambda>progress.
     andthen (draw (clock x)) (\<lambda>now.
     andthen (case progress of
         None \<Rightarrow> repo_create x LessonProgress (new_progress l uid pos now)
       | Some p \<Rightarrow> andthen (sql_update LessonProgress (row_id p) (complete_progress pos now)) (\<lambda>_.
                   ret (complete_progress pos now p))) (\<lambda>p.
     andthen (publish_event x (Some tid) (Some uid) (LessonCompletedEvent lid (les_course_id l))) (\<lambda>_.
     ret p))))))"

definition my_progress :: "uuid \<Rightarrow> page_params \<Rightarrow> ('c, lesson_progress list \<times> int) io" where
  "my_progress uid p =
     andthen (progress_for_user uid) (\<lambda>stmt.
     andthen (run_count LessonProgress stmt) (\<lambda>total.
     andthen (run_select LessonProgress (paged (page_offset p) (page_limit p) stmt)) (\<lambda>rows.
     ret (rows, total))))"

section \<open>Completion\<close>

text \<open>What the proofs use of the model of the progress table.\<close>

lemma progress_model:
  "m_name LessonProgress = ''LessonProgress''"
  "m_rows LessonProgress d = t_lesson_progress d" "m_id LessonProgress p = row_id p"
  "m_stored LessonProgress p = p"
  "m_clash LessonProgress p q \<longleftrightarrow> lp_lesson_id p = lp_lesson_id q \<and> lp_user_id p = lp_user_id q"
  by (simp_all add: LessonProgress_def)

definition progress_of :: "uuid \<Rightarrow> uuid \<Rightarrow> uuid \<Rightarrow> database \<Rightarrow> lesson_progress option" where
  "progress_of t uid lid d =
     first_row (live_of LessonProgress t (\<lambda>p. lp_user_id p = uid \<and> lp_lesson_id p = lid) d)"

lemma run_get_for_user_lesson:
  assumes "serving t w" and "consistent LessonProgress (view w)"
  shows "get_for_user_lesson uid lid w = (Inr (progress_of t uid lid (view w)), w)"
  unfolding get_for_user_lesson_def progress_of_def
  by (rule progress_rows.find_run [OF assms]) (simp add: LessonProgress_def)

lemma progress_ofD:
  assumes "progress_of t uid lid d = Some p"
  shows "p \<in> set (t_lesson_progress d)" "lp_user_id p = uid" "lp_lesson_id p = lid" "tenant_id p = t"
  using assms by (auto simp: progress_of_def live_of_def LessonProgress_def dest!: first_row_SomeD)

lemma progress_of_unique:
  assumes "consistent LessonProgress d" and "p \<in> set (t_lesson_progress d)"
    and "lp_user_id p = uid" and "lp_lesson_id p = lid" and "tenant_id p = t"
  shows "progress_of t uid lid d = Some p"
  unfolding progress_of_def
  by (rule progress_rows.found_unique [OF assms(1)]) (use assms(2-5) in \<open>simp_all add: LessonProgress_def\<close>)

lemma live_lesson_id: "live_row Lesson t lid d = Some l \<Longrightarrow> row_id l = lid"
  by (drule lesson_rows.live_row_own) (simp add: Lesson_def)

lemma complete_lesson_start:
  assumes "serving t w" and "consistent Lesson (view w)" and "consistent LessonProgress (view w)"
  shows "complete_lesson x lid uid pos w = (case live_row Lesson t lid (view w) of
     None \<Rightarrow> (Inl (missing Lesson lid), w)
   | Some l \<Rightarrow> andthen (upsert x LessonProgress (new_progress l uid pos (clock x (w_draw w)))
         (complete_progress pos (clock x (w_draw w))) (progress_of t uid lid (view w))) (\<lambda>p.
       andthen (publish_event x (Some t) (Some uid) (LessonCompletedEvent lid (les_course_id l))) (\<lambda>_. ret p))
       (w\<lparr>w_draw := Suc (w_draw w)\<rparr>))"
  by (simp add: complete_lesson_def andthen_require_tenant [OF servingD(3) [OF assms(1)]]
      lesson_rows.andthen_get_or_404 [OF assms(1,2)] upsert_def progress_model act_simps
      andthen_Inr [of "get_for_user_lesson uid lid", OF run_get_for_user_lesson [OF assms(1,3)]]
      split: option.split)

text \<open>
  C26. Completing a lesson is an upsert. When it returns, the lesson is a live one of the tenant and the
  learner has exactly one progress row for it, with status completed, the time of the request as its time of
  completion and the position of the request: a new row for the lesson, its course and the learner when there
  was none, and otherwise the old row with these three columns set, every other row being as before.
\<close>

theorem complete_lesson_upsert:
  assumes "serving t w" and "steady w" and "consistent Lesson (view w)" and "consistent LessonProgress (view w)"
    and "complete_lesson x lid uid pos w = (Inr p, w')"
  shows "\<exists>l. live_row Lesson t lid (view w) = Some l \<and>
    (case progress_of t uid lid (view w) of
       None \<Rightarrow> p = \<lparr>row_id = uuid4 x (Suc (w_draw w)), created_at = w_now w, tenant_id = t, lp_lesson_id = lid,
                 lp_course_id = les_course_id l, lp_user_id = uid, lp_status = Completed,
                 lp_last_position_seconds = pos, lp_completed_at = Some (clock x (w_draw w))\<rparr> \<and>
               t_lesson_progress (view w') = t_lesson_progress (view w) @ [p]
     | Some q \<Rightarrow> p = q\<lparr>lp_status := Completed, lp_completed_at := Some (clock x (w_draw w)),
                 lp_last_position_seconds := pos\<rparr> \<and>
               t_lesson_progress (view w') = map (\<lambda>r. if r = q then p else r) (t_lesson_progress (view w))) \<and>
    progress_of t uid lid (view w') = Some p"
proof -
  let ?w = "w\<lparr>w_draw := Suc (w_draw w)\<rparr>"
  let ?now = "clock x (w_draw w)"
  let ?old = "progress_of t uid lid (view w)"
  obtain l where l: "live_row Lesson t lid (view w) = Some l"
    using assms(5) by (cases "live_row Lesson t lid (view w)") (simp_all add: complete_lesson_start [OF assms(1,3,4)])
  with assms(5) obtain p1 w1 where
    step: "upsert x LessonProgress (new_progress l uid pos ?now) (complete_progress pos ?now) ?old ?w = (Inr p1, w1)"
    and pub: "andthen (publish_event x (Some t) (Some uid) (LessonCompletedEvent lid (les_course_id l))) (\<lambda>_. ret p1) w1 = (Inr p, w')"
    by (auto simp: complete_lesson_start [OF assms(1,3,4)] elim: andthen_InrE)
  have start: "serving t ?w" "steady ?w" "consistent LessonProgress (view ?w)"
    "?old = first_row (live_of LessonProgress t (\<lambda>p. lp_user_id p = uid \<and> lp_lesson_id p = lid) (view ?w))"
    using assms by (simp_all add: progress_of_def)
  note ok = progress_rows.upsert_ok [OF start _ _ step]
  have f: "m_id LessonProgress (complete_progress pos ?now r) = m_id LessonProgress r"
    "m_clash LessonProgress (complete_progress pos ?now r) s = m_clash LessonProgress r s" for r s
    by (simp_all add: progress_model complete_progress_def)
  note ok = ok [OF f]
  note pub = publish_done [OF pub ok(2)]
  have p: "p = (case ?old of None \<Rightarrow> new_progress l uid pos ?now (uuid4 x (Suc (w_draw w))) (w_now w) t
      | Some q \<Rightarrow> complete_progress pos ?now q)"
    using ok(5) pub(1) by (simp split: option.split)
  have rows: "t_lesson_progress (view w') = (case ?old of None \<Rightarrow> t_lesson_progress (view w) @ [p]
      | Some q \<Rightarrow> map (\<lambda>r. if r = q then p else r) (t_lesson_progress (view w)))"
    using no_logs_eq(18) [OF pub(2)] ok(4) pub(1)
    by (cases ?old) (simp_all add: upserted_def LessonProgress_def)
  have "consistent LessonProgress (view w')"
    using ok(3) progress_rows.consistent_no_logs [OF pub(2)] by simp
  moreover have "p \<in> set (t_lesson_progress (view w'))"
    unfolding rows using progress_ofD(1) by (auto split: option.splits)
  moreover have "lp_user_id p = uid \<and> lp_lesson_id p = lid \<and> tenant_id p = t"
    using p progress_ofD(2-4) live_lesson_id [OF l]
    by (auto simp: new_progress_def complete_progress_def split: option.splits)
  ultimately have "progress_of t uid lid (view w') = Some p"
    by (intro progress_of_unique) auto
  then show ?thesis
    using l p rows live_lesson_id [OF l] by (auto simp: new_progress_def complete_progress_def split: option.splits)
qed

lemma school_learning:
  "consistent Lesson (view school_world)" "consistent LessonProgress (view school_world)"
  "progress_of 1 6 30 sample_school = Some school_progress"
  "t_lesson_progress sample_school = [school_progress]"
  by (simp_all add: consistent_def sample_school_def Lesson_def LessonProgress_def school_lesson_def
      school_progress_def progress_of_def live_of_def)

lemma school_complete: "\<not> isl (fst (complete_lesson sample_env 30 6 99 school_world))"
  by code_simp

theorem complete_lesson_upsert_witness:
  "\<exists>p w. complete_lesson sample_env 30 6 99 school_world = (Inr p, w) \<and>
     t_lesson_progress (view w) = [p] \<and> row_id p = row_id school_progress \<and> lp_status p = Completed"
proof -
  obtain p w where run: "complete_lesson sample_env 30 6 99 school_world = (Inr p, w)"
    using school_complete
    by (cases "complete_lesson sample_env 30 6 99 school_world";
        cases "fst (complete_lesson sample_env 30 6 99 school_world)") auto
  from complete_lesson_upsert [OF school_catalog(1,2) school_learning(1,2) run] run show ?thesis
    by (auto simp: school_learning(3,4))
qed

end
