(* ===== verification/Decimal.thy ===== *)
theory Decimal
  imports Numbers
begin

text \<open>
  Arithmetic of Python's \<^verbatim>\<open>decimal.Decimal\<close> in its default context: the exact result is rounded to 28
  significant digits, to the nearest, ties to even. Rounding is monotone and keeps every number that
  has few enough digits, so a quotient of two numbers in order is at most 1 and its product with a
  number is at most that number.
\<close>

section \<open>Powers of ten and the leading digit\<close>

definition p10 :: "int \<Rightarrow> rat" where
  "p10 e = (if 0 \<le> e then 10 ^ nat e else 1 / 10 ^ nat (- e))"

fun digits :: "nat \<Rightarrow> nat" where
  "digits n = (if n = 0 then 0 else Suc (digits (n div 10)))"

declare digits.simps [simp del]

text \<open>\<^verbatim>\<open>adjusted()\<close>: the exponent of the leading digit of a positive number.\<close>

definition adjusted :: "rat \<Rightarrow> int" where
  "adjusted x = (if 1 \<le> x then int (digits (nat \<lfloor>x\<rfloor>)) - 1
                 else - int (digits (nat (\<lceil>1 / x\<rceil> - 1))))"

definition round_even :: "rat \<Rightarrow> int" where
  "round_even y = (let f = \<lfloor>y\<rfloor>; r = y - of_int f
     in if r < 1 / 2 then f else if 1 / 2 < r then f + 1 else if even f then f else f + 1)"

text \<open>The context of the program: 28 digits.\<close>

definition dec_round :: "rat \<Rightarrow> rat" where
  "dec_round x = (if x = 0 then 0
     else let q = p10 (adjusted \<bar>x\<bar> - 27) in sgn x * of_int (round_even (\<bar>x\<bar> / q)) * q)"

definition dec_add :: "rat \<Rightarrow> rat \<Rightarrow> rat" where
  "dec_add a b = dec_round (a + b)"

definition dec_mult :: "rat \<Rightarrow> rat \<Rightarrow> rat" where
  "dec_mult a b = dec_round (a * b)"

definition dec_div :: "rat \<Rightarrow> rat \<Rightarrow> rat" where
  "dec_div a b = dec_round (a / b)"

section \<open>Facts\<close>

lemma p10_pos [simp]: "0 < p10 e"
  by (simp add: p10_def)

lemma p10_nonneg_int: "0 \<le> e \<Longrightarrow> p10 e = of_int (10 ^ nat e)"
  by (simp add: p10_def)

lemma p10_add: "p10 (a + b) = p10 a * p10 b"
proof -
  have "p10 e = 10 powi e" for e
    by (simp add: p10_def power_int_def inverse_eq_divide power_one_over)
  then show ?thesis by (simp add: power_int_add)
qed

lemma p10_neq0 [simp]: "p10 e \<noteq> 0"
  using p10_pos [of e] by (metis less_irrefl)

lemma p10_nonneg [simp]: "0 \<le> p10 e"
  using p10_pos [of e] by (rule less_imp_le)

lemma p10_shift: "a \<le> b \<Longrightarrow> p10 b = of_int (10 ^ nat (b - a)) * p10 a"
  using p10_add [of "b - a" a] by (simp add: p10_nonneg_int)

lemma p10_mono: "a \<le> b \<Longrightarrow> p10 a \<le> p10 b"
  using mult_right_mono [OF _ p10_nonneg, of 1 "10 ^ nat (b - a)" a] by (simp add: p10_shift)

lemma digits_bounds: "0 < n \<Longrightarrow> 10 ^ (digits n - 1) \<le> n \<and> n < 10 ^ digits n"
proof (induction n rule: digits.induct)
  case (1 n)
  show ?case
  proof (cases "n div 10 = 0")
    case True
    then have "n < 10" by simp
    with 1(2) True show ?thesis by (simp add: digits.simps)
  next
    case False
    with 1 have ih: "10 ^ (digits (n div 10) - 1) \<le> n div 10" "n div 10 < 10 ^ digits (n div 10)"
      by auto
    have d: "digits n = Suc (digits (n div 10))" and pos: "0 < digits (n div 10)"
      using 1(2) False by (auto simp: digits.simps)
    have "10 ^ digits (n div 10) = 10 * 10 ^ (digits (n div 10) - 1)"
      using pos by (cases "digits (n div 10)") simp_all
    also have "\<dots> \<le> n" using ih(1) by linarith
    finally have "10 ^ digits (n div 10) \<le> n" .
    moreover have "n < 10 * 10 ^ digits (n div 10)" using ih(2) by linarith
    ultimately show ?thesis by (simp add: d)
  qed
qed

lemma adjusted_bounds:
  assumes "0 < x"
  shows "p10 (adjusted x) \<le> x \<and> x < p10 (adjusted x + 1)"
proof (cases "1 \<le> x")
  case True
  let ?n = "nat \<lfloor>x\<rfloor>"
  have n: "0 < ?n" using True by (simp add: le_floor_iff)
  note b = digits_bounds [OF n]
  have pos: "0 < digits ?n" using n by (simp add: digits.simps)
  have "(10::rat) ^ (digits ?n - 1) \<le> of_nat ?n"
    using b by (metis of_nat_le_iff of_nat_numeral of_nat_power)
  also have "of_nat ?n \<le> x" using True by (simp add: of_nat_nat)
  finally have lo: "10 ^ (digits ?n - 1) \<le> x" .
  have "x < of_nat ?n + 1" using True by (simp add: of_nat_nat) linarith
  also have "\<dots> \<le> 10 ^ digits ?n"
    using b by (metis Suc_leI of_nat_Suc of_nat_le_iff of_nat_numeral of_nat_power add.commute)
  finally have hi: "x < 10 ^ digits ?n" .
  show ?thesis using lo hi pos True
    by (simp add: adjusted_def p10_def nat_diff_distrib)
next
  case False
  let ?n = "nat (\<lceil>1 / x\<rceil> - 1)"
  have "1 < 1 / x" using assms False by (simp add: less_divide_eq)
  then have c: "1 < \<lceil>1 / x\<rceil>" by linarith
  then have n: "0 < ?n" by simp
  note b = digits_bounds [OF n]
  have pos: "0 < digits ?n" using n by (simp add: digits.simps)
  have "1 / x \<le> of_int \<lceil>1 / x\<rceil>" by simp
  also have cn: "(of_int \<lceil>1 / x\<rceil> :: rat) = of_nat ?n + 1"
  proof -
    from c have "0 \<le> \<lceil>1 / x\<rceil> - 1" by (rule less_imp_le [THEN iffD2 [OF diff_ge_0_iff_ge]])
    from of_nat_nat [OF this, where 'a = rat] show ?thesis by linarith
  qed
  also have "\<dots> \<le> 10 ^ digits ?n"
    using b by (metis Suc_leI of_nat_Suc of_nat_le_iff of_nat_numeral of_nat_power add.commute)
  finally have "1 / x \<le> 10 ^ digits ?n" .
  then have lo: "1 / 10 ^ digits ?n \<le> x" using assms by (simp add: field_simps)
  have "(10::rat) ^ (digits ?n - 1) \<le> of_nat ?n"
    using b by (metis of_nat_le_iff of_nat_numeral of_nat_power)
  also have "of_nat ?n = (of_int \<lceil>1 / x\<rceil> :: rat) - 1" using cn by linarith
  also have "\<dots> < 1 / x" by linarith
  finally have hi: "x < 1 / 10 ^ (digits ?n - 1)" using assms by (simp add: field_simps)
  show ?thesis using lo hi pos False
    by (cases "digits ?n = 1") (simp_all add: adjusted_def p10_def nat_diff_distrib of_nat_diff)
qed

lemma adjusted_less:
  assumes "0 < x" and "x < p10 (e + 1)"
  shows "adjusted x \<le> e"
proof (rule ccontr)
  assume "\<not> adjusted x \<le> e"
  then have "p10 (e + 1) \<le> p10 (adjusted x)" by (intro p10_mono) linarith
  with adjusted_bounds [OF assms(1)] assms(2) show False by linarith
qed

lemma round_even_le: "y \<le> of_int n \<Longrightarrow> round_even y \<le> n"
  unfolding round_even_def Let_def by (auto; linarith)

lemma round_even_ge: "of_int n \<le> y \<Longrightarrow> n \<le> round_even y"
  unfolding round_even_def Let_def by (auto; linarith)

lemma round_even_int [simp]: "round_even (of_int n) = n"
  by (simp add: round_even_def)

lemma round_even_mono:
  assumes "x \<le> y"
  shows "round_even x \<le> round_even y"
proof (cases "\<lfloor>x\<rfloor> = \<lfloor>y\<rfloor>")
  case True
  with assms show ?thesis by (auto simp: round_even_def Let_def)
next
  case False
  then have "\<lfloor>x\<rfloor> + 1 \<le> \<lfloor>y\<rfloor>" using assms floor_mono [OF assms] by linarith
  then have "of_int (\<lfloor>x\<rfloor> + 1) \<le> y" by (simp only: le_floor_iff)
  moreover have "x \<le> of_int (\<lfloor>x\<rfloor> + 1)" by linarith
  ultimately show ?thesis using round_even_le round_even_ge order_trans by blast
qed

text \<open>A multiple of the last place is kept; the result never passes one.\<close>

lemma dec_round_le:
  assumes "0 < x" and "x \<le> of_int m * p10 e" and "adjusted x - 27 \<le> e"
  shows "dec_round x \<le> of_int m * p10 e"
proof -
  let ?q = "p10 (adjusted x - 27)"
  have m: "of_int m * p10 e = of_int (m * 10 ^ nat (e - (adjusted x - 27))) * ?q"
    by (simp add: p10_shift [OF assms(3)])
  then have y: "of_int m * p10 e / ?q = of_int (m * 10 ^ nat (e - (adjusted x - 27)))"
    by (metis nonzero_eq_divide_eq p10_neq0)
  have "x / ?q \<le> of_int m * p10 e / ?q" using assms(2) by (simp add: divide_right_mono less_imp_le)
  then have "round_even (x / ?q) \<le> m * 10 ^ nat (e - (adjusted x - 27))"
    unfolding y by (rule round_even_le)
  then have "of_int (round_even (x / ?q)) * ?q \<le> of_int (m * 10 ^ nat (e - (adjusted x - 27))) * ?q"
    by (intro mult_right_mono) (simp_all only: of_int_le_iff less_imp_le p10_pos)
  also have "\<dots> = of_int m * p10 e" by (rule m [symmetric])
  finally show ?thesis using assms(1) by (simp add: dec_round_def Let_def)
qed

lemma dec_round_ge:
  assumes "0 < x" and "of_int m * p10 e \<le> x" and "adjusted x - 27 \<le> e"
  shows "of_int m * p10 e \<le> dec_round x"
proof -
  let ?q = "p10 (adjusted x - 27)"
  have m: "of_int m * p10 e = of_int (m * 10 ^ nat (e - (adjusted x - 27))) * ?q"
    by (simp add: p10_shift [OF assms(3)])
  then have y: "of_int m * p10 e / ?q = of_int (m * 10 ^ nat (e - (adjusted x - 27)))"
    by (metis nonzero_eq_divide_eq p10_neq0)
  have "of_int m * p10 e / ?q \<le> x / ?q" using assms(2) by (simp add: divide_right_mono less_imp_le)
  then have "m * 10 ^ nat (e - (adjusted x - 27)) \<le> round_even (x / ?q)"
    unfolding y by (rule round_even_ge)
  then have "of_int (m * 10 ^ nat (e - (adjusted x - 27))) * ?q \<le> of_int (round_even (x / ?q)) * ?q"
    by (intro mult_right_mono) (simp_all only: of_int_le_iff less_imp_le p10_pos)
  then have "of_int m * p10 e \<le> of_int (round_even (x / ?q)) * ?q" by (simp only: m)
  then show ?thesis using assms(1) by (simp add: dec_round_def Let_def)
qed

lemma dec_round_exact:
  assumes "0 < of_int m * p10 e" and "adjusted (of_int m * p10 e) - 27 \<le> e"
  shows "dec_round (of_int m * p10 e) = of_int m * p10 e"
  by (rule order_antisym; rule dec_round_le [OF assms(1) _ assms(2)] dec_round_ge [OF assms(1) _ assms(2)]) simp_all

lemma dec_round_zero [simp]: "dec_round 0 = 0"
  by (simp add: dec_round_def)

lemma dec_round_nonneg: "0 \<le> x \<Longrightarrow> 0 \<le> dec_round x"
proof (cases "x = 0")
  case False
  assume "0 \<le> x"
  with False have "0 \<le> round_even (x / p10 (adjusted x - 27))"
    by (intro round_even_ge) (simp add: divide_nonneg_pos)
  with False \<open>0 \<le> x\<close> show ?thesis by (simp add: dec_round_def Let_def less_imp_le)
qed simp

lemma dec_round_mono:
  assumes "0 \<le> x" and "x \<le> y"
  shows "dec_round x \<le> dec_round y"
proof (cases "x = 0")
  case True
  with assms show ?thesis by (simp add: dec_round_nonneg)
next
  case False
  with assms have pos: "0 < x" "0 < y" by linarith+
  note bx = adjusted_bounds [OF pos(1)] and bounds = adjusted_bounds [OF pos(2)]
  show ?thesis
  proof (cases "adjusted x = adjusted y")
    case True
    have "round_even (x / p10 (adjusted y - 27)) \<le> round_even (y / p10 (adjusted y - 27))"
      using assms(2) by (intro round_even_mono) (simp add: divide_right_mono less_imp_le)
    with True pos show ?thesis
      by (simp add: dec_round_def Let_def mult_right_mono less_imp_le)
  next
    case False
    have "adjusted x \<le> adjusted y"
      using adjusted_less [OF pos(1), of "adjusted y"] assms(2) bounds by linarith
    with False have le: "adjusted x + 1 \<le> adjusted y" by linarith
    have "dec_round x \<le> p10 (adjusted x + 1)"
      using dec_round_le [OF pos(1), of 1 "adjusted x + 1"] bx by simp
    also have "\<dots> \<le> p10 (adjusted y)" by (rule p10_mono [OF le])
    also have "\<dots> \<le> dec_round y"
      using dec_round_ge [OF pos(2), of 1 "adjusted y"] bounds by simp
    finally show ?thesis .
  qed
qed

text \<open>Rounding twice changes nothing.\<close>

lemma dec_round_pos_le:
  assumes "0 < x"
  shows "dec_round x \<le> p10 (adjusted x + 1)"
  using dec_round_le [OF assms, of 1 "adjusted x + 1"] adjusted_bounds [OF assms] by simp

lemma dec_round_idem:
  assumes "0 \<le> x"
  shows "dec_round (dec_round x) = dec_round x"
proof (cases "dec_round x = 0")
  case True
  then show ?thesis by simp
next
  case False
  then have x: "0 < x" using assms by (cases "x = 0") simp_all
  have pos: "0 < dec_round x" using dec_round_nonneg [OF assms] False by simp
  show ?thesis
  proof (cases "dec_round x = p10 (adjusted x + 1)")
    case True
    then have "dec_round x = of_int 1 * p10 (adjusted x + 1)" by simp
    moreover have "adjusted (dec_round x) \<le> adjusted x + 1"
      using pos by (rule adjusted_less)
        (use p10_shift [of "adjusted x + 1" "adjusted x + 1 + 1"] p10_pos [of "adjusted x + 1"] in \<open>simp add: True\<close>)
    ultimately show ?thesis
      using pos by (metis dec_round_exact diff_le_eq le_add_same_cancel1 order_trans zero_le_numeral add.commute)
  next
    case False
    then have "dec_round x < p10 (adjusted x + 1)" using dec_round_pos_le [OF x] by simp
    with pos have "adjusted (dec_round x) \<le> adjusted x" by (rule adjusted_less)
    moreover have "dec_round x = of_int (round_even (x / p10 (adjusted x - 27))) * p10 (adjusted x - 27)"
      using x by (simp add: dec_round_def Let_def)
    ultimately show ?thesis using pos by (metis dec_round_exact diff_right_mono)
  qed
qed

text \<open>A running total of numbers that are not negative grows.\<close>

lemma dec_add_grows:
  assumes "0 \<le> a" and "dec_round a = a" and "0 \<le> b"
  shows "a \<le> dec_add a b" and "dec_round (dec_add a b) = dec_add a b"
  using dec_round_mono [of a "a + b"] dec_round_idem [of "a + b"] assms by (simp_all add: dec_add_def)

lemma dec_add_mono: "0 \<le> a \<Longrightarrow> a \<le> b \<Longrightarrow> 0 \<le> c \<Longrightarrow> dec_add a c \<le> dec_add b c"
  by (simp add: dec_add_def dec_round_mono)

text \<open>What the scaling of a mark relies on.\<close>

lemma dec_one [simp]: "dec_round 1 = 1"
proof -
  have "adjusted 1 \<le> 0" by (rule adjusted_less) (simp_all add: p10_def)
  then show ?thesis using dec_round_exact [of 1 0] by (simp add: p10_def)
qed

lemma dec_div_le_one: "0 \<le> a \<Longrightarrow> a \<le> b \<Longrightarrow> dec_div a b \<le> 1"
  using dec_round_mono [of "a / b" 1] by (cases "b = 0") (simp_all add: dec_div_def divide_le_eq)

text \<open>A number of two places and at most 25 digits before the point, such as a \<^verbatim>\<open>NUMERIC(6, 2)\<close>.\<close>

lemma dec_round_places:
  assumes "0 \<le> x" and "x = of_int n / 100" and "x < p10 25"
  shows "dec_round x = x"
proof (cases "x = 0")
  case False
  with assms(1) have "0 < x" by simp
  have x: "x = of_int n * p10 (- 2)" by (simp add: assms(2) p10_def)
  have "adjusted x \<le> 24" by (rule adjusted_less [OF \<open>0 < x\<close>]) (use assms(3) in simp)
  then show ?thesis using dec_round_exact [of n "- 2"] \<open>0 < x\<close> by (simp flip: x)
qed simp

lemma dec_mult_le:
  assumes "0 \<le> q" and "q \<le> 1" and "0 \<le> m" and "m = of_int n / 100" and "m < p10 25"
  shows "dec_mult q m \<le> m"
  using dec_round_mono [of "q * m" m] dec_round_places [OF assms(3-5)] assms(1-3)
  by (simp add: dec_mult_def mult_left_le_one_le)

end
