(* ===== verification/Assignments.thy ===== *)
theory Assignments
  imports Learning Decimal
begin

text \<open>
  Assignments, submissions and grades, \<^verbatim>\<open>app/modules/assignments\<close>: the tables, the lists, submitting
  with automatic grading of a quiz, and grading by hand. Marks are computed in Python's decimal
  arithmetic (\<open>dec_add\<close>, \<open>dec_div\<close>, \<open>dec_mult\<close>) and rounded to two places when they are stored.
\<close>

section \<open>Models\<close>

definition assignment_exists :: "database \<Rightarrow> uuid \<Rightarrow> bool" where
  "assignment_exists d i \<longleftrightarrow> list_ex (\<lambda>r. row_id r = i) (t_assignments d)"

definition quiz_exists :: "database \<Rightarrow> uuid \<Rightarrow> bool" where
  "quiz_exists d i \<longleftrightarrow> list_ex (\<lambda>r. row_id r = i) (t_quizzes d)"

definition question_exists :: "database \<Rightarrow> uuid \<Rightarrow> bool" where
  "question_exists d i \<longleftrightarrow> list_ex (\<lambda>r. row_id r = i) (t_quiz_questions d)"

definition submission_exists :: "database \<Rightarrow> uuid \<Rightarrow> bool" where
  "submission_exists d i \<longleftrightarrow> list_ex (\<lambda>r. row_id r = i) (t_submissions d)"

fun type_rank :: "assignment_type \<Rightarrow> int" where
  "type_rank PlainAssignment = 0"
| "type_rank QuizAssignment = 1"

definition assignment_column :: "string \<Rightarrow> assignment attribute" where
  "assignment_column name =
     (if name = ''course_id'' then Column (\<lambda>r. cell_uuid (asg_course_id r))
      else if name = ''title'' then Column (\<lambda>r. CellText (asg_title r))
      else if name = ''description'' then Column (\<lambda>r. cell_option CellText (asg_description r))
      else if name = ''type'' then Column (\<lambda>r. CellInt (type_rank (asg_type r)))
      else if name = ''max_points'' then Column (\<lambda>r. CellInt \<lfloor>asg_max_points r * 100\<rfloor>)
      else if name = ''pass_points'' then Column (\<lambda>r. CellInt \<lfloor>asg_pass_points r * 100\<rfloor>)
      else if name = ''due_at'' then Column (\<lambda>r. cell_option cell_time (asg_due_at r))
      else if name = ''is_published'' then Column (\<lambda>r. cell_bool (asg_is_published r))
      else soft_column name)"

definition Assignment :: "assignment model" where
  "Assignment =
     \<lparr>m_name = ''Assignment'', m_rows = t_assignments, m_put = (\<lambda>rs d. d\<lparr>t_assignments := rs\<rparr>),
      m_id = row_id, m_owner = Some tenant_id, m_deleted = Some deleted_at,
      m_mark_deleted = (\<lambda>now r. r\<lparr>deleted_at := Some now\<rparr>), m_clash = (\<lambda>_ _. False),
      m_fits = (\<lambda>r. length (asg_title r) \<le> 200 \<and> numeric_fits 6 2 (asg_max_points r) \<and>
                    numeric_fits 6 2 (asg_pass_points r)),
      m_refs = (\<lambda>d r. tenant_exists d (tenant_id r) \<and> course_exists d (asg_course_id r)),
      m_stored = (\<lambda>r. r\<lparr>asg_max_points := round_to 2 (asg_max_points r),
                        asg_pass_points := round_to 2 (asg_pass_points r)\<rparr>),
      m_column = assignment_column, m_search = (\<lambda>_ _. True)\<rparr>"

definition Quiz :: "quiz model" where
  "Quiz =
     \<lparr>m_name = ''Quiz'', m_rows = t_quizzes, m_put = (\<lambda>rs d. d\<lparr>t_quizzes := rs\<rparr>), m_id = row_id,
      m_owner = Some tenant_id, m_deleted = None, m_mark_deleted = (\<lambda>_ r. r),
      m_clash = (\<lambda>r s. quiz_assignment_id r = quiz_assignment_id s),
      m_fits = (\<lambda>r. int4 (quiz_time_limit_seconds r)),
      m_refs = (\<lambda>d r. tenant_exists d (tenant_id r) \<and> assignment_exists d (quiz_assignment_id r)),
      m_stored = id, m_column = tenant_column, m_search = (\<lambda>_ _. True)\<rparr>"

definition QuizQuestion :: "quiz_question model" where
  "QuizQuestion =
     \<lparr>m_name = ''QuizQuestion'', m_rows = t_quiz_questions,
      m_put = (\<lambda>rs d. d\<lparr>t_quiz_questions := rs\<rparr>), m_id = row_id, m_owner = Some tenant_id,
      m_deleted = None, m_mark_deleted = (\<lambda>_ r. r), m_clash = (\<lambda>_ _. False),
      m_fits = (\<lambda>r. numeric_fits 6 2 (qq_points r) \<and> int4 (qq_order_index r)),
      m_refs = (\<lambda>d r. tenant_exists d (tenant_id r) \<and> quiz_exists d (qq_quiz_id r)),
      m_stored = (\<lambda>r. r\<lparr>qq_points := round_to 2 (qq_points r)\<rparr>), m_column = tenant_column,
      m_search = (\<lambda>_ _. True)\<rparr>"

definition QuizAnswer :: "quiz_answer model" where
  "QuizAnswer =
     \<lparr>m_name = ''QuizAnswer'', m_rows = t_quiz_answers, m_put = (\<lambda>rs d. d\<lparr>t_quiz_answers := rs\<rparr>),
      m_id = row_id, m_owner = Some tenant_id, m_deleted = None, m_mark_deleted = (\<lambda>_ r. r),
      m_clash = (\<lambda>_ _. False), m_fits = (\<lambda>_. True),
      m_refs = (\<lambda>d r. tenant_exists d (tenant_id r) \<and> question_exists d (qa_question_id r)),
      m_stored = id, m_column = tenant_column, m_search = (\<lambda>_ _. True)\<rparr>"

definition Submission :: "submission model" where
  "Submission =
     \<lparr>m_name = ''Submission'', m_rows = t_submissions, m_put = (\<lambda>rs d. d\<lparr>t_submissions := rs\<rparr>),
      m_id = row_id, m_owner = Some tenant_id, m_deleted = None, m_mark_deleted = (\<lambda>_ r. r),
      m_clash = (\<lambda>_ _. False), m_fits = (\<lambda>r. width 1000 (sub_file_url r)),
      m_refs = (\<lambda>d r. tenant_exists d (tenant_id r) \<and> assignment_exists d (sub_assignment_id r) \<and>
                      user_exists d (sub_user_id r)),
      m_stored = id, m_column = tenant_column, m_search = (\<lambda>_ _. True)\<rparr>"

definition Grade :: "grade model" where
  "Grade =
     \<lparr>m_name = ''Grade'', m_rows = t_grades, m_put = (\<lambda>rs d. d\<lparr>t_grades := rs\<rparr>), m_id = row_id,
      m_owner = Some tenant_id, m_deleted = None, m_mark_deleted = (\<lambda>_ r. r),
      m_clash = (\<lambda>r s. gr_submission_id r = gr_submission_id s),
      m_fits = (\<lambda>r. numeric_fits 6 2 (gr_points r) \<and> numeric_fits 6 2 (gr_max_points r)),
      m_refs = (\<lambda>d r. tenant_exists d (tenant_id r) \<and> submission_exists d (gr_submission_id r) \<and>
                      assignment_exists d (gr_assignment_id r)),
      m_stored = (\<lambda>r. r\<lparr>gr_points := round_to 2 (gr_points r), gr_max_points := round_to 2 (gr_max_points r)\<rparr>),
      m_column = tenant_column, m_search = (\<lambda>_ _. True)\<rparr>"

interpretation assignment_rows: quiet_table Assignment tenant_id
  by unfold_locales (simp_all add: Assignment_def foreign_def foreign_links_def others_def)

interpretation quiz_rows: quiet_table Quiz tenant_id
  by unfold_locales (simp_all add: Quiz_def foreign_def foreign_links_def others_def)

interpretation question_rows: quiet_table QuizQuestion tenant_id
  by unfold_locales (simp_all add: QuizQuestion_def foreign_def foreign_links_def others_def)

interpretation answer_rows: quiet_table QuizAnswer tenant_id
  by unfold_locales (simp_all add: QuizAnswer_def foreign_def foreign_links_def others_def)

interpretation submission_rows: quiet_table Submission tenant_id
  by unfold_locales (simp_all add: Submission_def foreign_def foreign_links_def others_def)

interpretation grade_rows: quiet_table Grade tenant_id
  by unfold_locales (simp_all add: Grade_def foreign_def foreign_links_def others_def)

section \<open>Repositories and relationships\<close>

record assignment_filter = page_params +
  af_course_id :: "uuid option"
  af_type :: "assignment_type option"

definition assignments_filtered :: "assignment_filter \<Rightarrow> bool \<Rightarrow> assignment select \<Rightarrow> assignment select" where
  "assignments_filtered f published_only s0 =
     (let s1 = (case af_course_id f of None \<Rightarrow> s0 | Some c \<Rightarrow> and_where (\<lambda>a. asg_course_id a = c) s0);
          s2 = (case af_type f of None \<Rightarrow> s1 | Some k \<Rightarrow> and_where (\<lambda>a. asg_type a = k) s1);
          s3 = (if published_only then and_where (\<lambda>a. asg_is_published a) s2 else s2)
      in order_by True (\<lambda>a. cell_time (created_at a)) s3)"

definition get_by_submission :: "uuid \<Rightarrow> ('c, grade option) io" where
  "get_by_submission sid = repo_find Grade (\<lambda>g. gr_submission_id g = sid)"

definition grades_for_user :: "uuid \<Rightarrow> ('c, grade select) io" where
  "grades_for_user uid =
     andthen (repo_select Grade) (\<lambda>s.
     ret (order_by True (\<lambda>g. cell_time (gr_graded_at g)) (and_where (\<lambda>g. gr_user_id g = uid) s)))"

text \<open>
  What is loaded with an assignment: its quiz, the questions in order, and the answers of each. Row
  level security filters them and nothing else.
\<close>

type_synonym quiz_paper = "(quiz_question \<times> quiz_answer list) list"

definition question_answers :: "'c world \<Rightarrow> quiz_question \<Rightarrow> quiz_answer list" where
  "question_answers w q = related QuizAnswer (\<lambda>a. qa_question_id a = row_id q) w"

definition quiz_paper :: "'c world \<Rightarrow> quiz \<Rightarrow> quiz_paper" where
  "quiz_paper w z = map (\<lambda>q. (q, question_answers w q))
     (sort_key qq_order_index (related QuizQuestion (\<lambda>q. qq_quiz_id q = row_id z) w))"

definition quiz_of :: "'c world \<Rightarrow> assignment \<Rightarrow> (quiz \<times> quiz_paper) option" where
  "quiz_of w a = map_option (\<lambda>z. (z, quiz_paper w z))
     (first_row (related Quiz (\<lambda>z. quiz_assignment_id z = row_id a) w))"

definition grade_of :: "'c world \<Rightarrow> submission \<Rightarrow> grade option" where
  "grade_of w s = first_row (related Grade (\<lambda>g. gr_submission_id g = row_id s) w)"

section \<open>Lists\<close>

definition list_assignments :: "assignment_filter \<Rightarrow> bool \<Rightarrow> ('c, assignment list \<times> int) io" where
  "list_assignments f published_only =
     andthen (repo_select Assignment) (\<lambda>s0.
       let stmt = assignments_filtered f published_only s0
       in andthen (run_count Assignment stmt) (\<lambda>total.
          andthen (run_select Assignment (paged (page_offset f) (page_limit f) stmt)) (\<lambda>rows.
          ret (rows, total))))"

definition get_assignment :: "uuid \<Rightarrow> ('c, assignment) io" where
  "get_assignment aid = repo_get_or_404 Assignment aid"

definition list_grades :: "uuid \<Rightarrow> page_params \<Rightarrow> ('c, grade list \<times> int) io" where
  "list_grades uid p =
     andthen (grades_for_user uid) (\<lambda>stmt.
     andthen (run_count Grade stmt) (\<lambda>total.
     andthen (run_select Grade (paged (page_offset p) (page_limit p) stmt)) (\<lambda>rows.
     ret (rows, total))))"

definition list_submissions_for_assignment :: "uuid \<Rightarrow> ('c, submission list) io" where
  "list_submissions_for_assignment aid =
     andthen (repo_select Submission) (\<lambda>s.
     run_select Submission (order_by True (\<lambda>r. cell_time (submitted_at r))
       (and_where (\<lambda>r. sub_assignment_id r = aid) s)))"

section \<open>Grading\<close>

text \<open>The grade of a submission that has none yet, and the columns a new grading overwrites.\<close>

definition new_grade :: "submission \<Rightarrow> rat \<Rightarrow> rat \<Rightarrow> bool \<Rightarrow> uuid option \<Rightarrow> string option \<Rightarrow> time
    \<Rightarrow> uuid \<Rightarrow> time \<Rightarrow> uuid \<Rightarrow> grade" where
  "new_grade s points max_points auto grader feedback graded i now tid =
     \<lparr>row_id = i, created_at = now, tenant_id = tid, gr_submission_id = row_id s,
      gr_assignment_id = sub_assignment_id s, gr_user_id = sub_user_id s, gr_points = points,
      gr_max_points = max_points, gr_feedback = feedback, gr_is_auto = auto, gr_graded_by = grader,
      gr_graded_at = graded\<rparr>"

definition regrade :: "rat \<Rightarrow> bool \<Rightarrow> uuid option \<Rightarrow> string option \<Rightarrow> time \<Rightarrow> grade \<Rightarrow> grade" where
  "regrade points auto grader feedback graded g =
     g\<lparr>gr_points := points,
       gr_feedback := (case feedback of None \<Rightarrow> gr_feedback g | Some f \<Rightarrow> Some f),
       gr_is_auto := auto, gr_graded_by := grader, gr_graded_at := graded\<rparr>"

text \<open>
  \<^verbatim>\<open>_record_grade\<close>. The flush sends the status of the submission first (unless it is the stored one
  already), then the grade, as the mapper orders the two tables.
\<close>

definition record_grade :: "'c env \<Rightarrow> submission \<Rightarrow> rat \<Rightarrow> rat \<Rightarrow> bool \<Rightarrow> uuid option \<Rightarrow> string option
    \<Rightarrow> ('c, grade) io" where
  "record_grade x s points max_points auto grader feedback =
     andthen require_tenant (\<lambda>tid.
     andthen (draw (clock x)) (\<lambda>now.
     andthen (get_by_submission (row_id s)) (\<lambda>old.
     andthen (if sub_status s = Graded then ret ()
              else sql_update Submission (row_id s) (\<lambda>r. r\<lparr>sub_status := Graded\<rparr>)) (\<lambda>_.
     andthen (case old of
         None \<Rightarrow> repo_create x Grade (new_grade s points max_points auto grader feedback now)
       | Some g \<Rightarrow> andthen (sql_update Grade (row_id g) (regrade points auto grader feedback now)) (\<lambda>_.
                   ret (regrade points auto grader feedback now g))) (\<lambda>g.
     andthen (publish_event x (Some tid) (Some (sub_user_id s)) (SubmissionGradedEvent (row_id s) points auto)) (\<lambda>_.
     ret g))))))"

text \<open>The loop of \<^verbatim>\<open>_auto_grade\<close>: the marks earned and the marks possible so far.\<close>

type_synonym answer_sheet = "(uuid \<times> uuid list) list"

definition selected :: "answer_sheet \<Rightarrow> quiz_question \<Rightarrow> uuid set" where
  "selected sheet q = (case map_of sheet (row_id q) of None \<Rightarrow> {} | Some as \<Rightarrow> set as)"

definition correct :: "quiz_answer list \<Rightarrow> uuid set" where
  "correct answers = set (map row_id (filter qa_is_correct answers))"

definition answered_right :: "answer_sheet \<Rightarrow> quiz_question \<times> quiz_answer list \<Rightarrow> bool" where
  "answered_right sheet = (\<lambda>(q, answers). selected sheet q \<noteq> {} \<and> selected sheet q = correct answers)"

fun count_marks :: "answer_sheet \<Rightarrow> quiz_paper \<Rightarrow> rat \<times> rat \<Rightarrow> rat \<times> rat" where
  "count_marks sheet [] acc = acc"
| "count_marks sheet (qa # paper) (earned, possible) =
     count_marks sheet paper
       (if answered_right sheet qa then dec_add earned (qq_points (fst qa)) else earned,
        dec_add possible (qq_points (fst qa)))"

definition scaled_points :: "answer_sheet \<Rightarrow> quiz_paper \<Rightarrow> rat \<Rightarrow> rat" where
  "scaled_points sheet paper max_points =
     (case count_marks sheet paper (0, 0) of (earned, possible) \<Rightarrow>
        if possible \<noteq> 0 then dec_mult (dec_div earned possible) max_points else 0)"

definition auto_grade :: "'c env \<Rightarrow> assignment \<Rightarrow> quiz_paper \<Rightarrow> submission \<Rightarrow> answer_sheet \<Rightarrow> ('c, grade) io" where
  "auto_grade x a paper s sheet =
     record_grade x s (scaled_points sheet paper (asg_max_points a)) (asg_max_points a) True None None"

section \<open>Submitting\<close>

record submit_request =
  sr_content :: "string option"
  sr_file_url :: "string option"
  sr_answers :: "answer_sheet option"

definition sheet_of :: "submit_request \<Rightarrow> answer_sheet" where
  "sheet_of d = (case sr_answers d of None \<Rightarrow> [] | Some a \<Rightarrow> a)"

definition new_submission :: "uuid \<Rightarrow> uuid \<Rightarrow> submit_request \<Rightarrow> time \<Rightarrow> uuid \<Rightarrow> time \<Rightarrow> uuid \<Rightarrow> submission" where
  "new_submission aid uid d submitted i now tid =
     \<lparr>row_id = i, created_at = now, tenant_id = tid, sub_assignment_id = aid, sub_user_id = uid,
      sub_content = sr_content d, sub_file_url = sr_file_url d,
      sub_answers = (if sheet_of d = [] then None else Some (sheet_of d)), sub_status = Submitted,
      submitted_at = submitted\<rparr>"

text \<open>
  The result is the submission with its grade. The grade recorded in the same session is the object
  the identity map holds, so its marks are the ones computed, not yet rounded to the column.
\<close>

definition submit :: "'c env \<Rightarrow> uuid \<Rightarrow> uuid \<Rightarrow> submit_request \<Rightarrow> ('c, submission \<times> grade option) io" where
  "submit x aid uid d =
     andthen require_tenant (\<lambda>tid.
     andthen (repo_get_or_404 Assignment aid) (\<lambda>a.
     andthen (asks (\<lambda>w. quiz_of w a)) (\<lambda>quiz.
     andthen (ensure (asg_is_published a)
       (app_exn ValidationError ''Assignment is not open for submission'')) (\<lambda>_.
     andthen (draw (clock x)) (\<lambda>submitted.
     andthen (repo_create x Submission (new_submission aid uid d submitted)) (\<lambda>s.
     andthen (publish_event x (Some tid) (Some uid) (AssignmentSubmittedEvent aid (row_id s))) (\<lambda>_.
     case (asg_type a, quiz) of
       (QuizAssignment, Some (_, paper)) \<Rightarrow>
         andthen (auto_grade x a paper s (sheet_of d)) (\<lambda>g. ret (s\<lparr>sub_status := Graded\<rparr>, Some g))
     | _ \<Rightarrow> andthen (asks (\<lambda>w. grade_of w s)) (\<lambda>g. ret (s, g)))))))))"

record grade_request =
  grq_points :: rat
  grq_feedback :: "string option"

definition grade_request_valid :: "grade_request \<Rightarrow> bool" where
  "grade_request_valid d \<longleftrightarrow> 0 \<le> grq_points d"

definition grade_submission :: "'c env \<Rightarrow> uuid \<Rightarrow> grade_request \<Rightarrow> uuid \<Rightarrow> ('c, grade) io" where
  "grade_submission x sid d grader =
     andthen (repo_get_or_404 Submission sid) (\<lambda>s.
     andthen (repo_get_or_404 Assignment (sub_assignment_id s)) (\<lambda>a.
     andthen (ensure (grq_points d \<le> asg_max_points a)
       (app_exn ValidationError ''Points exceed assignment maximum'')) (\<lambda>_.
     record_grade x s (grq_points d) (asg_max_points a) False (Some grader) (grq_feedback d))))"

end
