(* ===== verification/Dashboard.thy ===== *)
theory Dashboard
  imports Assignments
begin

text \<open>
  The dashboard of a learner, \<^verbatim>\<open>app/modules/dashboard\<close>: counts over the tables of the other modules and
  the latest audit entries. The statements name no tenant; row level security is what restricts them.
  The pending assignments are counted with an outer join; \<open>pending_assignments\<close> is what the comment in
  the code says they are.
\<close>

section \<open>The service\<close>

record activity_item =
  ai_action :: string
  ai_resource :: string
  ai_resource_id :: "uuid option"
  ai_created_at :: time

record dashboard_out =
  db_enrolled_courses :: int
  db_completed_lessons :: int
  db_pending_assignments :: int
  db_submissions :: int
  db_recent_activity :: "activity_item list"

text \<open>\<^verbatim>\<open>select(func.count()).select_from(M).where(p)\<close>\<close>

definition count_where :: "'r model \<Rightarrow> ('r \<Rightarrow> bool) \<Rightarrow> ('c, int) io" where
  "count_where M p = asks (\<lambda>w. int (length (related M p w)))"

text \<open>\<^verbatim>\<open>A LEFT OUTER JOIN B ON on\<close>: a row of \<open>A\<close> without a partner is paired with nothing.\<close>

fun outer_join :: "('a \<Rightarrow> 'b \<Rightarrow> bool) \<Rightarrow> 'a list \<Rightarrow> 'b list \<Rightarrow> ('a \<times> 'b option) list" where
  "outer_join on [] bs = []"
| "outer_join on (a # as) bs =
     (case filter (on a) bs of [] \<Rightarrow> [(a, None)] | ps \<Rightarrow> map (\<lambda>b. (a, Some b)) ps) @ outer_join on as bs"

definition enrolled_courses :: "uuid \<Rightarrow> 'c world \<Rightarrow> uuid list" where
  "enrolled_courses uid w =
     map enr_course_id (related CourseEnrollment (\<lambda>e. enr_user_id e = uid \<and> enr_status e = EnrActive) w)"

definition count_pending :: "uuid \<Rightarrow> ('c, int) io" where
  "count_pending uid = asks (\<lambda>w.
     int (length (filter
       (\<lambda>(a, s). asg_is_published a \<and> asg_course_id a \<in> set (enrolled_courses uid w) \<and> s = None \<and>
                 deleted_at a = None)
       (outer_join (\<lambda>a s. sub_assignment_id s = row_id a \<and> sub_user_id s = uid)
         (related Assignment (\<lambda>_. True) w) (related Submission (\<lambda>_. True) w)))))"

definition activity_item_of :: "audit_log \<Rightarrow> activity_item" where
  "activity_item_of a =
     \<lparr>ai_action = al_action a, ai_resource = al_resource a, ai_resource_id = al_resource_id a,
      ai_created_at = created_at a\<rparr>"

definition recent_activity :: "uuid \<Rightarrow> ('c, audit_log list) io" where
  "recent_activity uid = asks (\<lambda>w.
     take 10 (sort_desc (\<lambda>a. cell_time (created_at a)) (related AuditLog (\<lambda>a. al_user_id a = Some uid) w)))"

definition for_user :: "uuid \<Rightarrow> ('c, dashboard_out) io" where
  "for_user uid =
     andthen (count_where CourseEnrollment (\<lambda>e. enr_user_id e = uid \<and> enr_status e \<noteq> EnrCancelled)) (\<lambda>enrolled.
     andthen (count_where LessonProgress (\<lambda>p. lp_user_id p = uid \<and> lp_status p = Completed)) (\<lambda>completed.
     andthen (count_where Submission (\<lambda>s. sub_user_id s = uid)) (\<lambda>submissions.
     andthen (count_pending uid) (\<lambda>pending.
     andthen (recent_activity uid) (\<lambda>rows.
     ret \<lparr>db_enrolled_courses = enrolled, db_completed_lessons = completed,
          db_pending_assignments = pending, db_submissions = submissions,
          db_recent_activity = map activity_item_of rows\<rparr>)))))"

section \<open>Pending assignments\<close>

lemma outer_join_unmatched:
  "map fst (filter (\<lambda>(a, s). P a \<and> s = None) (outer_join on as bs)) =
     filter (\<lambda>a. P a \<and> (\<forall>b \<in> set bs. \<not> on a b)) as"
proof (induction as)
  case Nil
  then show ?case by simp
next
  case (Cons a as)
  show ?case
  proof (cases "filter (on a) bs")
    case Nil
    then have "\<forall>b \<in> set bs. \<not> on a b" by (simp add: filter_empty_conv)
    with Nil Cons show ?thesis by simp
  next
    case (Cons b ps)
    then have "b \<in> set (filter (on a) bs)" by simp
    then have "b \<in> set bs" "on a b" by simp_all
    moreover have "filter (\<lambda>(a, s). P a \<and> s = None) (map (\<lambda>b. (a, Some b)) qs) = []" for qs
      by (induction qs) simp_all
    ultimately show ?thesis
      using Cons.IH local.Cons by (auto simp: case_prod_unfold filter_empty_conv)
  qed
qed

definition pending_assignments :: "uuid \<Rightarrow> uuid \<Rightarrow> database \<Rightarrow> assignment list" where
  "pending_assignments t uid d = filter
     (\<lambda>a. tenant_id a = t \<and> deleted_at a = None \<and> asg_is_published a \<and>
          (\<exists>e \<in> set (t_course_enrollments d). tenant_id e = t \<and> enr_user_id e = uid \<and>
             enr_status e = EnrActive \<and> enr_course_id e = asg_course_id a) \<and>
          \<not> (\<exists>s \<in> set (t_submissions d). tenant_id s = t \<and> sub_assignment_id s = row_id a \<and> sub_user_id s = uid))
     (t_assignments d)"

lemma related_serving:
  assumes "serving t w"
  shows "related Assignment p w = filter (\<lambda>a. tenant_id a = t \<and> p a) (t_assignments (view w))"
    and "related Submission q w = filter (\<lambda>s. tenant_id s = t \<and> q s) (t_submissions (view w))"
    and "related CourseEnrollment r w = filter (\<lambda>e. tenant_id e = t \<and> r e) (t_course_enrollments (view w))"
    and "related LessonProgress u w = filter (\<lambda>e. tenant_id e = t \<and> u e) (t_lesson_progress (view w))"
    and "related AuditLog v w = filter (\<lambda>e. tenant_id e = t \<and> v e) (t_audit_logs (view w))"
  using assignment_rows.serving_visible [OF assms] submission_rows.serving_visible [OF assms]
    enrollment_rows.serving_visible [OF assms] progress_rows.serving_visible [OF assms]
    audit_table.serving_visible [OF assms]
  by (simp_all add: related_def) (simp_all add: Assignment_def Submission_def CourseEnrollment_def
      LessonProgress_def AuditLog_def)

lemma count_pending_run:
  assumes "serving t w"
  shows "count_pending uid w = (Inr (int (length (pending_assignments t uid (view w)))), w)"
proof -
  let ?on = "\<lambda>a s. sub_assignment_id s = row_id a \<and> sub_user_id s = uid"
  let ?p = "\<lambda>a. asg_is_published a \<and> asg_course_id a \<in> set (enrolled_courses uid w) \<and> deleted_at a = None"
  let ?join = "outer_join ?on (related Assignment (\<lambda>_. True) w) (related Submission (\<lambda>_. True) w)"
  have "filter (\<lambda>(a, s). asg_is_published a \<and> asg_course_id a \<in> set (enrolled_courses uid w) \<and> s = None \<and>
      deleted_at a = None) ?join = filter (\<lambda>(a, s). ?p a \<and> s = None) ?join"
    by (rule filter_cong) auto
  then have "length (filter (\<lambda>(a, s). asg_is_published a \<and> asg_course_id a \<in> set (enrolled_courses uid w) \<and> s = None \<and>
      deleted_at a = None) ?join) = length (map fst (filter (\<lambda>(a, s). ?p a \<and> s = None) ?join))"
    by simp
  also have "map fst (filter (\<lambda>(a, s). ?p a \<and> s = None) ?join) =
      filter (\<lambda>a. ?p a \<and> (\<forall>s \<in> set (related Submission (\<lambda>_. True) w). \<not> ?on a s)) (related Assignment (\<lambda>_. True) w)"
    by (rule outer_join_unmatched)
  also have "\<dots> = pending_assignments t uid (view w)"
    unfolding related_serving [OF assms] pending_assignments_def filter_filter enrolled_courses_def
    by (rule filter_cong) (auto simp: image_iff)
  finally show ?thesis by (simp add: count_pending_def act_simps)
qed

section \<open>Recent activity\<close>

lemma sort_desc_sorted: "sorted_wrt (\<lambda>x y. key y \<le> key x) (sort_desc key rows)"
  using sorted_sort_key [of key "rev rows"]
  by (simp add: sort_desc_def sorted_map sorted_wrt_rev)

lemma mset_sort_desc [simp]: "mset (sort_desc key rows) = mset rows"
  by (simp add: sort_desc_def)

definition activity_of :: "uuid \<Rightarrow> uuid \<Rightarrow> database \<Rightarrow> audit_log list" where
  "activity_of t uid d = filter (\<lambda>a. tenant_id a = t \<and> al_user_id a = Some uid) (t_audit_logs d)"

lemma cell_time_le [simp]: "cell_time a \<le> cell_time b \<longleftrightarrow> a \<le> b"
  by (auto simp: cell_time_def less_eq_cell_def)

lemma recent_activity_run:
  assumes "serving t w"
  shows "\<exists>rows rest. recent_activity uid w = (Inr rows, w) \<and> length rows \<le> 10 \<and>
    mset rows + mset rest = mset (activity_of t uid (view w)) \<and> (rest \<noteq> [] \<longrightarrow> length rows = 10) \<and>
    sorted_wrt (\<lambda>a b. created_at b \<le> created_at a) (rows @ rest)"
proof -
  let ?all = "sort_desc (\<lambda>a. cell_time (created_at a)) (activity_of t uid (view w))"
  have "recent_activity uid w = (Inr (take 10 ?all), w)"
    by (simp add: recent_activity_def act_simps related_serving [OF assms] activity_of_def)
  moreover have "mset (take 10 ?all) + mset (drop 10 ?all) = mset (activity_of t uid (view w))"
    by (metis append_take_drop_id mset_append mset_sort_desc)
  moreover have "sorted_wrt (\<lambda>a b. created_at b \<le> created_at a) (take 10 ?all @ drop 10 ?all)"
    using sort_desc_sorted [of "\<lambda>a. cell_time (created_at a)" "activity_of t uid (view w)"]
    by simp
  moreover have "drop 10 ?all \<noteq> [] \<longrightarrow> length (take 10 ?all) = 10" by simp
  ultimately show ?thesis
    by (metis length_take min.cobounded2)
qed

text \<open>
  C21. The dashboard shows what it says. It changes nothing; its counts are those of the learner's own
  rows in the tenant, the outer join counts the published assignments of actively enrolled courses
  without a submission, and the activity lists at most ten of the learner's audit entries, newest
  first, with none left out that is newer than one shown.
\<close>

theorem dashboard_spec:
  assumes "serving t w"
  shows "\<exists>rows rest. for_user uid w = (Inr
      \<lparr>db_enrolled_courses = int (length (filter (\<lambda>e. tenant_id e = t \<and> enr_user_id e = uid \<and> enr_status e \<noteq> EnrCancelled)
         (t_course_enrollments (view w)))),
       db_completed_lessons = int (length (filter (\<lambda>p. tenant_id p = t \<and> lp_user_id p = uid \<and> lp_status p = Completed)
         (t_lesson_progress (view w)))),
       db_pending_assignments = int (length (pending_assignments t uid (view w))),
       db_submissions = int (length (filter (\<lambda>s. tenant_id s = t \<and> sub_user_id s = uid) (t_submissions (view w)))),
       db_recent_activity = map activity_item_of rows\<rparr>, w) \<and>
    length rows \<le> 10 \<and> (rest \<noteq> [] \<longrightarrow> length rows = 10) \<and>
    mset rows + mset rest = mset (activity_of t uid (view w)) \<and>
    sorted_wrt (\<lambda>a b. created_at b \<le> created_at a) (rows @ rest)"
proof -
  obtain rows rest where r: "recent_activity uid w = (Inr rows, w)" "length rows \<le> 10"
    "mset rows + mset rest = mset (activity_of t uid (view w))" "rest \<noteq> [] \<longrightarrow> length rows = 10"
    "sorted_wrt (\<lambda>a b. created_at b \<le> created_at a) (rows @ rest)"
    using recent_activity_run [OF assms] by blast
  show ?thesis
    by (intro exI [of _ rows] exI [of _ rest])
      (simp add: for_user_def count_where_def act_simps related_serving [OF assms]
        andthen_Inr [of "count_pending uid", OF count_pending_run [OF assms]]
        andthen_Inr [of "recent_activity uid", OF r(1)] r(2-5))
qed

theorem dashboard_spec_witness:
  "\<exists>out. for_user 5 school_world = (Inr out, school_world) \<and> db_submissions out = 1 \<and>
     db_pending_assignments out = 0 \<and> db_recent_activity out = []"
proof -
  have "pending_assignments 1 5 sample_school = []" "activity_of 1 5 sample_school = []"
    by (simp_all add: pending_assignments_def activity_of_def sample_school_def school_enrollment_def
        empty_database_def)
  with dashboard_spec [OF school_catalog(1), of 5] show ?thesis
    by (auto simp: sample_school_def school_submission_def)
qed

end
