(* ===== verification/Grading.thy ===== *)
theory Grading
  imports Assignments
begin

text \<open>
  What grading promises: the marks of a quiz lie between nothing and the maximum and follow the
  answers; recording a grade leaves one grade for the submission and nothing else changed but its
  status; and every stored grade stays within the maximum of its assignment.
\<close>

section \<open>Marks\<close>

text \<open>What a \<^verbatim>\<open>NUMERIC(6, 2)\<close> column can hold.\<close>

definition two_places :: "rat \<Rightarrow> bool" where
  "two_places m \<longleftrightarrow> round_to 2 m = m \<and> numeric_fits 6 2 m"

lemma two_placesE:
  assumes "two_places m"
  obtains n where "m = of_int n / 100" and "\<bar>m\<bar> < 10000" and "m < p10 25"
proof -
  obtain n where "round_to 2 m = of_int n / 10 ^ 2" using round_to_form by blast
  moreover have "\<bar>m\<bar> < 10000"
    using assms unfolding two_places_def numeric_fits_def by (elim conjE) (simp only: , simp)
  moreover have "p10 25 = 10 ^ 25" by (simp add: p10_def)
  ultimately show thesis
    using assms that [of n] by (simp add: two_places_def)
qed

lemma round_to_at_most:
  assumes "two_places m" and "0 \<le> p" and "p \<le> m"
  shows "0 \<le> round_to 2 p \<and> round_to 2 p \<le> m"
proof -
  obtain n where n: "m = of_int n / 100" using assms(1) by (rule two_placesE)
  show ?thesis
    using round_to_mono_bound [OF assms(2), where n = n and s = 2] round_to_nonneg [OF assms(2)] assms(3) n by simp
qed

definition fair :: "quiz_paper \<Rightarrow> bool" where
  "fair paper \<longleftrightarrow> (\<forall>qa \<in> set paper. 0 \<le> qq_points (fst qa))"

lemma fair_Cons [simp]: "fair (qa # paper) \<longleftrightarrow> 0 \<le> qq_points (fst qa) \<and> fair paper"
  by (simp add: fair_def)

lemma count_marks_bounds:
  assumes "fair paper" and "0 \<le> e" and "e \<le> p" and "dec_round e = e" and "dec_round p = p"
  shows "0 \<le> fst (count_marks sheet paper (e, p)) \<and>
    fst (count_marks sheet paper (e, p)) \<le> snd (count_marks sheet paper (e, p)) \<and>
    p \<le> snd (count_marks sheet paper (e, p))"
  using assms
proof (induction paper arbitrary: e p)
  case Nil
  then show ?case by simp
next
  case (Cons qa paper)
  let ?q = "qq_points (fst qa)"
  let ?e = "if answered_right sheet qa then dec_add e ?q else e"
  have q: "0 \<le> ?q" "fair paper" using Cons.prems(1) by simp_all
  have p: "p \<le> dec_add p ?q" "dec_round (dec_add p ?q) = dec_add p ?q"
    using dec_add_grows [of p ?q] Cons.prems q by simp_all
  have e: "0 \<le> ?e" "?e \<le> dec_add p ?q" "dec_round ?e = ?e"
    using dec_add_grows [of e ?q] dec_add_mono [of e p ?q] Cons.prems q p by (auto intro: order_trans)
  show ?case
    using Cons.IH [OF q(2) e p(2)] p(1) by (auto intro: order_trans)
qed

text \<open>All marks are earned when every question is answered right, and marks grow with the right answers.\<close>

lemma count_marks_all:
  "\<forall>qa \<in> set paper. answered_right sheet qa \<Longrightarrow> count_marks sheet paper (e, e) = (snd (count_marks sheet paper (e, e)), snd (count_marks sheet paper (e, e)))"
  by (induction paper arbitrary: e) (auto simp: split_def)

lemma count_marks_possible:
  "snd (count_marks sheet paper (e, p)) = snd (count_marks sheet' paper (e', p))"
  by (induction paper arbitrary: e e' p) simp_all

lemma count_marks_mono:
  assumes "fair paper" and "\<forall>qa \<in> set paper. answered_right sheet qa \<longrightarrow> answered_right sheet' qa"
    and "0 \<le> e" and "e \<le> e'" and "dec_round e = e" and "dec_round e' = e'"
  shows "fst (count_marks sheet paper (e, p)) \<le> fst (count_marks sheet' paper (e', p))"
  using assms
proof (induction paper arbitrary: e e' p)
  case Nil
  then show ?case by simp
next
  case (Cons qa paper)
  let ?q = "qq_points (fst qa)"
  let ?e = "if answered_right sheet qa then dec_add e ?q else e"
  let ?e' = "if answered_right sheet' qa then dec_add e' ?q else e'"
  have q: "0 \<le> ?q" "fair paper" using Cons.prems(1) by simp_all
  have "0 \<le> ?e" "?e \<le> ?e'" "dec_round ?e = ?e" "dec_round ?e' = ?e'"
    using dec_add_grows [of e ?q] dec_add_grows [of e' ?q] dec_add_mono [of e e' ?q] Cons.prems q
    by (auto intro: order_trans)
  with Cons.IH [OF q(2), of ?e ?e'] Cons.prems(2) show ?case by simp
qed

definition earned :: "answer_sheet \<Rightarrow> quiz_paper \<Rightarrow> rat" where
  "earned sheet paper = fst (count_marks sheet paper (0, 0))"

definition possible :: "quiz_paper \<Rightarrow> rat" where
  "possible paper = snd (count_marks [] paper (0, 0))"

lemma scaled_points_eq:
  "scaled_points sheet paper m =
     (if possible paper \<noteq> 0 then dec_mult (dec_div (earned sheet paper) (possible paper)) m else 0)"
  using count_marks_possible [of sheet paper 0 0 "[]" 0]
  by (cases "count_marks sheet paper (0, 0)") (simp add: scaled_points_def earned_def possible_def)

lemma marks_bounds:
  assumes "fair paper"
  shows "0 \<le> earned sheet paper" and "earned sheet paper \<le> possible paper"
  using count_marks_bounds [OF assms, of 0 0 sheet] count_marks_possible [of sheet paper 0 0 "[]" 0]
  by (simp_all add: earned_def possible_def)

lemma scaled_points_bounds:
  assumes "fair paper" and "two_places m" and "0 \<le> m"
  shows "0 \<le> scaled_points sheet paper m \<and> scaled_points sheet paper m \<le> m"
proof (cases "possible paper = 0")
  case True
  then show ?thesis using assms(3) by (simp add: scaled_points_eq)
next
  case False
  let ?q = "dec_div (earned sheet paper) (possible paper)"
  note b = marks_bounds [OF assms(1), of sheet]
  have q: "0 \<le> ?q" "?q \<le> 1"
    using b dec_div_le_one [OF b] by (simp_all add: dec_div_def dec_round_nonneg)
  obtain n where n: "m = of_int n / 100" "m < p10 25" using assms(2) by (rule two_placesE)
  have "0 \<le> dec_mult ?q m" using q assms(3) by (simp add: dec_mult_def dec_round_nonneg)
  with dec_mult_le [OF q assms(3) n] False show ?thesis by (simp add: scaled_points_eq)
qed

lemma scaled_points_full:
  assumes "\<forall>qa \<in> set paper. answered_right sheet qa" and "possible paper \<noteq> 0" and "two_places m" and "0 \<le> m"
  shows "scaled_points sheet paper m = m"
proof -
  have "earned sheet paper = possible paper"
    using count_marks_all [OF assms(1), of 0] count_marks_possible [of sheet paper 0 0 "[]" 0]
    by (metis earned_def possible_def fst_conv)
  moreover obtain n where "m = of_int n / 100" "m < p10 25" using assms(3) by (rule two_placesE)
  then have "dec_round m = m" using assms(4) by (intro dec_round_places)
  ultimately show ?thesis using assms(2) by (simp add: scaled_points_eq dec_div_def dec_mult_def)
qed

lemma scaled_points_mono:
  assumes "fair paper" and "0 \<le> m" and "\<forall>qa \<in> set paper. answered_right sheet qa \<longrightarrow> answered_right sheet' qa"
  shows "scaled_points sheet paper m \<le> scaled_points sheet' paper m"
proof -
  have "earned sheet paper \<le> earned sheet' paper"
    unfolding earned_def by (rule count_marks_mono [OF assms(1,3)]) simp_all
  then show ?thesis
    using marks_bounds [OF assms(1), of sheet] assms(2)
    by (auto simp: scaled_points_eq dec_mult_def dec_div_def dec_round_nonneg
        intro!: dec_round_mono mult_nonneg_nonneg mult_right_mono divide_right_mono)
qed

text \<open>
  C17. The automatic mark of a quiz. For a paper whose questions carry no negative points and a maximum
  the column can hold, the mark lies between 0 and the maximum and still does once the database has
  rounded it; it is the maximum when every question is answered right; and answering further
  questions right never lowers it.
\<close>

theorem quiz_mark:
  assumes "fair paper" and "two_places m" and "0 \<le> m"
  shows "0 \<le> scaled_points sheet paper m \<and> scaled_points sheet paper m \<le> m \<and>
    0 \<le> round_to 2 (scaled_points sheet paper m) \<and> round_to 2 (scaled_points sheet paper m) \<le> m \<and>
    ((\<forall>qa \<in> set paper. answered_right sheet qa) \<and> possible paper \<noteq> 0 \<longrightarrow> scaled_points sheet paper m = m) \<and>
    ((\<forall>qa \<in> set paper. answered_right sheet qa \<longrightarrow> answered_right sheet' qa) \<longrightarrow>
       scaled_points sheet paper m \<le> scaled_points sheet' paper m)"
  using scaled_points_bounds [OF assms] round_to_at_most [OF assms(2)] scaled_points_full [OF _ _ assms(2,3)]
    scaled_points_mono [OF assms(1,3)]
  by blast

definition school_paper :: quiz_paper where
  "school_paper =
     [(school_question 60 1, [school_answer 70 60 True, school_answer 71 60 False]),
      (school_question 61 2, [school_answer 72 61 True])]"

lemma school_paper_facts: "fair school_paper" "two_places 100" "possible school_paper = 3"
  by code_simp+

theorem quiz_mark_witness:
  "fair school_paper \<and> two_places 100 \<and> scaled_points [(60, [70]), (61, [72])] school_paper 100 = 100 \<and>
     scaled_points [(60, [70])] school_paper 100 \<le> 100"
proof -
  have "\<forall>qa \<in> set school_paper. answered_right [(60, [70]), (61, [72])] qa" by code_simp
  with quiz_mark [OF school_paper_facts(1,2), of "[(60, [70]), (61, [72])]" "[]"]
    quiz_mark [OF school_paper_facts(1,2), of "[(60, [70])]" "[]"] show ?thesis
    using school_paper_facts by simp
qed

end
