(* ===== verification/Recording.thy ===== *)
theory Recording
  imports Grading
begin

text \<open>
  Submitting and grading as effects on the tables. \<open>grade_for\<close> is the grade a look-up by submission
  finds; \<open>grades_sound\<close> is the invariant that every grade belongs to a submission of its assignment and
  lies within the maximum of that assignment.
\<close>

section \<open>Models\<close>

lemma grade_model:
  "m_rows Grade d = t_grades d" "m_id Grade g = row_id g" "m_deleted Grade = None"
  "m_clash Grade g h \<longleftrightarrow> gr_submission_id g = gr_submission_id h"
  "m_stored Grade g = g\<lparr>gr_points := round_to 2 (gr_points g), gr_max_points := round_to 2 (gr_max_points g)\<rparr>"
  "m_put Grade gs d = d\<lparr>t_grades := gs\<rparr>"
  by (simp_all add: Grade_def)

lemma submission_model:
  "m_rows Submission d = t_submissions d" "m_id Submission s = row_id s" "m_deleted Submission = None"
  "m_clash Submission s r \<longleftrightarrow> False" "m_stored Submission s = s"
  "m_put Submission ss d = d\<lparr>t_submissions := ss\<rparr>"
  by (simp_all add: Submission_def)

lemma assignment_model:
  "m_rows Assignment d = t_assignments d" "m_id Assignment a = row_id a"
  by (simp_all add: Assignment_def)

lemma consistent_other [simp]:
  "consistent Grade (d\<lparr>t_submissions := ss\<rparr>) = consistent Grade d"
  "consistent Submission (d\<lparr>t_grades := gs\<rparr>) = consistent Submission d"
  "consistent Assignment (d\<lparr>t_submissions := ss\<rparr>) = consistent Assignment d"
  "consistent Assignment (d\<lparr>t_grades := gs\<rparr>) = consistent Assignment d"
  by (simp_all add: consistent_def grade_model submission_model assignment_model)

definition grade_for :: "uuid \<Rightarrow> uuid \<Rightarrow> database \<Rightarrow> grade option" where
  "grade_for t sid d = first_row (live_of Grade t (\<lambda>g. gr_submission_id g = sid) d)"

lemma grade_for_other [simp]: "grade_for t sid (d\<lparr>t_submissions := ss\<rparr>) = grade_for t sid d"
  by (simp add: grade_for_def live_of_def grade_model)

lemma grade_forD:
  "grade_for t sid d = Some g \<Longrightarrow> g \<in> set (t_grades d) \<and> gr_submission_id g = sid \<and> tenant_id g = t"
  unfolding grade_for_def by (drule first_row_SomeD) (auto simp: live_of_def Grade_def)

lemma run_get_by_submission:
  assumes "serving t w" and "consistent Grade (view w)"
  shows "get_by_submission sid w = (Inr (grade_for t sid (view w)), w)"
  unfolding get_by_submission_def grade_for_def
  by (rule grade_rows.find_run [OF assms]) (simp add: grade_model)

section \<open>Recording a grade\<close>

definition marked :: "submission \<Rightarrow> submission list \<Rightarrow> submission list" where
  "marked s = map (\<lambda>r. if r = s then s\<lparr>sub_status := Graded\<rparr> else r)"

lemma mark_graded:
  assumes "serving t w" and "steady w" and "consistent Submission (view w)"
    and s: "s \<in> set (t_submissions (view w))" "tenant_id s = t"
    and run: "(if sub_status s = Graded then ret ()
      else sql_update Submission (row_id s) (\<lambda>r. r\<lparr>sub_status := Graded\<rparr>)) w = (Inr v, w')"
  shows "serving t w' \<and> steady w' \<and> consistent Submission (view w') \<and> w_draw w' = w_draw w \<and> w_now w' = w_now w \<and>
    view w' = (view w)\<lparr>t_submissions := marked s (t_submissions (view w))\<rparr>"
proof (cases "sub_status s = Graded")
  case True
  then have "s\<lparr>sub_status := Graded\<rparr> = s" by (cases s) simp
  then have "marked s (t_submissions (view w)) = t_submissions (view w)"
    unfolding marked_def by (intro map_idI) simp
  with True run assms(1-3) show ?thesis by (simp add: ret_def)
next
  case False
  then have w': "w' = updated Submission (m_id Submission s) (\<lambda>r. r\<lparr>sub_status := Graded\<rparr>) w"
    using run by (simp add: sql_update_updated submission_model)
  have "consistent Submission (view w')"
    unfolding w' by (rule submission_rows.consistent_updated [OF assms(3)]) (simp_all add: submission_model)
  moreover have "view w' = (view w)\<lparr>t_submissions := marked s (t_submissions (view w))\<rparr>"
    unfolding w' using submission_rows.view_updated_row [OF assms(1,3), of s] s
    by (simp add: submission_model marked_def)
  ultimately show ?thesis using assms(1,2) by (simp add: w')
qed

lemma record_grade_upsert:
  "record_grade x s p m auto by fb =
     andthen require_tenant (\<lambda>tid.
     andthen (draw (clock x)) (\<lambda>now.
     andthen (get_by_submission (row_id s)) (\<lambda>old.
     andthen (if sub_status s = Graded then ret ()
              else sql_update Submission (row_id s) (\<lambda>r. r\<lparr>sub_status := Graded\<rparr>)) (\<lambda>_.
     andthen (upsert x Grade (new_grade s p m auto by fb now) (regrade p auto by fb now) old) (\<lambda>g.
     andthen (publish_event x (Some tid) (Some (sub_user_id s)) (SubmissionGradedEvent (row_id s) p auto)) (\<lambda>_.
     ret g))))))"
  by (simp add: record_grade_def upsert_def grade_model cong: option.case_cong)

lemma record_grade_ok:
  assumes sv: "serving t w" and st: "steady w" and cons: "consistent Submission (view w)" "consistent Grade (view w)"
    and s: "s \<in> set (t_submissions (view w))" "tenant_id s = t"
    and run: "record_grade x s p m auto by fb w = (Inr g, w')"
  shows "serving t w' \<and> steady w' \<and> consistent Submission (view w') \<and> consistent Grade (view w') \<and>
    no_logs (view w') = no_logs ((view w)
      \<lparr>t_submissions := marked s (t_submissions (view w)),
       t_grades := upserted Grade (grade_for t (row_id s) (view w)) g (t_grades (view w))\<rparr>) \<and>
    g = (case grade_for t (row_id s) (view w) of
           None \<Rightarrow> new_grade s p m auto by fb (clock x (w_draw w)) (uuid4 x (Suc (w_draw w))) (w_now w) t
         | Some h \<Rightarrow> regrade p auto by fb (clock x (w_draw w)) h) \<and>
    m_fits Grade g"
proof -
  let ?w = "w\<lparr>w_draw := Suc (w_draw w)\<rparr>"
  let ?now = "clock x (w_draw w)"
  let ?old = "grade_for t (row_id s) (view w)"
  have start: "serving t ?w" "steady ?w" "consistent Submission (view ?w)" "s \<in> set (t_submissions (view ?w))"
    "consistent Grade (view ?w)"
    using assms by simp_all
  have run': "andthen (if sub_status s = Graded then ret ()
        else sql_update Submission (row_id s) (\<lambda>r. r\<lparr>sub_status := Graded\<rparr>)) (\<lambda>_.
      andthen (upsert x Grade (new_grade s p m auto by fb ?now) (regrade p auto by fb ?now) ?old) (\<lambda>g.
      andthen (publish_event x (Some t) (Some (sub_user_id s)) (SubmissionGradedEvent (row_id s) p auto)) (\<lambda>_.
      ret g))) ?w = (Inr g, w')"
    using run
    by (simp add: record_grade_upsert andthen_require_tenant [OF servingD(3) [OF sv]] act_simps
        andthen_Inr [of "get_by_submission (row_id s)", OF run_get_by_submission [OF start(1,5)]])
  then obtain v w1 where
    mark: "(if sub_status s = Graded then ret ()
      else sql_update Submission (row_id s) (\<lambda>r. r\<lparr>sub_status := Graded\<rparr>)) ?w = (Inr v, w1)"
    and rest: "andthen (upsert x Grade (new_grade s p m auto by fb ?now) (regrade p auto by fb ?now) ?old) (\<lambda>g.
      andthen (publish_event x (Some t) (Some (sub_user_id s)) (SubmissionGradedEvent (row_id s) p auto)) (\<lambda>_.
      ret g)) w1 = (Inr g, w')"
    by (rule andthen_InrE)
  from rest obtain g1 w2 where
    put: "upsert x Grade (new_grade s p m auto by fb ?now) (regrade p auto by fb ?now) ?old w1 = (Inr g1, w2)"
    and pub: "andthen (publish_event x (Some t) (Some (sub_user_id s)) (SubmissionGradedEvent (row_id s) p auto)) (\<lambda>_. ret g1) w2 = (Inr g, w')"
    by (rule andthen_InrE)
  note m = mark_graded [OF start(1-4) s(2) mark]
  have step: "serving t w1" "steady w1" "consistent Grade (view w1)"
    "?old = first_row (live_of Grade t (\<lambda>g. gr_submission_id g = row_id s) (view w1))"
    using m start(5) by (simp_all flip: grade_for_def)
  have f: "m_id Grade (regrade p auto by fb ?now r) = m_id Grade r"
    "m_clash Grade (regrade p auto by fb ?now r) q = m_clash Grade r q" for r q
    by (simp_all add: grade_model regrade_def)
  note ok = grade_rows.upsert_ok [OF step f put]
  note pub = publish_done [OF pub ok(2)]
  have view2: "view w2 = (view w)\<lparr>t_submissions := marked s (t_submissions (view w)),
      t_grades := upserted Grade ?old g1 (t_grades (view w))\<rparr>"
    using ok(4) m by (simp add: grade_model)
  have "consistent Submission ((view w)\<lparr>t_submissions := marked s (t_submissions (view w))\<rparr>)"
    using m by (metis view_update(1))
  then have "consistent Submission (view w2)" by (simp add: view2)
  then have "consistent Submission (view w')" "consistent Grade (view w')"
    using ok(3) submission_rows.consistent_no_logs [OF pub(2)] grade_rows.consistent_no_logs [OF pub(2)] by simp_all
  moreover have "g = (case ?old of
       None \<Rightarrow> new_grade s p m auto by fb ?now (uuid4 x (Suc (w_draw w))) (w_now w) t
     | Some h \<Rightarrow> regrade p auto by fb ?now h)"
    using ok(5) pub(1) m by (simp split: option.split)
  ultimately show ?thesis
    using pub ok(1,7) view2 by simp
qed


section \<open>The invariant of the grade book\<close>

definition grade_sound :: "database \<Rightarrow> grade \<Rightarrow> bool" where
  "grade_sound d g \<longleftrightarrow>
     (\<exists>a \<in> set (t_assignments d). row_id a = gr_assignment_id g \<and> gr_max_points g = asg_max_points a) \<and>
     (\<exists>s \<in> set (t_submissions d). row_id s = gr_submission_id g \<and> sub_assignment_id s = gr_assignment_id g \<and>
        tenant_id s = tenant_id g) \<and>
     0 \<le> gr_points g \<and> gr_points g \<le> gr_max_points g"

definition grades_sound :: "database \<Rightarrow> bool" where
  "grades_sound d \<longleftrightarrow> (\<forall>g \<in> set (t_grades d). grade_sound d g)"

text \<open>
  What the grade book relies on: keys are unique, and maxima are numbers the column can hold, none of them negative.
  \<^verbatim>\<open>AdminAssignmentCreate\<close> does not refuse a negative maximum.
\<close>

definition school_ok :: "database \<Rightarrow> bool" where
  "school_ok d \<longleftrightarrow> consistent Submission d \<and> consistent Grade d \<and> consistent Assignment d \<and>
     grades_sound d \<and> (\<forall>a \<in> set (t_assignments d). two_places (asg_max_points a) \<and> 0 \<le> asg_max_points a)"

lemma grade_sound_cong:
  "t_assignments d = t_assignments e \<Longrightarrow> t_submissions d = t_submissions e \<Longrightarrow> grade_sound d g = grade_sound e g"
  by (simp add: grade_sound_def)

lemma school_ok_no_logs:
  assumes "no_logs d = no_logs e"
  shows "school_ok d = school_ok e"
proof -
  have "grades_sound d = grades_sound e"
    using no_logs_eq(19,23,24) [OF assms] grade_sound_cong [of d e] by (simp add: grades_sound_def)
  then show ?thesis
    using submission_rows.consistent_no_logs [OF assms] grade_rows.consistent_no_logs [OF assms]
      assignment_rows.consistent_no_logs [OF assms] no_logs_eq(19) [OF assms]
    by (simp add: school_ok_def)
qed

lemma grade_sound_marked:
  assumes "grade_sound d g"
  shows "grade_sound (d\<lparr>t_submissions := marked s (t_submissions d)\<rparr>) g"
proof -
  obtain r where r: "r \<in> set (t_submissions d)" "row_id r = gr_submission_id g" "sub_assignment_id r = gr_assignment_id g"
      "tenant_id r = tenant_id g"
    using assms by (auto simp: grade_sound_def)
  let ?r = "if r = s then s\<lparr>sub_status := Graded\<rparr> else r"
  have "?r \<in> set (marked s (t_submissions d))" using r(1) by (auto simp: marked_def)
  moreover have "row_id ?r = gr_submission_id g" "sub_assignment_id ?r = gr_assignment_id g"
    "tenant_id ?r = tenant_id g" using r(2-4) by auto
  ultimately have "\<exists>r \<in> set (marked s (t_submissions d)). row_id r = gr_submission_id g \<and>
      sub_assignment_id r = gr_assignment_id g \<and> tenant_id r = tenant_id g"
    by blast
  with assms show ?thesis by (simp add: grade_sound_def)
qed

lemma grade_sound_grades [simp]: "grade_sound (d\<lparr>t_grades := gs\<rparr>) g = grade_sound d g"
  by (simp add: grade_sound_def)

lemma unique_row:
  assumes "consistent M d" and "r \<in> set (m_rows M d)" and "s \<in> set (m_rows M d)" and "m_id M r = m_id M s"
  shows "r = s"
proof -
  have "distinct (map (m_id M) (m_rows M d))"
    using assms(1) by (auto simp: consistent_def distinct_map sorted_wrt_iff_nth_less distinct_conv_nth inj_on_def
        in_set_conv_nth) (metis linorder_neqE_nat)+
  with assms(2-4) show ?thesis by (auto simp: distinct_map inj_on_def)
qed

text \<open>The grade just recorded is sound, whether it is new or replaces the marks of an old one.\<close>

lemma recorded_sound:
  assumes "school_ok d" and "s \<in> set (t_submissions d)" "tenant_id s = t" and "a \<in> set (t_assignments d)"
    and "row_id a = sub_assignment_id s" and "0 \<le> p" and "p \<le> asg_max_points a"
    and g: "g = (case grade_for t (row_id s) d of
      None \<Rightarrow> new_grade s p (asg_max_points a) auto by fb now i created t
    | Some h \<Rightarrow> regrade p auto by fb now h)"
  shows "grade_sound d (m_stored Grade g)"
proof -
  have a: "two_places (asg_max_points a)" using assms(1,4) by (simp add: school_ok_def)
  have "gr_submission_id g = row_id s \<and> gr_assignment_id g = row_id a \<and> gr_max_points g = asg_max_points a \<and> gr_points g = p \<and> tenant_id g = t"
  proof (cases "grade_for t (row_id s) d")
    case None
    then show ?thesis by (simp add: g new_grade_def assms(5))
  next
    case (Some h)
    then have h: "h \<in> set (t_grades d)" "gr_submission_id h = row_id s" "tenant_id h = t" using grade_forD by blast+
    then obtain a' s' where a': "a' \<in> set (t_assignments d)" "row_id a' = gr_assignment_id h" "gr_max_points h = asg_max_points a'"
      and s': "s' \<in> set (t_submissions d)" "row_id s' = gr_submission_id h" "sub_assignment_id s' = gr_assignment_id h"
      using assms(1) by (auto simp: school_ok_def grades_sound_def grade_sound_def)
    have "s' = s"
      using unique_row [of Submission d s' s] s' h(2) assms(1,2) by (simp add: school_ok_def submission_model)
    moreover have "a' = a"
      using unique_row [of Assignment d a' a] a' s'(3) \<open>s' = s\<close> assms(1,4,5)
      by (simp add: school_ok_def assignment_model)
    ultimately show ?thesis
      using Some h(2,3) a' by (simp add: g regrade_def)
  qed
  then show ?thesis
    using assms(2-5) round_to_at_most [OF a assms(6,7)] a
    by (auto simp: grade_sound_def grade_model two_places_def)
qed

lemma record_grade_school:
  assumes sv: "serving t w" and st: "steady w" and ok: "school_ok (view w)"
    and s: "s \<in> set (t_submissions (view w))" "tenant_id s = t"
    and a: "a \<in> set (t_assignments (view w))" "row_id a = sub_assignment_id s"
    and p: "0 \<le> p" "p \<le> asg_max_points a"
    and run: "record_grade x s p (asg_max_points a) auto by fb w = (Inr g, w')"
  shows "school_ok (view w')"
proof -
  have cons: "consistent Submission (view w)" "consistent Grade (view w)"
    using ok by (simp_all add: school_ok_def)
  note rec = record_grade_ok [OF sv st cons s run]
  let ?d = "view w"
  let ?e = "?d\<lparr>t_submissions := marked s (t_submissions ?d),
       t_grades := upserted Grade (grade_for t (row_id s) ?d) g (t_grades ?d)\<rparr>"
  have eq: "no_logs (view w') = no_logs ?e" using rec by blast
  have "grade_sound ?d (m_stored Grade g)"
    by (rule recorded_sound [OF ok s a p]) (use rec in blast)
  then have "grade_sound ?d h" if "h \<in> set (t_grades ?e)" for h
    using that ok
    by (auto simp: upserted_def grade_model school_ok_def grades_sound_def split: option.splits if_splits)
  then have "grades_sound ?e"
    using grade_sound_marked [of ?d _ s] by (simp add: grades_sound_def)
  moreover have "consistent Submission ?e" "consistent Grade ?e" "consistent Assignment ?e"
    using rec ok by (auto simp: school_ok_def grade_rows.consistent_no_logs [OF eq]
        submission_rows.consistent_no_logs [OF eq] simp del: consistent_other(1))
  ultimately have "school_ok ?e" using ok by (simp add: school_ok_def)
  then show ?thesis using school_ok_no_logs [OF eq] by simp
qed

end
