(* ===== verification/Submitting.thy ===== *)
theory Submitting
  imports Recording
begin

text \<open>
  Submitting and grading, from the request to the tables: which submission and which assignment are
  found, what is refused, what is written, and that the grade book stays sound.
\<close>

section \<open>The sample school\<close>

lemma school_book:
  "serving 1 school_world" "steady school_world" "school_ok (view school_world)"
  "\<forall>q \<in> set (t_quiz_questions (view school_world)). 0 \<le> qq_points q"
  "live_row Submission 1 80 (view school_world) = Some school_submission"
  "live_row Assignment 1 (sub_assignment_id school_submission) (view school_world) = Some (school_assignment 41 PlainAssignment)"
  "m_fits Submission school_submission" "m_refs Submission (view school_world) school_submission"
proof -
  show "school_ok (view school_world)"
    by (simp add: school_ok_def consistent_def Submission_def Grade_def Assignment_def sample_school_def
        school_assignment_def grades_sound_def grade_sound_def school_submission_def school_grade_def)
      (rule school_paper_facts(2))
qed (rule school_catalog(1,2) | simp add: live_row_def live_of_def Submission_def Assignment_def sample_school_def
      school_submission_def school_assignment_def school_question_def width_def tenant_exists_def
      assignment_exists_def user_exists_def school_tenant_def school_user_def)+

section \<open>Grading by hand\<close>

lemma grade_submission_start:
  assumes "serving t w" and "school_ok (view w)"
  shows "grade_submission x sid d grader w = (case live_row Submission t sid (view w) of
     None \<Rightarrow> (Inl (missing Submission sid), w)
   | Some s \<Rightarrow> (case live_row Assignment t (sub_assignment_id s) (view w) of
       None \<Rightarrow> (Inl (missing Assignment (sub_assignment_id s)), w)
     | Some a \<Rightarrow>
         if grq_points d \<le> asg_max_points a
         then record_grade x s (grq_points d) (asg_max_points a) False (Some grader) (grq_feedback d) w
         else (Inl (app_exn ValidationError ''Points exceed assignment maximum''), w)))"
  using assms(2)
  by (simp add: grade_submission_def submission_rows.andthen_get_or_404 [OF assms(1)]
      assignment_rows.andthen_get_or_404 [OF assms(1)] school_ok_def act_simps split: option.split)

lemma live_submission:
  "live_row Submission t sid d = Some s \<Longrightarrow> s \<in> set (t_submissions d) \<and> tenant_id s = t \<and> row_id s = sid"
  by (drule submission_rows.live_row_own) (simp add: submission_model)

lemma live_assignment:
  "live_row Assignment t aid d = Some a \<Longrightarrow> a \<in> set (t_assignments d) \<and> tenant_id a = t \<and> row_id a = aid"
  by (drule assignment_rows.live_row_own) (simp add: assignment_model)

lemma grade_recorded:
  assumes "consistent Grade d" and "g \<in> set (t_grades d)" and "gr_submission_id g = sid" and "tenant_id g = t"
  shows "grade_for t sid d = Some g"
  unfolding grade_for_def
  by (rule grade_rows.found_unique [OF assms(1)]) (use assms(2-4) in \<open>simp_all add: grade_model\<close>)

text \<open>
  C19. Grading by hand. When it returns, the submission and its assignment are the live ones of the
  tenant, the points asked for do not exceed the maximum, and the points, the grader and the
  submission are those of the request; the tables then have exactly one grade for the submission,
  this one as the column stores it, the submission is marked as graded, and nothing else has changed
  but the audit log.
\<close>

theorem grade_submission_spec:
  assumes "serving t w" and "steady w" and "school_ok (view w)"
    and "grade_submission x sid d grader w = (Inr g, w')"
  shows "\<exists>s a. live_row Submission t sid (view w) = Some s \<and>
    live_row Assignment t (sub_assignment_id s) (view w) = Some a \<and> grq_points d \<le> asg_max_points a \<and>
    gr_submission_id g = sid \<and> gr_points g = grq_points d \<and> gr_graded_by g = Some grader \<and>
    grade_for t sid (view w') = Some (m_stored Grade g) \<and>
    no_logs (view w') = no_logs ((view w)
      \<lparr>t_submissions := marked s (t_submissions (view w)),
       t_grades := upserted Grade (grade_for t sid (view w)) g (t_grades (view w))\<rparr>)"
proof -
  obtain s a where s: "live_row Submission t sid (view w) = Some s"
    and a: "live_row Assignment t (sub_assignment_id s) (view w) = Some a" "grq_points d \<le> asg_max_points a"
    and run: "record_grade x s (grq_points d) (asg_max_points a) False (Some grader) (grq_feedback d) w = (Inr g, w')"
    using assms(4) by (auto simp: grade_submission_start [OF assms(1,3)] split: option.splits if_splits)
  note own = live_submission [OF s]
  have cons: "consistent Submission (view w)" "consistent Grade (view w)"
    using assms(3) by (simp_all add: school_ok_def)
  from record_grade_ok [OF assms(1,2) cons _ _ run] own
  have rec: "consistent Grade (view w')"
    "no_logs (view w') = no_logs ((view w)\<lparr>t_submissions := marked s (t_submissions (view w)),
       t_grades := upserted Grade (grade_for t sid (view w)) g (t_grades (view w))\<rparr>)"
    "g = (case grade_for t sid (view w) of
       None \<Rightarrow> new_grade s (grq_points d) (asg_max_points a) False (Some grader) (grq_feedback d)
         (clock x (w_draw w)) (uuid4 x (Suc (w_draw w))) (w_now w) t
     | Some h \<Rightarrow> regrade (grq_points d) False (Some grader) (grq_feedback d) (clock x (w_draw w)) h)"
    using assms(1) by auto
  have g: "gr_submission_id g = sid \<and> gr_points g = grq_points d \<and> gr_graded_by g = Some grader \<and> tenant_id g = t"
    using own by (subst rec(3))+ (auto simp: new_grade_def regrade_def dest: grade_forD split: option.split)
  have "m_stored Grade g \<in> set (t_grades (view w'))"
    using no_logs_eq(24) [OF rec(2)] grade_forD [of t sid "view w"]
    by (auto simp: upserted_def grade_model split: option.splits)
  then have "grade_for t sid (view w') = Some (m_stored Grade g)"
    using g by (intro grade_recorded [OF rec(1)]) (simp_all add: grade_model)
  then show ?thesis using s a g rec(2) by blast
qed

text \<open>Nothing but an occupied key can stop a grade within the maximum.\<close>

lemma fits_below:
  assumes "two_places m" and "0 \<le> p" and "p \<le> m"
  shows "numeric_fits 6 2 p"
proof -
  have "\<bar>m\<bar> < 10000" using assms(1) by (rule two_placesE)
  with round_to_at_most [OF assms] assms show ?thesis by (simp add: numeric_fits_def)
qed

lemma keys_marked: "row_id ` set (marked s rows) = row_id ` set rows"
  unfolding marked_def set_map image_image by (rule image_cong) auto

lemma exists_marked [simp]:
  "submission_exists (d\<lparr>t_submissions := marked s (t_submissions d)\<rparr>) i = submission_exists d i"
  "assignment_exists (d\<lparr>t_submissions := ss\<rparr>) i = assignment_exists d i"
  "tenant_exists (d\<lparr>t_submissions := ss\<rparr>) i = tenant_exists d i"
proof -
  have "submission_exists d i \<longleftrightarrow> i \<in> row_id ` set (t_submissions d)" for d
    by (auto simp: submission_exists_def list_ex_iff)
  then show "submission_exists (d\<lparr>t_submissions := marked s (t_submissions d)\<rparr>) i = submission_exists d i"
    by (simp add: keys_marked)
qed (simp_all add: assignment_exists_def tenant_exists_def)

lemma grade_refs:
  "m_refs Grade d g \<longleftrightarrow> tenant_exists d (tenant_id g) \<and> submission_exists d (gr_submission_id g) \<and>
     assignment_exists d (gr_assignment_id g)"
  "m_fits Grade g \<longleftrightarrow> numeric_fits 6 2 (gr_points g) \<and> numeric_fits 6 2 (gr_max_points g)"
  by (simp_all add: Grade_def)

lemma mark_graded_returns:
  assumes "serving t w" and "consistent Submission (view w)"
    and s: "s \<in> set (t_submissions (view w))" "tenant_id s = t" "m_fits Submission s" "m_refs Submission (view w) s"
  shows "\<exists>w'. (if sub_status s = Graded then ret ()
    else sql_update Submission (row_id s) (\<lambda>r. r\<lparr>sub_status := Graded\<rparr>)) w = (Inr (), w')"
proof -
  have "update_error Submission (m_id Submission s) (\<lambda>r. r\<lparr>sub_status := Graded\<rparr>) w = None"
    by (rule submission_rows.update_allowed [OF assms(2)])
      (use s submission_rows.serving_visible [OF assms(1)] in
        \<open>simp_all add: submission_model, simp_all add: Submission_def\<close>)
  then show ?thesis by (simp add: sql_update_updated submission_model ret_def)
qed

lemma record_grade_returns:
  assumes sv: "serving t w" and st: "steady w" and ok: "school_ok (view w)"
    and s: "s \<in> set (t_submissions (view w))" "tenant_id s = t" "m_fits Submission s" "m_refs Submission (view w) s"
    and a: "a \<in> set (t_assignments (view w))" "row_id a = sub_assignment_id s"
    and p: "0 \<le> p" "p \<le> asg_max_points a"
    and fresh: "\<forall>g \<in> set (t_grades (view w)). row_id g \<noteq> uuid4 x (Suc (w_draw w))"
  shows "\<exists>g w'. record_grade x s p (asg_max_points a) auto by fb w = (Inr g, w')"
proof -
  let ?w = "w\<lparr>w_draw := Suc (w_draw w)\<rparr>"
  let ?now = "clock x (w_draw w)"
  let ?old = "grade_for t (row_id s) (view w)"
  have cons: "consistent Submission (view w)" "consistent Grade (view w)"
    using ok by (simp_all add: school_ok_def)
  have start: "serving t ?w" "steady ?w" "consistent Submission (view ?w)" "s \<in> set (t_submissions (view ?w))"
    "m_refs Submission (view ?w) s" "consistent Grade (view ?w)"
    using sv st cons s by simp_all
  obtain w1 where mark: "(if sub_status s = Graded then ret ()
      else sql_update Submission (row_id s) (\<lambda>r. r\<lparr>sub_status := Graded\<rparr>)) ?w = (Inr (), w1)"
    using mark_graded_returns [OF start(1,3,4) s(2,3) start(5)] by blast
  note m = mark_graded [OF start(1-4) s(2) mark]
  have view1: "view w1 = (view w)\<lparr>t_submissions := marked s (t_submissions (view w))\<rparr>"
    and w1: "serving t w1" "steady w1" "w_draw w1 = Suc (w_draw w)" "w_now w1 = w_now w"
    using m by simp_all
  have max: "numeric_fits 6 2 (asg_max_points b)" if "b \<in> set (t_assignments (view w))" for b
    using ok that by (simp add: school_ok_def two_places_def)
  have fits: "numeric_fits 6 2 p"
    using ok a(1) p by (intro fits_below [of "asg_max_points a"]) (simp_all add: school_ok_def)
  have here: "submission_exists (view w) (row_id s)" "tenant_exists (view w) t" "assignment_exists (view w) (row_id a)"
    using s a by (auto simp: Submission_def submission_exists_def assignment_exists_def list_ex_iff)
  obtain g w2 where put: "upsert x Grade (new_grade s p (asg_max_points a) auto by fb ?now) (regrade p auto by fb ?now) ?old w1 = (Inr g, w2)"
  proof (atomize_elim, rule grade_rows.upsert_returns [OF w1(1)])
    show "consistent Grade (view w1)" using start(6) by (simp add: view1)
    show "?old = first_row (live_of Grade t (\<lambda>g. gr_submission_id g = row_id s) (view w1))"
      by (simp add: view1 flip: grade_for_def)
    show "insert_error Grade (new_grade s p (asg_max_points a) auto by fb ?now (uuid4 x (w_draw w1)) (w_now w1) t) w1 = None"
      (is "insert_error Grade ?g w1 = None") if "?old = None"
    proof -
      have "row_visible Grade w1 ?g"
        by (simp add: grade_rows.serving_visible [OF w1(1)] new_grade_def)
      moreover have "\<forall>g \<in> set (t_grades (view w)). gr_submission_id g \<noteq> row_id s"
      proof (intro ballI notI)
        fix g assume g_in: "g \<in> set (t_grades (view w))" and g: "gr_submission_id g = row_id s"
        obtain r where r: "r \<in> set (t_submissions (view w))" "row_id r = row_id s" "tenant_id r = tenant_id g"
          using ok g_in g by (auto simp: school_ok_def grades_sound_def grade_sound_def)
        then have "r = s" using unique_row [of Submission "view w" r s] cons(1) s(1) by (simp add: submission_model)
        then have "?old = Some g" using r g s(2) g_in by (intro grade_recorded [OF cons(2)]) simp_all
        with \<open>?old = None\<close> show False by simp
      qed
      moreover have "m_refs Grade (view w1) ?g" "m_fits Grade ?g"
        using here fits max a by (simp_all add: grade_refs view1 new_grade_def)
      ultimately show ?thesis
        using fresh by (auto simp: insert_error_def list_ex_iff grade_model view1 w1 new_grade_def)
    qed
    show "tenant_id (regrade p auto by fb ?now h) = tenant_id h \<and> m_fits Grade (regrade p auto by fb ?now h) \<and>
        m_refs Grade (view w1) (regrade p auto by fb ?now h) \<and>
        (\<forall>s. m_clash Grade (regrade p auto by fb ?now h) s \<longrightarrow> m_clash Grade h s)"
      if "?old = Some h" "h \<in> set (m_rows Grade (view w1))" for h
    proof -
      have "grade_sound (view w) h" "tenant_id h = t"
        using that grade_forD [OF that(1)] ok by (simp_all add: school_ok_def grades_sound_def)
      moreover from this(1) have "submission_exists (view w) (gr_submission_id h)"
        "assignment_exists (view w) (gr_assignment_id h)" "numeric_fits 6 2 (gr_max_points h)"
        using max by (auto simp: grade_sound_def submission_exists_def assignment_exists_def list_ex_iff)
      ultimately show ?thesis
        using fits here(2) by (auto simp: grade_refs view1 regrade_def grade_model)
    qed
  qed
  have "?old = first_row (live_of Grade t (\<lambda>g. gr_submission_id g = row_id s) (view w1))"
    "consistent Grade (view w1)" using start(6) by (simp_all add: view1 flip: grade_for_def)
  then have "steady w2"
    by (intro grade_rows.upsert_ok(2) [OF w1(1,2) _ _ _ _ put]) (simp_all add: grade_model regrade_def)
  then obtain w3 where "andthen (publish_event x (Some t) (Some (sub_user_id s)) (SubmissionGradedEvent (row_id s) p auto)) (\<lambda>_. ret g) w2 = (Inr g, w3)"
    using publish_returned [of w2 x t "Some (sub_user_id s)" "SubmissionGradedEvent (row_id s) p auto" g] by blast
  then show ?thesis
    by (simp add: record_grade_upsert andthen_require_tenant [OF servingD(3) [OF sv]] act_simps
        andthen_Inr [of "get_by_submission (row_id s)", OF run_get_by_submission [OF start(1,6)]]
        andthen_Inr [of "if sub_status s = Graded then _ else _", OF mark] andthen_Inr [of "upsert x Grade _ _ _", OF put])
qed

text \<open>
  C20. Grading by hand succeeds. For a live submission that the database accepts as it is, whose
  assignment is live, points between 0 and the maximum are recorded: nothing but an identifier that is
  already taken could make the request fail.
\<close>

theorem grading_succeeds:
  assumes "serving t w" and "steady w" and "school_ok (view w)"
    and "live_row Submission t sid (view w) = Some s" and "m_fits Submission s" and "m_refs Submission (view w) s"
    and "live_row Assignment t (sub_assignment_id s) (view w) = Some a"
    and "0 \<le> grq_points d" and "grq_points d \<le> asg_max_points a"
    and "\<forall>g \<in> set (t_grades (view w)). row_id g \<noteq> uuid4 x (Suc (w_draw w))"
  shows "\<exists>g w'. grade_submission x sid d grader w = (Inr g, w')"
proof -
  have "\<exists>g w'. record_grade x s (grq_points d) (asg_max_points a) False (Some grader) (grq_feedback d) w = (Inr g, w')"
    using live_submission [OF assms(4)] live_assignment [OF assms(7)]
    by (intro record_grade_returns [OF assms(1-3)] assms(5,6,8,9,10)) simp_all
  then show ?thesis using assms(4,7,9) by (simp add: grade_submission_start [OF assms(1,3)])
qed

definition sample_grading :: grade_request where
  "sample_grading = \<lparr>grq_points = 70, grq_feedback = Some ''better''\<rparr>"

lemma sample_fresh: "\<forall>g \<in> set (t_grades (view school_world)). row_id g \<noteq> uuid4 sample_env (Suc (w_draw school_world))"
  by (simp add: sample_school_def school_grade_def sample_env_def)

theorem grading_succeeds_witness:
  "\<exists>g w. grade_submission sample_env 80 sample_grading 6 school_world = (Inr g, w)"
  by (rule grading_succeeds [OF school_book(1,2,3,5,7,8,6) _ _ sample_fresh])
    (simp_all add: sample_grading_def school_assignment_def)

text \<open>The grade of the sample school is replaced: the request of the second property.\<close>

lemma school_graded:
  obtains g w where "grade_submission sample_env 80 sample_grading 6 school_world = (Inr g, w)"
proof -
  have "\<exists>g w. record_grade sample_env school_submission 70 (asg_max_points (school_assignment 41 PlainAssignment)) False
      (Some 6) (Some ''better'') school_world = (Inr g, w)"
    by (rule record_grade_returns [OF school_book(1-3) _ _ school_book(7,8) _ _ _ _ sample_fresh])
      (simp_all add: sample_school_def school_submission_def school_assignment_def)
  moreover have "grade_submission sample_env 80 sample_grading 6 school_world =
      record_grade sample_env school_submission 70 (asg_max_points (school_assignment 41 PlainAssignment)) False
        (Some 6) (Some ''better'') school_world"
    by (simp add: grade_submission_start [OF school_book(1,3)] school_book(5,6) sample_grading_def
        del: view_sample_world) (simp add: school_assignment_def)
  ultimately show thesis using that by auto
qed

theorem grade_submission_spec_witness:
  "\<exists>g w. grade_submission sample_env 80 sample_grading 6 school_world = (Inr g, w) \<and> gr_points g = 70 \<and>
     length (t_grades (view w)) = 1"
proof -
  obtain g w where run: "grade_submission sample_env 80 sample_grading 6 school_world = (Inr g, w)"
    by (rule school_graded)
  have one: "length (upserted Grade (grade_for 1 80 sample_school) g (t_grades sample_school)) = 1"
    by (simp add: upserted_def grade_for_def live_of_def Grade_def sample_school_def school_grade_def)
  show ?thesis
    using grade_submission_spec [OF school_book(1-3) run] run one
    by (auto simp: sample_grading_def dest!: no_logs_eq(24))
qed

section \<open>Submitting\<close>

lemma view_inserted_submission:
  "view (inserted Submission s w) = (view w)\<lparr>t_submissions := t_submissions (view w) @ [s]\<rparr>"
  by (simp add: view_inserted submission_model)

lemma quiz_paper_fair:
  "\<forall>q \<in> set (t_quiz_questions (view w)). 0 \<le> qq_points q \<Longrightarrow> fair (quiz_paper w z)"
  by (auto simp: fair_def quiz_paper_def related_def QuizQuestion_def)

text \<open>\<open>submit\<close> past its guards, for an assignment and the quiz loaded with it.\<close>

definition submit_accepted :: "'c env \<Rightarrow> uuid \<Rightarrow> assignment \<Rightarrow> (quiz \<times> quiz_paper) option \<Rightarrow> uuid \<Rightarrow> submit_request
    \<Rightarrow> ('c, submission \<times> grade option) io" where
  "submit_accepted x t a quiz uid d =
     andthen (draw (clock x)) (\<lambda>submitted.
     andthen (repo_create x Submission (new_submission (row_id a) uid d submitted)) (\<lambda>s.
     andthen (publish_event x (Some t) (Some uid) (AssignmentSubmittedEvent (row_id a) (row_id s))) (\<lambda>_.
     case (asg_type a, quiz) of
       (QuizAssignment, Some (_, paper)) \<Rightarrow>
         andthen (auto_grade x a paper s (sheet_of d)) (\<lambda>g. ret (s\<lparr>sub_status := Graded\<rparr>, Some g))
     | _ \<Rightarrow> andthen (asks (\<lambda>w. grade_of w s)) (\<lambda>g. ret (s, g)))))"

lemma submit_start:
  assumes "serving t w" and "school_ok (view w)"
  shows "submit x aid uid d w = (case live_row Assignment t aid (view w) of
     None \<Rightarrow> (Inl (missing Assignment aid), w)
   | Some a \<Rightarrow> if asg_is_published a then submit_accepted x t a (quiz_of w a) uid d w
       else (Inl (app_exn ValidationError ''Assignment is not open for submission''), w))"
proof (cases "live_row Assignment t aid (view w)")
  case None
  then show ?thesis
    using assms(2)
    by (simp add: submit_def andthen_require_tenant [OF servingD(3) [OF assms(1)]]
        assignment_rows.andthen_get_or_404 [OF assms(1)] school_ok_def)
next
  case (Some a)
  then have "row_id a = aid" using live_assignment by blast
  with Some show ?thesis
    using assms(2)
    by (simp add: submit_def submit_accepted_def andthen_require_tenant [OF servingD(3) [OF assms(1)]]
        assignment_rows.andthen_get_or_404 [OF assms(1)] school_ok_def act_simps)
qed

lemma school_ok_submission:
  assumes "school_ok (view w)" and "insert_error Submission s w = None"
  shows "school_ok (view (inserted Submission s w))"
proof -
  have "consistent Submission (view (inserted Submission s w))"
    using assms(1) by (intro submission_rows.consistent_inserted [OF _ assms(2)]) (simp add: school_ok_def)
  then show ?thesis
    using assms(1)
    by (auto simp: school_ok_def view_inserted_submission grades_sound_def grade_sound_def)
qed

text \<open>A submission whose key is new has no grade.\<close>

lemma no_grade_yet:
  assumes "school_ok d" and "\<forall>r \<in> set (t_submissions d). row_id r \<noteq> sid"
  shows "g \<in> set (t_grades d) \<Longrightarrow> gr_submission_id g \<noteq> sid"
  using assms by (auto simp: school_ok_def grades_sound_def grade_sound_def)

lemma no_logs_book:
  "no_logs d = no_logs e \<Longrightarrow>
     no_logs (d\<lparr>t_submissions := ss, t_grades := gs\<rparr>) = no_logs (e\<lparr>t_submissions := ss, t_grades := gs\<rparr>)"
  by (cases d; cases e) (simp add: no_logs_def)

text \<open>The state of an accepted submission: its row is there, and the grade if it was graded.\<close>

lemma submit_accepted_ok:
  assumes sv: "serving t w" and st: "steady w" and ok: "school_ok (view w)"
    and a: "a \<in> set (t_assignments (view w))"
    and fair: "\<And>z paper. quiz = Some (z, paper) \<Longrightarrow> fair paper"
    and run: "submit_accepted x t a quiz uid d w = (Inr (s, og), w')"
  shows "school_ok (view w') \<and> sub_assignment_id s = row_id a \<and> sub_user_id s = uid \<and> tenant_id s = t \<and>
    sub_answers s = (if sheet_of d = [] then None else Some (sheet_of d)) \<and>
    (case (asg_type a, quiz) of
       (QuizAssignment, Some (_, paper)) \<Rightarrow> (\<exists>g. og = Some g \<and> sub_status s = Graded \<and>
         gr_submission_id g = row_id s \<and> gr_points g = scaled_points (sheet_of d) paper (asg_max_points a) \<and>
         no_logs (view w') = no_logs ((view w)\<lparr>t_submissions := t_submissions (view w) @ [s],
           t_grades := t_grades (view w) @ [m_stored Grade g]\<rparr>))
     | _ \<Rightarrow> og = None \<and> sub_status s = Submitted \<and>
         no_logs (view w') = no_logs ((view w)\<lparr>t_submissions := t_submissions (view w) @ [s]\<rparr>))"
proof -
  let ?s = "new_submission (row_id a) uid d (clock x (w_draw w)) (uuid4 x (Suc (w_draw w))) (w_now w) t"
  let ?w0 = "w\<lparr>w_draw := Suc (Suc (w_draw w))\<rparr>"
  let ?w1 = "inserted Submission ?s ?w0"
  have ctx: "current_tenant_id (w_ctx (w\<lparr>w_draw := n\<rparr>)) = Some t" for n
    using servingD(3) [OF sv] by simp
  let ?rest = "case (asg_type a, quiz) of
       (QuizAssignment, Some (_, paper)) \<Rightarrow>
         andthen (auto_grade x a paper ?s (sheet_of d)) (\<lambda>g. ret (?s\<lparr>sub_status := Graded\<rparr>, Some g))
     | _ \<Rightarrow> andthen (asks (\<lambda>w. grade_of w ?s)) (\<lambda>g. ret (?s, g))"
  have ins: "insert_error Submission ?s ?w0 = None"
    and rest: "andthen (publish_event x (Some t) (Some uid) (AssignmentSubmittedEvent (row_id a) (row_id ?s)))
      (\<lambda>_. ?rest) ?w1 = (Inr (s, og), w')"
    using run
    by (auto simp: submit_accepted_def act_simps andthen_repo_create [OF ctx] Let_def split: option.splits)
  obtain w2 where pub: "publish_event x (Some t) (Some uid) (AssignmentSubmittedEvent (row_id a) (row_id ?s)) ?w1 = (Inr (), w2)"
    and aud: "audited (Some t) ?w1 w2"
    by (rule publish_appE)
  have st1: "steady ?w1" using st by simp
  note after = audited_view [OF aud st1]
  have run2: "?rest w2 = (Inr (s, og), w')" using rest by (simp add: andthen_Inr [of "publish_event x _ _ _", OF pub])
  have ok1: "school_ok (view ?w1)" by (rule school_ok_submission [OF _ ins]) (use ok in simp)
  then have ok2: "school_ok (view w2)" using school_ok_no_logs [OF after(1)] by simp
  have view1: "view ?w1 = (view w)\<lparr>t_submissions := t_submissions (view w) @ [?s]\<rparr>"
    by (simp add: view_inserted_submission)
  have eq2: "t_submissions (view w2) = t_submissions (view w) @ [?s]" "t_grades (view w2) = t_grades (view w)"
    "t_assignments (view w2) = t_assignments (view w)"
    using no_logs_eq(19,23,24) [OF after(1)] view1 by simp_all
  have fresh: "row_id r \<noteq> row_id ?s" if "r \<in> set (t_submissions (view w))" for r
    using submission_rows.insert_error_fresh [OF ins, of r] that by (simp add: submission_model)
  have none: "gr_submission_id g \<noteq> row_id ?s" if "g \<in> set (t_grades (view w2))" for g
    by (rule no_grade_yet [OF ok _ that [unfolded eq2]]) (use fresh in auto)
  have plain: "school_ok (view w') \<and> s = ?s \<and> og = None \<and>
      no_logs (view w') = no_logs ((view w)\<lparr>t_submissions := t_submissions (view w) @ [s]\<rparr>)"
    if "?rest = andthen (asks (\<lambda>w. grade_of w ?s)) (\<lambda>g. ret (?s, g))"
  proof -
    have "related Grade (\<lambda>g. gr_submission_id g = row_id ?s) w2 = []"
      using none by (auto simp: related_def grade_model filter_empty_conv)
    then have "w' = w2" "s = ?s" "og = None"
      using run2 unfolding that by (simp_all add: act_simps grade_of_def)
    with ok2 after(1) view1 show ?thesis by simp
  qed
  show ?thesis
  proof (cases "asg_type a = QuizAssignment \<and> quiz \<noteq> None")
    case False
    have s: "sub_status ?s = Submitted" "sub_assignment_id ?s = row_id a" "sub_user_id ?s = uid" "tenant_id ?s = t"
      "sub_answers ?s = (if sheet_of d = [] then None else Some (sheet_of d))"
      by (simp_all add: new_submission_def)
    from False have "?rest = andthen (asks (\<lambda>w. grade_of w ?s)) (\<lambda>g. ret (?s, g))"
      by (cases "asg_type a"; cases quiz) simp_all
    from plain [OF this] False s show ?thesis
      by (cases "asg_type a"; cases quiz) simp_all
  next
    case True
    then obtain z paper where q: "asg_type a = QuizAssignment" "quiz = Some (z, paper)" by auto
    obtain g where grade: "record_grade x ?s (scaled_points (sheet_of d) paper (asg_max_points a)) (asg_max_points a)
        True None None w2 = (Inr g, w')" and out: "s = ?s\<lparr>sub_status := Graded\<rparr>" "og = Some g"
      using run2 q by (auto simp: auto_grade_def ret_def elim!: andthen_InrE)
    have sv2: "serving t w2" using after(3) sv by simp
    have s: "?s \<in> set (t_submissions (view w2))" "tenant_id ?s = t" by (simp_all add: eq2 new_submission_def)
    have cons: "consistent Submission (view w2)" "consistent Grade (view w2)"
      using ok2 by (simp_all add: school_ok_def)
    have a2: "a \<in> set (t_assignments (view w2))" "row_id a = sub_assignment_id ?s"
      using a by (simp_all add: eq2 new_submission_def)
    have max: "two_places (asg_max_points a)" "0 \<le> asg_max_points a" using a ok by (simp_all add: school_ok_def)
    note range = scaled_points_bounds [OF fair [OF q(2)] max, of "sheet_of d"]
    have "school_ok (view w')"
      by (rule record_grade_school [OF sv2 after(2) ok2 s a2 _ _ grade]) (use range in auto)
    moreover
    have old: "grade_for t (row_id ?s) (view w2) = None"
      using none by (auto simp: grade_for_def live_of_def grade_model filter_empty_conv)
    from record_grade_ok [OF sv2 after(2) cons s grade]
    have rec: "no_logs (view w') = no_logs ((view w2)\<lparr>t_submissions := marked ?s (t_submissions (view w2)),
        t_grades := t_grades (view w2) @ [m_stored Grade g]\<rparr>)"
      and g: "gr_submission_id g = row_id ?s" "gr_points g = scaled_points (sheet_of d) paper (asg_max_points a)"
      by (simp_all add: old upserted_def new_grade_def)
    have "marked ?s (t_submissions (view w)) = t_submissions (view w)"
      unfolding marked_def by (rule map_idI) (use fresh in auto)
    then have "marked ?s (t_submissions (view w2)) = t_submissions (view w) @ [s]"
      by (simp add: eq2 out marked_def)
    then have "no_logs (view w') = no_logs ((view w)\<lparr>t_submissions := t_submissions (view w) @ [s],
           t_grades := t_grades (view w) @ [m_stored Grade g]\<rparr>)"
      using rec no_logs_book [OF after(1)] view1 eq2 by simp
    ultimately show ?thesis
      using q g by (simp add: out new_submission_def)
  qed
qed

text \<open>
  C9. Submitting. When it returns, the assignment is a live one of the tenant and published, and the
  submission of the user, with the answers of the request, is a new row. For a quiz it is graded
  automatically with the mark of the answers, a new grade as the column stores it; otherwise it stays
  submitted without a grade. Nothing else has changed but the audit log.
\<close>

theorem submit_spec:
  assumes "serving t w" and "steady w" and "school_ok (view w)"
    and "\<forall>q \<in> set (t_quiz_questions (view w)). 0 \<le> qq_points q"
    and "submit x aid uid d w = (Inr (s, og), w')"
  shows "\<exists>a. live_row Assignment t aid (view w) = Some a \<and> asg_is_published a \<and>
    sub_assignment_id s = aid \<and> sub_user_id s = uid \<and> sub_answers s = (if sheet_of d = [] then None else Some (sheet_of d)) \<and>
    (case (asg_type a, quiz_of w a) of
       (QuizAssignment, Some (_, paper)) \<Rightarrow> (\<exists>g. og = Some g \<and> sub_status s = Graded \<and>
         gr_submission_id g = row_id s \<and> gr_points g = scaled_points (sheet_of d) paper (asg_max_points a) \<and>
         no_logs (view w') = no_logs ((view w)\<lparr>t_submissions := t_submissions (view w) @ [s],
           t_grades := t_grades (view w) @ [m_stored Grade g]\<rparr>))
     | _ \<Rightarrow> og = None \<and> sub_status s = Submitted \<and>
         no_logs (view w') = no_logs ((view w)\<lparr>t_submissions := t_submissions (view w) @ [s]\<rparr>))"
proof -
  obtain a where a: "live_row Assignment t aid (view w) = Some a" "asg_is_published a"
    and run: "submit_accepted x t a (quiz_of w a) uid d w = (Inr (s, og), w')"
    using assms(5) by (auto simp: submit_start [OF assms(1,3)] split: option.splits if_splits)
  have fair: "fair paper" if "quiz_of w a = Some (z, paper)" for z paper
    using that quiz_paper_fair [OF assms(4)] by (auto simp: quiz_of_def)
  from submit_accepted_ok [OF assms(1-3) _ fair run] live_assignment [OF a(1)] a show ?thesis
    by auto
qed

definition sample_essay :: submit_request where
  "sample_essay = \<lparr>sr_content = Some ''essay'', sr_file_url = None, sr_answers = None\<rparr>"

lemma school_submit: "\<not> isl (fst (submit sample_env 41 5 sample_essay school_world))"
  by code_simp

theorem submit_spec_witness:
  "\<exists>s w. submit sample_env 41 5 sample_essay school_world = (Inr (s, None), w) \<and> sub_user_id s = 5 \<and>
     t_submissions (view w) = [school_submission, s]"
proof -
  obtain s og w where run: "submit sample_env 41 5 sample_essay school_world = (Inr (s, og), w)"
    using school_submit
    by (cases "submit sample_env 41 5 sample_essay school_world";
        cases "fst (submit sample_env 41 5 sample_essay school_world)") auto
  have "live_row Assignment 1 41 (view school_world) = Some (school_assignment 41 PlainAssignment)"
    using school_book(6) by (simp add: school_submission_def)
  with submit_spec [OF school_book(1-4) run] run show ?thesis
    by (auto simp: school_assignment_def dest!: no_logs_eq(23)) (simp_all add: sample_school_def)
qed

text \<open>
  C8. The grade book stays sound. Submitting and grading by hand keep the invariant that keys and the
  one grade per submission are unique and that every grade belongs to a submission of its assignment
  and tenant and lies between 0 and the maximum of that assignment.
\<close>

theorem grade_book_invariant:
  assumes "serving t w" and "steady w" and "school_ok (view w)"
    and "\<forall>q \<in> set (t_quiz_questions (view w)). 0 \<le> qq_points q" and "grade_request_valid d"
  shows "(case submit x aid uid r w of (Inr _, w') \<Rightarrow> school_ok (view w') | _ \<Rightarrow> True) \<and>
    (case grade_submission x sid d grader w of (Inr _, w') \<Rightarrow> school_ok (view w') | _ \<Rightarrow> True)"
proof
  show "case submit x aid uid r w of (Inr _, w') \<Rightarrow> school_ok (view w') | _ \<Rightarrow> True"
  proof (cases "submit x aid uid r w")
    case (Pair res w')
    show ?thesis
    proof (cases res)
      case (Inr v)
      then obtain s og where v: "submit x aid uid r w = (Inr (s, og), w')" using Pair by (cases v) simp
      then obtain a where a: "live_row Assignment t aid (view w) = Some a"
        and run: "submit_accepted x t a (quiz_of w a) uid r w = (Inr (s, og), w')"
        by (auto simp: submit_start [OF assms(1,3)] split: option.splits if_splits)
      have fair: "fair paper" if "quiz_of w a = Some (z, paper)" for z paper
        using that quiz_paper_fair [OF assms(4)] by (auto simp: quiz_of_def)
      show ?thesis
        using submit_accepted_ok [OF assms(1-3) _ fair run] live_assignment [OF a] v by simp
    qed (simp add: Pair)
  qed
  show "case grade_submission x sid d grader w of (Inr _, w') \<Rightarrow> school_ok (view w') | _ \<Rightarrow> True"
  proof (cases "grade_submission x sid d grader w")
    case (Pair res w')
    show ?thesis
    proof (cases res)
      case (Inr g)
      with Pair obtain s a where s: "live_row Submission t sid (view w) = Some s"
        and a: "live_row Assignment t (sub_assignment_id s) (view w) = Some a" "grq_points d \<le> asg_max_points a"
        and run: "record_grade x s (grq_points d) (asg_max_points a) False (Some grader) (grq_feedback d) w = (Inr g, w')"
        by (auto simp: grade_submission_start [OF assms(1,3)] split: option.splits if_splits)
      have "school_ok (view w')"
        using live_submission [OF s] live_assignment [OF a(1)] a(2) assms(5)
        by (intro record_grade_school [OF assms(1-3) _ _ _ _ _ _ run]) (simp_all add: grade_request_valid_def)
      then show ?thesis by (simp add: Pair Inr)
    qed (simp add: Pair)
  qed
qed

theorem grade_book_invariant_witness:
  "\<exists>g w. grade_submission sample_env 80 sample_grading 6 school_world = (Inr g, w) \<and> school_ok (view w)"
proof -
  obtain g w where run: "grade_submission sample_env 80 sample_grading 6 school_world = (Inr g, w)"
    by (rule school_graded)
  have "grade_request_valid sample_grading" by (simp add: grade_request_valid_def sample_grading_def)
  from grade_book_invariant [OF school_book(1-4) this, where x = sample_env and sid = 80 and grader = 6] run show ?thesis
    by simp
qed

end
