(* ===== verification/Admin.thy ===== *)
theory Admin
  imports Submitting Registration
begin

text \<open>
  Administration, \<^verbatim>\<open>app/modules/admin/service.py\<close>: lessons and assignments of a course, the users of a
  tenant with their roles, the report, and the platform operations that run in a session of their own
  which bypasses row level security.
\<close>

section \<open>Lessons and assignments\<close>

record lesson_create =
  alc_title :: string
  alc_content_type :: lesson_type
  alc_content :: "string option"
  alc_is_preview :: bool
  alc_order_index :: int

definition lesson_create_valid :: "lesson_create \<Rightarrow> bool" where
  "lesson_create_valid d \<longleftrightarrow> 2 \<le> length (alc_title d) \<and> length (alc_title d) \<le> 200"

definition new_lesson :: "uuid \<Rightarrow> lesson_create \<Rightarrow> uuid \<Rightarrow> time \<Rightarrow> uuid \<Rightarrow> lesson" where
  "new_lesson cid d i now tid =
     \<lparr>row_id = i, created_at = now, tenant_id = tid, deleted_at = None, les_course_id = cid,
      les_module_id = None, les_title = alc_title d, les_content_type = alc_content_type d,
      les_content = alc_content d, les_order_index = alc_order_index d, les_duration_seconds = 0,
      les_is_preview = alc_is_preview d\<rparr>"

text \<open>
  An assignment to a relationship of an object that has just been flushed, and whose relationship is
  not loaded yet. \<open>implicit\<close> says whether SQLAlchemy loads the old value first, which a session of
  \<^verbatim>\<open>asyncio\<close> refuses with \<^verbatim>\<open>MissingGreenlet\<close>; the comment in \<^verbatim>\<open>AuthService.register\<close> describes this
  behaviour. The assignments of \<^verbatim>\<open>video\<close>, \<^verbatim>\<open>document\<close> and \<^verbatim>\<open>quiz\<close> change no row: the new object has none.
\<close>

definition assign_unloaded :: "bool \<Rightarrow> ('c, unit) io" where
  "assign_unloaded implicit = (if implicit then raise (Unhandled MissingGreenlet) else ret ())"

definition create_lesson :: "'c env \<Rightarrow> bool \<Rightarrow> uuid \<Rightarrow> lesson_create \<Rightarrow> ('c, lesson) io" where
  "create_lesson x implicit cid d =
     andthen (get_course cid False) (\<lambda>_.
     andthen (repo_create x Lesson (new_lesson cid d)) (\<lambda>l.
     andthen (assign_unloaded implicit) (\<lambda>_. ret l)))"

record assignment_create =
  aac_title :: string
  aac_description :: "string option"
  aac_max_points :: rat
  aac_pass_points :: rat
  aac_due_at :: "string option"
  aac_is_published :: bool

definition assignment_create_valid :: "assignment_create \<Rightarrow> bool" where
  "assignment_create_valid d \<longleftrightarrow> 2 \<le> length (aac_title d) \<and> length (aac_title d) \<le> 200"

definition new_assignment :: "uuid \<Rightarrow> assignment_create \<Rightarrow> time option \<Rightarrow> uuid \<Rightarrow> time \<Rightarrow> uuid \<Rightarrow> assignment" where
  "new_assignment cid d due i now tid =
     \<lparr>row_id = i, created_at = now, tenant_id = tid, deleted_at = None, asg_course_id = cid,
      asg_title = aac_title d, asg_description = aac_description d, asg_type = PlainAssignment,
      asg_max_points = aac_max_points d, asg_pass_points = aac_pass_points d, asg_due_at = due,
      asg_is_published = aac_is_published d\<rparr>"

text \<open>\<^verbatim>\<open>data.due_at.replace("Z", "+00:00")\<close>\<close>

definition zulu_offset :: "string \<Rightarrow> string" where
  "zulu_offset s = concat (map (\<lambda>c. if c = CHR ''Z'' then ''+00:00'' else [c]) s)"

text \<open>
  \<open>parse_iso\<close> is what the server makes of an ISO 8601 text: the instant of the \<^verbatim>\<open>datetime\<close>, in the local
  time zone of the server when the text names none, or \<^term>\<open>None\<close> when \<^verbatim>\<open>fromisoformat\<close> raises. The
  points are floats in the request; a float is the rational number it stands for.
\<close>

definition due_date :: "(string \<Rightarrow> time option) \<Rightarrow> string option \<Rightarrow> exn + time option" where
  "due_date parse_iso due = (case due of
     None \<Rightarrow> Inr None
   | Some s \<Rightarrow> if s = [] then Inr None
               else (case parse_iso (zulu_offset s) of
                       None \<Rightarrow> Inl (Unhandled ValueError)
                     | Some t \<Rightarrow> Inr (Some t)))"

definition create_assignment :: "'c env \<Rightarrow> bool \<Rightarrow> (string \<Rightarrow> time option) \<Rightarrow> uuid \<Rightarrow> assignment_create
    \<Rightarrow> ('c, assignment) io" where
  "create_assignment x implicit parse_iso cid d =
     andthen (get_course cid False) (\<lambda>_.
     andthen (lift_result (due_date parse_iso (aac_due_at d))) (\<lambda>due.
     andthen (repo_create x Assignment (new_assignment cid d due)) (\<lambda>a.
     andthen (assign_unloaded implicit) (\<lambda>_. ret a))))"

section \<open>Users\<close>

record admin_user_create =
  auc_email :: string
  auc_password :: string
  auc_full_name :: string
  auc_role_codes :: "string list"
  auc_is_active :: bool

definition admin_user_create_valid :: "admin_user_create \<Rightarrow> bool" where
  "admin_user_create_valid d \<longleftrightarrow> 8 \<le> length (auc_password d) \<and> length (auc_password d) \<le> 128 \<and>
     length (auc_full_name d) \<le> 200"

record admin_user_update =
  auu_full_name :: "string option option"
  auu_is_active :: "bool option option"
  auu_role_codes :: "string list option option"

definition admin_user_update_valid :: "admin_user_update \<Rightarrow> bool" where
  "admin_user_update_valid d \<longleftrightarrow>
     (case auu_full_name d of Some (Some n) \<Rightarrow> length n \<le> 200 | _ \<Rightarrow> True)"

definition list_users :: "'c env \<Rightarrow> page_params \<Rightarrow> ('c, user list \<times> int) io" where
  "list_users x p = repo_list x User p"

text \<open>The association rows of a user are replaced by those of the given roles.\<close>

definition set_roles :: "user \<Rightarrow> role list \<Rightarrow> role list \<Rightarrow> ('c, unit) io" where
  "set_roles u old new =
     andthen (change (\<lambda>w. w\<lparr>w_delta := (\<lambda>d. d\<lparr>t_user_roles :=
         filter (\<lambda>(a, r). \<not> (a = row_id u \<and> r \<in> row_id ` set old - row_id ` set new)) (t_user_roles d)\<rparr>)
       \<circ> w_delta w\<rparr>)) (\<lambda>_.
     for_each (filter (\<lambda>r. row_id r \<notin> row_id ` set old) new) (\<lambda>r. add_user_role (row_id u) (row_id r)))"

text \<open>
  \<^verbatim>\<open>user.roles = ...\<close> on the user that has just been flushed: its collection is not loaded yet, as with
  the lessons above.
\<close>

definition assign_roles :: "bool \<Rightarrow> user \<Rightarrow> role list \<Rightarrow> ('c, unit) io" where
  "assign_roles implicit u rs =
     andthen (assign_unloaded implicit) (\<lambda>_. set_roles u [] rs)"

definition create_user :: "'c env \<Rightarrow> bool \<Rightarrow> admin_user_create \<Rightarrow> ('c, user) io" where
  "create_user x implicit d =
     andthen require_tenant (\<lambda>tid.
     andthen (get_by_email (lower (auc_email d))) (\<lambda>taken.
     andthen (ensure (taken = None) (app_exn ConflictError ''Email already registered'')) (\<lambda>_.
     andthen (hash_password x (auc_password d)) (\<lambda>h.
     andthen (repo_create x User (\<lambda>i now t.
       \<lparr>row_id = i, created_at = now, tenant_id = t, deleted_at = None, email = lower (auc_email d),
        hashed_password = h, full_name = auc_full_name d, is_active = auc_is_active d,
        is_verified = False, is_superuser = False, last_login_at = None\<rparr>)) (\<lambda>u.
     andthen (if auc_role_codes d \<noteq> [] then get_by_codes (auc_role_codes d) else ret []) (\<lambda>rs.
     andthen (assign_roles implicit u rs) (\<lambda>_.
     andthen (publish_event x (Some tid) (Some (row_id u)) (UserRegisteredEvent (email u))) (\<lambda>_.
     ret u))))))))"

text \<open>What the request has set, as the event reports it.\<close>

definition user_changes :: "admin_user_update \<Rightarrow> (string \<times> json) list" where
  "user_changes d =
     (case auu_full_name d of None \<Rightarrow> []
      | Some v \<Rightarrow> [(''full_name'', case v of None \<Rightarrow> JNull | Some n \<Rightarrow> JStr n)]) @
     (case auu_is_active d of None \<Rightarrow> []
      | Some v \<Rightarrow> [(''is_active'', case v of None \<Rightarrow> JNull | Some b \<Rightarrow> JBool b)])"

definition apply_user_update :: "admin_user_update \<Rightarrow> user \<Rightarrow> user" where
  "apply_user_update d u =
     u\<lparr>full_name := set_value (auu_full_name d) (full_name u), is_active := set_value (auu_is_active d) (is_active u)\<rparr>"

definition update_user :: "'c env \<Rightarrow> uuid \<Rightarrow> admin_user_update \<Rightarrow> ('c, user) io" where
  "update_user x uid d =
     andthen (repo_get_or_404 User uid) (\<lambda>u.
     andthen (asks (\<lambda>w. roles_of w u)) (\<lambda>old.
     andthen (ensure (auu_full_name d \<noteq> Some None \<and> auu_is_active d \<noteq> Some None)
       (Unhandled (IntegrityError ''User''))) (\<lambda>_.
     andthen (if auu_full_name d = None \<and> auu_is_active d = None then ret ()
              else sql_update User (row_id u) (apply_user_update d)) (\<lambda>_.
     andthen (case auu_role_codes d of
         Some (Some codes) \<Rightarrow> andthen (get_by_codes codes) (\<lambda>rs. set_roles u old rs)
       | _ \<Rightarrow> ret ()) (\<lambda>_.
     andthen require_tenant (\<lambda>tid.
     andthen (publish_event x (Some tid) (Some (row_id u)) (UserUpdatedEvent (user_changes d))) (\<lambda>_.
     ret (apply_user_update d u))))))))"

section \<open>The report\<close>

record report_out =
  rep_users :: int
  rep_courses :: int
  rep_enrollments :: int
  rep_submissions :: int
  rep_active_modules :: "string list"

definition count_all :: "'r model \<Rightarrow> ('c, int) io" where
  "count_all M = asks (\<lambda>w. int (length (related M (\<lambda>_. True) w)))"

definition tenant_report :: "'c env \<Rightarrow> ('c, report_out) io" where
  "tenant_report x =
     andthen require_tenant (\<lambda>tid.
     andthen (enabled_codes x tid) (\<lambda>codes.
     andthen (count_all User) (\<lambda>users.
     andthen (count_all Course) (\<lambda>courses.
     andthen (count_all CourseEnrollment) (\<lambda>enrollments.
     andthen (count_all Submission) (\<lambda>submissions.
     ret \<lparr>rep_users = users, rep_courses = courses, rep_enrollments = enrollments,
          rep_submissions = submissions, rep_active_modules = sorted_list_of_set codes\<rparr>))))))"

section \<open>Platform administration\<close>

record tenant_create_request =
  tcr_name :: string
  tcr_slug :: string
  tcr_modules :: "module_code list"
  tcr_admin_email :: string
  tcr_admin_password :: string

definition tenant_create_valid :: "tenant_create_request \<Rightarrow> bool" where
  "tenant_create_valid d \<longleftrightarrow>
     2 \<le> length (tcr_name d) \<and> length (tcr_name d) \<le> 200 \<and> 2 \<le> length (tcr_slug d) \<and> length (tcr_slug d) \<le> 80 \<and>
     8 \<le> length (tcr_admin_password d) \<and> length (tcr_admin_password d) \<le> 128"

text \<open>\<^verbatim>\<open>set(data.modules) | {ModuleCode.AUTH}\<close>, enumerated in the order of the catalog.\<close>

definition licensed_codes :: "tenant_create_request \<Rightarrow> module_code list" where
  "licensed_codes d = filter (\<lambda>c. c \<in> set (tcr_modules d) \<or> c = AUTH) all_module_codes"

definition first_admin :: "tenant_create_request \<Rightarrow> string \<Rightarrow> uuid \<Rightarrow> uuid \<Rightarrow> time \<Rightarrow> user" where
  "first_admin d h tid i now =
     \<lparr>row_id = i, created_at = now, tenant_id = tid, deleted_at = None, email = lower (tcr_admin_email d),
      hashed_password = h, full_name = ''Tenant Admin'', is_active = True, is_verified = False,
      is_superuser = True, last_login_at = None\<rparr>"

definition create_tenant :: "'c env \<Rightarrow> tenant_create_request \<Rightarrow> ('c, tenant) io" where
  "create_tenant x d = tenant_session x None True
     (andthen (get_by_slug (tcr_slug d)) (\<lambda>taken.
      andthen (ensure (taken = None)
        (app_exn ConflictError (''Tenant slug '' @ [CHR 0x27] @ tcr_slug d @ [CHR 0x27] @ '' already exists''))) (\<lambda>_.
      andthen (tenant_create x (tcr_name d) (tcr_slug d) None) (\<lambda>t.
      andthen (for_each (licensed_codes d) (\<lambda>c.
        andthen (set_module x (row_id t) (code_value c) True) (\<lambda>_. ret ()))) (\<lambda>_.
      andthen (hash_password x (tcr_admin_password d)) (\<lambda>h.
      andthen (draw (uuid4 x)) (\<lambda>i.
      andthen (asks w_now) (\<lambda>now.
      andthen (repo_add User (first_admin d h (row_id t) i now)) (\<lambda>_.
      ret t)))))))))"

record tenant_module_out =
  tmo_code :: string
  tmo_name :: string
  tmo_enabled :: bool

text \<open>\<^verbatim>\<open>ModuleCode(m.code)\<close> raises on a code the enumeration does not have.\<close>

definition module_code_of :: "string \<Rightarrow> module_code option" where
  "module_code_of s = List.find (\<lambda>c. code_value c = s) all_module_codes"

fun module_list :: "string set \<Rightarrow> licence_module list \<Rightarrow> exn + tenant_module_out list" where
  "module_list enabled [] = Inr []"
| "module_list enabled (m # ms) = (case module_code_of (mod_code m) of
     None \<Rightarrow> Inl (Unhandled ValueError)
   | Some c \<Rightarrow> (case module_list enabled ms of
       Inl e \<Rightarrow> Inl e
     | Inr outs \<Rightarrow> Inr (\<lparr>tmo_code = mod_code m, tmo_name = module_catalog c,
                        tmo_enabled = (mod_code m \<in> enabled)\<rparr> # outs)))"

definition list_modules :: "'c env \<Rightarrow> uuid \<Rightarrow> ('c, tenant_module_out list) io" where
  "list_modules x tid = tenant_session x None True
     (andthen (enabled_codes x tid) (\<lambda>enabled.
      andthen (run_select Module (base_select Module)) (\<lambda>ms.
      lift_result (module_list enabled ms))))"

definition list_tenants :: "'c env \<Rightarrow> ('c, tenant list) io" where
  "list_tenants x = tenant_session x None True tenant_list_all"

definition admin_set_module :: "'c env \<Rightarrow> uuid \<Rightarrow> module_code \<Rightarrow> bool \<Rightarrow> ('c, unit) io" where
  "admin_set_module x tid code enabled =
     andthen (ensure (\<not> (code = AUTH \<and> \<not> enabled))
       (app_exn ValidationError ''AUTH is a core module and cannot be disabled'')) (\<lambda>_.
     tenant_session x None True
       (andthen (tenant_get tid) (\<lambda>t.
        andthen (ensure (t \<noteq> None) (app_exn NotFoundError (''Tenant '' @ uuid_str tid @ '' not found''))) (\<lambda>_.
        andthen (set_module x tid (code_value code) enabled) (\<lambda>_. ret ())))))"

end
