(* ===== verification/Responses.thy ===== *)
theory Responses
  imports Dashboard Admin
begin

text \<open>
  What the endpoints answer with: the response schemas of the modules (\<^verbatim>\<open>schemas.py\<close>), each as a
  record with a function that builds it from a row, as \<^verbatim>\<open>model_validate\<close> does with \<^verbatim>\<open>from_attributes\<close>.
  A nested schema reads the relationship of the row. An attribute of the row that the schema does
  not name is not in the answer: \<^verbatim>\<open>is_correct\<close> of a quiz answer, \<^verbatim>\<open>hashed_password\<close> of a user.
\<close>

section \<open>Courses\<close>

record course_out =
  co_id :: uuid
  co_title :: string
  co_slug :: string
  co_summary :: "string option"
  co_category_id :: "uuid option"
  co_status :: course_status
  co_level :: course_level
  co_is_free :: bool
  co_price :: rat
  co_thumbnail_url :: "string option"
  co_enrollment_count :: int
  co_published_at :: "time option"
  co_created_at :: time

definition course_out_of :: "course \<Rightarrow> course_out" where
  "course_out_of c =
     \<lparr>co_id = row_id c, co_title = course_title c, co_slug = course_slug c,
      co_summary = course_summary c, co_category_id = course_category_id c,
      co_status = course_status c, co_level = course_level c, co_is_free = course_is_free c,
      co_price = course_price c, co_thumbnail_url = course_thumbnail_url c,
      co_enrollment_count = enrollment_count c, co_published_at = published_at c,
      co_created_at = created_at c\<rparr>"

record course_detail_out = course_out +
  cd_description :: "string option"

definition course_detail_of :: "course \<Rightarrow> course_detail_out" where
  "course_detail_of c = course_out.extend (course_out_of c) \<lparr>cd_description = course_description c\<rparr>"

record enrollment_out =
  eo_id :: uuid
  eo_course_id :: uuid
  eo_user_id :: uuid
  eo_status :: enrollment_status
  eo_progress_pct :: int
  eo_enrolled_at :: time
  eo_completed_at :: "time option"

definition enrollment_out_of :: "course_enrollment \<Rightarrow> enrollment_out" where
  "enrollment_out_of e =
     \<lparr>eo_id = row_id e, eo_course_id = enr_course_id e, eo_user_id = enr_user_id e,
      eo_status = enr_status e, eo_progress_pct = enr_progress_pct e, eo_enrolled_at = enrolled_at e,
      eo_completed_at = enr_completed_at e\<rparr>"

section \<open>Learning\<close>

record video_asset_out =
  vo_url :: string
  vo_hls_url :: "string option"
  vo_duration_seconds :: int

definition video_asset_out_of :: "video_asset \<Rightarrow> video_asset_out" where
  "video_asset_out_of v =
     \<lparr>vo_url = va_url v, vo_hls_url = va_hls_url v, vo_duration_seconds = va_duration_seconds v\<rparr>"

record document_asset_out =
  do_file_url :: string
  do_file_type :: string
  do_size_bytes :: int

definition document_asset_out_of :: "document_asset \<Rightarrow> document_asset_out" where
  "document_asset_out_of d =
     \<lparr>do_file_url = da_file_url d, do_file_type = da_file_type d, do_size_bytes = da_size_bytes d\<rparr>"

record lesson_out =
  lo_id :: uuid
  lo_course_id :: uuid
  lo_module_id :: "uuid option"
  lo_title :: string
  lo_content_type :: lesson_type
  lo_order_index :: int
  lo_duration_seconds :: int
  lo_is_preview :: bool
  lo_video :: "video_asset_out option"
  lo_document :: "document_asset_out option"

definition lesson_out_of :: "'c world \<Rightarrow> lesson \<Rightarrow> lesson_out" where
  "lesson_out_of w l =
     \<lparr>lo_id = row_id l, lo_course_id = les_course_id l, lo_module_id = les_module_id l,
      lo_title = les_title l, lo_content_type = les_content_type l, lo_order_index = les_order_index l,
      lo_duration_seconds = les_duration_seconds l, lo_is_preview = les_is_preview l,
      lo_video = map_option video_asset_out_of (lesson_video w l),
      lo_document = map_option document_asset_out_of (lesson_document w l)\<rparr>"

record lesson_progress_out =
  po_id :: uuid
  po_lesson_id :: uuid
  po_course_id :: uuid
  po_status :: progress_status
  po_last_position_seconds :: int
  po_completed_at :: "time option"

definition progress_out_of :: "lesson_progress \<Rightarrow> lesson_progress_out" where
  "progress_out_of p =
     \<lparr>po_id = row_id p, po_lesson_id = lp_lesson_id p, po_course_id = lp_course_id p,
      po_status = lp_status p, po_last_position_seconds = lp_last_position_seconds p,
      po_completed_at = lp_completed_at p\<rparr>"

section \<open>Assignments\<close>

record quiz_answer_out =
  qao_id :: uuid
  qao_text :: string

definition quiz_answer_out_of :: "quiz_answer \<Rightarrow> quiz_answer_out" where
  "quiz_answer_out_of a = \<lparr>qao_id = row_id a, qao_text = qa_text a\<rparr>"

record quiz_question_out =
  qqo_id :: uuid
  qqo_text :: string
  qqo_type :: question_type
  qqo_points :: rat
  qqo_order_index :: int
  qqo_answers :: "quiz_answer_out list"

definition quiz_question_out_of :: "quiz_question \<times> quiz_answer list \<Rightarrow> quiz_question_out" where
  "quiz_question_out_of = (\<lambda>(q, answers).
     \<lparr>qqo_id = row_id q, qqo_text = qq_text q, qqo_type = qq_type q, qqo_points = qq_points q,
      qqo_order_index = qq_order_index q, qqo_answers = map quiz_answer_out_of answers\<rparr>)"

record quiz_out =
  qo_id :: uuid
  qo_time_limit_seconds :: int
  qo_questions :: "quiz_question_out list"

definition quiz_out_of :: "quiz \<times> quiz_paper \<Rightarrow> quiz_out" where
  "quiz_out_of = (\<lambda>(z, paper).
     \<lparr>qo_id = row_id z, qo_time_limit_seconds = quiz_time_limit_seconds z,
      qo_questions = map quiz_question_out_of paper\<rparr>)"

record assignment_out =
  ao_id :: uuid
  ao_course_id :: uuid
  ao_title :: string
  ao_description :: "string option"
  ao_type :: assignment_type
  ao_max_points :: rat
  ao_pass_points :: rat
  ao_due_at :: "time option"
  ao_is_published :: bool
  ao_quiz :: "quiz_out option"

definition assignment_out_of :: "'c world \<Rightarrow> assignment \<Rightarrow> assignment_out" where
  "assignment_out_of w a =
     \<lparr>ao_id = row_id a, ao_course_id = asg_course_id a, ao_title = asg_title a,
      ao_description = asg_description a, ao_type = asg_type a, ao_max_points = asg_max_points a,
      ao_pass_points = asg_pass_points a, ao_due_at = asg_due_at a, ao_is_published = asg_is_published a,
      ao_quiz = map_option quiz_out_of (quiz_of w a)\<rparr>"

record grade_out =
  go_id :: uuid
  go_submission_id :: uuid
  go_assignment_id :: uuid
  go_user_id :: uuid
  go_points :: rat
  go_max_points :: rat
  go_feedback :: "string option"
  go_is_auto :: bool
  go_graded_at :: time

definition grade_out_of :: "grade \<Rightarrow> grade_out" where
  "grade_out_of g =
     \<lparr>go_id = row_id g, go_submission_id = gr_submission_id g, go_assignment_id = gr_assignment_id g,
      go_user_id = gr_user_id g, go_points = gr_points g, go_max_points = gr_max_points g,
      go_feedback = gr_feedback g, go_is_auto = gr_is_auto g, go_graded_at = gr_graded_at g\<rparr>"

record submission_out =
  so_id :: uuid
  so_assignment_id :: uuid
  so_user_id :: uuid
  so_content :: "string option"
  so_file_url :: "string option"
  so_status :: submission_status
  so_submitted_at :: time
  so_grade :: "grade_out option"

definition submission_out_of :: "submission \<times> grade option \<Rightarrow> submission_out" where
  "submission_out_of = (\<lambda>(s, g).
     \<lparr>so_id = row_id s, so_assignment_id = sub_assignment_id s, so_user_id = sub_user_id s,
      so_content = sub_content s, so_file_url = sub_file_url s, so_status = sub_status s,
      so_submitted_at = submitted_at s, so_grade = map_option grade_out_of g\<rparr>)"

section \<open>Users\<close>

record role_out =
  ro_id :: uuid
  ro_code :: string
  ro_name :: string

definition role_out_of :: "role \<Rightarrow> role_out" where
  "role_out_of r = \<lparr>ro_id = row_id r, ro_code = role_code r, ro_name = role_name r\<rparr>"

record user_out =
  uo_id :: uuid
  uo_tenant_id :: uuid
  uo_email :: string
  uo_full_name :: string
  uo_is_active :: bool
  uo_is_verified :: bool
  uo_last_login_at :: "time option"
  uo_created_at :: time
  uo_roles :: "role_out list"

record me_out = user_out +
  mo_permissions :: "string list"

text \<open>
  \<^verbatim>\<open>email: EmailStr\<close> is validated again on the way out. \<open>email_str\<close> is what pydantic makes of an
  address, \<^term>\<open>None\<close> when it refuses it, which here is no error of the request.
\<close>

definition user_out_of :: "(string \<Rightarrow> string option) \<Rightarrow> 'c world \<Rightarrow> user \<Rightarrow> exn + user_out" where
  "user_out_of email_str w u = (case email_str (email u) of
     None \<Rightarrow> Inl (Unhandled PayloadInvalid)
   | Some e \<Rightarrow> Inr
       \<lparr>uo_id = row_id u, uo_tenant_id = tenant_id u, uo_email = e, uo_full_name = full_name u,
        uo_is_active = is_active u, uo_is_verified = is_verified u, uo_last_login_at = last_login_at u,
        uo_created_at = created_at u, uo_roles = map role_out_of (roles_of w u)\<rparr>)"

fun all_ok :: "(exn + 'a) list \<Rightarrow> exn + 'a list" where
  "all_ok [] = Inr []"
| "all_ok (Inl e # rs) = Inl e"
| "all_ok (Inr a # rs) = (case all_ok rs of Inl e \<Rightarrow> Inl e | Inr as \<Rightarrow> Inr (a # as))"

section \<open>Tenants\<close>

record tenant_out =
  to_id :: uuid
  to_name :: string
  to_slug :: string
  to_is_active :: bool

definition tenant_out_of :: "tenant \<Rightarrow> tenant_out" where
  "tenant_out_of t =
     \<lparr>to_id = row_id t, to_name = tenant_name t, to_slug = slug t, to_is_active = tenant_is_active t\<rparr>"

record module_toggle =
  mt_code :: module_code
  mt_enabled :: bool

end
