(* ===== verification/Routes.thy ===== *)
theory Routes
  imports Responses
begin

text \<open>
  The endpoints, \<^verbatim>\<open>app/modules/*/router.py\<close> mounted by \<^verbatim>\<open>app/api/router.py\<close>. One definition per route
  function, under its name with the suffix \<open>_route\<close>; \<open>serve\<close> composes each with its guards in the order
  FastAPI solves them: the session of the request is opened, the licence guard of the router, the user
  behind the token, the permission guard of the route, then the validation of the request, then the
  function. \<open>answer\<close> is the application around it, with the exception handlers.
\<close>

section \<open>Requests\<close>

text \<open>
  What FastAPI hands to a route. \<open>hc_credentials\<close> is what \<^verbatim>\<open>HTTPBearer\<close> makes of the header;
  \<open>hc_parsed\<close> says that the path, query and body parse to the types of the route (an address to
  \<^verbatim>\<open>EmailStr\<close>), and \<open>hc_report\<close> is the text of the report when they do not or a constraint fails. The body is
  JSON: FastAPI answers one that is not with 422 before it solves any dependency, and no such request is
  modelled.
\<close>

record http_call =
  hc_headers :: headers
  hc_client :: "string option"
  hc_route_path :: string
  hc_credentials :: "string option"
  hc_parsed :: bool
  hc_report :: string

text \<open>What else the routes use of code outside: see \<open>user_out_of\<close>, \<open>due_date\<close>, \<open>assign_unloaded\<close>.\<close>

record server =
  sv_email_str :: "string \<Rightarrow> string option"
  sv_parse_iso :: "string \<Rightarrow> time option"
  sv_implicit :: bool

datatype endpoint =
    PostRegister register_request
  | PostLogin login_request
  | PostRefresh string
  | PostLogout "string option"
  | PostForgotPassword string
  | PostResetPassword string string
  | GetMe
  | GetCourses course_filter
  | GetCourse uuid
  | PostEnroll uuid
  | GetLessons uuid
  | PostComplete uuid int
  | GetProgress page_params
  | GetAssignments assignment_filter
  | GetAssignment uuid
  | PostSubmit uuid submit_request
  | PostGrade uuid grade_request
  | GetSubmissions uuid
  | GetMyGrades page_params
  | GetDashboard
  | GetAdminCourses course_filter
  | GetAdminCourse uuid
  | PostAdminCourse course_create
  | PutAdminCourse uuid course_update
  | DeleteAdminCourse uuid
  | GetAdminLessons uuid
  | PostAdminLesson uuid lesson_create
  | GetAdminAssignments uuid
  | PostAdminAssignment uuid assignment_create
  | GetAdminUsers page_params
  | PostAdminUser admin_user_create
  | PutAdminUser uuid admin_user_update
  | GetAdminReports
  | PostTenant tenant_create_request
  | GetTenants
  | GetTenantModules string
  | PutTenantModules string module_toggle

datatype body =
    UserBody user_out
  | TokenBody token_response
  | MessageBody string
  | MeBody me_out
  | CoursePage "course_out page_out"
  | CourseBody course_out
  | CourseDetailBody course_detail_out
  | EnrollmentBody enrollment_out
  | LessonListBody "lesson_out list"
  | LessonBody lesson_out
  | ProgressBody lesson_progress_out
  | ProgressPage "lesson_progress_out page_out"
  | AssignmentPage "assignment_out page_out"
  | AssignmentListBody "assignment_out list"
  | AssignmentBody assignment_out
  | SubmissionBody submission_out
  | SubmissionListBody "submission_out list"
  | GradeBody grade_out
  | GradePage "grade_out page_out"
  | DashboardBody dashboard_out
  | UserPage "user_out page_out"
  | ReportBody report_out
  | TenantBody tenant_out
  | TenantListBody "tenant_out list"
  | TenantModuleListBody "tenant_module_out list"

section \<open>Authentication\<close>

definition user_response :: "server \<Rightarrow> user \<Rightarrow> ('c, user_out) io" where
  "user_response sv u = andthen (asks (\<lambda>w. user_out_of (sv_email_str sv) w u)) lift_result"

definition register_request_valid :: "register_request \<Rightarrow> bool" where
  "register_request_valid d \<longleftrightarrow>
     8 \<le> length (reg_password d) \<and> length (reg_password d) \<le> 128 \<and> length (reg_full_name d) \<le> 200"

definition register_route :: "'c env \<Rightarrow> server \<Rightarrow> register_request \<Rightarrow> ('c, body) io" where
  "register_route x sv d =
     andthen (register x d) (\<lambda>u. andthen (user_response sv u) (\<lambda>out. ret (UserBody out)))"

definition login_route :: "'c env \<Rightarrow> http_call \<Rightarrow> login_request \<Rightarrow> ('c, body) io" where
  "login_route x hc d =
     andthen (login x d (map_of (hc_headers hc) ''user-agent'') (hc_client hc)) (\<lambda>t. ret (TokenBody t))"

definition refresh_route :: "'c env \<Rightarrow> string \<Rightarrow> ('c, body) io" where
  "refresh_route x token = andthen (refresh_tokens x token) (\<lambda>t. ret (TokenBody t))"

definition logout_route :: "'c env \<Rightarrow> string option \<Rightarrow> ('c, body) io" where
  "logout_route x token = andthen (logout x token) (\<lambda>_. ret (MessageBody ''Logged out''))"

definition forgot_password_route :: "'c env \<Rightarrow> string \<Rightarrow> ('c, body) io" where
  "forgot_password_route x e =
     andthen (forgot_password x e) (\<lambda>token.
     andthen (asks (\<lambda>w. is_production (w_settings w))) (\<lambda>production.
     ret (MessageBody (case token of
        Some t \<Rightarrow> if t \<noteq> [] \<and> \<not> production then ''Reset token (dev only): '' @ t
                  else ''If the email exists, a reset link has been sent''
      | None \<Rightarrow> ''If the email exists, a reset link has been sent''))))"

definition reset_password_route :: "'c env \<Rightarrow> string \<Rightarrow> string \<Rightarrow> ('c, body) io" where
  "reset_password_route x token password =
     andthen (reset_password x token password) (\<lambda>_. ret (MessageBody ''Password reset successful''))"

definition me_route :: "server \<Rightarrow> user \<Rightarrow> ('c, body) io" where
  "me_route sv u =
     andthen (user_response sv u) (\<lambda>out.
     andthen (asks (\<lambda>w. permission_codes w u)) (\<lambda>codes.
     ret (MeBody (user_out.extend out \<lparr>mo_permissions = sorted_list_of_set codes\<rparr>))))"

section \<open>Course catalog\<close>

definition list_courses_route :: "'c env \<Rightarrow> course_filter \<Rightarrow> bool \<Rightarrow> ('c, body) io" where
  "list_courses_route x f published_only =
     andthen (list_courses x f published_only) (\<lambda>(items, n).
     ret (CoursePage (page_create (map course_out_of items) n f)))"

definition get_course_route :: "uuid \<Rightarrow> ('c, body) io" where
  "get_course_route cid =
     andthen (get_course cid True) (\<lambda>c. ret (CourseDetailBody (course_detail_of c)))"

definition enroll_route :: "'c env \<Rightarrow> uuid \<Rightarrow> user \<Rightarrow> ('c, body) io" where
  "enroll_route x cid u =
     andthen (enroll x cid (row_id u)) (\<lambda>e. ret (EnrollmentBody (enrollment_out_of e)))"

section \<open>Learning\<close>

definition list_lessons_route :: "uuid \<Rightarrow> ('c, body) io" where
  "list_lessons_route cid =
     andthen (list_lessons cid) (\<lambda>ls. asks (\<lambda>w. LessonListBody (map (lesson_out_of w) ls)))"

definition complete_lesson_route :: "'c env \<Rightarrow> uuid \<Rightarrow> int \<Rightarrow> user \<Rightarrow> ('c, body) io" where
  "complete_lesson_route x lid pos u =
     andthen (complete_lesson x lid (row_id u) pos) (\<lambda>p. ret (ProgressBody (progress_out_of p)))"

definition my_progress_route :: "page_params \<Rightarrow> user \<Rightarrow> ('c, body) io" where
  "my_progress_route p u =
     andthen (my_progress (row_id u) p) (\<lambda>(rows, n).
     ret (ProgressPage (page_create (map progress_out_of rows) n p)))"

section \<open>Assignments\<close>

definition list_assignments_route :: "assignment_filter \<Rightarrow> ('c, body) io" where
  "list_assignments_route f =
     andthen (list_assignments f True) (\<lambda>(items, n).
     asks (\<lambda>w. AssignmentPage (page_create (map (assignment_out_of w) items) n f)))"

definition get_assignment_route :: "uuid \<Rightarrow> ('c, body) io" where
  "get_assignment_route aid =
     andthen (get_assignment aid) (\<lambda>a. asks (\<lambda>w. AssignmentBody (assignment_out_of w a)))"

definition submit_route :: "'c env \<Rightarrow> uuid \<Rightarrow> submit_request \<Rightarrow> user \<Rightarrow> ('c, body) io" where
  "submit_route x aid d u =
     andthen (submit x aid (row_id u) d) (\<lambda>s. ret (SubmissionBody (submission_out_of s)))"

definition grade_route :: "'c env \<Rightarrow> uuid \<Rightarrow> grade_request \<Rightarrow> user \<Rightarrow> ('c, body) io" where
  "grade_route x sid d u =
     andthen (grade_submission x sid d (row_id u)) (\<lambda>g. ret (GradeBody (grade_out_of g)))"

definition list_submissions_route :: "uuid \<Rightarrow> ('c, body) io" where
  "list_submissions_route aid =
     andthen (list_submissions_for_assignment aid) (\<lambda>ss.
     asks (\<lambda>w. SubmissionListBody (map (\<lambda>s. submission_out_of (s, grade_of w s)) ss)))"

definition my_grades_route :: "page_params \<Rightarrow> user \<Rightarrow> ('c, body) io" where
  "my_grades_route p u =
     andthen (list_grades (row_id u) p) (\<lambda>(rows, n).
     ret (GradePage (page_create (map grade_out_of rows) n p)))"

definition get_dashboard_route :: "user \<Rightarrow> ('c, body) io" where
  "get_dashboard_route u = andthen (for_user (row_id u)) (\<lambda>d. ret (DashboardBody d))"

section \<open>Administration\<close>

definition get_admin_course_route :: "uuid \<Rightarrow> ('c, body) io" where
  "get_admin_course_route cid = andthen (get_course cid False) (\<lambda>c. ret (CourseBody (course_out_of c)))"

definition create_course_route :: "'c env \<Rightarrow> course_create \<Rightarrow> ('c, body) io" where
  "create_course_route x d = andthen (create_course x d) (\<lambda>c. ret (CourseBody (course_out_of c)))"

definition update_course_route :: "'c env \<Rightarrow> uuid \<Rightarrow> course_update \<Rightarrow> ('c, body) io" where
  "update_course_route x cid d =
     andthen (update_course x cid d) (\<lambda>c. ret (CourseBody (course_out_of c)))"

definition delete_course_route :: "uuid \<Rightarrow> ('c, body) io" where
  "delete_course_route cid = andthen (delete_course cid) (\<lambda>_. ret (MessageBody ''Course deleted''))"

definition create_admin_course_lesson_route :: "'c env \<Rightarrow> server \<Rightarrow> uuid \<Rightarrow> lesson_create \<Rightarrow> ('c, body) io" where
  "create_admin_course_lesson_route x sv cid d =
     andthen (create_lesson x (sv_implicit sv) cid d) (\<lambda>l. asks (\<lambda>w. LessonBody (lesson_out_of w l)))"

text \<open>The course is a field of the filter, which \<^verbatim>\<open>BaseRepository.list\<close> does not look at.\<close>

definition get_admin_course_assignments_route :: "'c env \<Rightarrow> uuid \<Rightarrow> ('c, body) io" where
  "get_admin_course_assignments_route x cid =
     andthen (repo_list x Assignment
       (\<lparr>pg_page = 1, pg_size = 20, pg_search = None, pg_sort = None, af_course_id = Some cid, af_type = None\<rparr> :: assignment_filter))
       (\<lambda>(items, n). asks (\<lambda>w. AssignmentListBody (map (assignment_out_of w) items)))"

definition create_admin_course_assignment_route :: "'c env \<Rightarrow> server \<Rightarrow> uuid \<Rightarrow> assignment_create \<Rightarrow> ('c, body) io" where
  "create_admin_course_assignment_route x sv cid d =
     andthen (create_assignment x (sv_implicit sv) (sv_parse_iso sv) cid d) (\<lambda>a.
     asks (\<lambda>w. AssignmentBody (assignment_out_of w a)))"

definition list_users_route :: "'c env \<Rightarrow> server \<Rightarrow> page_params \<Rightarrow> ('c, body) io" where
  "list_users_route x sv p =
     andthen (list_users x p) (\<lambda>(us, n).
     andthen (asks (\<lambda>w. all_ok (map (user_out_of (sv_email_str sv) w) us))) (\<lambda>outs.
     andthen (lift_result outs) (\<lambda>items. ret (UserPage (page_create items n p)))))"

definition create_user_route :: "'c env \<Rightarrow> server \<Rightarrow> admin_user_create \<Rightarrow> ('c, body) io" where
  "create_user_route x sv d =
     andthen (create_user x (sv_implicit sv) d) (\<lambda>u.
     andthen (user_response sv u) (\<lambda>out. ret (UserBody out)))"

definition update_user_route :: "'c env \<Rightarrow> server \<Rightarrow> uuid \<Rightarrow> admin_user_update \<Rightarrow> ('c, body) io" where
  "update_user_route x sv uid d =
     andthen (update_user x uid d) (\<lambda>u. andthen (user_response sv u) (\<lambda>out. ret (UserBody out)))"

definition reports_route :: "'c env \<Rightarrow> ('c, body) io" where
  "reports_route x = andthen (tenant_report x) (\<lambda>r. ret (ReportBody r))"

definition create_tenant_route :: "'c env \<Rightarrow> tenant_create_request \<Rightarrow> ('c, body) io" where
  "create_tenant_route x d = andthen (create_tenant x d) (\<lambda>t. ret (TenantBody (tenant_out_of t)))"

definition list_tenants_route :: "'c env \<Rightarrow> ('c, body) io" where
  "list_tenants_route x = andthen (list_tenants x) (\<lambda>ts. ret (TenantListBody (map tenant_out_of ts)))"

definition resolved_tenant :: "'c env \<Rightarrow> string \<Rightarrow> ('c, uuid) io" where
  "resolved_tenant x ident =
     andthen (resolve_tenant_id x ident) (\<lambda>found. case found of
       None \<Rightarrow> raise (app_exn NotFoundError (''Tenant '' @ ident @ '' not found''))
     | Some t \<Rightarrow> ret t)"

definition list_tenant_modules_route :: "'c env \<Rightarrow> string \<Rightarrow> ('c, body) io" where
  "list_tenant_modules_route x ident =
     andthen (resolved_tenant x ident) (\<lambda>t.
     andthen (list_modules x t) (\<lambda>ms. ret (TenantModuleListBody ms)))"

definition toggle_tenant_module_route :: "'c env \<Rightarrow> string \<Rightarrow> module_toggle \<Rightarrow> ('c, body) io" where
  "toggle_tenant_module_route x ident d =
     andthen (resolved_tenant x ident) (\<lambda>t.
     andthen (admin_set_module x t (mt_code d) (mt_enabled d)) (\<lambda>_.
     ret (MessageBody (''Module '' @ code_value (mt_code d) @
       (if mt_enabled d then '' enabled'' else '' disabled'') @ '' for tenant''))))"

section \<open>Guards\<close>

text \<open>The limiter is made when the router is loaded: an unreadable rate stops the start of the program.\<close>

definition auth_limit :: "'c env \<Rightarrow> http_call \<Rightarrow> ('c, unit) io" where
  "auth_limit x hc =
     andthen (asks (\<lambda>w. new_rate_limiter (w_settings w) (Some (rate_limit_auth (w_settings w))))) (\<lambda>rate.
     case rate of Inl e \<Rightarrow> raise (Unhandled e) | Inr (n, s) \<Rightarrow> rate_limiter x n s (hc_route_path hc))"

definition validated :: "http_call \<Rightarrow> bool \<Rightarrow> ('c, unit) io" where
  "validated hc ok = ensure (hc_parsed hc \<and> ok) (RequestInvalid (hc_report hc))"

definition open_route :: "'c env \<Rightarrow> http_call \<Rightarrow> bool \<Rightarrow> ('c, body) io \<Rightarrow> ('c, body) io" where
  "open_route x hc ok endpoint = get_db x (andthen (validated hc ok) (\<lambda>_. endpoint))"

definition limited_route :: "'c env \<Rightarrow> http_call \<Rightarrow> bool \<Rightarrow> ('c, body) io \<Rightarrow> ('c, body) io" where
  "limited_route x hc ok endpoint = andthen (auth_limit x hc) (\<lambda>_. open_route x hc ok endpoint)"

definition permit :: "string list \<Rightarrow> user \<Rightarrow> ('c, unit) io" where
  "permit perms u = (if perms = [] then ret () else andthen (require_permission perms u) (\<lambda>_. ret ()))"

definition user_route :: "'c env \<Rightarrow> http_call \<Rightarrow> string list \<Rightarrow> bool \<Rightarrow> (user \<Rightarrow> ('c, body) io) \<Rightarrow> ('c, body) io" where
  "user_route x hc perms ok endpoint =
     andthen (get_current_user x (hc_credentials hc)) (\<lambda>u.
     andthen (permit perms u) (\<lambda>_.
     andthen (validated hc ok) (\<lambda>_. endpoint u)))"

definition module_route :: "'c env \<Rightarrow> http_call \<Rightarrow> module_code \<Rightarrow> string list \<Rightarrow> bool \<Rightarrow>
    (user \<Rightarrow> ('c, body) io) \<Rightarrow> ('c, body) io" where
  "module_route x hc code perms ok endpoint =
     get_db x (andthen (require_module x code) (\<lambda>_. user_route x hc perms ok endpoint))"

text \<open>Every route with its guards, as the decorators and \<^verbatim>\<open>include_router\<close> declare them.\<close>

fun serve :: "'c env \<Rightarrow> server \<Rightarrow> http_call \<Rightarrow> endpoint \<Rightarrow> ('c, body) io" where
  "serve x sv hc (PostRegister d) = limited_route x hc (register_request_valid d) (register_route x sv d)"
| "serve x sv hc (PostLogin d) = limited_route x hc True (login_route x hc d)"
| "serve x sv hc (PostRefresh t) = open_route x hc True (refresh_route x t)"
| "serve x sv hc (PostLogout t) = open_route x hc True (logout_route x t)"
| "serve x sv hc (PostForgotPassword e) = limited_route x hc True (forgot_password_route x e)"
| "serve x sv hc (PostResetPassword t p) =
     open_route x hc (8 \<le> length p \<and> length p \<le> 128) (reset_password_route x t p)"
| "serve x sv hc GetMe = get_db x (user_route x hc [] True (me_route sv))"
| "serve x sv hc (GetCourses f) =
     module_route x hc COURSES [] (page_params_valid f) (\<lambda>_. list_courses_route x f True)"
| "serve x sv hc (GetCourse c) = module_route x hc COURSES [] True (\<lambda>_. get_course_route c)"
| "serve x sv hc (PostEnroll c) = module_route x hc COURSES [''course:enroll''] True (enroll_route x c)"
| "serve x sv hc (GetLessons c) =
     module_route x hc LEARNING [''lesson:read''] True (\<lambda>_. list_lessons_route c)"
| "serve x sv hc (PostComplete l pos) = module_route x hc LEARNING [] True (complete_lesson_route x l pos)"
| "serve x sv hc (GetProgress p) =
     module_route x hc LEARNING [''progress:read''] (page_params_valid p) (my_progress_route p)"
| "serve x sv hc (GetAssignments f) =
     module_route x hc ASSIGNMENTS [''assignment:read''] (page_params_valid f) (\<lambda>_. list_assignments_route f)"
| "serve x sv hc (GetAssignment a) =
     module_route x hc ASSIGNMENTS [''assignment:read''] True (\<lambda>_. get_assignment_route a)"
| "serve x sv hc (PostSubmit a d) =
     module_route x hc ASSIGNMENTS [''assignment:submit''] True (submit_route x a d)"
| "serve x sv hc (PostGrade s d) =
     module_route x hc ASSIGNMENTS [''grade:write''] (grade_request_valid d) (grade_route x s d)"
| "serve x sv hc (GetSubmissions a) =
     module_route x hc ASSIGNMENTS [''grade:write''] True (\<lambda>_. list_submissions_route a)"
| "serve x sv hc (GetMyGrades p) =
     module_route x hc ASSIGNMENTS [''grade:read''] (page_params_valid p) (my_grades_route p)"
| "serve x sv hc GetDashboard = module_route x hc DASHBOARD [] True get_dashboard_route"
| "serve x sv hc (GetAdminCourses f) =
     module_route x hc ADMIN [''course:read''] (page_params_valid f) (\<lambda>_. list_courses_route x f False)"
| "serve x sv hc (GetAdminCourse c) =
     module_route x hc ADMIN [''course:read''] True (\<lambda>_. get_admin_course_route c)"
| "serve x sv hc (PostAdminCourse d) =
     module_route x hc ADMIN [''course:create''] (course_create_valid d) (\<lambda>_. create_course_route x d)"
| "serve x sv hc (PutAdminCourse c d) =
     module_route x hc ADMIN [''course:update''] (course_update_valid d) (\<lambda>_. update_course_route x c d)"
| "serve x sv hc (DeleteAdminCourse c) =
     module_route x hc ADMIN [''course:delete''] True (\<lambda>_. delete_course_route c)"
| "serve x sv hc (GetAdminLessons c) =
     module_route x hc ADMIN [''course:read''] True (\<lambda>_. list_lessons_route c)"
| "serve x sv hc (PostAdminLesson c d) =
     module_route x hc ADMIN [''course:update''] (lesson_create_valid d)
       (\<lambda>_. create_admin_course_lesson_route x sv c d)"
| "serve x sv hc (GetAdminAssignments c) =
     module_route x hc ADMIN [''course:read''] True (\<lambda>_. get_admin_course_assignments_route x c)"
| "serve x sv hc (PostAdminAssignment c d) =
     module_route x hc ADMIN [''course:update''] (assignment_create_valid d)
       (\<lambda>_. create_admin_course_assignment_route x sv c d)"
| "serve x sv hc (GetAdminUsers p) =
     module_route x hc ADMIN [''user:read''] (page_params_valid p) (\<lambda>_. list_users_route x sv p)"
| "serve x sv hc (PostAdminUser d) =
     module_route x hc ADMIN [''user:create''] (admin_user_create_valid d) (\<lambda>_. create_user_route x sv d)"
| "serve x sv hc (PutAdminUser u d) =
     module_route x hc ADMIN [''user:update''] (admin_user_update_valid d) (\<lambda>_. update_user_route x sv u d)"
| "serve x sv hc GetAdminReports = module_route x hc ADMIN [''report:read''] True (\<lambda>_. reports_route x)"
| "serve x sv hc (PostTenant d) =
     module_route x hc ADMIN [''tenant:manage''] (tenant_create_valid d) (\<lambda>_. create_tenant_route x d)"
| "serve x sv hc GetTenants = module_route x hc ADMIN [''tenant:manage''] True (\<lambda>_. list_tenants_route x)"
| "serve x sv hc (GetTenantModules t) =
     module_route x hc ADMIN [''tenant:manage''] True (\<lambda>_. list_tenant_modules_route x t)"
| "serve x sv hc (PutTenantModules t d) =
     module_route x hc ADMIN [''tenant:manage''] True (\<lambda>_. toggle_tenant_module_route x t d)"

fun success_status :: "endpoint \<Rightarrow> nat" where
  "success_status (PostRegister _) = 201"
| "success_status (PostEnroll _) = 201"
| "success_status (PostSubmit _ _) = 201"
| "success_status (PostAdminCourse _) = 201"
| "success_status (PostAdminLesson _ _) = 201"
| "success_status (PostAdminAssignment _ _) = 201"
| "success_status (PostAdminUser _) = 201"
| "success_status (PostTenant _) = 201"
| "success_status _ = 200"

section \<open>The application\<close>

datatype response = Success nat body | Failure error_response

text \<open>
  The handlers of domain, validation and HTTP errors run inside the context middleware, so that their
  answers name the request. The handler of every other exception runs in the outermost layer, where
  the context is gone again.
\<close>

definition handled :: "'c env \<Rightarrow> server \<Rightarrow> http_call \<Rightarrow> endpoint \<Rightarrow> ('c, response) io" where
  "handled x sv hc e =
     catch (andthen (serve x sv hc e) (\<lambda>b. ret (Success (success_status e) b)))
       (\<lambda>err. case err of
          Unhandled p \<Rightarrow> raise err
        | _ \<Rightarrow> asks (\<lambda>w. Failure (exception_response (map_option request_id (w_ctx w)) [] err)))"

text \<open>\<open>answer\<close> gives the request id of the header beside the response; \<open>tb\<close> is the formatted traceback.\<close>

definition answer :: "'c env \<Rightarrow> server \<Rightarrow> string \<Rightarrow> http_call \<Rightarrow> endpoint \<Rightarrow> 'c world \<Rightarrow>
    (string option \<times> response) \<times> 'c world" where
  "answer x sv tb hc e w =
     (case request_context_middleware x (hc_headers hc) (hc_client hc) (handled x sv hc e) w of
        (Inr (rid, r), w') \<Rightarrow> ((Some rid, r), w')
      | (Inl err, w') \<Rightarrow> ((None, Failure (exception_response (map_option request_id (w_ctx w')) tb err)), w'))"

end
