(* ===== verification/Frames.thy ===== *)
theory Frames
  imports Routes
begin

text \<open>
  What holds of every request because it holds of every statement a request can send. \<open>guard_frame\<close> collects,
  for a relation between states, the steps the guards are made of: taking a reading, talking to the cache,
  entering the user into the context. \<open>request_frame\<close> adds the inserts and updates of each table, the links of
  roles and the publication of an event. The services, the guards and the routes follow once, for any such
  relation; Isolation and Integrity interpret both locales.
\<close>

section \<open>The contract\<close>

text \<open>The endpoints behind \<^verbatim>\<open>tenant:manage\<close>, which open sessions of their own beside that of the request.\<close>

fun platform :: "endpoint \<Rightarrow> bool" where
  "platform (PostTenant _) = True"
| "platform GetTenants = True"
| "platform (GetTenantModules _) = True"
| "platform (PutTenantModules _ _) = True"
| "platform _ = False"

locale guard_frame = frame R for R :: "'c world \<Rightarrow> 'c world \<Rightarrow> bool" +
  fixes serves :: "uuid \<Rightarrow> bool"
  assumes step_draw: "R w (w\<lparr>w_draw := n\<rparr>)"
    and step_cache: "R w (w\<lparr>w_draw := n, w_redis := c\<rparr>)"
    and step_enrich: "R w (snd (enrich_context u p w))"
    and other_tenant: "current_tenant_id (w_ctx w) = Some tid \<Longrightarrow> \<not> serves tid \<Longrightarrow> R w w'"
begin

lemma keeps_reads: "reads m \<Longrightarrow> keeps R m"
  by (simp add: keeps_def reads_def frame_refl)

lemma keeps_draw: "keeps R (draw f)"
  by (simp add: keeps_def draw_def step_draw)

lemma cache_frame_R: "cache_frame R"
  by (simp add: cache_frame_def step_cache)

lemma keeps_require: "(\<And>tid. serves tid \<Longrightarrow> keeps R (f tid)) \<Longrightarrow> keeps R (andthen require_tenant f)"
proof (rule keepsI)
  fix w
  assume f: "\<And>tid. serves tid \<Longrightarrow> keeps R (f tid)"
  show "R w (snd (andthen require_tenant f w))"
  proof (cases "current_tenant_id (w_ctx w)")
    case None
    then show ?thesis by (simp add: andthen_def require_tenant_def require_tenant_id_def frame_refl)
  next
    case (Some tid)
    then show ?thesis
      using f [of tid] other_tenant [OF Some] by (cases "serves tid") (auto simp: andthen_require_tenant keeps_def)
  qed
qed

lemma keeps_enrich: "keeps R (enrich_context u p)"
  by (simp add: keeps_def step_enrich)

lemma keeps_case_prod: "(\<And>a b. keeps R (f a b)) \<Longrightarrow> keeps R (case z of (a, b) \<Rightarrow> f a b)"
  by (cases z) simp

lemmas guard_steps = keeps_require keeps_rules keeps_draw keeps_cache [OF cache_frame_R] keeps_enrich
  keeps_case_prod reads_rules [THEN keeps_reads] identity_reads [THEN keeps_reads]

lemma keeps_decode: "keeps R (decode_token x tok e)"
  unfolding decode_token_def by (intro guard_steps; auto split: jwt_result.splits option.splits intro!: guard_steps)

lemma keeps_except_token_error:
  assumes "keeps R m" and "\<And>s. keeps R (h s)"
  shows "keeps R (except_token_error m h)"
  unfolding except_token_error_def
  by (intro keeps_catch assms(1)) (use assms(2) in \<open>auto intro: keeps_raise split: exn.split py_exception.split\<close>)

lemma keeps_licences: "keeps R (enabled_codes x tid)" "keeps R (tenant_has_module x tid code)"
proof -
  show codes: "keeps R (enabled_codes x tid)"
    unfolding enabled_codes_def compute_enabled_def by (intro guard_steps)
  show "keeps R (tenant_has_module x tid code)"
    unfolding tenant_has_module_def by (intro guard_steps codes)
qed

lemma keeps_require_module: "keeps R (require_module x code)"
  unfolding require_module_def by (intro guard_steps keeps_licences)

lemma keeps_user_route: "(\<And>u. keeps R (endpoint u)) \<Longrightarrow> keeps R (user_route x hc perms ok endpoint)"
  unfolding user_route_def get_current_user_def permit_def validated_def by (intro guard_steps keeps_decode keeps_except_token_error)

lemma keeps_module_body:
  "(\<And>u. keeps R (endpoint u)) \<Longrightarrow>
     keeps R (andthen (require_module x code) (\<lambda>_. user_route x hc perms ok endpoint))"
  by (intro keeps_andthen keeps_require_module keeps_user_route)

lemma keeps_auth_limit: "keeps R (auth_limit x hc)"
  unfolding auth_limit_def rate_limiter_def Let_def
  by (intro guard_steps) (auto split: sum.split intro!: guard_steps)

end

text \<open>The statements of the services, beside what the guards do.\<close>

locale request_frame = guard_frame R serves
  for R :: "'c world \<Rightarrow> 'c world \<Rightarrow> bool" and serves :: "uuid \<Rightarrow> bool" +
  assumes step_reset: "R w (w\<lparr>w_draw := n, w_reset_store := s\<rparr>)"
    and step_publish: "serves tid \<Longrightarrow> R w (snd (publish_event x (Some tid) uid ev w))"
    and step_roles: "seen_user w holder \<Longrightarrow> (\<And>l. filter (\<lambda>l. fst l \<noteq> holder) (g l) = filter (\<lambda>l. fst l \<noteq> holder) l) \<Longrightarrow>
      R w (w\<lparr>w_delta := (\<lambda>d. d\<lparr>t_user_roles := g (t_user_roles d)\<rparr>) \<circ> w_delta w\<rparr>)"
    and step_revoke: "R w (snd (revoke_all_for_user user_key w))"
    and add_user: "email r1 = lower (email r1) \<Longrightarrow> R w (snd (sql_insert User r1 w))"
    and add_session: "R w (snd (sql_insert UserSession r2 w))"
    and add_course: "R w (snd (sql_insert Course r3 w))"
    and add_enrollment: "R w (snd (sql_insert CourseEnrollment r4 w))"
    and add_lesson: "R w (snd (sql_insert Lesson r5 w))"
    and add_progress: "R w (snd (sql_insert LessonProgress r6 w))"
    and add_assignment: "R w (snd (sql_insert Assignment r7 w))"
    and add_submission: "R w (snd (sql_insert Submission r8 w))"
    and add_grade: "R w (snd (sql_insert Grade r9 w))"
    and set_user: "(\<And>r. tenant_id (f1 r) = tenant_id r \<and> row_id (f1 r) = row_id r) \<Longrightarrow>
      (\<And>r. email (f1 r) = email r) \<Longrightarrow> R w (snd (sql_update User k f1 w))"
    and set_session: "(\<And>r. tenant_id (f2 r) = tenant_id r \<and> row_id (f2 r) = row_id r) \<Longrightarrow> R w (snd (sql_update UserSession k f2 w))"
    and set_course: "(\<And>r. tenant_id (f3 r) = tenant_id r \<and> row_id (f3 r) = row_id r) \<Longrightarrow> R w (snd (sql_update Course k f3 w))"
    and set_progress: "(\<And>r. tenant_id (f4 r) = tenant_id r \<and> row_id (f4 r) = row_id r) \<Longrightarrow> R w (snd (sql_update LessonProgress k f4 w))"
    and set_submission: "(\<And>r. tenant_id (f5 r) = tenant_id r \<and> row_id (f5 r) = row_id r) \<Longrightarrow> R w (snd (sql_update Submission k f5 w))"
    and set_grade: "(\<And>r. tenant_id (f6 r) = tenant_id r \<and> row_id (f6 r) = row_id r) \<Longrightarrow> R w (snd (sql_update Grade k f6 w))"
begin

section \<open>Steps\<close>

lemma keeps_publish: "serves tid \<Longrightarrow> keeps R (publish_event x (Some tid) uid ev)"
  by (simp add: keeps_def step_publish)

lemma keeps_inserts:
  "email r1 = lower (email r1) \<Longrightarrow> keeps R (sql_insert User r1)"
  "keeps R (sql_insert UserSession r2)" "keeps R (sql_insert Course r3)"
  "keeps R (sql_insert CourseEnrollment r4)" "keeps R (sql_insert Lesson r5)"
  "keeps R (sql_insert LessonProgress r6)" "keeps R (sql_insert Assignment r7)"
  "keeps R (sql_insert Submission r8)" "keeps R (sql_insert Grade r9)"
  by (simp_all add: keeps_def add_user add_session add_course add_enrollment add_lesson add_progress
      add_assignment add_submission add_grade)

lemma keeps_updates:
  "(\<And>r. tenant_id (f1 r) = tenant_id r \<and> row_id (f1 r) = row_id r) \<Longrightarrow> (\<And>r. email (f1 r) = email r) \<Longrightarrow> keeps R (sql_update User k f1)"
  "(\<And>r. tenant_id (f2 r) = tenant_id r \<and> row_id (f2 r) = row_id r) \<Longrightarrow> keeps R (sql_update UserSession k f2)"
  "(\<And>r. tenant_id (f3 r) = tenant_id r \<and> row_id (f3 r) = row_id r) \<Longrightarrow> keeps R (sql_update Course k f3)"
  "(\<And>r. tenant_id (f4 r) = tenant_id r \<and> row_id (f4 r) = row_id r) \<Longrightarrow> keeps R (sql_update LessonProgress k f4)"
  "(\<And>r. tenant_id (f5 r) = tenant_id r \<and> row_id (f5 r) = row_id r) \<Longrightarrow> keeps R (sql_update Submission k f5)"
  "(\<And>r. tenant_id (f6 r) = tenant_id r \<and> row_id (f6 r) = row_id r) \<Longrightarrow> keeps R (sql_update Grade k f6)"
  by (simp_all add: keeps_def set_user set_session set_course set_progress set_submission set_grade)

lemma keeps_revoke: "keeps R (revoke_all_for_user u)"
  by (simp add: keeps_def step_revoke)

lemmas steps = guard_steps keeps_publish keeps_inserts keeps_updates keeps_revoke

lemma keeps_create:
  "keeps R (sql_insert M r) \<Longrightarrow> keeps R (repo_add M r)"
  "(\<And>i now tid. keeps R (sql_insert M (mk i now tid))) \<Longrightarrow> keeps R (repo_create x M mk)"
  by (simp_all only: repo_add_def repo_create_def) (intro steps | simp)+

section \<open>Services\<close>

lemma keeps_hash_password: "keeps R (hash_password x p)"
  unfolding hash_password_def by (intro steps)

text \<open>The links of a user are changed where the session has just inserted or fetched the user.\<close>

definition when_seen :: "uuid \<Rightarrow> ('c, 'a) io \<Rightarrow> bool" where
  "when_seen u m \<longleftrightarrow> (\<forall>w. seen_user w u \<longrightarrow> R w (snd (m w)))"

definition sees :: "uuid \<Rightarrow> ('c, 'a) io \<Rightarrow> bool" where
  "sees u m \<longleftrightarrow> (\<forall>w. seen_user w u \<longrightarrow> seen_user (snd (m w)) u)"

lemma when_seen_keeps: "keeps R m \<Longrightarrow> when_seen u m"
  by (simp add: when_seen_def keeps_def)

lemma when_seen_andthen:
  assumes "when_seen u m" and "sees u m" and "\<And>v. when_seen u (f v)"
  shows "when_seen u (andthen m f)"
  unfolding when_seen_def
proof (intro allI impI)
  fix w :: "'c world"
  assume w: "seen_user w u"
  obtain r w' where run: "m w = (r, w')" by fastforce
  have first: "R w w'" and seen: "seen_user w' u"
    using assms(1,2) w by (auto simp: when_seen_def sees_def run dest: spec [of _ w])
  show "R w (snd (andthen m f w))"
  proof (cases r)
    case (Inr v)
    have "R w' (snd (f v w'))" using assms(3) seen by (simp add: when_seen_def)
    with first show ?thesis by (auto simp: andthen_def run Inr intro: frame_trans)
  qed (simp add: andthen_def run first)
qed

text \<open>What comes after the links needs them no more.\<close>

lemma when_seen_last:
  assumes "when_seen u m" and "\<And>v. keeps R (f v)"
  shows "when_seen u (andthen m f)"
  unfolding when_seen_def
proof (intro allI impI)
  fix w :: "'c world"
  assume w: "seen_user w u"
  obtain r w' where run: "m w = (r, w')" by fastforce
  have first: "R w w'" using assms(1) w by (auto simp: when_seen_def run dest: spec [of _ w])
  have "R w' (snd (f v w'))" for v using assms(2) by (simp add: keeps_def)
  with first show "R w (snd (andthen m f w))"
    by (cases r) (auto simp: andthen_def run intro: frame_trans)
qed

lemma when_seen_fetch:
  assumes "keeps R m" and "\<And>w v w'. m w = (Inr v, w') \<Longrightarrow> seen_user w' (k v)" and "\<And>v. when_seen (k v) (f v)"
  shows "keeps R (andthen m f)"
proof (rule keepsI)
  fix w
  obtain r w' where run: "m w = (r, w')" by fastforce
  have first: "R w w'" by (rule keepsD [OF assms(1) run])
  show "R w (snd (andthen m f w))"
  proof (cases r)
    case (Inr v)
    have "R w' (snd (f v w'))" using assms(3) assms(2) [of w v w'] run Inr by (simp add: when_seen_def)
    with first show ?thesis by (auto simp: andthen_def run Inr intro: frame_trans)
  qed (simp add: andthen_def run first)
qed

lemma sees_reads: "reads m \<Longrightarrow> sees u m" "sees u (ret v)" "sees u (raise err)" "sees u (ensure b err)"
  by (auto simp: sees_def reads_def act_simps)

lemma seen_cong:
  "w_bypass w' = w_bypass w \<Longrightarrow> w_guc_tenant w' = w_guc_tenant w \<Longrightarrow> t_users (view w') = t_users (view w) \<Longrightarrow>
     seen_user w' u = seen_user w u"
  by (simp add: seen_user_def row_visible_def tenant_isolation_def User_def)

lemma sees_add_user_role: "sees u (add_user_role a r)"
  by (auto simp: sees_def add_user_role_def act_simps view_def intro: seen_cong [THEN iffD2])

lemma sees_update:
  fixes f :: "user \<Rightarrow> user"
  assumes f: "\<And>r. tenant_id (f r) = tenant_id r \<and> row_id (f r) = row_id r"
  shows "sees u (sql_update User k f :: ('c, unit) io)"
  unfolding sees_def
proof (intro allI impI)
  fix w :: "'c world"
  assume "seen_user w u"
  then obtain r where r: "r \<in> set (t_users (view w))" "tenant_isolation w (tenant_id r)" "row_id r = u"
    by (auto simp: seen_user_def row_visible_def User_def)
  show "seen_user (snd (sql_update User k f w)) u"
  proof (cases "update_error User k f w")
    case None
    let ?g = "\<lambda>q. if m_id User q = k \<and> row_visible User w q then m_stored User (f q) else q"
    have same: "tenant_id (?g r) = tenant_id r \<and> row_id (?g r) = row_id r"
      using f by (simp add: User_def)
    have "?g r \<in> set (m_rows User (view (snd (sql_update User k f w))))"
      unfolding user_rows.update_view(2) [OF None] using r(1) by (auto simp: User_def)
    then have "?g r \<in> set (t_users (view (snd (sql_update User k f w))))" by (simp add: User_def)
    moreover have "row_visible User (snd (sql_update User k f w)) (?g r)"
      using r(2) same None by (auto simp: row_visible_def tenant_isolation_def User_def sql_update_def)
    ultimately show ?thesis using same r(3) unfolding seen_user_def by blast
  qed (use \<open>seen_user w u\<close> in \<open>simp add: sql_update_def\<close>)
qed

lemma sees_if: "sees u m \<Longrightarrow> sees u n \<Longrightarrow> sees u (if b then m else n)"
  by simp

lemmas sees_rules = sees_reads sees_add_user_role sees_update

lemma seen_add_user_role: "when_seen u (add_user_role u r)"
  by (auto simp: when_seen_def add_user_role_def act_simps frame_refl intro: step_roles)

lemma seen_set_roles: "when_seen (row_id u) (set_roles u old new)"
proof -
  have each: "when_seen k (for_each rs (\<lambda>r. add_user_role k (row_id r)))" for k and rs :: "role list"
    by (induction rs) (simp_all add: when_seen_keeps keeps_rules when_seen_andthen seen_add_user_role sees_rules)
  have unlink: "filter (\<lambda>l. fst l \<noteq> k) (filter P l) = filter (\<lambda>l. fst l \<noteq> k) l"
    if "\<And>l. fst l \<noteq> k \<Longrightarrow> P l" for k P and l :: "(uuid \<times> uuid) list"
    using that by (auto intro!: filter_cong)
  show ?thesis
    unfolding set_roles_def
    by (intro when_seen_andthen each)
      (auto simp: when_seen_def sees_def change_def view_def intro!: step_roles [of _ "row_id u"] unlink
        intro: seen_cong [THEN iffD2] simp del: filter_filter)
qed

lemma seen_assign_roles: "when_seen (row_id u) (assign_roles implicit u rs)"
  unfolding assign_roles_def assign_unloaded_def
  by (cases implicit) (simp_all add: act_simps seen_set_roles when_seen_keeps keeps_raise keeps_andthen)

lemma keeps_add_user:
  "email r = lower (email r) \<Longrightarrow> (\<And>v. when_seen (row_id r) (f v)) \<Longrightarrow> keeps R (andthen (repo_add User r) f)"
  by (rule when_seen_fetch [where k = "\<lambda>_. row_id r", OF keeps_create(1) [OF keeps_inserts(1)]])
    (auto simp: repo_add_def andthen_eq_Inr [of "sql_insert User r"] ret_def intro: seen_inserted)

lemma seen_created: "repo_create x User mk w = (Inr u, w') \<Longrightarrow> seen_user w' (row_id u)"
  by (cases "current_tenant_id (w_ctx w)")
    (auto simp: repo_create_def repo_add_def require_tenant_def require_tenant_id_def andthen_def act_simps
      split: sum.splits prod.splits intro: seen_inserted)

lemma keeps_create_user:
  "(\<And>i now tid. email (mk i now tid) = lower (email (mk i now tid))) \<Longrightarrow> (\<And>u. when_seen (row_id u) (f u)) \<Longrightarrow>
     keeps R (andthen (repo_create x User mk) f)"
  by (rule when_seen_fetch [where k = row_id, OF keeps_create(2) [OF keeps_inserts(1)]]) (auto intro: seen_created)

lemma keeps_get_user: "(\<And>u. when_seen (row_id u) (f u)) \<Longrightarrow> keeps R (andthen (repo_get_or_404 User i) f)"
  by (rule when_seen_fetch [where k = row_id]) (auto intro: steps seen_fetched)

lemmas service_steps = steps keeps_create keeps_hash_password keeps_decode keeps_except_token_error

lemma keeps_tokens: "keeps R (issue_tokens x u tid ua ip)"
  unfolding issue_tokens_def create_refresh_token_def create_access_token_def encode_token_def
  by (intro service_steps)

lemma keeps_register: "keeps R (register x d)"
  unfolding register_def Let_def
  by (intro keeps_add_user keeps_hash_password steps when_seen_last)
    (auto split: option.split intro: seen_add_user_role when_seen_keeps steps simp: lower_idem)

lemma keeps_login: "keeps R (login x d ua ip)"
  unfolding login_def authenticate_def by (intro service_steps keeps_tokens) simp_all

lemma keeps_refresh: "keeps R (refresh_tokens x tok)"
  unfolding refresh_tokens_def refresh_session_def revoke_session_def
  by (intro service_steps keeps_tokens) simp_all

lemma keeps_logout: "keeps R (logout x tok)"
  unfolding logout_def revoke_session_def by (intro service_steps) simp_all

lemma keeps_reset_store:
  "keeps R (reset_store_put x k v ttl)" "keeps R (reset_store_get x k)" "keeps R (reset_store_delete k)"
proof -
  have reset: "R w (w\<lparr>w_draw := n, w_reset_store := s\<rparr>)" "R w (w\<lparr>w_reset_store := s\<rparr>)" for w n s
    using step_reset [where w = w and n = n and s = s] step_reset [where w = w and n = "w_draw w" and s = s]
    by simp_all
  show "keeps R (reset_store_put x k v ttl)" "keeps R (reset_store_get x k)" "keeps R (reset_store_delete k)"
    by (simp_all add: keeps_def reset_store_put_def reset_store_get_def reset_store_delete_def act_simps
        reset case_prod_unfold Let_def change_def)
qed

lemma keeps_forgot: "keeps R (forgot_password x e)"
  unfolding forgot_password_def Let_def by (intro service_steps keeps_reset_store)

lemma keeps_reset: "keeps R (reset_password x tok p)"
  unfolding reset_password_def lookup_reset_def forget_reset_def parse_uuid_or_raise_def Let_def
  by (intro service_steps keeps_reset_store) simp_all

lemma keeps_courses:
  "keeps R (list_courses x f pub)" "keeps R (get_course cid pub)" "keeps R (enroll x cid uid)"
  "keeps R (create_course x cd)" "keeps R (update_course x cid cu)" "keeps R (delete_course cid)"
proof -
  show "keeps R (list_courses x f pub)" unfolding list_courses_def Let_def by (intro service_steps)
  show get: "keeps R (get_course cid pub)" unfolding get_course_def by (intro service_steps)
  show "keeps R (enroll x cid uid)"
    unfolding enroll_def get_for_user_course_def by (intro service_steps) simp_all
  show "keeps R (create_course x cd)" unfolding create_course_def by (intro service_steps)
  show "keeps R (update_course x cid cu)"
    unfolding update_course_def Let_def by (intro service_steps) (simp add: apply_update_def)
  have "m_deleted Course \<noteq> None" "m_mark_deleted Course now r = r\<lparr>deleted_at := Some now\<rparr>" for now r
    by (simp_all add: Course_def)
  then show "keeps R (delete_course cid)"
    unfolding delete_course_def repo_delete_def repo_soft_delete_def by (simp, intro service_steps) simp
qed

lemma keeps_learning:
  "keeps R (list_lessons cid)" "keeps R (complete_lesson x lid uid pos)" "keeps R (my_progress uid p)"
proof -
  show "keeps R (list_lessons cid)"
    unfolding list_lessons_def lessons_for_course_def by (intro service_steps)
  show "keeps R (complete_lesson x lid uid pos)"
    unfolding complete_lesson_def get_for_user_lesson_def
    by (intro service_steps) (simp_all add: complete_progress_def)
  show "keeps R (my_progress uid p)"
    unfolding my_progress_def progress_for_user_def by (intro service_steps)
qed

lemma keeps_record_grade: "keeps R (record_grade x s pts mx auto grader fb)"
  unfolding record_grade_def get_by_submission_def
  by (intro service_steps) (simp_all add: regrade_def)

lemma keeps_assignments:
  "keeps R (list_assignments af pub)" "keeps R (get_assignment aid)" "keeps R (list_grades uid p)"
  "keeps R (list_submissions_for_assignment aid)" "keeps R (submit x aid uid sr)"
  "keeps R (grade_submission x sid gr grader)"
proof -
  show "keeps R (list_assignments af pub)" unfolding list_assignments_def Let_def by (intro service_steps)
  show "keeps R (get_assignment aid)" unfolding get_assignment_def by (intro service_steps)
  show "keeps R (list_grades uid p)"
    unfolding list_grades_def grades_for_user_def by (intro service_steps)
  show "keeps R (list_submissions_for_assignment aid)"
    unfolding list_submissions_for_assignment_def by (intro service_steps)
  have auto: "keeps R (auto_grade x a paper s sheet)" for a paper s sheet
    unfolding auto_grade_def by (rule keeps_record_grade)
  show "keeps R (submit x aid uid sr)"
    unfolding submit_def
    by (intro service_steps) (auto split: assignment_type.split option.split intro!: service_steps auto)
  show "keeps R (grade_submission x sid gr grader)"
    unfolding grade_submission_def by (intro service_steps keeps_record_grade)
qed

lemma keeps_dashboard: "keeps R (for_user uid)"
  unfolding for_user_def count_where_def count_pending_def recent_activity_def by (intro service_steps)

lemma keeps_admin:
  "keeps R (create_lesson x imp cid lc)" "keeps R (create_assignment x imp iso_text cid ac)"
  "keeps R (list_users x p)" "keeps R (create_user x imp auc)" "keeps R (update_user x uid auu)"
  "keeps R (tenant_report x)"
proof -
  have unloaded: "keeps R (assign_unloaded i)" for i
    unfolding assign_unloaded_def by (intro service_steps)
  show "keeps R (create_lesson x imp cid lc)"
    unfolding create_lesson_def by (intro service_steps keeps_courses unloaded)
  show "keeps R (create_assignment x imp iso_text cid ac)"
    unfolding create_assignment_def by (intro service_steps keeps_courses unloaded)
  show "keeps R (list_users x p)" unfolding list_users_def by (intro service_steps)
  show "keeps R (create_user x imp auc)"
    unfolding create_user_def
    by (intro keeps_create_user keeps_hash_password steps when_seen_andthen [OF when_seen_keeps] when_seen_last [OF seen_assign_roles]
        sees_if sees_reads identity_reads) (simp add: lower_idem)
  show "keeps R (update_user x uid auu)"
    unfolding update_user_def
  proof (rule keeps_get_user)
    fix u
    have relink: "when_seen (row_id u) (andthen (get_by_codes codes) (\<lambda>rs. set_roles u old rs))" for codes old
      by (intro when_seen_andthen [OF when_seen_keeps] seen_set_roles steps sees_reads identity_reads)
    have roles: "when_seen (row_id u) (case auu_role_codes auu of
        Some (Some codes) \<Rightarrow> andthen (get_by_codes codes) (\<lambda>rs. set_roles u old rs) | _ \<Rightarrow> ret ())" for old
      by (auto split: option.split intro: relink when_seen_keeps keeps_ret)
    have same: "tenant_id (apply_user_update auu r) = tenant_id r \<and> row_id (apply_user_update auu r) = row_id r"
      "email (apply_user_update auu r) = email r" for r
      by (simp_all add: apply_user_update_def)
    show "when_seen (row_id u) (andthen (asks (\<lambda>w. roles_of w u)) (\<lambda>old.
        andthen (ensure (auu_full_name auu \<noteq> Some None \<and> auu_is_active auu \<noteq> Some None)
          (Unhandled (IntegrityError ''User''))) (\<lambda>_.
        andthen (if auu_full_name auu = None \<and> auu_is_active auu = None then ret ()
          else sql_update User (row_id u) (apply_user_update auu)) (\<lambda>_.
        andthen (case auu_role_codes auu of
            Some (Some codes) \<Rightarrow> andthen (get_by_codes codes) (\<lambda>rs. set_roles u old rs) | _ \<Rightarrow> ret ()) (\<lambda>_.
        andthen require_tenant (\<lambda>tid.
        andthen (publish_event x (Some tid) (Some (row_id u)) (UserUpdatedEvent (user_changes auu))) (\<lambda>_.
        ret (apply_user_update auu u))))))))"
      by (intro when_seen_last [OF roles] when_seen_andthen [OF when_seen_keeps] steps sees_if sees_reads sees_update
          same) (simp add: reads_def act_simps)
  qed
  show "keeps R (tenant_report x)"
    unfolding tenant_report_def count_all_def by (intro service_steps keeps_licences)
qed

section \<open>Routes\<close>

lemmas route_steps = service_steps keeps_register keeps_login keeps_refresh keeps_logout keeps_forgot keeps_reset
  keeps_courses keeps_learning keeps_assignments keeps_dashboard keeps_admin

lemma keeps_user_response: "keeps R (user_response sv u)"
  unfolding user_response_def by (intro keeps_andthen keeps_asks keeps_lift)

lemma keeps_auth_routes:
  "keeps R (register_route x sv rr)" "keeps R (login_route x hc lr)" "keeps R (refresh_route x tok)"
  "keeps R (logout_route x lt)" "keeps R (forgot_password_route x e)" "keeps R (reset_password_route x tok p)"
  "keeps R (me_route sv u)"
  unfolding register_route_def login_route_def refresh_route_def logout_route_def
    forgot_password_route_def reset_password_route_def me_route_def
  by (intro route_steps keeps_user_response)+

lemma keeps_learner_routes:
  "keeps R (list_courses_route x f pub)" "keeps R (get_course_route cid)" "keeps R (enroll_route x cid u)"
  "keeps R (list_lessons_route cid)" "keeps R (complete_lesson_route x lid pos u)"
  "keeps R (my_progress_route p u)" "keeps R (list_assignments_route af)" "keeps R (get_assignment_route aid)"
  "keeps R (submit_route x aid sr u)" "keeps R (grade_route x sid gr u)" "keeps R (list_submissions_route aid)"
  "keeps R (my_grades_route p u)" "keeps R (get_dashboard_route u)"
  unfolding list_courses_route_def get_course_route_def enroll_route_def list_lessons_route_def
    complete_lesson_route_def my_progress_route_def list_assignments_route_def get_assignment_route_def
    submit_route_def grade_route_def list_submissions_route_def my_grades_route_def get_dashboard_route_def
  by (intro route_steps)+

lemma keeps_admin_routes:
  "keeps R (get_admin_course_route cid)" "keeps R (create_course_route x cd)" "keeps R (update_course_route x cid cu)"
  "keeps R (delete_course_route cid)" "keeps R (create_admin_course_lesson_route x sv cid lc)"
  "keeps R (get_admin_course_assignments_route x cid)"
  "keeps R (create_admin_course_assignment_route x sv cid ac)" "keeps R (list_users_route x sv p)"
  "keeps R (create_user_route x sv auc)" "keeps R (update_user_route x sv uid auu)" "keeps R (reports_route x)"
  unfolding get_admin_course_route_def create_course_route_def update_course_route_def delete_course_route_def
    create_admin_course_lesson_route_def get_admin_course_assignments_route_def
    create_admin_course_assignment_route_def list_users_route_def create_user_route_def update_user_route_def
    reports_route_def
  by (intro route_steps keeps_user_response)+

text \<open>
  A request is one session, or the limiter and then one session; what holds of a session whose body
  keeps \<open>R\<close> holds of every request that is no platform administration.
\<close>

lemma serve_induct:
  fixes Q :: "('c, body) io \<Rightarrow> bool"
  assumes session: "\<And>m. keeps R m \<Longrightarrow> Q (get_db x m)"
    and limited: "\<And>m. Q m \<Longrightarrow> Q (andthen (auth_limit x hc) (\<lambda>_. m))"
    and e: "\<not> platform e"
  shows "Q (serve x sv hc e)"
proof -
  have opened: "keeps R m \<Longrightarrow> Q (open_route x hc ok m)" for ok m
    unfolding open_route_def validated_def by (intro session keeps_andthen keeps_ensure)
  have lim: "keeps R m \<Longrightarrow> Q (limited_route x hc ok m)" for ok m
    unfolding limited_route_def by (intro limited opened)
  have guarded: "(\<And>u. keeps R (endpoint u)) \<Longrightarrow> Q (module_route x hc code perms ok endpoint)"
    for code perms ok and endpoint :: "user \<Rightarrow> ('c, body) io"
    unfolding module_route_def by (intro session keeps_module_body)
  show ?thesis
    using e by (cases e)
      (simp_all add: opened lim guarded session keeps_user_route keeps_auth_routes keeps_learner_routes
        keeps_admin_routes)
qed

end

end
