(* ===== verification/Isolation.thy ===== *)
theory Isolation
  imports Frames
begin

text \<open>
  Two facts of every request, each an instance of \<open>request_frame\<close>: a request bound to a tenant writes
  rows of that tenant only, from the middleware to the response, and a request that fails leaves the database as it was, the audit log
  excepted, which the event handlers write in a session of their own.
\<close>

section \<open>A request writes for its tenant only\<close>

lemma confined_enrich: "confined t w (snd (enrich_context u p w))"
  by (auto simp: confined_def tame_def view_def enrich_context_def change_def current_tenant_id_def
      split: option.splits)

lemma keeps_snd: "keeps R m \<Longrightarrow> R w (snd (m w))"
  by (simp add: keeps_def)

lemmas confined_inserts = confined_revoke_all user_rows.confined_insert session_rows.confined_insert course_rows.confined_insert
  enrollment_rows.confined_insert lesson_rows.confined_insert progress_rows.confined_insert
  assignment_rows.confined_insert submission_rows.confined_insert grade_rows.confined_insert

lemma confined_updates:
  "(\<And>r. tenant_id (f1 r) = tenant_id r \<and> row_id (f1 r) = row_id r) \<Longrightarrow> keeps (confined t) (sql_update User k f1)"
  "(\<And>r. tenant_id (f2 r) = tenant_id r \<and> row_id (f2 r) = row_id r) \<Longrightarrow> keeps (confined t) (sql_update UserSession k f2)"
  "(\<And>r. tenant_id (f3 r) = tenant_id r \<and> row_id (f3 r) = row_id r) \<Longrightarrow> keeps (confined t) (sql_update Course k f3)"
  "(\<And>r. tenant_id (f4 r) = tenant_id r \<and> row_id (f4 r) = row_id r) \<Longrightarrow> keeps (confined t) (sql_update LessonProgress k f4)"
  "(\<And>r. tenant_id (f5 r) = tenant_id r \<and> row_id (f5 r) = row_id r) \<Longrightarrow> keeps (confined t) (sql_update Submission k f5)"
  "(\<And>r. tenant_id (f6 r) = tenant_id r \<and> row_id (f6 r) = row_id r) \<Longrightarrow> keeps (confined t) (sql_update Grade k f6)"
  by (rule user_rows.confined_update session_rows.confined_update course_rows.confined_update
      progress_rows.confined_update submission_rows.confined_update grade_rows.confined_update;
      simp add: User_def UserSession_def Course_def LessonProgress_def Submission_def Grade_def)+

lemma confined_publish_own: "tid = t \<Longrightarrow> confined t w (snd (publish_event x (Some tid) uid ev w))"
  by (simp add: keeps_snd [OF confined_publish])

interpretation confined_requests: request_frame "confined t" "\<lambda>tid. tid = t" for t
proof unfold_locales
  show "confined t w (w\<lparr>w_delta := (\<lambda>d. d\<lparr>t_user_roles := g (t_user_roles d)\<rparr>) \<circ> w_delta w\<rparr>)"
    if "seen_user w u" and "\<And>l. filter (\<lambda>l. fst l \<noteq> u) (g l) = filter (\<lambda>l. fst l \<noteq> u) l"
    for g u and w :: "'c world"
    using that by (rule confined_links)
qed ((rule confined_inserts [THEN keeps_snd] confined_updates [THEN keeps_snd] confined_enrich confined_publish_own; assumption?)
    | (simp add: confined_def tame_def view_def; fail))+

text \<open>The state a request for tenant \<open>t\<close> starts in, once the context middleware has bound it.\<close>

definition requesting :: "uuid \<Rightarrow> 'c world \<Rightarrow> bool" where
  "requesting t w \<longleftrightarrow> (\<exists>rc. w_ctx w = Some rc \<and> rc_tenant_id rc = Some t \<and> \<not> rc_is_superadmin rc)"

lemma requesting_tenant: "requesting t w \<Longrightarrow> current_tenant_id (w_ctx w) = Some t"
  by (auto simp: requesting_def current_tenant_id_def)

lemma requesting_get_db: "requesting t w \<Longrightarrow> get_db x m w = transaction x (Some t) False m w"
  by (auto simp: requesting_def get_db_def act_simps Let_def)

lemma auth_limit_keeps: "keeps (same (\<lambda>w. (w_ctx w, w_committed w, w_settings w))) (auth_limit x hc)"
proof -
  have cache: "cache_frame (same (\<lambda>w. (w_ctx w, w_committed w, w_settings w)))"
    by (simp add: cache_frame_def same_def)
  show ?thesis
    unfolding auth_limit_def rate_limiter_def Let_def
    by (intro same_frame.keeps_rules keeps_cache [OF cache])
      (auto split: sum.split intro!: same_frame.keeps_rules keeps_cache [OF cache] reads_get_context [THEN same_reads])
qed

text \<open>
  Two of the four endpoints behind \<^verbatim>\<open>tenant:manage\<close> write for tenants other than that of the request, as
  they are meant to. The other two read in sessions of their own, which change nothing.
\<close>

fun manages_tenants :: "endpoint \<Rightarrow> bool" where
  "manages_tenants (PostTenant _) = True"
| "manages_tenants (PutTenantModules _ _) = True"
| "manages_tenants _ = False"

abbreviation undisturbed :: "'c world \<Rightarrow> 'c world \<Rightarrow> bool" where
  "undisturbed \<equiv> same (\<lambda>w. (w_ctx w, w_delta w, w_committed w))"

lemma confined_reading_session:
  assumes "keeps undisturbed m"
  shows "keeps (confined t) (tenant_session x tid b m)"
proof (rule keepsI)
  fix w :: "'a world"
  obtain r w' where run: "m (opened x tid b w) = (r, w')" by fastforce
  have "w_ctx w' = w_ctx w" "w_delta w' = id" "w_committed w' = w_committed w"
    using keepsD [OF assms run] by (simp_all add: same_def)
  then show "confined t w (snd (tenant_session x tid b m w))"
    by (cases r) (simp_all add: confined_def tame_def tenant_session_def transaction_eq run Let_def view_def)
qed

lemma confined_platform_reads:
  "keeps (confined t) (list_tenants_route x)" "keeps (confined t) (list_tenant_modules_route x ident)"
proof -
  have cache: "cache_frame undisturbed" by (simp add: cache_frame_def same_def)
  have draws: "keeps undisturbed (draw f)" for f :: "nat \<Rightarrow> 'd"
    by (simp add: keeps_def same_def draw_def)
  note steps = same_frame.keeps_rules keeps_cache [OF cache] reads_rules [THEN same_reads] draws
  show "keeps (confined t) (list_tenants_route x)"
    unfolding list_tenants_route_def list_tenants_def tenant_list_all_def
    by (intro confined_reading_session steps confined_rules)
  have "keeps (confined t) (resolve_from_database x ident)"
    unfolding resolve_from_database_def get_by_slug_def by (intro confined_reading_session steps)
  then have "keeps (confined t) (resolve_tenant_id x ident)"
    unfolding resolve_tenant_id_def by (intro confined_requests.steps)
  moreover have "keeps (confined t) (list_modules x tid)" for tid
    unfolding list_modules_def enabled_codes_def compute_enabled_def by (intro confined_reading_session steps)
  ultimately show "keeps (confined t) (list_tenant_modules_route x ident)"
    unfolding list_tenant_modules_route_def resolved_tenant_def by (intro confined_requests.steps)
qed

lemma confined_get_db:
  assumes "keeps (confined t) m" and "requesting t w" and "distinct (map row_id (t_users (w_committed w)))"
  shows "foreign t (w_committed (snd (get_db x m w))) = foreign t (w_committed w)"
  using confined_transaction [OF assms(1) requesting_tenant, of w "Some t" x] assms(2,3)
  by (simp add: requesting_get_db)

lemma confined_serve:
  assumes "requesting t w" and "distinct (map row_id (t_users (w_committed w)))" and "\<not> manages_tenants e"
  shows "foreign t (w_committed (snd (serve x sv hc e w))) = foreign t (w_committed w)"
proof (cases "platform e")
  case True
  have guarded: "foreign t (w_committed (snd (module_route x hc code perms ok endpoint w))) = foreign t (w_committed w)"
    if "\<And>u. keeps (confined t) (endpoint u)" for code perms ok and endpoint :: "user \<Rightarrow> ('a, body) io"
    unfolding module_route_def
    by (intro confined_get_db confined_requests.keeps_module_body that assms(1,2))
  from True assms(3) show ?thesis by (cases e) (simp_all add: guarded confined_platform_reads)
next
  case False
  let ?Q = "\<lambda>m :: ('a, body) io. \<forall>w. requesting t w \<longrightarrow> distinct (map row_id (t_users (w_committed w))) \<longrightarrow>
    foreign t (w_committed (snd (m w))) = foreign t (w_committed w)"
  have "?Q (serve x sv hc e)"
  proof (rule confined_requests.serve_induct [where t = t, OF _ _ False])
    show "keeps (confined t) m \<Longrightarrow> ?Q (get_db x m)" for m :: "('a, body) io"
      by (simp add: confined_get_db)
  next
    fix m :: "('a, body) io"
    assume m: "?Q m"
    show "?Q (andthen (auth_limit x hc) (\<lambda>_. m))"
    proof (intro allI impI)
      fix w :: "'a world"
      assume w: "requesting t w" and keys: "distinct (map row_id (t_users (w_committed w)))"
      obtain r w' where run: "auth_limit x hc w = (r, w')" by fastforce
      have "(w_ctx w', w_committed w', w_settings w') = (w_ctx w, w_committed w, w_settings w)"
        using keepsD [OF auth_limit_keeps run] by (simp add: same_def)
      with w m have "requesting t w'" "w_committed w' = w_committed w" by (auto simp: requesting_def)
      with m keys show "foreign t (w_committed (snd (andthen (auth_limit x hc) (\<lambda>_. m) w))) = foreign t (w_committed w)"
        by (cases r) (auto simp: andthen_def run)
    qed
  qed
  with assms(1,2) show ?thesis by blast
qed

section \<open>From the middleware on\<close>

text \<open>The tenant that the context middleware binds a request to: that of its token or of its header.\<close>

definition bound_tenant :: "'c env \<Rightarrow> headers \<Rightarrow> 'c world \<Rightarrow> uuid option" where
  "bound_tenant x hs w =
     (case andthen (incoming_request_id x hs) (\<lambda>_. resolve_identity x hs) w of
        (Inr (tid, _), _) \<Rightarrow> tid | _ \<Rightarrow> None)"

interpretation committed_guards: guard_frame "same w_committed" "\<lambda>_. True"
  by unfold_locales (simp_all add: same_def enrich_context_def change_def split: option.split)

text \<open>A session of its own that only reads commits what was committed.\<close>

lemma reading_session:
  assumes "keeps (same (\<lambda>w. (w_delta w, w_committed w))) m"
  shows "keeps (same w_committed) (tenant_session x tid b m)"
proof (rule keepsI)
  fix w :: "'a world"
  obtain r w' where run: "m (opened x tid b w) = (r, w')" by fastforce
  have "w_delta w' = id" "w_committed w' = w_committed w"
    using keepsD [OF assms run] by (simp_all add: same_def opened_def)
  then show "same w_committed w (snd (tenant_session x tid b m w))"
    by (cases r) (simp_all add: same_def tenant_session_def transaction_eq run Let_def view_def)
qed

lemma committed_resolve: "keeps (same w_committed) (resolve_tenant_id x i)"
proof -
  let ?R = "same (\<lambda>w :: 'a world. (w_delta w, w_committed w))"
  have cache: "cache_frame ?R" by (simp add: cache_frame_def same_def)
  have "keeps (same w_committed) (resolve_from_database x i :: ('a, uuid option) io)"
    unfolding resolve_from_database_def get_by_slug_def
    by (intro reading_session same_frame.keeps_rules keeps_cache [OF cache] reads_rules [THEN same_reads])
  then show ?thesis
    unfolding resolve_tenant_id_def by (intro committed_guards.guard_steps)
qed

lemma committed_identity:
  "keeps (same w_committed) (incoming_request_id x hs)" "keeps (same w_committed) (resolve_identity x hs)"
proof -
  have "keeps (same w_committed) (header_identity x hs)"
    unfolding header_identity_def by (intro committed_guards.guard_steps committed_resolve)
  then show "keeps (same w_committed) (resolve_identity x hs)"
    unfolding resolve_identity_def Let_def
    by (intro committed_guards.guard_steps committed_guards.keeps_except_token_error committed_guards.keeps_decode)
  show "keeps (same w_committed) (incoming_request_id x hs)"
    unfolding incoming_request_id_def
    by (cases "map_of hs ''x-request-id''") (auto intro!: committed_guards.guard_steps)
qed

text \<open>A request that is bound to a tenant is served in its context, without the flag of the superuser.\<close>

lemma bound_served:
  assumes "bound_tenant x (hc_headers hc) w = Some t"
  shows "\<exists>v. requesting t v \<and> w_committed v = w_committed w \<and>
    w_committed (snd (answer x sv tb hc e w)) = w_committed (snd (serve x sv hc e v))"
proof -
  let ?hs = "hc_headers hc"
  obtain r w1 where rid: "incoming_request_id x ?hs w = (r, w1)" by fastforce
  with assms obtain rid where r: "r = Inr rid" by (cases r) (auto simp: bound_tenant_def andthen_def)
  obtain q w2 where q: "resolve_identity x ?hs w1 = (q, w2)" by fastforce
  with assms rid r obtain uid where ids: "q = Inr (Some t, uid)"
    by (cases q) (auto simp: bound_tenant_def andthen_def)
  define rc where "rc = \<lparr>request_id = rid, rc_tenant_id = Some t, rc_user_id = uid, rc_roles = {},
    rc_permissions = {}, rc_ip_address = client_ip ?hs (hc_client hc), rc_is_superadmin = False\<rparr>"
  define v where "v = w2\<lparr>w_ctx := Some rc\<rparr>"
  have "w_committed v = w_committed w"
    using keepsD [OF committed_identity(1) rid] keepsD [OF committed_identity(2) q] by (simp add: same_def v_def)
  moreover have "requesting t v" by (simp add: requesting_def v_def rc_def)
  moreover have "w_committed (snd (handled x sv hc e v)) = w_committed (snd (serve x sv hc e v))"
    by (cases "serve x sv hc e v")
      (auto simp: handled_def catch_def andthen_def act_simps split: sum.split exn.split)
  then have "w_committed (snd (answer x sv tb hc e w)) = w_committed (snd (serve x sv hc e v))"
    by (cases "handled x sv hc e v")
      (auto simp: answer_def request_context_middleware_def andthen_def rid r q ids with_context_def
        rc_def [symmetric] v_def [symmetric] act_simps split: sum.split)
  ultimately show ?thesis by blast
qed

text \<open>
  C1. Write isolation of a whole request, from the context middleware to the response. Whatever the arguments
  and the outcome, a request that the middleware binds to tenant \<open>t\<close>, by its token or by its header,
  leaves every row of every other tenant as it was, the role links of the users of other
  tenants included, and with them the catalog of the platform: tenants, modules, entitlements, permissions.
  It holds of every endpoint but the two that administer tenants, \<^verbatim>\<open>POST /admin/tenants\<close> and
  \<^verbatim>\<open>PUT /admin/tenants/{tenant}/modules\<close>, whose purpose is to write for other tenants, and of superusers
  as of anyone else: the context gets their flag only after the session is open. The identifiers of the users
  are unique, as the primary key makes them.
\<close>

theorem request_isolation:
  assumes "bound_tenant x (hc_headers hc) w = Some t" and "distinct (map row_id (t_users (w_committed w)))"
    and "\<not> manages_tenants e"
  shows "foreign t (w_committed (snd (answer x sv tb hc e w))) = foreign t (w_committed w)"
proof -
  obtain v where "requesting t v" "w_committed v = w_committed w"
      "w_committed (snd (answer x sv tb hc e w)) = w_committed (snd (serve x sv hc e v))"
    using bound_served [OF assms(1)] by blast
  with confined_serve [OF _ _ assms(3), of t v x sv hc] assms(2) show ?thesis by simp
qed

text \<open>A learner of the sample school asks to enroll; without a token the request is refused.\<close>

definition sample_call :: http_call where
  "sample_call =
     \<lparr>hc_headers = [], hc_client = Some ''127.0.0.1'', hc_route_path = ''/api/v1'',
      hc_credentials = None, hc_parsed = True, hc_report = []\<rparr>"

definition sample_server :: server where
  "sample_server = \<lparr>sv_email_str = Some, sv_parse_iso = (\<lambda>_. None), sv_implicit = True\<rparr>"

lemma school_requesting: "requesting 1 school_world"
  by (simp add: requesting_def sample_world_def)

theorem request_isolation_witness:
  "foreign 1 (w_committed (snd (answer sample_env sample_server []
       (sample_call\<lparr>hc_headers := [(''x-tenant-id'', uuid_str 1)]\<rparr>) (PostEnroll 10) school_world))) =
     foreign 1 (w_committed school_world)"
proof (rule request_isolation)
  have "lower ''X-Tenant-ID'' = ''x-tenant-id''" "lower [] = []" by code_simp+
  moreover have "uuid_str 1 \<noteq> []" by (simp add: uuid_str_def Let_def)
  ultimately
  show "bound_tenant sample_env (hc_headers (sample_call\<lparr>hc_headers := [(''x-tenant-id'', uuid_str 1)]\<rparr>)) school_world = Some 1"
    by (simp add: bound_tenant_def incoming_request_id_def resolve_identity_def header_identity_def sample_world_def
        default_settings_def resolve_uuid andthen_def asks_def ret_def draw_def)
qed (simp_all add: sample_school_def school_user_def)

section \<open>A request that fails changes nothing\<close>

abbreviation settled :: "'c world \<Rightarrow> 'c world \<Rightarrow> bool" where
  "settled \<equiv> same (\<lambda>w. no_logs (w_committed w))"

lemma settled_insert: "settled w (snd (sql_insert M r w))"
  by (simp add: same_def sql_insert_def split: option.split)

lemma settled_update: "settled w (snd (sql_update M k f w))"
  by (simp add: same_def sql_update_def split: option.split)

lemma settled_publish: "settled w (snd (publish_event x (Some tid) uid ev w))"
  by (rule publish_appE [of x "Some tid" uid ev w]) (auto simp: same_def audited_def no_logs_def)

interpretation settled_requests: request_frame settled "\<lambda>_. True"
  by unfold_locales
    ((rule settled_insert settled_update settled_publish
      | simp add: same_def revoke_all_for_user_def change_def enrich_context_def split: option.split; fail)+)

text \<open>\<open>atomic m\<close>: when \<open>m\<close> raises, what is committed is what was, but for audit rows.\<close>

definition atomic :: "('c, 'a) io \<Rightarrow> bool" where
  "atomic m \<longleftrightarrow> (\<forall>w err w'. m w = (Inl err, w') \<longrightarrow> no_logs (w_committed w') = no_logs (w_committed w))"

lemma atomic_keeps: "keeps settled m \<Longrightarrow> atomic m"
  by (auto simp: atomic_def same_def dest: keepsD)

lemma atomic_andthen: "keeps settled m \<Longrightarrow> (\<And>v. atomic (f v)) \<Longrightarrow> atomic (andthen m f)"
  unfolding atomic_def by (fastforce simp: andthen_def same_def dest: keepsD split: prod.splits sum.splits)

lemma atomic_result: "atomic m \<Longrightarrow> atomic (andthen m (\<lambda>v. ret (g v)))"
  by (auto simp: atomic_def andthen_def ret_def split: prod.splits sum.splits)

lemma atomic_transaction: "atomic m \<Longrightarrow> atomic (transaction x tid b m)"
  by (fastforce simp: atomic_def transaction_eq opened_def split: prod.splits sum.splits)

lemma atomic_get_db: "atomic m \<Longrightarrow> atomic (get_db x m)"
  using atomic_transaction [of m x] by (simp add: atomic_def get_db_def act_simps Let_def)

lemma atomic_session: "keeps settled m \<Longrightarrow> atomic (tenant_session x tid b m)"
  using atomic_transaction [OF atomic_keeps, of m x tid b]
  by (auto simp: atomic_def tenant_session_def Let_def case_prod_unfold) (metis prod.collapse)

lemma committed_settled: "keeps (same w_committed) m \<Longrightarrow> keeps settled m"
  by (simp add: keeps_def same_def)

lemmas settled_resolve = committed_resolve [THEN committed_settled]

lemma settled_set_module: "keeps settled (set_module x tid code b)"
proof -
  have "keeps settled (sql_insert M r)" "keeps settled (sql_update M k f)" for M :: "'r model" and r k f
    by (simp_all add: keeps_def settled_insert settled_update)
  then show ?thesis
    unfolding set_module_def invalidate_def
    by (intro settled_requests.steps settled_requests.keeps_create)
qed

lemma atomic_platform:
  "atomic (create_tenant_route x tc)" "atomic (list_tenants_route x)"
  "atomic (list_tenant_modules_route x ident)" "atomic (toggle_tenant_module_route x ident mt)"
proof -
  have insert: "keeps settled (sql_insert M r)" for M :: "'r model" and r
    by (simp add: keeps_def settled_insert)
  have "keeps settled (tenant_create x n s d)" for n s d
    unfolding tenant_create_def by (intro settled_requests.steps settled_requests.keeps_create insert)
  then show "atomic (create_tenant_route x tc)"
    unfolding create_tenant_route_def create_tenant_def get_by_slug_def
    by (intro atomic_result atomic_session settled_requests.service_steps settled_set_module insert)
  show "atomic (list_tenants_route x)"
    unfolding list_tenants_route_def list_tenants_def tenant_list_all_def
    by (intro atomic_result atomic_session settled_requests.steps)
  have resolved: "keeps settled (resolved_tenant x ident)"
    unfolding resolved_tenant_def by (intro settled_requests.steps settled_resolve)
  show "atomic (list_tenant_modules_route x ident)"
    unfolding list_tenant_modules_route_def list_modules_def
    by (intro atomic_andthen resolved atomic_result atomic_session settled_requests.steps
        settled_requests.keeps_licences)
  have "atomic (admin_set_module x t code b)" for t code b
    unfolding admin_set_module_def tenant_get_def
    by (intro atomic_andthen atomic_session settled_requests.steps settled_set_module)
  then show "atomic (toggle_tenant_module_route x ident mt)"
    unfolding toggle_tenant_module_route_def by (intro atomic_andthen resolved atomic_result)
qed

lemma atomic_serve: "atomic (serve x sv hc e)"
proof (cases "platform e")
  case False
  show ?thesis
  proof (rule settled_requests.serve_induct [OF _ _ False])
    show "keeps settled m \<Longrightarrow> atomic (get_db x m)" for m :: "('a, body) io"
      by (intro atomic_get_db atomic_keeps)
    show "atomic m \<Longrightarrow> atomic (andthen (auth_limit x hc) (\<lambda>_. m))" for m :: "('a, body) io"
      by (intro atomic_andthen settled_requests.keeps_auth_limit)
  qed
next
  case True
  have guarded: "(\<And>u. atomic (endpoint u)) \<Longrightarrow> atomic (module_route x hc code perms ok endpoint)"
    for code perms ok and endpoint :: "user \<Rightarrow> ('a, body) io"
    unfolding module_route_def user_route_def get_current_user_def permit_def validated_def
    by (intro atomic_get_db atomic_andthen settled_requests.keeps_require_module settled_requests.service_steps)
  with True show ?thesis by (cases e) (simp_all add: atomic_platform)
qed

text \<open>
  C4. A request that fails changes nothing. When an endpoint ends in an exception, of any kind and at any
  point, what is committed is what was committed before; only audit rows may have been added, which the
  event handlers commit in sessions of their own.
\<close>

theorem failed_request_rolls_back:
  assumes "serve x sv hc e w = (Inl err, w')"
  shows "no_logs (w_committed w') = no_logs (w_committed w)"
  using atomic_serve [of x sv hc e] assms by (auto simp: atomic_def)

theorem failed_request_rolls_back_witness:
  "\<exists>err w'. serve sample_env sample_server sample_call GetMe school_world = (Inl err, w') \<and>
     no_logs (w_committed w') = no_logs sample_school"
proof -
  have "isl (fst (serve sample_env sample_server sample_call GetMe school_world))"
    by (simp add: requesting_get_db [OF school_requesting] transaction_eq user_route_def get_current_user_def
        sample_call_def act_simps)
  then obtain err w' where "serve sample_env sample_server sample_call GetMe school_world = (Inl err, w')"
    by (cases "serve sample_env sample_server sample_call GetMe school_world")
      (auto simp: isl_def simp del: serve.simps)
  with failed_request_rolls_back [OF this] show ?thesis by (auto simp del: serve.simps)
qed

end
