(* ===== verification/Access.thy ===== *)
theory Access
  imports Isolation
begin

text \<open>
  Who gets an answer. \<open>guard_of\<close> is the access table of the program, one line per guarded endpoint; the
  facts: whoever gets an answer from one of them is an active user of the tenant of the request, behind
  a valid access token, has every permission of the line or is a superuser, and the tenant is entitled
  to the module; and a user without a permission is refused with 403 before the service is called.
\<close>

section \<open>The access table\<close>

fun guard_of :: "endpoint \<Rightarrow> (module_code \<times> string list) option" where
  "guard_of (GetCourses _) = Some (COURSES, [])"
| "guard_of (GetCourse _) = Some (COURSES, [])"
| "guard_of (PostEnroll _) = Some (COURSES, [''course:enroll''])"
| "guard_of (GetLessons _) = Some (LEARNING, [''lesson:read''])"
| "guard_of (PostComplete _ _) = Some (LEARNING, [])"
| "guard_of (GetProgress _) = Some (LEARNING, [''progress:read''])"
| "guard_of (GetAssignments _) = Some (ASSIGNMENTS, [''assignment:read''])"
| "guard_of (GetAssignment _) = Some (ASSIGNMENTS, [''assignment:read''])"
| "guard_of (PostSubmit _ _) = Some (ASSIGNMENTS, [''assignment:submit''])"
| "guard_of (PostGrade _ _) = Some (ASSIGNMENTS, [''grade:write''])"
| "guard_of (GetSubmissions _) = Some (ASSIGNMENTS, [''grade:write''])"
| "guard_of (GetMyGrades _) = Some (ASSIGNMENTS, [''grade:read''])"
| "guard_of GetDashboard = Some (DASHBOARD, [])"
| "guard_of (GetAdminCourses _) = Some (ADMIN, [''course:read''])"
| "guard_of (GetAdminCourse _) = Some (ADMIN, [''course:read''])"
| "guard_of (PostAdminCourse _) = Some (ADMIN, [''course:create''])"
| "guard_of (PutAdminCourse _ _) = Some (ADMIN, [''course:update''])"
| "guard_of (DeleteAdminCourse _) = Some (ADMIN, [''course:delete''])"
| "guard_of (GetAdminLessons _) = Some (ADMIN, [''course:read''])"
| "guard_of (PostAdminLesson _ _) = Some (ADMIN, [''course:update''])"
| "guard_of (GetAdminAssignments _) = Some (ADMIN, [''course:read''])"
| "guard_of (PostAdminAssignment _ _) = Some (ADMIN, [''course:update''])"
| "guard_of (GetAdminUsers _) = Some (ADMIN, [''user:read''])"
| "guard_of (PostAdminUser _) = Some (ADMIN, [''user:create''])"
| "guard_of (PutAdminUser _ _) = Some (ADMIN, [''user:update''])"
| "guard_of GetAdminReports = Some (ADMIN, [''report:read''])"
| "guard_of (PostTenant _) = Some (ADMIN, [''tenant:manage''])"
| "guard_of GetTenants = Some (ADMIN, [''tenant:manage''])"
| "guard_of (GetTenantModules _) = Some (ADMIN, [''tenant:manage''])"
| "guard_of (PutTenantModules _ _) = Some (ADMIN, [''tenant:manage''])"
| "guard_of _ = None"

lemma serve_guarded:
  "guard_of e = Some (code, perms) \<Longrightarrow> \<exists>ok endpoint. serve x sv hc e = module_route x hc code perms ok endpoint"
  by (cases e) auto

text \<open>The permissions of a user in a tenant, and whether a user may pass a list of them.\<close>

definition granted :: "uuid \<Rightarrow> uuid \<Rightarrow> database \<Rightarrow> string set" where
  "granted t uid d = perm_code ` {p \<in> set (t_permissions d). \<exists>r \<in> set (t_roles d). tenant_id r = t \<and>
     (uid, row_id r) \<in> set (t_user_roles d) \<and> (row_id r, row_id p) \<in> set (t_role_permissions d)}"

definition may :: "string list \<Rightarrow> user \<Rightarrow> database \<Rightarrow> bool" where
  "may perms u d \<longleftrightarrow> is_superuser u \<or> set perms \<subseteq> granted (tenant_id u) (row_id u) d"

lemma permission_codes_granted: "serving t w \<Longrightarrow> permission_codes w u = granted t (row_id u) (view w)"
  by (auto simp: permission_codes_def granted_def permissions_of_def roles_of_def
      role_rows.serving_visible)

lemma permit_eq:
  assumes "serving t w" and "tenant_id u = t"
  shows "permit perms u w =
    (if may perms u (view w) then Inr ()
     else Inl (permission_denied (''Missing permission(s): '' @ join '', ''
       (sorted_list_of_set (set perms - granted t (row_id u) (view w)))) (Required perms)), w)"
  using assms
  by (auto simp: permit_def require_permission_def may_def act_simps Let_def permission_codes_granted andthen_def)

section \<open>The user behind a token\<close>

lemma decode_world: "decode_token x tok e w = (r, w') \<Longrightarrow> w' = w\<lparr>w_draw := Suc (w_draw w)\<rparr>"
  by (auto simp: decode_token_def act_simps split: jwt_result.splits option.splits if_splits)

text \<open>\<open>caller\<close>: the active user of the tenant that a payload names.\<close>

definition caller :: "uuid \<Rightarrow> token_payload \<Rightarrow> user \<Rightarrow> database \<Rightarrow> bool" where
  "caller t p u d \<longleftrightarrow> u \<in> set (t_users d) \<and> row_id u = tp_sub p \<and> tenant_id u = t \<and> deleted_at u = None \<and>
     is_active u"

lemma enrich_state:
  assumes "serving t w"
  shows "serving t (snd (enrich_context u p w))" and "view (snd (enrich_context u p w)) = view w"
    and "w_settings (snd (enrich_context u p w)) = w_settings w"
  using assms
  by (auto simp: enrich_context_def change_def serving_def view_def current_tenant_id_def split: option.splits)

lemma current_user_caller:
  assumes run: "get_current_user x creds w = (Inr u, w')" and "serving t w"
  obtains token p where "creds = Some token"
    and "decode_token x token (Some ''access'') w = (Inr p, w\<lparr>w_draw := Suc (w_draw w)\<rparr>)"
    and "caller t p u (view w)" and "serving t w'" and "view w' = view w"
proof -
  from run obtain token where creds: "creds = Some token"
    by (cases creds) (simp_all add: get_current_user_def act_simps)
  let ?dec = "except_token_error (decode_token x token (Some ''access''))
    (\<lambda>msg. raise (app_exn AuthenticationError msg) :: ('a, token_payload) io)"
  from run creds obtain p w1 where dec: "?dec w = (Inr p, w1)"
    and rest: "andthen (repo_get User (tp_sub p)) (\<lambda>found. case found of
         None \<Rightarrow> raise (app_exn AuthenticationError ''User not found or inactive'')
       | Some u \<Rightarrow>
           if \<not> is_active u then raise (app_exn AuthenticationError ''User not found or inactive'')
           else andthen (enrich_context u p) (\<lambda>_. ret u)) w1 = (Inr u, w')"
    by (auto simp: get_current_user_def elim: andthen_InrE)
  from dec have d: "decode_token x token (Some ''access'') w = (Inr p, w1)"
    by (auto simp: except_token_error_def catch_def raise_def split: prod.splits sum.splits exn.splits py_exception.splits)
  then have w1: "w1 = w\<lparr>w_draw := Suc (w_draw w)\<rparr>" by (rule decode_world)
  then have serving: "serving t w1" and view: "view w1 = view w" using assms(2) by simp_all
  from rest obtain found v where got: "repo_get User (tp_sub p) w1 = (Inr found, v)"
    and cont: "(case found of
         None \<Rightarrow> raise (app_exn AuthenticationError ''User not found or inactive'')
       | Some u \<Rightarrow>
           if \<not> is_active u then raise (app_exn AuthenticationError ''User not found or inactive'')
           else andthen (enrich_context u p) (\<lambda>_. ret u)) v = (Inr u, w')"
    by (rule andthen_InrE)
  have v: "v = w1" using got reads_repo_get [of User "tp_sub p"] by (auto simp: reads_def dest: spec [of _ w1])
  from cont have f: "found = Some u" and active: "is_active u" and w': "w' = snd (enrich_context u p w1)"
    unfolding v by (auto simp: act_simps andthen_def enrich_context_def change_def split: option.splits if_splits)
  have "filter (\<lambda>r. m_id User r = tp_sub p) (live_rows User w1) = [u]"
    using got f v by (simp add: repo_get_def repo_find_eq)
  then have "u \<in> set (filter (\<lambda>r. m_id User r = tp_sub p) (live_rows User w1))" by simp
  then have "caller t p u (view w)"
    using active by (auto simp: caller_def live_users [OF serving] view user_id_column)
  then show thesis
    using that [OF creds] d w1 enrich_state [OF serving] view w' by simp
qed

lemma current_user_run:
  assumes "serving t w" and "consistent User (view w)" and "caller t p u (view w)"
    and dec: "decode_token x token (Some ''access'') w = (Inr p, w\<lparr>w_draw := Suc (w_draw w)\<rparr>)"
  shows "get_current_user x (Some token) w = (Inr u, snd (enrich_context u p (w\<lparr>w_draw := Suc (w_draw w)\<rparr>)))"
proof -
  let ?v = "w\<lparr>w_draw := Suc (w_draw w)\<rparr>"
  have v: "serving t ?v" "view ?v = view w" using assms(1) by simp_all
  have "filter (\<lambda>r. (tenant_id r = t \<and> deleted_at r = None) \<and> row_id r = tp_sub p) (t_users (view w)) = [u]"
    using assms(3) user_rows.consistent_distinct [OF assms(2)]
    by (intro distinct_map_filter_single [where f = row_id]) (auto simp: caller_def User_def)
  then have "filter (\<lambda>r. m_id User r = tp_sub p) (live_rows User ?v) = [u]"
    by (simp add: live_users [OF assms(1)] user_id_column)
  then have got: "repo_get User (tp_sub p) ?v = (Inr (Some u), ?v)"
    by (simp add: repo_get_def repo_find_eq)
  have "except_token_error (decode_token x token (Some ''access''))
      (\<lambda>msg. raise (app_exn AuthenticationError msg)) w = (Inr p, ?v)"
    by (simp add: except_token_error_def catch_def dec)
  then show ?thesis
    using assms(3) got
    by (simp add: get_current_user_def andthen_Inr caller_def enrich_context_def change_def act_simps)
qed

section \<open>The guards together\<close>

text \<open>The tokens that the program accepts for access at a time, and the payload they carry.\<close>

definition accepted :: "'c env \<Rightarrow> settings \<Rightarrow> time \<Rightarrow> string \<Rightarrow> token_payload \<Rightarrow> bool" where
  "accepted x st now token p \<longleftrightarrow> (\<exists>raw. jwt_decode x now token (jwt_secret_key st) (jwt_algorithm st) = JwtOk raw \<and>
     validate_payload x raw = Some p \<and> tp_type p = ''access'')"

lemma decode_accepted:
  "decode_token x token (Some ''access'') w = (Inr p, w\<lparr>w_draw := Suc (w_draw w)\<rparr>) \<longleftrightarrow>
     accepted x (w_settings w) (clock x (w_draw w)) token p"
  by (auto simp: decode_token_def accepted_def act_simps split: jwt_result.splits option.splits)

lemma require_module_run:
  assumes "w_redis w = None" and "current_tenant_id (w_ctx w) = Some t" and "code \<noteq> AUTH"
  shows "require_module x code w =
    (if code_value code \<in> entitled t (clock x (w_draw w)) (view w) then Inr ()
     else Inl (App (new_error ModuleNotEnabledError None None None)), w\<lparr>w_draw := Suc (w_draw w)\<rparr>)"
  using assms
  by (cases code) (simp_all add: require_module_def tenant_has_module_def act_simps core_codes_eq andthen_assoc
      andthen_Inr [OF enabled_codes_uncached] ensure_def)

text \<open>With or without a cache, the guard leaves the session as it was.\<close>

abbreviation session_parts :: "'c world \<Rightarrow> 'c world \<Rightarrow> bool" where
  "session_parts \<equiv> same (\<lambda>w. (w_settings w, w_ctx w, w_committed w, w_delta w, w_bypass w, w_guc_tenant w))"

lemma require_module_keeps: "keeps session_parts (require_module x code)"
proof -
  have cache: "cache_frame session_parts" by (simp add: cache_frame_def same_def)
  have draws: "keeps session_parts (draw f)" for f :: "nat \<Rightarrow> 'd"
    by (simp add: keeps_def same_def draw_def)
  show ?thesis
    unfolding require_module_def tenant_has_module_def enabled_codes_def compute_enabled_def
    by (intro same_frame.keeps_rules keeps_cache [OF cache] draws reads_rules [THEN same_reads])
qed

lemma guard_not_auth: "guard_of e = Some (code, perms) \<Longrightarrow> code \<noteq> AUTH"
  by (cases e) auto

lemma opened_serving:
  "requesting t w \<Longrightarrow> enable_row_level_security (w_settings w) \<Longrightarrow> serving t (opened x (Some t) False w)"
  by (auto simp: serving_def requesting_tenant)


text \<open>
  The way through the guards, with the readings they take: the licence at the first after the session
  has begun, the token at the second.
\<close>

lemma module_route_run:
  assumes "requesting t w" and "enable_row_level_security (w_settings w)" and "w_redis w = None"
    and "code \<noteq> AUTH" and lic: "code_value code \<in> entitled t (clock x (Suc (w_draw w))) (w_committed w)"
    and "hc_credentials hc = Some token" and tok: "accepted x (w_settings w) (clock x (w_draw w + 2)) token p"
    and "consistent User (w_committed w)" and c: "caller t p u (w_committed w)"
  shows "\<exists>v. serving t v \<and> view v = w_committed w \<and> w_committed v = w_committed w \<and>
    module_route x hc code perms ok endpoint w =
      (if \<not> may perms u (w_committed w) then
         (Inl (permission_denied (''Missing permission(s): '' @ join '', ''
            (sorted_list_of_set (set perms - granted t (row_id u) (w_committed w)))) (Required perms)), v)
       else if \<not> (hc_parsed hc \<and> ok) then (Inl (RequestInvalid (hc_report hc)), v)
       else (case endpoint u v of
               (Inl err, w') \<Rightarrow> (Inl err, w'\<lparr>w_delta := id\<rparr>)
             | (Inr b, w') \<Rightarrow> (Inr b, w'\<lparr>w_committed := view w', w_delta := id\<rparr>)))"
proof -
  let ?w0 = "opened x (Some t) False w"
  let ?w1 = "?w0\<lparr>w_draw := Suc (w_draw ?w0)\<rparr>"
  define v where "v = snd (enrich_context u p (?w1\<lparr>w_draw := Suc (w_draw ?w1)\<rparr>))"
  have w1: "serving t ?w1" "view ?w1 = w_committed w" "w_settings ?w1 = w_settings w"
    using opened_serving [OF assms(1,2), of x] by simp_all
  have "require_module x code ?w0 = (Inr (), ?w1)"
    using require_module_run [of ?w0 t code x] assms(1,3,4) lic by (simp add: requesting_tenant)
  moreover have "decode_token x token (Some ''access'') ?w1 = (Inr p, ?w1\<lparr>w_draw := Suc (w_draw ?w1)\<rparr>)"
    using tok by (subst decode_accepted) (simp add: w1(3))
  then have cur: "get_current_user x (hc_credentials hc) ?w1 = (Inr u, v)"
    unfolding assms(6) v_def using assms(8) c by (intro current_user_run [OF w1(1)]) (simp_all add: w1(2))
  moreover have v: "serving t v" "view v = w_committed w"
    unfolding v_def using enrich_state [of t "?w1\<lparr>w_draw := Suc (w_draw ?w1)\<rparr>"] w1 by simp_all
  moreover have committed: "w_committed v = w_committed w" and "w_delta v = id"
    by (simp_all add: v_def enrich_context_def change_def split: option.split)
  moreover have rest: "v\<lparr>w_delta := id\<rparr> = v" by (rule world.equality) (simp_all add: \<open>w_delta v = id\<close>)
  ultimately have run: "transaction x (Some t) False (andthen (require_module x code)
      (\<lambda>_. user_route x hc perms ok endpoint)) w =
    (case andthen (permit perms u) (\<lambda>_. andthen (validated hc ok) (\<lambda>_. endpoint u)) v of
       (Inl err, w') \<Rightarrow> (Inl err, w'\<lparr>w_delta := id\<rparr>)
     | (Inr b, w') \<Rightarrow> (Inr b, w'\<lparr>w_committed := view w', w_delta := id\<rparr>))"
    by (simp only: transaction_eq andthen_Inr user_route_def)
  have "tenant_id u = t" using c by (simp add: caller_def)
  then have "andthen (permit perms u) (\<lambda>_. andthen (validated hc ok) (\<lambda>_. endpoint u)) v =
      (if \<not> may perms u (w_committed w) then
         (Inl (permission_denied (''Missing permission(s): '' @ join '', ''
            (sorted_list_of_set (set perms - granted t (row_id u) (w_committed w)))) (Required perms)), v)
       else if \<not> (hc_parsed hc \<and> ok) then (Inl (RequestInvalid (hc_report hc)), v)
       else endpoint u v)"
    using permit_eq [OF v(1), of u perms] unfolding v(2)
    by (simp add: andthen_def validated_def ensure_def raise_def ret_def)
  with run v committed rest show ?thesis
    by (intro exI [of _ v]) (simp add: module_route_def requesting_get_db [OF assms(1)] del: snd_conv)
qed


text \<open>The sample school with two licences; Ann, who has no role, calls with her token.\<close>

definition portal :: database where
  "portal = sample_school
     \<lparr>t_modules := [sample_module 101 DASHBOARD, sample_module 102 ADMIN],
      t_tenant_modules :=
        [\<lparr>row_id = 111, created_at = 0, tm_tenant_id = 1, tm_module_id = 101, tm_enabled = True,
          tm_enabled_at = None, tm_expires_at = None\<rparr>,
         \<lparr>row_id = 112, created_at = 0, tm_tenant_id = 1, tm_module_id = 102, tm_enabled = True,
          tm_enabled_at = None, tm_expires_at = None\<rparr>]\<rparr>"

definition portal_payload :: token_payload where
  "portal_payload = \<lparr>tp_sub = 5, tp_tid = 1, tp_type = ''access'', tp_jti = 7,
     tp_exp = 1800000000, tp_iat = 1600000000\<rparr>"

definition portal_call :: http_call where
  "portal_call = sample_call\<lparr>hc_credentials := Some (token_text sample_env default_settings portal_payload)\<rparr>"

abbreviation portal_world :: "store world" where
  "portal_world \<equiv> sample_world portal None (Some 1)"

lemma portal_facts:
  "requesting 1 portal_world" "enable_row_level_security (w_settings portal_world)" "w_redis portal_world = None"
  "code_value DASHBOARD \<in> entitled 1 now portal" "code_value ADMIN \<in> entitled 1 now portal"
  "consistent User portal" "caller 1 portal_payload (school_user 5 ''ann@acme.io'') portal"
  "may [] (school_user 5 ''ann@acme.io'') portal" "\<not> may [''user:update''] (school_user 5 ''ann@acme.io'') portal"
  by (simp_all add: requesting_def sample_world_def default_settings_def entitled_def portal_def sample_module_def
      consistent_def sample_school_def User_def school_user_def caller_def portal_payload_def may_def granted_def
      empty_database_def)

lemma portal_accepted:
  "accepted sample_env default_settings (clock sample_env (Suc (Suc 0)))
     (token_text sample_env default_settings portal_payload) portal_payload"
proof -
  let ?w = "portal_world\<lparr>w_draw := Suc (Suc 0)\<rparr>"
  have "seconds (tp_iat portal_payload) \<le> clock sample_env (w_draw ?w)"
    by (simp add: portal_payload_def sample_env_def seconds_def)
  from decode_encoded [OF sample_jwt_ok sample_payload_ok this, of "Some ''access''"]
  have "decode_token sample_env (token_text sample_env (w_settings ?w) portal_payload) (Some ''access'') ?w =
      (Inr portal_payload, ?w\<lparr>w_draw := Suc (w_draw ?w)\<rparr>)"
    by (simp add: decoded_def portal_payload_def sample_env_def seconds_def)
  then show ?thesis
    unfolding decode_accepted by simp
qed

lemma portal_run:
  "\<exists>v. serving 1 v \<and> view v = portal \<and> w_committed v = portal \<and>
     serve sample_env sample_server portal_call GetDashboard portal_world =
       (case get_dashboard_route (school_user 5 ''ann@acme.io'') v of
          (Inl err, w') \<Rightarrow> (Inl err, w'\<lparr>w_delta := id\<rparr>)
        | (Inr b, w') \<Rightarrow> (Inr b, w'\<lparr>w_committed := view w', w_delta := id\<rparr>))"
  using module_route_run [OF portal_facts(1-3), of DASHBOARD sample_env portal_call _ portal_payload
      "school_user 5 ''ann@acme.io''" "[]" True get_dashboard_route] portal_facts(4-8) portal_accepted
  by (simp add: portal_call_def sample_call_def)



end
