(* ===== verification/Reading.thy ===== *)
theory Reading
  imports Access
begin

text \<open>
  What a reading endpoint can depend on. \<open>blind A m\<close> says that \<open>m\<close> cannot tell states apart that \<open>A\<close>
  relates; it composes. Two relations are used: states that differ in the rows of other tenants, and
  states that differ in which answers of a quiz are right.
\<close>

section \<open>Code that cannot tell states apart\<close>

definition blind :: "('s \<Rightarrow> 's \<Rightarrow> bool) \<Rightarrow> ('s, 'e, 'a) act \<Rightarrow> bool" where
  "blind A m \<longleftrightarrow> (\<forall>s t. A s t \<longrightarrow> fst (m s) = fst (m t) \<and> A (snd (m s)) (snd (m t)))"

lemma blindD: "blind A m \<Longrightarrow> A s t \<Longrightarrow> fst (m s) = fst (m t) \<and> A (snd (m s)) (snd (m t))"
  by (simp add: blind_def)

lemma blind_asks: "(\<And>s t. A s t \<Longrightarrow> f s = f t) \<Longrightarrow> blind A (asks f)"
  by (simp add: blind_def asks_def)

lemma blind_change: "(\<And>s t. A s t \<Longrightarrow> A (f s) (f t)) \<Longrightarrow> blind A (change f)"
  by (simp add: blind_def change_def)

lemma blind_results:
  "blind A (ret v)" "blind A (raise err)" "blind A (lift_result r)" "blind A (ensure b err)"
  by (simp_all add: blind_def ret_def raise_def lift_result_def ensure_def)

lemma blind_cases:
  assumes "blind A m" and "A s t"
  obtains r s' t' where "m s = (r, s')" and "m t = (r, t')" and "A s' t'"
  using assms by (metis blindD prod.collapse)

lemma blind_andthen:
  assumes "blind A m" and "\<And>v. blind A (f v)"
  shows "blind A (andthen m f)"
  unfolding blind_def
proof (intro allI impI)
  fix s t
  assume "A s t"
  then obtain r s' t' where m: "m s = (r, s')" "m t = (r, t')" "A s' t'" by (rule blind_cases [OF assms(1)])
  then show "fst (andthen m f s) = fst (andthen m f t) \<and> A (snd (andthen m f s)) (snd (andthen m f t))"
    using blindD [OF assms(2) m(3)] by (cases r) (simp_all add: andthen_def)
qed

lemma blind_catch:
  assumes "blind A m" and "\<And>err. blind A (h err)"
  shows "blind A (catch m h)"
  unfolding blind_def
proof (intro allI impI)
  fix s t
  assume "A s t"
  then obtain r s' t' where m: "m s = (r, s')" "m t = (r, t')" "A s' t'" by (rule blind_cases [OF assms(1)])
  then show "fst (catch m h s) = fst (catch m h t) \<and> A (snd (catch m h s)) (snd (catch m h t))"
    using blindD [OF assms(2) m(3)] by (cases r) (simp_all add: catch_def)
qed

lemma blind_if: "(b \<Longrightarrow> blind A m) \<Longrightarrow> (\<not> b \<Longrightarrow> blind A n) \<Longrightarrow> blind A (if b then m else n)"
  by simp

lemma blind_option:
  "blind A m \<Longrightarrow> (\<And>v. blind A (f v)) \<Longrightarrow> blind A (case z of None \<Rightarrow> m | Some v \<Rightarrow> f v)"
  by (cases z) simp_all

lemma blind_option_cases:
  "(z = None \<Longrightarrow> blind A m) \<Longrightarrow> (\<And>v. z = Some v \<Longrightarrow> blind A (f v)) \<Longrightarrow> blind A (case z of None \<Rightarrow> m | Some v \<Rightarrow> f v)"
  by (cases z) simp_all

lemma blind_case_prod: "(\<And>a b. blind A (f a b)) \<Longrightarrow> blind A (case z of (a, b) \<Rightarrow> f a b)"
  by (cases z) simp

lemmas blind_rules = blind_results blind_andthen blind_if blind_option blind_case_prod

section \<open>A session that reads\<close>

fun reads_tenant :: "endpoint \<Rightarrow> bool" where
  "reads_tenant GetMe = True"
| "reads_tenant (GetCourses _) = True"
| "reads_tenant (GetCourse _) = True"
| "reads_tenant (GetLessons _) = True"
| "reads_tenant (GetProgress _) = True"
| "reads_tenant (GetAssignments _) = True"
| "reads_tenant (GetAssignment _) = True"
| "reads_tenant (GetSubmissions _) = True"
| "reads_tenant (GetMyGrades _) = True"
| "reads_tenant GetDashboard = True"
| "reads_tenant (GetAdminCourses _) = True"
| "reads_tenant (GetAdminCourse _) = True"
| "reads_tenant (GetAdminLessons _) = True"
| "reads_tenant (GetAdminAssignments _) = True"
| "reads_tenant (GetAdminUsers _) = True"
| "reads_tenant GetAdminReports = True"
| "reads_tenant _ = False"

text \<open>
  What a relation must allow for the guards and the services: the same settings, context, cache and
  readings in both states, and the same rows in the queries of each table. The tables that no row policy
  covers are read by conditions of the program's own: the entitlements of the tenant in context
  (\<open>at_home\<close> holds of it), and what is linked to a role that the session sees.
\<close>

locale reader =
  fixes A :: "'c world \<Rightarrow> 'c world \<Rightarrow> bool" and at_home :: "uuid \<Rightarrow> bool"
  assumes same_parts: "A w v \<Longrightarrow> w_settings w = w_settings v \<and> w_ctx w = w_ctx v \<and> w_redis w = w_redis v \<and>
      w_draw w = w_draw v \<and> w_now w = w_now v"
    and step_draw: "A w v \<Longrightarrow> A (w\<lparr>w_draw := n\<rparr>) (v\<lparr>w_draw := n\<rparr>)"
    and step_cache: "A w v \<Longrightarrow> A (w\<lparr>w_redis := c\<rparr>) (v\<lparr>w_redis := c\<rparr>)"
    and step_context: "A w v \<Longrightarrow> w_ctx w = Some rc \<Longrightarrow>
      rc_tenant_id rc' = (case rc_tenant_id rc of None \<Rightarrow> tid | Some t \<Rightarrow> Some t) \<Longrightarrow>
      A (w\<lparr>w_ctx := Some rc'\<rparr>) (v\<lparr>w_ctx := Some rc'\<rparr>)"
    and home_tenant: "A w v \<Longrightarrow> current_tenant_id (w_ctx w) = Some home \<Longrightarrow> at_home home"
    and same_modules: "A w v \<Longrightarrow> t_modules (view w) = t_modules (view v)"
    and same_entitlements: "A w v \<Longrightarrow> at_home home \<Longrightarrow>
      filter (\<lambda>tm. tm_tenant_id tm = home) (t_tenant_modules (view w)) =
      filter (\<lambda>tm. tm_tenant_id tm = home) (t_tenant_modules (view v))"
    and same_roles_of: "A w v \<Longrightarrow> roles_of w u = roles_of v u"
    and same_grants: "A w v \<Longrightarrow> role_held \<in> set (roles_of w u) \<Longrightarrow> permissions_of w role_held = permissions_of v role_held"
    and same_users: "A w v \<Longrightarrow> related User p1 w = related User p1 v"
    and same_roles: "A w v \<Longrightarrow> related Role p2 w = related Role p2 v"
    and same_courses: "A w v \<Longrightarrow> related Course p3 w = related Course p3 v"
    and same_enrollments: "A w v \<Longrightarrow> related CourseEnrollment p4 w = related CourseEnrollment p4 v"
    and same_lessons: "A w v \<Longrightarrow> related Lesson p5 w = related Lesson p5 v"
    and same_progress: "A w v \<Longrightarrow> related LessonProgress p6 w = related LessonProgress p6 v"
    and same_videos: "A w v \<Longrightarrow> related VideoAsset p7 w = related VideoAsset p7 v"
    and same_documents: "A w v \<Longrightarrow> related DocumentAsset p8 w = related DocumentAsset p8 v"
    and same_assignments: "A w v \<Longrightarrow> related Assignment p9 w = related Assignment p9 v"
    and same_quizzes: "A w v \<Longrightarrow> related Quiz p15 w = related Quiz p15 v"
    and same_questions: "A w v \<Longrightarrow> related QuizQuestion p11 w = related QuizQuestion p11 v"
    and same_answers: "A w v \<Longrightarrow> map quiz_answer_out_of (related QuizAnswer (\<lambda>a. qa_question_id a = q) w) =
      map quiz_answer_out_of (related QuizAnswer (\<lambda>a. qa_question_id a = q) v)"
    and same_submissions: "A w v \<Longrightarrow> related Submission p12 w = related Submission p12 v"
    and same_grades: "A w v \<Longrightarrow> related Grade p13 w = related Grade p13 v"
    and same_logs: "A w v \<Longrightarrow> related AuditLog p14 w = related AuditLog p14 v"
begin

lemma blind_draw: "blind A (draw f)"
  unfolding blind_def draw_def
proof (intro allI impI conjI)
  fix w v
  assume r: "A w v"
  from same_parts [OF r] show "fst (Inr (f (w_draw w)), w\<lparr>w_draw := Suc (w_draw w)\<rparr>) =
      fst (Inr (f (w_draw v)), v\<lparr>w_draw := Suc (w_draw v)\<rparr>)" by simp
  from step_draw [OF r, of "Suc (w_draw w)"] same_parts [OF r]
  show "A (snd (Inr (f (w_draw w)), w\<lparr>w_draw := Suc (w_draw w)\<rparr>))
      (snd (Inr (f (w_draw v)), v\<lparr>w_draw := Suc (w_draw v)\<rparr>))" by simp
qed

lemma blind_asks_parts: "blind A (asks (\<lambda>w. f (w_settings w) (w_ctx w) (w_redis w) (w_draw w) (w_now w)))"
  by (rule blind_asks) (simp add: same_parts)

lemma blind_cache:
  "blind A (cache_get x key)" "blind A (cache_set x key v ttl)" "blind A has_redis"
proof -
  show "blind A has_redis" unfolding has_redis_def by (rule blind_asks) (simp add: same_parts)
  have "blind A (asks (\<lambda>w. case w_redis w of None \<Rightarrow> None | Some c \<Rightarrow> redis_get x now key c))" for now
    by (rule blind_asks) (simp add: same_parts)
  then show "blind A (cache_get x key)"
    unfolding cache_get_def by (intro blind_andthen blind_draw)
  have "blind A (change (\<lambda>w. w\<lparr>w_redis := map_option (redis_set x now key v ttl) (w_redis w)\<rparr>))" for now
  proof (rule blind_change)
    fix w u
    assume r: "A w u"
    from step_cache [OF r, of "map_option (redis_set x now key v ttl) (w_redis w)"] same_parts [OF r]
    show "A (w\<lparr>w_redis := map_option (redis_set x now key v ttl) (w_redis w)\<rparr>)
        (u\<lparr>w_redis := map_option (redis_set x now key v ttl) (w_redis u)\<rparr>)" by simp
  qed
  then show "blind A (cache_set x key v ttl)"
    unfolding cache_set_def by (intro blind_andthen blind_draw)
qed

lemma blind_context: "blind A get_context" "blind A require_tenant" "blind A (repo_select M)"
  using same_parts
  by (auto simp: blind_def get_context_def require_tenant_def repo_select_def asks_def andthen_def ret_def)

section \<open>Queries and services\<close>

definition readable :: "'r model \<Rightarrow> bool" where
  "readable M \<longleftrightarrow> (\<forall>w v p. A w v \<longrightarrow> related M p w = related M p v)"

lemma readable_tables:
  "readable User" "readable Role" "readable Course" "readable CourseEnrollment" "readable Lesson"
  "readable LessonProgress" "readable VideoAsset" "readable DocumentAsset" "readable Assignment"
  "readable Quiz" "readable QuizQuestion" "readable Submission" "readable Grade" "readable AuditLog"
  unfolding readable_def
  by (blast intro: same_users same_roles same_courses same_enrollments same_lessons same_progress same_videos
      same_documents same_assignments same_quizzes same_questions same_submissions same_grades same_logs)+

lemma blind_queries:
  assumes "readable M"
  shows "blind A (run_select M s)" "blind A (run_count M s)" "blind A (repo_find M p)" "blind A (repo_get M i)"
    "blind A (repo_get_or_404 M i)" "blind A (repo_list x M pp)" "blind A (count_where M p)" "blind A (count_all M)"
proof -
  have rows: "A w v \<Longrightarrow> matching M s w = matching M s v" for w v s
    using assms by (simp add: readable_def related_def matching_def)
  show select: "blind A (run_select M s)" for s
    unfolding run_select_def by (rule blind_asks) (simp add: rows)
  show count: "blind A (run_count M s)" for s
    unfolding run_count_def by (rule blind_asks) (simp add: rows)
  show find: "blind A (repo_find M p)" for p
    unfolding repo_find_def by (intro blind_rules blind_context select)
  then show get: "blind A (repo_get M i)" by (simp add: repo_get_def)
  show "blind A (repo_get_or_404 M i)"
    unfolding repo_get_or_404_def by (intro blind_rules get)
  show "blind A (repo_list x M pp)"
    unfolding repo_list_def Let_def by (intro blind_rules blind_context select count)
  show "blind A (count_where M p)" "blind A (count_all M)"
    unfolding count_where_def count_all_def using assms by (auto simp: readable_def intro!: blind_asks)
qed

lemmas blind_tables = readable_tables [THEN blind_queries(1)] readable_tables [THEN blind_queries(2)]
  readable_tables [THEN blind_queries(3)] readable_tables [THEN blind_queries(4)]
  readable_tables [THEN blind_queries(5)] readable_tables [THEN blind_queries(6)]
  readable_tables [THEN blind_queries(7)] readable_tables [THEN blind_queries(8)]

lemmas read_steps = blind_rules blind_draw blind_cache blind_context blind_tables

lemma same_codes: "A w v \<Longrightarrow> role_codes w u = role_codes v u" "A w v \<Longrightarrow> permission_codes w u = permission_codes v u"
proof -
  assume r: "A w v"
  from same_roles_of [OF r] show "role_codes w u = role_codes v u" by (simp add: role_codes_def)
  have "map (\<lambda>q. map perm_code (permissions_of w q)) (roles_of w u) =
      map (\<lambda>q. map perm_code (permissions_of v q)) (roles_of w u)"
    using same_grants [OF r] by (intro map_cong) simp_all
  then show "permission_codes w u = permission_codes v u"
    using same_roles_of [OF r] by (simp add: permission_codes_def)
qed

text \<open>What depends on the tenant in context.\<close>

lemma blind_tenant:
  "(\<And>rc. (\<And>tid. current_tenant_id rc = Some tid \<Longrightarrow> at_home tid) \<Longrightarrow> blind A (f rc)) \<Longrightarrow> blind A (andthen get_context f)"
  "(\<And>tid. at_home tid \<Longrightarrow> blind A (g tid)) \<Longrightarrow> blind A (andthen require_tenant g)"
proof -
  assume f: "\<And>rc. (\<And>tid. current_tenant_id rc = Some tid \<Longrightarrow> at_home tid) \<Longrightarrow> blind A (f rc)"
  show "blind A (andthen get_context f)"
    unfolding blind_def
  proof (intro allI impI)
    fix w v
    assume r: "A w v"
    then have "blind A (f (w_ctx w))" by (intro f) (rule home_tenant)
    with r same_parts [OF r] show "fst (andthen get_context f w) = fst (andthen get_context f v) \<and>
        A (snd (andthen get_context f w)) (snd (andthen get_context f v))"
      by (simp add: act_simps blindD)
  qed
next
  assume g: "\<And>tid. at_home tid \<Longrightarrow> blind A (g tid)"
  show "blind A (andthen require_tenant g)"
    unfolding blind_def
  proof (intro allI impI)
    fix w v
    assume r: "A w v"
    show "fst (andthen require_tenant g w) = fst (andthen require_tenant g v) \<and>
        A (snd (andthen require_tenant g w)) (snd (andthen require_tenant g v))"
    proof (cases "current_tenant_id (w_ctx w)")
      case None
      with r same_parts [OF r] show ?thesis
        by (simp add: andthen_def require_tenant_def require_tenant_id_def)
    next
      case (Some tid)
      from blindD [OF g [OF home_tenant [OF r Some]] r] Some same_parts [OF r] show ?thesis
        by (simp add: andthen_require_tenant)
    qed
  qed
qed

lemma blind_joined:
  assumes "at_home tid"
  shows "blind A (asks (\<lambda>w. joined_codes (\<lambda>m tm. tm_tenant_id tm = tid \<and> p m tm) (view w)))"
proof (rule blind_asks)
  fix w v
  assume r: "A w v"
  have own: "list_ex (\<lambda>tm. tm_module_id tm = k \<and> tm_tenant_id tm = tid \<and> p m tm) rows =
      list_ex (\<lambda>tm. tm_module_id tm = k \<and> p m tm) (filter (\<lambda>tm. tm_tenant_id tm = tid) rows)" for k m rows
    by (auto simp: list_ex_iff)
  show "joined_codes (\<lambda>m tm. tm_tenant_id tm = tid \<and> p m tm) (view w) =
      joined_codes (\<lambda>m tm. tm_tenant_id tm = tid \<and> p m tm) (view v)"
    unfolding joined_codes_def own same_entitlements [OF r assms] same_modules [OF r] ..
qed

lemma blind_licences: "at_home tid \<Longrightarrow> blind A (enabled_codes x tid)" "blind A (require_module x code)"
proof -
  show codes: "blind A (enabled_codes x tid)" if "at_home tid" for tid
    unfolding enabled_codes_def compute_enabled_def by (intro read_steps blind_joined that)
  have has: "blind A (tenant_has_module x tid c)" if "at_home tid" for tid c
    unfolding tenant_has_module_def by (intro read_steps codes that)
  show "blind A (require_module x code)"
    unfolding require_module_def by (intro blind_tenant(1) blind_option_cases read_steps has) blast
qed

lemma blind_current_user: "blind A (get_current_user x creds)"
proof -
  have decode: "blind A (decode_token x token e)" for token e
  proof -
    have "blind A (asks w_settings)" by (rule blind_asks) (simp add: same_parts)
    then show ?thesis
      unfolding decode_token_def
      by (intro read_steps) (auto split: jwt_result.split option.split intro!: read_steps)
  qed
  have except_error: "blind A (except_token_error m h)" if "blind A m" "\<And>msg. blind A (h msg)"
    for m :: "('c, token_payload) io" and h
    unfolding except_token_error_def
    by (intro blind_catch that(1)) (auto intro: that(2) blind_results split: exn.split py_exception.split)
  have enrich: "blind A (enrich_context u p)" for u p
    unfolding enrich_context_def
  proof (rule blind_change)
    fix w v
    assume r: "A w v"
    let ?rc = "\<lambda>rc. rc\<lparr>rc_tenant_id := (case rc_tenant_id rc of None \<Rightarrow> Some (tp_tid p) | Some t \<Rightarrow> Some t),
        rc_roles := role_codes w u, rc_permissions := permission_codes w u, rc_user_id := Some (row_id u),
        rc_is_superadmin := is_superuser u\<rparr>"
    show "A (case w_ctx w of None \<Rightarrow> w | Some rc \<Rightarrow> w\<lparr>w_ctx := Some (rc
         \<lparr>rc_tenant_id := (case rc_tenant_id rc of None \<Rightarrow> Some (tp_tid p) | Some t \<Rightarrow> Some t),
          rc_roles := role_codes w u, rc_permissions := permission_codes w u, rc_user_id := Some (row_id u),
          rc_is_superadmin := is_superuser u\<rparr>)\<rparr>)
      (case w_ctx v of None \<Rightarrow> v | Some rc \<Rightarrow> v\<lparr>w_ctx := Some (rc
         \<lparr>rc_tenant_id := (case rc_tenant_id rc of None \<Rightarrow> Some (tp_tid p) | Some t \<Rightarrow> Some t),
          rc_roles := role_codes v u, rc_permissions := permission_codes v u, rc_user_id := Some (row_id u),
          rc_is_superadmin := is_superuser u\<rparr>)\<rparr>)"
    proof (cases "w_ctx w")
      case None
      with r same_parts [OF r] show ?thesis by simp
    next
      case (Some rc)
      from step_context [OF r this, of "?rc rc" "Some (tp_tid p)"] Some same_parts [OF r] same_codes [OF r] show ?thesis
        by simp
    qed
  qed
  show ?thesis
    unfolding get_current_user_def by (intro read_steps decode except_error enrich)
qed

lemma blind_permit: "blind A (permit perms u)"
proof -
  have "blind A (asks (\<lambda>w. permission_codes w u))" by (rule blind_asks) (rule same_codes)
  then show ?thesis
    unfolding permit_def require_permission_def Let_def by (intro read_steps)
qed

lemma blind_user_route: "(\<And>u. blind A (endpoint u)) \<Longrightarrow> blind A (user_route x hc perms ok endpoint)"
  unfolding user_route_def validated_def by (intro read_steps blind_current_user blind_permit)

lemma blind_module_body:
  assumes "\<And>u. blind A (endpoint u)"
  shows "blind A (andthen (require_module x code) (\<lambda>_. user_route x hc perms ok endpoint))"
  by (intro read_steps blind_licences(2) blind_user_route assms)

lemma same_outputs:
  "A w v \<Longrightarrow> lesson_out_of w l = lesson_out_of v l" "A w v \<Longrightarrow> assignment_out_of w a = assignment_out_of v a"
  "A w v \<Longrightarrow> grade_of w s = grade_of v s" "A w v \<Longrightarrow> user_out_of email_text w u = user_out_of email_text v u"
proof -
  assume r: "A w v"
  show "lesson_out_of w l = lesson_out_of v l"
    by (simp add: lesson_out_of_def lesson_video_def lesson_document_def same_videos [OF r] same_documents [OF r])
  have "quiz_question_out_of (q, question_answers w q) = quiz_question_out_of (q, question_answers v q)" for q
    using same_answers [OF r, of "row_id q"] by (simp add: quiz_question_out_of_def question_answers_def)
  then have "quiz_out_of (z, quiz_paper w z) = quiz_out_of (z, quiz_paper v z)" for z
    by (simp add: quiz_out_of_def quiz_paper_def same_questions [OF r])
  then show "assignment_out_of w a = assignment_out_of v a"
    by (simp add: assignment_out_of_def quiz_of_def same_quizzes [OF r] option.map_comp comp_def)
  show "grade_of w s = grade_of v s" by (simp add: grade_of_def same_grades [OF r])
  show "user_out_of email_text w u = user_out_of email_text v u"
    using same_roles_of [OF r, of u] by (simp add: user_out_of_def cong: option.case_cong)
qed

lemma blind_catalog: "blind A (list_courses x f pub)" "blind A (get_course cid pub)" "blind A (list_lessons cid)"
  "blind A (my_progress uid p)"
  unfolding list_courses_def get_course_def list_lessons_def lessons_for_course_def my_progress_def
    progress_for_user_def Let_def
  by (intro read_steps)+

lemma blind_assignments: "blind A (list_assignments af pub)" "blind A (get_assignment aid)"
  "blind A (list_grades uid p)" "blind A (list_submissions_for_assignment aid)"
  unfolding list_assignments_def get_assignment_def list_grades_def grades_for_user_def
    list_submissions_for_assignment_def Let_def
  by (intro read_steps)+

lemma blind_dashboard: "blind A (for_user uid)"
proof -
  have "blind A (count_pending uid)"
    unfolding count_pending_def enrolled_courses_def
    by (rule blind_asks) (simp add: same_assignments same_submissions same_enrollments)
  moreover have "blind A (recent_activity uid)"
    unfolding recent_activity_def by (rule blind_asks) (simp add: same_logs)
  ultimately show ?thesis
    unfolding for_user_def by (intro read_steps)
qed

section \<open>Endpoints\<close>

lemma blind_outputs:
  "blind A (asks (\<lambda>w. LessonListBody (map (lesson_out_of w) ls)))"
  "blind A (asks (\<lambda>w. AssignmentPage (page_create (map (assignment_out_of w) as) n af)))"
  "blind A (asks (\<lambda>w. AssignmentListBody (map (assignment_out_of w) as)))"
  "blind A (asks (\<lambda>w. AssignmentBody (assignment_out_of w a)))"
  "blind A (asks (\<lambda>w. SubmissionListBody (map (\<lambda>s. submission_out_of (s, grade_of w s)) ss)))"
  "blind A (asks (\<lambda>w. all_ok (map (user_out_of email_text w) us)))"
  "blind A (asks (\<lambda>w. user_out_of email_text w u))" "blind A (asks (\<lambda>w. permission_codes w u))"
proof -
  show "blind A (asks (\<lambda>w. user_out_of email_text w u))" "blind A (asks (\<lambda>w. permission_codes w u))"
    by (rule blind_asks, erule same_outputs(4) same_codes(2))+
  have "lesson_out_of w = lesson_out_of v" "assignment_out_of w = assignment_out_of v"
    "grade_of w = grade_of v" "user_out_of email_text w = user_out_of email_text v" if "A w v" for w v
    using same_outputs [OF that] by (auto intro!: ext)
  note same = this
  show "blind A (asks (\<lambda>w. LessonListBody (map (lesson_out_of w) ls)))"
    by (rule blind_asks) (simp only: same(1))
  show "blind A (asks (\<lambda>w. AssignmentPage (page_create (map (assignment_out_of w) as) n af)))"
    "blind A (asks (\<lambda>w. AssignmentListBody (map (assignment_out_of w) as)))"
    "blind A (asks (\<lambda>w. AssignmentBody (assignment_out_of w a)))"
    by (rule blind_asks, simp only: same(2))+
  show "blind A (asks (\<lambda>w. SubmissionListBody (map (\<lambda>s. submission_out_of (s, grade_of w s)) ss)))"
    by (rule blind_asks) (simp only: same(3))
  show "blind A (asks (\<lambda>w. all_ok (map (user_out_of email_text w) us)))"
    by (rule blind_asks) (simp only: same(4))
qed

lemma blind_learner_routes:
  "blind A (list_courses_route x f pub)" "blind A (get_course_route cid)" "blind A (list_lessons_route cid)"
  "blind A (my_progress_route p u)" "blind A (list_assignments_route af)" "blind A (get_assignment_route aid)"
  "blind A (list_submissions_route aid)" "blind A (my_grades_route p u)" "blind A (get_dashboard_route u)"
  unfolding list_courses_route_def get_course_route_def list_lessons_route_def my_progress_route_def
    list_assignments_route_def get_assignment_route_def list_submissions_route_def my_grades_route_def
    get_dashboard_route_def
  by (intro read_steps blind_catalog blind_assignments blind_dashboard blind_outputs)+

lemma blind_admin_routes:
  "blind A (get_admin_course_route cid)" "blind A (get_admin_course_assignments_route x cid)"
  "blind A (list_users_route x sv p)" "blind A (reports_route x)" "blind A (me_route sv u)"
  unfolding get_admin_course_route_def get_admin_course_assignments_route_def list_users_route_def
    list_users_def reports_route_def tenant_report_def me_route_def user_response_def
  by (intro blind_tenant(2) blind_licences(1) read_steps blind_catalog blind_outputs; assumption?)+

text \<open>A reading endpoint is a session whose body cannot tell related states apart.\<close>

lemma reading_body:
  assumes "reads_tenant e"
  shows "\<exists>m. blind A m \<and> serve x sv hc e = get_db x m"
proof -
  have guarded: "(\<And>u. blind A (endpoint u)) \<Longrightarrow>
      \<exists>m. blind A m \<and> module_route x hc code perms ok endpoint = get_db x m"
    for code perms ok and endpoint :: "user \<Rightarrow> ('c, body) io"
    unfolding module_route_def by (blast intro: blind_module_body)
  have me: "\<exists>m. blind A m \<and> get_db x (user_route x hc [] True (me_route sv)) = get_db x m"
    by (blast intro: blind_user_route blind_admin_routes)
  show ?thesis
    using assms by (cases e) (simp_all add: guarded me blind_learner_routes blind_admin_routes)
qed

end

end
