(* ===== verification/Secrecy.thy ===== *)
theory Secrecy
  imports Reading
begin

text \<open>
  The two relations for \<open>reader\<close>. A reading endpoint answers from the rows of the tenant of the request:
  it cannot tell databases apart that differ in the rows of other tenants. And no reading endpoint lets
  the caller tell which answers of a quiz are right.
\<close>

section \<open>Rows of other tenants\<close>

definition own_rows :: "uuid \<Rightarrow> 'a tenant_entity_scheme list \<Rightarrow> 'a tenant_entity_scheme list" where
  "own_rows t rows = filter (\<lambda>r. tenant_id r = t) rows"

text \<open>
  \<open>domestic t d\<close> is what a session of tenant \<open>t\<close> may answer from: of each table with a tenant column the
  rows of \<open>t\<close>, of the tenants and the entitlements those of \<open>t\<close>, of the two association tables the links
  of the roles of \<open>t\<close>, and the catalogs of modules and permissions, which all tenants share.
\<close>

definition domestic :: "uuid \<Rightarrow> database \<Rightarrow> database" where
  "domestic t d = d
     \<lparr>t_audit_logs := own_rows t (t_audit_logs d), t_roles := own_rows t (t_roles d),
      t_users := own_rows t (t_users d), t_user_sessions := own_rows t (t_user_sessions d),
      t_categories := own_rows t (t_categories d), t_courses := own_rows t (t_courses d),
      t_course_instructors := own_rows t (t_course_instructors d),
      t_course_enrollments := own_rows t (t_course_enrollments d),
      t_course_modules := own_rows t (t_course_modules d), t_lessons := own_rows t (t_lessons d),
      t_video_assets := own_rows t (t_video_assets d), t_document_assets := own_rows t (t_document_assets d),
      t_lesson_progress := own_rows t (t_lesson_progress d), t_assignments := own_rows t (t_assignments d),
      t_quizzes := own_rows t (t_quizzes d), t_quiz_questions := own_rows t (t_quiz_questions d),
      t_quiz_answers := own_rows t (t_quiz_answers d), t_submissions := own_rows t (t_submissions d),
      t_grades := own_rows t (t_grades d),
      t_tenants := filter (\<lambda>tn. row_id tn = t) (t_tenants d),
      t_tenant_modules := filter (\<lambda>tm. tm_tenant_id tm = t) (t_tenant_modules d),
      t_user_roles := filter (\<lambda>l. snd l \<in> row_id ` set (own_rows t (t_roles d))) (t_user_roles d),
      t_role_permissions := filter (\<lambda>l. fst l \<in> row_id ` set (own_rows t (t_roles d))) (t_role_permissions d)\<rparr>"

text \<open>The parts of the state beside the rows, and states of tenant \<open>t\<close> that agree on its rows.\<close>

definition alike :: "'c world \<Rightarrow> 'c world \<Rightarrow> bool" where
  "alike w v \<longleftrightarrow> w_settings w = w_settings v \<and> w_ctx w = w_ctx v \<and> w_redis w = w_redis v \<and>
     w_draw w = w_draw v \<and> w_now w = w_now v \<and> w_bypass w = w_bypass v \<and> w_guc_tenant w = w_guc_tenant v"

definition neighbours :: "uuid \<Rightarrow> 'c world \<Rightarrow> 'c world \<Rightarrow> bool" where
  "neighbours t w v \<longleftrightarrow> alike w v \<and> serving t w \<and> domestic t (view w) = domestic t (view v)"

lemma neighbours_serving: "neighbours t w v \<Longrightarrow> serving t v"
  by (auto simp: neighbours_def alike_def serving_def)

locale domestic_table = tenant_table M own for M :: "'r model" and own :: "'r \<Rightarrow> uuid" +
  assumes rows_domestic: "m_rows M (domestic t d) = filter (\<lambda>r. own r = t) (m_rows M d)"
begin

lemma related_neighbours:
  fixes w v :: "'c world"
  assumes "neighbours t w v"
  shows "related M p w = related M p v"
proof -
  have "related M p z = filter p (m_rows M (domestic t (view z)))" if "serving t z" for z :: "'c world"
    using that by (simp add: related_def serving_visible rows_domestic conj_commute)
  with assms neighbours_serving [OF assms] show ?thesis by (simp add: neighbours_def)
qed

end

interpretation domestic_users: domestic_table User tenant_id
  by unfold_locales (simp add: User_def domestic_def own_rows_def)

interpretation domestic_roles: domestic_table Role tenant_id
  by unfold_locales (simp add: Role_def domestic_def own_rows_def)

interpretation domestic_courses: domestic_table Course tenant_id
  by unfold_locales (simp add: Course_def domestic_def own_rows_def)

interpretation domestic_enrollments: domestic_table CourseEnrollment tenant_id
  by unfold_locales (simp add: CourseEnrollment_def domestic_def own_rows_def)

interpretation domestic_lessons: domestic_table Lesson tenant_id
  by unfold_locales (simp add: Lesson_def domestic_def own_rows_def)

interpretation domestic_progress: domestic_table LessonProgress tenant_id
  by unfold_locales (simp add: LessonProgress_def domestic_def own_rows_def)

interpretation domestic_videos: domestic_table VideoAsset tenant_id
  by unfold_locales (simp add: VideoAsset_def domestic_def own_rows_def)

interpretation domestic_documents: domestic_table DocumentAsset tenant_id
  by unfold_locales (simp add: DocumentAsset_def domestic_def own_rows_def)

interpretation domestic_assignments: domestic_table Assignment tenant_id
  by unfold_locales (simp add: Assignment_def domestic_def own_rows_def)

interpretation domestic_quizzes: domestic_table Quiz tenant_id
  by unfold_locales (simp add: Quiz_def domestic_def own_rows_def)

interpretation domestic_questions: domestic_table QuizQuestion tenant_id
  by unfold_locales (simp add: QuizQuestion_def domestic_def own_rows_def)

interpretation domestic_answers: domestic_table QuizAnswer tenant_id
  by unfold_locales (simp add: QuizAnswer_def domestic_def own_rows_def)

interpretation domestic_submissions: domestic_table Submission tenant_id
  by unfold_locales (simp add: Submission_def domestic_def own_rows_def)

interpretation domestic_grades: domestic_table Grade tenant_id
  by unfold_locales (simp add: Grade_def domestic_def own_rows_def)

interpretation domestic_logs: domestic_table AuditLog tenant_id
  by unfold_locales (simp add: AuditLog_def domestic_def own_rows_def)

text \<open>The tables without a row policy: the roles of a user, their permissions, and the entitlements.\<close>

lemma domestic_roles_of:
  assumes "serving t w"
  shows "roles_of w u = filter (\<lambda>r. (row_id u, row_id r) \<in> set (t_user_roles (domestic t (view w)))) (t_roles (domestic t (view w)))"
  by (auto simp: roles_of_def role_rows.serving_visible [OF assms] domestic_def own_rows_def intro!: filter_cong)

lemma domestic_permissions:
  assumes "serving t w" and "r \<in> set (roles_of w u)"
  shows "permissions_of w r =
    filter (\<lambda>p. (row_id r, row_id p) \<in> set (t_role_permissions (domestic t (view w)))) (t_permissions (domestic t (view w)))"
proof -
  have "r \<in> set (own_rows t (t_roles (view w)))"
    using assms by (auto simp: roles_of_def role_rows.serving_visible own_rows_def)
  then show ?thesis by (auto simp: permissions_of_def domestic_def intro!: filter_cong)
qed

lemma neighbours_links:
  assumes "neighbours t w v"
  shows "roles_of w u = roles_of v u"
    and "r \<in> set (roles_of w u) \<Longrightarrow> permissions_of w r = permissions_of v r"
    and "t_modules (view w) = t_modules (view v)"
    and "home = t \<Longrightarrow> filter (\<lambda>tm. tm_tenant_id tm = home) (t_tenant_modules (view w)) =
      filter (\<lambda>tm. tm_tenant_id tm = home) (t_tenant_modules (view v))"
    and "current_tenant_id (w_ctx w) = Some home \<Longrightarrow> home = t"
proof -
  have w: "serving t w" and v: "serving t v" and same: "domestic t (view w) = domestic t (view v)"
    using assms neighbours_serving [OF assms] by (simp_all add: neighbours_def)
  show roles: "roles_of w u = roles_of v u"
    by (simp only: domestic_roles_of [OF w] domestic_roles_of [OF v] same)
  show "r \<in> set (roles_of w u) \<Longrightarrow> permissions_of w r = permissions_of v r"
    using domestic_permissions [OF w, of r u] domestic_permissions [OF v, of r u] roles same by simp
  have "t_modules (domestic t d) = t_modules d"
    "t_tenant_modules (domestic t d) = filter (\<lambda>tm. tm_tenant_id tm = t) (t_tenant_modules d)" for d
    by (simp_all add: domestic_def)
  with same show "t_modules (view w) = t_modules (view v)"
    and "home = t \<Longrightarrow> filter (\<lambda>tm. tm_tenant_id tm = home) (t_tenant_modules (view w)) =
      filter (\<lambda>tm. tm_tenant_id tm = home) (t_tenant_modules (view v))" by metis+
  show "current_tenant_id (w_ctx w) = Some home \<Longrightarrow> home = t" using servingD(3) [OF w] by simp
qed

lemma neighbours_steps:
  assumes "neighbours t w v"
  shows "neighbours t (w\<lparr>w_draw := n\<rparr>) (v\<lparr>w_draw := n\<rparr>)" "neighbours t (w\<lparr>w_redis := c\<rparr>) (v\<lparr>w_redis := c\<rparr>)"
    and "w_ctx w = Some rc \<Longrightarrow> rc_tenant_id rc' = (case rc_tenant_id rc of None \<Rightarrow> tid | Some t \<Rightarrow> Some t) \<Longrightarrow>
      neighbours t (w\<lparr>w_ctx := Some rc'\<rparr>) (v\<lparr>w_ctx := Some rc'\<rparr>)"
  using assms by (auto simp: neighbours_def alike_def serving_def view_def current_tenant_id_def split: option.splits)

interpretation tenant_reader: reader "neighbours t" "\<lambda>home. home = t" for t
  by unfold_locales
    (rule neighbours_steps neighbours_links domestic_users.related_neighbours domestic_roles.related_neighbours
        domestic_courses.related_neighbours domestic_enrollments.related_neighbours
        domestic_lessons.related_neighbours domestic_progress.related_neighbours
        domestic_videos.related_neighbours domestic_documents.related_neighbours
        domestic_assignments.related_neighbours domestic_quizzes.related_neighbours
        domestic_questions.related_neighbours domestic_submissions.related_neighbours
        domestic_grades.related_neighbours domestic_logs.related_neighbours; assumption
      | simp add: neighbours_def alike_def; fail
      | simp add: domestic_answers.related_neighbours; fail)+

text \<open>A reading endpoint answers the same from states whose open sessions are related.\<close>

lemma reading_answer:
  assumes "reader A home" and "reads_tenant e" and "requesting t w" and "requesting t v"
    and "A (opened x (Some t) False w) (opened x (Some t) False v)"
  shows "fst (serve x sv hc e w) = fst (serve x sv hc e v)"
proof -
  obtain m where m: "blind A m" and e: "serve x sv hc e = get_db x m"
    using reader.reading_body [OF assms(1,2)] by blast
  have "fst (transaction x (Some t) False m z) = fst (m (opened x (Some t) False z))" for z :: "'a world"
    by (simp add: transaction_eq split: prod.split sum.split)
  with blindD [OF m assms(5)] show ?thesis
    by (simp add: e requesting_get_db [OF assms(3)] requesting_get_db [OF assms(4)])
qed

text \<open>
  C2. Read isolation. Every \<^verbatim>\<open>GET\<close> endpoint, \<^verbatim>\<open>/auth/me\<close> included, but for the two that show the tenants to
  the platform administration, when it is called for tenant \<open>t\<close> under row level security, answers from the
  rows of \<open>t\<close> and the catalogs of modules and permissions: whatever other tenants have in each table, their
  entitlements, their roles and what is linked to their roles included, the answer is the same, errors
  included. It holds of superusers too: the context middleware binds the tenant without their flag
  (\<open>bound_served\<close>), so the session opens without the bypass.
\<close>

theorem read_isolation:
  assumes "requesting t w" and "enable_row_level_security (w_settings w)" and "reads_tenant e"
    and "domestic t d = domestic t (w_committed w)"
  shows "fst (serve x sv hc e (w\<lparr>w_committed := d\<rparr>)) = fst (serve x sv hc e w)"
proof (rule reading_answer [OF tenant_reader.reader_axioms assms(3) _ assms(1)])
  show "requesting t (w\<lparr>w_committed := d\<rparr>)" using assms(1) by (simp add: requesting_def)
  have "serving t (opened x (Some t) False w)" by (rule opened_serving [OF assms(1,2)])
  then show "neighbours t (opened x (Some t) False (w\<lparr>w_committed := d\<rparr>)) (opened x (Some t) False w)"
    using assms(4) by (simp add: neighbours_def alike_def serving_def)
qed

text \<open>The sample school, and the same with a course of another tenant beside it.\<close>

definition portal_beside :: database where
  "portal_beside = portal
     \<lparr>t_courses := school_course 12 ''secret'' Published 1\<lparr>tenant_id := 2\<rparr> # t_courses portal,
      t_user_roles := (8, 9) # t_user_roles portal,
      t_tenant_modules :=
        \<lparr>row_id = 113, created_at = 0, tm_tenant_id = 2, tm_module_id = 101, tm_enabled = True,
         tm_enabled_at = None, tm_expires_at = Some 0\<rparr> # t_tenant_modules portal\<rparr>"

theorem read_isolation_witness:
  "fst (serve sample_env sample_server portal_call GetDashboard (portal_world\<lparr>w_committed := portal_beside\<rparr>)) =
   fst (serve sample_env sample_server portal_call GetDashboard portal_world)"
proof (rule read_isolation [OF portal_facts(1,2)])
  show "reads_tenant GetDashboard" by simp
  show "domestic 1 portal_beside = domestic 1 (w_committed portal_world)"
    by (simp add: domestic_def own_rows_def portal_beside_def portal_def sample_school_def empty_database_def)
qed

section \<open>Which answers are right\<close>

definition hide_answer :: "quiz_answer \<Rightarrow> quiz_answer" where
  "hide_answer a = a\<lparr>qa_is_correct := False\<rparr>"

definition hide_answers :: "database \<Rightarrow> database" where
  "hide_answers d = d\<lparr>t_quiz_answers := map hide_answer (t_quiz_answers d)\<rparr>"

definition unmarked :: "'c world \<Rightarrow> 'c world \<Rightarrow> bool" where
  "unmarked w v \<longleftrightarrow> alike w v \<and> hide_answers (view w) = hide_answers (view v)"

lemma unmarked_steps:
  assumes "unmarked w v"
  shows "unmarked (w\<lparr>w_draw := n\<rparr>) (v\<lparr>w_draw := n\<rparr>)" "unmarked (w\<lparr>w_redis := c\<rparr>) (v\<lparr>w_redis := c\<rparr>)"
    "unmarked (w\<lparr>w_ctx := rc\<rparr>) (v\<lparr>w_ctx := rc\<rparr>)"
  using assms by (auto simp: unmarked_def alike_def view_def)

lemma unmarked_rows:
  assumes "unmarked w v" and "m_rows M (hide_answers (view w)) = m_rows M (view w)"
    and "m_rows M (hide_answers (view v)) = m_rows M (view v)"
  shows "related M p w = related M p v"
proof -
  have "m_rows M (view w) = m_rows M (view v)" using assms by (simp add: unmarked_def)
  moreover have "tenant_isolation w = tenant_isolation v"
    using assms(1) by (auto simp: tenant_isolation_def unmarked_def alike_def)
  then have "row_visible M w r = row_visible M v r" for r
    by (simp add: row_visible_def cong: option.case_cong)
  ultimately show ?thesis by (simp add: related_def)
qed

lemma unmarked_answers:
  assumes "unmarked w v"
  shows "map quiz_answer_out_of (related QuizAnswer (\<lambda>a. qa_question_id a = q) w) =
    map quiz_answer_out_of (related QuizAnswer (\<lambda>a. qa_question_id a = q) v)"
proof -
  have hidden: "map quiz_answer_out_of (filter (\<lambda>a. tenant_isolation z (tenant_id a) \<and> qa_question_id a = q) as) =
      map quiz_answer_out_of (filter (\<lambda>a. tenant_isolation z (tenant_id a) \<and> qa_question_id a = q) (map hide_answer as))"
    for as and z :: "'a world"
    by (induction as) (simp_all add: hide_answer_def quiz_answer_out_of_def)
  have rows: "related QuizAnswer (\<lambda>a. qa_question_id a = q) z =
      filter (\<lambda>a. tenant_isolation z (tenant_id a) \<and> qa_question_id a = q) (t_quiz_answers (view z))"
    for z :: "'a world"
    by (simp add: related_def row_visible_def QuizAnswer_def)
  have "tenant_isolation w = tenant_isolation v"
    using assms by (auto simp: tenant_isolation_def unmarked_def alike_def)
  moreover have "map hide_answer (t_quiz_answers (view w)) = map hide_answer (t_quiz_answers (view v))"
    using assms unfolding unmarked_def hide_answers_def
    by (metis (no_types, lifting) database.select_convs(23) database.surjective database.update_convs(23))
  ultimately show ?thesis unfolding rows by (subst (1 2) hidden) simp
qed

lemma unmarked_platform:
  assumes "unmarked w v"
  shows "t_modules (view w) = t_modules (view v)" and "t_tenant_modules (view w) = t_tenant_modules (view v)"
    and "roles_of w u = roles_of v u" and "permissions_of w r = permissions_of v r"
proof -
  have "t_modules (hide_answers d) = t_modules d" "t_tenant_modules (hide_answers d) = t_tenant_modules d"
    "t_permissions (hide_answers d) = t_permissions d" "t_role_permissions (hide_answers d) = t_role_permissions d"
    "t_user_roles (hide_answers d) = t_user_roles d" "t_roles (hide_answers d) = t_roles d" for d
    by (simp_all add: hide_answers_def)
  with assms have same: "t_modules (view w) = t_modules (view v)" "t_tenant_modules (view w) = t_tenant_modules (view v)"
    "t_permissions (view w) = t_permissions (view v)" "t_role_permissions (view w) = t_role_permissions (view v)"
    "t_user_roles (view w) = t_user_roles (view v)" "t_roles (view w) = t_roles (view v)"
    by (metis unmarked_def)+
  have "tenant_isolation w = tenant_isolation v"
    using assms by (auto simp: tenant_isolation_def unmarked_def alike_def)
  then have "row_visible Role w q = row_visible Role v q" for q
    by (simp add: row_visible_def cong: option.case_cong)
  with same show "t_modules (view w) = t_modules (view v)" "t_tenant_modules (view w) = t_tenant_modules (view v)"
    "roles_of w u = roles_of v u" "permissions_of w r = permissions_of v r"
    by (simp_all add: roles_of_def permissions_of_def)
qed

interpretation unmarked_reader: reader unmarked "\<lambda>_. True"
  by unfold_locales
    (rule unmarked_steps unmarked_answers unmarked_platform; assumption
      | simp add: unmarked_def alike_def; fail
      | simp add: unmarked_platform; fail
      | (rule unmarked_rows, assumption,
         (simp add: hide_answers_def User_def Role_def Course_def CourseEnrollment_def Lesson_def LessonProgress_def
           VideoAsset_def DocumentAsset_def Assignment_def Quiz_def QuizQuestion_def Submission_def Grade_def
           AuditLog_def; fail)+))+

text \<open>
  C7. The right answers of a quiz stay secret. No reading endpoint, of learners or of administrators, shows
  which answers are right: from databases that differ in nothing but the marks of the answers, the answer
  of the endpoint is the same.
\<close>

theorem answers_stay_secret:
  assumes "requesting t w" and "reads_tenant e" and "hide_answers d = hide_answers (w_committed w)"
  shows "fst (serve x sv hc e (w\<lparr>w_committed := d\<rparr>)) = fst (serve x sv hc e w)"
proof (rule reading_answer [OF unmarked_reader.reader_axioms assms(2) _ assms(1)])
  show "requesting t (w\<lparr>w_committed := d\<rparr>)" using assms(1) by (simp add: requesting_def)
  show "unmarked (opened x (Some t) False (w\<lparr>w_committed := d\<rparr>)) (opened x (Some t) False w)"
    using assms(3) by (simp add: unmarked_def alike_def)
qed

theorem answers_stay_secret_witness:
  "fst (serve sample_env sample_server portal_call (GetAssignment 40) (portal_world\<lparr>w_committed := portal
      \<lparr>t_quiz_answers := [school_answer 70 60 False, school_answer 71 60 True, school_answer 72 61 True]\<rparr>\<rparr>)) =
   fst (serve sample_env sample_server portal_call (GetAssignment 40) portal_world)"
proof (rule answers_stay_secret [OF portal_facts(1)])
  show "reads_tenant (GetAssignment 40)" by simp
  show "hide_answers (portal\<lparr>t_quiz_answers := [school_answer 70 60 False, school_answer 71 60 True, school_answer 72 61 True]\<rparr>) =
      hide_answers (w_committed portal_world)"
    by (simp add: hide_answers_def portal_def sample_school_def school_answer_def hide_answer_def)
qed

end
