(* ===== verification/Integrity.thy ===== *)
theory Integrity
  imports Isolation
begin

text \<open>
  The accounts stay distinct. The database holds addresses as the services write them, in lower case, and
  its unique constraint compares them as they are; so that no two accounts of a tenant differ in the case of
  their addresses only, every service that writes an address must lower it first. Every request keeps
  that, whichever endpoint it is and however it ends: one more instance of \<open>request_frame\<close>, and, for the
  tenant administration with its own sessions, of \<open>guard_frame\<close>.
\<close>

section \<open>The accounts\<close>

definition canonical :: "database \<Rightarrow> bool" where
  "canonical d \<longleftrightarrow> consistent User d \<and> list_all (\<lambda>u. email u = lower (email u)) (t_users d)"

text \<open>A key of the accounts that does not know the case of an address.\<close>

definition account_keys :: "database \<Rightarrow> (uuid \<times> string) list" where
  "account_keys d = map (\<lambda>u. (tenant_id u, lower (email u))) (t_users d)"

lemma user_rows_of [simp]: "m_rows User = t_users" "m_id User = row_id"
  by (simp_all add: User_def)

lemma canonical_users: "t_users d = t_users e \<Longrightarrow> canonical d = canonical e"
  by (simp add: canonical_def consistent_def)

lemma canonical_keys: "canonical d \<Longrightarrow> distinct (account_keys d)"
proof -
  assume can: "canonical d"
  then have "sorted_wrt (\<lambda>u v. \<not> (tenant_id u = tenant_id v \<and> email u = email v)) (t_users d)"
    by (auto simp: canonical_def consistent_def User_def elim: sorted_wrt_mono_rel [rotated])
  moreover have "account_keys d = map (\<lambda>u. (tenant_id u, email u)) (t_users d)"
    using can by (auto simp: account_keys_def canonical_def list_all_iff)
  ultimately show ?thesis
    by (auto simp: distinct_conv_nth sorted_wrt_iff_nth_less) (metis linorder_neqE_nat)
qed

interpretation quiet_users: quiet_table User tenant_id
  by unfold_locales (simp_all add: User_def)

interpretation quiet_sessions: quiet_table UserSession tenant_id
  by unfold_locales (simp_all add: UserSession_def)

section \<open>One statement\<close>

definition keeps_accounts :: "'c world \<Rightarrow> 'c world \<Rightarrow> bool" where
  "keeps_accounts w w' \<longleftrightarrow> (steady w \<and> canonical (view w) \<longrightarrow> steady w' \<and> canonical (view w'))"

lemma keeps_accounts_step:
  assumes "steady w \<Longrightarrow> steady (w\<lparr>w_delta := f \<circ> w_delta w\<rparr>)" and "\<And>d. t_users (f d) = t_users d"
  shows "keeps_accounts w (w\<lparr>w_delta := f \<circ> w_delta w\<rparr>)"
  using assms canonical_users [of "f (view w)" "view w"] by (auto simp: keeps_accounts_def view_def)

context quiet_table
begin

lemma rows_after_update:
  "m_rows M (view (updated M k f w)) =
     map (\<lambda>r. if m_id M r = k \<and> row_visible M w r then m_stored M (f r) else r) (m_rows M (view w))"
  by (simp add: view_updated update_rows_def rows_put)

text \<open>The server compares the new row with the others, so an update cannot make two rows clash.\<close>

lemma consistent_checked:
  assumes cons: "consistent M (view w)" and ok: "update_error M k f w = None"
    and key: "\<And>r. m_id M (f r) = m_id M r"
  shows "consistent M (view (updated M k f w))"
proof -
  let ?upd = "\<lambda>r. m_id M r = k \<and> row_visible M w r"
  let ?g = "\<lambda>r. if ?upd r then m_stored M (f r) else r"
  have checked: "\<not> m_clash M (f r) s"
    if "r \<in> set (m_rows M (view w))" "?upd r" "s \<in> set (m_rows M (view w))" "m_id M s \<noteq> k" for r s
    using ok that by (auto simp: update_error_def Let_def list_ex_iff split: if_splits)
  have "sorted_wrt (\<lambda>r s. m_id M (?g r) \<noteq> m_id M (?g s) \<and> \<not> m_clash M (?g r) (?g s)) (m_rows M (view w))"
  proof (rule sorted_wrt_mono_rel [OF _ cons [unfolded consistent_def]])
    fix r s
    assume r: "r \<in> set (m_rows M (view w))" and s: "s \<in> set (m_rows M (view w))"
      and apart: "m_id M r \<noteq> m_id M s \<and> \<not> m_clash M r s"
    have "m_id M (?g r) = m_id M r" "m_id M (?g s) = m_id M s" by (simp_all add: stored_id key)
    moreover have "\<not> m_clash M (?g r) (?g s)"
    proof (cases "?upd r")
      case True
      with checked [OF r True s] apart show ?thesis by (auto simp: clash_stored)
    next
      case False
      show ?thesis
      proof
        assume "m_clash M (?g r) (?g s)"
        with False apart have "?upd s" and "m_clash M r (m_stored M (f s))" by (auto split: if_splits)
        then have "m_clash M (f s) r" using clash_sym clash_stored by blast
        with checked [OF s \<open>?upd s\<close> r] apart \<open>?upd s\<close> show False by auto
      qed
    qed
    ultimately show "m_id M (?g r) \<noteq> m_id M (?g s) \<and> \<not> m_clash M (?g r) (?g s)" using apart by simp
  qed
  then show ?thesis unfolding consistent_def rows_after_update by (simp add: sorted_wrt_map)
qed

text \<open>Statements on the other tables leave the accounts alone.\<close>

lemma accounts_insert:
  assumes "\<And>rs d. t_users (m_put M rs d) = t_users d"
  shows "keeps_accounts w (snd (sql_insert M r w))"
proof (cases "insert_error M r w")
  case None
  have "keeps_accounts w (w\<lparr>w_delta := (\<lambda>d. m_put M (m_rows M d @ [m_stored M r]) d) \<circ> w_delta w\<rparr>)"
    by (rule keeps_accounts_step) (use assms steady_put [where f = "\<lambda>rs. rs @ [m_stored M r]"] in simp_all)
  with None show ?thesis by (simp add: sql_insert_def)
qed (simp add: sql_insert_def keeps_accounts_def)

lemma accounts_map:
  assumes "\<And>rs d. t_users (m_put M rs d) = t_users d"
  shows "keeps_accounts w (w\<lparr>w_delta := update_rows M p f \<circ> w_delta w\<rparr>)"
proof (rule keeps_accounts_step)
  show "steady w \<Longrightarrow> steady (w\<lparr>w_delta := update_rows M p f \<circ> w_delta w\<rparr>)"
    unfolding update_rows_def [abs_def] by (rule steady_put)
qed (simp add: update_rows_def assms)

lemma accounts_update:
  assumes "\<And>rs d. t_users (m_put M rs d) = t_users d"
  shows "keeps_accounts w (snd (sql_update M k f w))"
proof (cases "update_error M k f w")
  case None
  then show ?thesis by (simp add: sql_update_def accounts_map [OF assms])
qed (simp add: sql_update_def keeps_accounts_def)

end

text \<open>A new account is written with its address in lower case; an update leaves the address alone.\<close>

lemma canonical_insert:
  assumes "email r = lower (email r)" and "canonical (view w)"
  shows "canonical (view (snd (sql_insert User r w)))"
proof (cases "insert_error User r w")
  case None
  note run = user_rows.insert_view [OF None]
  have "consistent User (view (snd (sql_insert User r w)))"
    using user_rows.insert_consistent [OF _ run(1)] assms(2) by (simp add: canonical_def)
  with run(2) assms show ?thesis by (auto simp: canonical_def User_def)
qed (use assms in \<open>simp add: sql_insert_def\<close>)

lemma canonical_update:
  assumes "\<And>r. tenant_id (f r) = tenant_id r \<and> row_id (f r) = row_id r" and "\<And>r. email (f r) = email r"
    and "canonical (view w)"
  shows "canonical (view (snd (sql_update User k f w)))"
proof (cases "update_error User k f w")
  case None
  have "consistent User (view (updated User k f w))"
    by (rule quiet_users.consistent_checked [OF _ None]) (use assms in \<open>simp_all add: canonical_def\<close>)
  moreover have "snd (sql_update User k f w) = updated User k f w"
    using sql_update_updated [of User k f w "()" "updated User k f w"] None by simp
  ultimately show ?thesis
    using assms(2,3) user_rows.update_view(2) [OF None] by (auto simp: canonical_def list_all_iff) (simp_all add: User_def)
qed (use assms in \<open>simp add: sql_update_def\<close>)

lemma keeps_accounts_user:
  "email r = lower (email r) \<Longrightarrow> keeps_accounts w (snd (sql_insert User r w))"
  "(\<And>r. tenant_id (f r) = tenant_id r \<and> row_id (f r) = row_id r) \<Longrightarrow> (\<And>r. email (f r) = email r) \<Longrightarrow>
     keeps_accounts w (snd (sql_update User k f w))"
proof -
  have insert: "steady w \<Longrightarrow> steady (snd (sql_insert User r w))"
    using quiet_users.steady_put [of w "\<lambda>rs. rs @ [m_stored User r]"] by (simp add: sql_insert_def split: option.split)
  have "steady w \<Longrightarrow> steady (w\<lparr>w_delta := update_rows User p f \<circ> w_delta w\<rparr>)" for p
    unfolding update_rows_def [abs_def] by (rule quiet_users.steady_put)
  then have update: "steady w \<Longrightarrow> steady (snd (sql_update User k f w))"
    by (simp add: sql_update_def split: option.split)
  show "email r = lower (email r) \<Longrightarrow> keeps_accounts w (snd (sql_insert User r w))"
    unfolding keeps_accounts_def using insert canonical_insert by blast
  show "(\<And>r. tenant_id (f r) = tenant_id r \<and> row_id (f r) = row_id r) \<Longrightarrow> (\<And>r. email (f r) = email r) \<Longrightarrow>
      keeps_accounts w (snd (sql_update User k f w))"
    unfolding keeps_accounts_def using update canonical_update [of f] by blast
qed

lemma keeps_accounts_publish: "keeps_accounts w (snd (publish_event x (Some tid) uid ev w))"
proof (rule publish_appE [of x "Some tid" uid ev w])
  fix w'
  assume run: "publish_event x (Some tid) uid ev w = (Inr (), w')" and a: "audited (Some tid) w w'"
  show ?thesis
    using audited_view [OF a] no_logs_eq [of "view w'" "view w"] canonical_users [of "view w'" "view w"]
    by (auto simp: keeps_accounts_def run)
qed

lemma keeps_accounts_enrich: "keeps_accounts w (snd (enrich_context u p w))"
  by (auto simp: keeps_accounts_def enrich_context_def change_def steady_def view_def split: option.split)

lemma steady_roles:
  assumes "steady w"
  shows "steady (w\<lparr>w_delta := (\<lambda>d. d\<lparr>t_user_roles := g (t_user_roles d)\<rparr>) \<circ> w_delta w\<rparr>)"
proof -
  let ?h = "\<lambda>d. d\<lparr>t_user_roles := g (t_user_roles d)\<rparr>"
  have put: "no_logs (d\<lparr>t_user_roles := rs\<rparr>) = (no_logs d)\<lparr>t_user_roles := rs\<rparr>" for d rs
    by (simp add: no_logs_def)
  have same: "no_logs (?h d) = no_logs (?h e)" if "no_logs d = no_logs e" for d e
    unfolding put that no_logs_eq(8) [OF that] ..
  have "no_logs (?h (w_delta w (d\<lparr>t_audit_logs := l\<rparr>))) = no_logs (?h (w_delta w d))" for d l
    by (rule same) (use assms in \<open>simp add: steady_def\<close>)
  then show ?thesis by (simp add: steady_def)
qed

lemma keeps_accounts_roles:
  "keeps_accounts w (w\<lparr>w_delta := (\<lambda>d. d\<lparr>t_user_roles := g (t_user_roles d)\<rparr>) \<circ> w_delta w\<rparr>)"
  by (rule keeps_accounts_step) (simp_all add: steady_roles)

lemma keeps_accounts_revoke: "keeps_accounts w (snd (revoke_all_for_user u w))"
proof -
  have "\<And>rs d. t_users (m_put UserSession rs d) = t_users d" by (simp add: UserSession_def)
  from quiet_sessions.accounts_map [OF this] show ?thesis by (simp add: revoke_all_for_user_def change_def)
qed

lemmas accounts_inserts = quiet_sessions.accounts_insert course_rows.accounts_insert enrollment_rows.accounts_insert
  lesson_rows.accounts_insert progress_rows.accounts_insert assignment_rows.accounts_insert
  submission_rows.accounts_insert grade_rows.accounts_insert

lemmas accounts_updates = quiet_sessions.accounts_update course_rows.accounts_update progress_rows.accounts_update
  submission_rows.accounts_update grade_rows.accounts_update

section \<open>Every request\<close>

interpretation account_requests: request_frame keeps_accounts "\<lambda>_. True"
  by unfold_locales
    ((rule keeps_accounts_user keeps_accounts_publish keeps_accounts_enrich keeps_accounts_roles
        keeps_accounts_revoke; assumption?)
      | (rule accounts_inserts accounts_updates,
          simp add: UserSession_def Course_def CourseEnrollment_def Lesson_def LessonProgress_def Assignment_def
            Submission_def Grade_def; fail)
      | (simp add: keeps_accounts_def view_def steady_def; fail))+

text \<open>Both frames at once: the log tables aside nothing is committed before the end, and the accounts stay distinct.\<close>

lemmas settled_steps =
    same_frame.frame_refl settled_requests.step_draw settled_requests.step_cache settled_requests.step_reset
    settled_requests.step_enrich settled_requests.step_publish settled_requests.step_roles
    settled_requests.step_revoke settled_requests.add_user settled_requests.add_session
    settled_requests.add_course settled_requests.add_enrollment settled_requests.add_lesson
    settled_requests.add_progress settled_requests.add_assignment settled_requests.add_submission
    settled_requests.add_grade settled_requests.set_user settled_requests.set_session
    settled_requests.set_course settled_requests.set_progress settled_requests.set_submission
    settled_requests.set_grade

lemmas account_steps =
    account_requests.frame_refl account_requests.step_draw account_requests.step_cache account_requests.step_reset account_requests.step_enrich
    account_requests.step_publish account_requests.step_roles account_requests.step_revoke account_requests.add_user
    account_requests.add_session account_requests.add_course account_requests.add_enrollment account_requests.add_lesson
    account_requests.add_progress account_requests.add_assignment account_requests.add_submission account_requests.add_grade
    account_requests.set_user account_requests.set_session account_requests.set_course account_requests.set_progress
    account_requests.set_submission account_requests.set_grade

interpretation settled_accounts: request_frame "\<lambda>w v. settled w v \<and> keeps_accounts w v" "\<lambda>_. True"
  by unfold_locales
    (simp add: settled_steps account_steps
      | elim conjE, intro conjI, erule (1) same_frame.frame_trans, erule (1) account_requests.frame_trans)+

text \<open>A session whose body keeps both leaves distinct accounts behind.\<close>

lemma accounts_transaction:
  assumes m: "keeps (\<lambda>w v. settled w v \<and> keeps_accounts w v) m" and w: "canonical (w_committed w)"
  shows "canonical (w_committed (snd (transaction x tid b m w)))"
proof -
  obtain r w' where run: "m (opened x tid b w) = (r, w')" by fastforce
  have "settled (opened x tid b w) w'" and "keeps_accounts (opened x tid b w) w'"
    using keepsD [OF m run] by simp_all
  then have "no_logs (w_committed w') = no_logs (w_committed w)" and "canonical (view w')"
    using w by (simp_all add: same_def keeps_accounts_def steady_start)
  then show ?thesis
    using w no_logs_eq [of "w_committed w'" "w_committed w"] canonical_users [of "w_committed w'" "w_committed w"]
    by (cases r) (simp_all add: transaction_eq run)
qed

lemma accounts_get_db:
  assumes "keeps (\<lambda>w v. settled w v \<and> keeps_accounts w v) m" and "canonical (w_committed w)"
  shows "canonical (w_committed (snd (get_db x m w)))"
  using accounts_transaction [OF assms] by (simp add: get_db_def act_simps Let_def)

text \<open>
  The tenant administration. \<open>inside\<close>: the body of a session of its own, which commits nothing before its
  end. \<open>idle\<close>: the session of the request itself, in which nothing is pending while another one runs.
\<close>

definition inside :: "'c world \<Rightarrow> 'c world \<Rightarrow> bool" where
  "inside w w' \<longleftrightarrow> w_committed w' = w_committed w \<and> (canonical (view w) \<longrightarrow> canonical (view w'))"

definition idle :: "'c world \<Rightarrow> 'c world \<Rightarrow> bool" where
  "idle w w' \<longleftrightarrow> (w_delta w = id \<and> canonical (w_committed w) \<longrightarrow> w_delta w' = id \<and> canonical (w_committed w'))"

lemma enrich_rows:
  "w_committed (snd (enrich_context u p w)) = w_committed w" "w_delta (snd (enrich_context u p w)) = w_delta w"
  by (simp_all add: enrich_context_def change_def split: option.split)

interpretation inside_steps: guard_frame inside "\<lambda>_. True"
  by unfold_locales (auto simp: inside_def view_def enrich_rows)

interpretation idle_steps: guard_frame idle "\<lambda>_. True"
  by unfold_locales (auto simp: idle_def enrich_rows)

lemma inside_others:
  assumes "\<And>rs d. t_users (m_put M rs d) = t_users d"
  shows "keeps inside (sql_insert M q)" "keeps inside (sql_update M k g)"
proof -
  have "canonical (m_put M rs d) = canonical d" for rs d by (rule canonical_users) (rule assms)
  then show "keeps inside (sql_insert M q)" "keeps inside (sql_update M k g)"
    by (auto simp: keeps_def inside_def sql_insert_def sql_update_def update_rows_def view_def split: option.split)
qed

lemma inside_insert:
  "email r = lower (email r) \<Longrightarrow> keeps inside (sql_insert User r)"
  "keeps inside (sql_insert Tenant tn)" "keeps inside (sql_insert TenantModule tm)"
  "keeps inside (sql_update TenantModule k f)"
proof -
  show "keeps inside (sql_insert Tenant tn)" by (rule inside_others) (simp add: Tenant_def)
  show "keeps inside (sql_insert TenantModule tm)" "keeps inside (sql_update TenantModule k f)"
    by (rule inside_others, simp add: TenantModule_def)+
  assume lower: "email r = lower (email r)"
  show "keeps inside (sql_insert User r)"
    unfolding keeps_def inside_def
    by (intro allI conjI impI canonical_insert [OF lower]) (simp_all add: sql_insert_def split: option.split)
qed

lemma idle_session:
  assumes "keeps inside m"
  shows "keeps idle (tenant_session x tid b m)"
proof (rule keepsI)
  fix w :: "'a world"
  obtain r w' where run: "m (opened x tid b w) = (r, w')" by fastforce
  have "inside (opened x tid b w) w'" by (rule keepsD [OF assms run])
  then show "idle w (snd (tenant_session x tid b m w))"
    by (cases r) (simp_all add: idle_def inside_def tenant_session_def transaction_eq run Let_def)
qed

lemma inside_set_module: "keeps inside (set_module x tid code b)"
  unfolding set_module_def invalidate_def repo_add_def by (intro inside_steps.guard_steps inside_insert)

lemma idle_platform:
  "keeps idle (create_tenant_route x tc)" "keeps idle (list_tenants_route x)"
  "keeps idle (list_tenant_modules_route x ident)" "keeps idle (toggle_tenant_module_route x ident mt)"
proof -
  have "keeps idle (resolve_tenant_id x i :: ('a, uuid option) io)" for i
    unfolding resolve_tenant_id_def resolve_from_database_def get_by_slug_def
    by (intro idle_steps.guard_steps idle_session inside_steps.guard_steps)
  then have resolved: "keeps idle (resolved_tenant x ident)"
    unfolding resolved_tenant_def by (intro idle_steps.guard_steps)
  show "keeps idle (list_tenants_route x)"
    unfolding list_tenants_route_def list_tenants_def tenant_list_all_def
    by (intro idle_steps.guard_steps idle_session inside_steps.guard_steps)
  show "keeps idle (list_tenant_modules_route x ident)"
    unfolding list_tenant_modules_route_def list_modules_def
    by (intro idle_steps.keeps_rules resolved idle_session inside_steps.guard_steps inside_steps.keeps_licences)
  show "keeps idle (toggle_tenant_module_route x ident mt)"
    unfolding toggle_tenant_module_route_def admin_set_module_def tenant_get_def
    by (intro idle_steps.keeps_rules resolved idle_session inside_steps.guard_steps inside_set_module)
  show "keeps idle (create_tenant_route x tc)"
    unfolding create_tenant_route_def create_tenant_def get_by_slug_def tenant_create_def hash_password_def repo_add_def
    by (intro idle_steps.keeps_rules idle_session inside_steps.guard_steps inside_set_module inside_insert)
      (simp add: first_admin_def lower_idem)
qed

lemma idle_get_db:
  assumes "keeps idle m" and "canonical (w_committed w)"
  shows "canonical (w_committed (snd (get_db x m w)))"
proof -
  have "canonical (w_committed (snd (transaction x tid b m w)))" for tid b
  proof -
    obtain r w' where run: "m (opened x tid b w) = (r, w')" by fastforce
    with keepsD [OF assms(1) run] assms(2) show ?thesis
      by (cases r) (simp_all add: idle_def transaction_eq run view_def)
  qed
  then show ?thesis by (simp add: get_db_def act_simps Let_def)
qed

text \<open>
  C5. Accounts stay distinct. Whatever request arrives, registration and the tenant administration included, in
  whatever context, and however it ends: when before it the users had unique identifiers, lower-case
  addresses and no address twice in a tenant, the same holds of what is committed after it. So no tenant ever has
  two accounts whose addresses differ only in case, though the unique constraint of the table would allow them.
\<close>

theorem accounts_stay_distinct:
  assumes "canonical (w_committed w)"
  shows "canonical (w_committed (snd (serve x sv hc e w))) \<and>
    distinct (account_keys (w_committed (snd (serve x sv hc e w))))"
proof -
  let ?Q = "\<lambda>m :: ('a, body) io. \<forall>w. canonical (w_committed w) \<longrightarrow> canonical (w_committed (snd (m w)))"
  have "?Q (serve x sv hc e)"
  proof (cases "platform e")
    case False
    show ?thesis
    proof (rule settled_accounts.serve_induct [OF _ _ False])
      show "?Q (get_db x m)" if "keeps (\<lambda>w v. settled w v \<and> keeps_accounts w v) m" for m
        using accounts_get_db [OF that] by blast
    next
      fix m :: "('a, body) io"
      assume m: "?Q m"
      show "?Q (andthen (auth_limit x hc) (\<lambda>_. m))"
      proof (intro allI impI)
        fix w :: "'a world"
        assume w: "canonical (w_committed w)"
        obtain r w' where run: "auth_limit x hc w = (r, w')" by fastforce
        have "w_committed w' = w_committed w" using keepsD [OF auth_limit_keeps run] by (simp add: same_def)
        with w m show "canonical (w_committed (snd (andthen (auth_limit x hc) (\<lambda>_. m) w)))"
          by (cases r) (auto simp: andthen_def run)
      qed
    qed
  next
    case True
    have guarded: "?Q (module_route x hc code perms ok endpoint)"
      if "\<And>u. keeps idle (endpoint u)" for code perms ok and endpoint :: "user \<Rightarrow> ('a, body) io"
      unfolding module_route_def by (intro allI impI idle_get_db idle_steps.keeps_module_body that)
    from True show ?thesis by (cases e) (simp_all add: guarded idle_platform)
  qed
  with assms show ?thesis using canonical_keys by blast
qed

theorem accounts_stay_distinct_witness:
  "distinct (account_keys (w_committed (snd (serve sample_env sample_server sample_call
     (PostRegister \<lparr>reg_email = ''Eve@acme.io'', reg_password = ''long-enough'', reg_full_name = ''Eve''\<rparr>) school_world))))"
proof (rule accounts_stay_distinct [THEN conjunct2])
  show "canonical (w_committed school_world)"
    by (simp add: canonical_def consistent_def User_def sample_school_def school_user_def)
      (simp add: lower_def lower_char_def)
qed

end
