(* ===== verification/Administration.thy ===== *)
theory Administration
  imports Access Integrity
begin

text \<open>
  The two operations of the administration that decide who may do what: a change of the roles of a user,
  and the creation of a tenant with its licences and its first administrator.
\<close>

section \<open>Roles\<close>

text \<open>The rows of an association table that link one key to the rows of a list.\<close>

definition linked :: "uuid \<Rightarrow> 'a entity_scheme list \<Rightarrow> (uuid \<times> uuid) list" where
  "linked k rs = map (\<lambda>r. (k, row_id r)) rs"

lemma add_roles_run:
  assumes "for_each rs (\<lambda>r. add_user_role k (row_id r)) w = (Inr v, w')"
  shows "w' = w\<lparr>w_delta := (\<lambda>d. d\<lparr>t_user_roles := t_user_roles d @ linked k rs\<rparr>) \<circ> w_delta w\<rparr>"
  using assms
proof (induction rs arbitrary: w)
  case Nil
  then show ?case by (simp add: ret_def linked_def comp_def)
next
  case (Cons r rs)
  from Cons.prems obtain y w1 where one: "add_user_role k (row_id r) w = (Inr y, w1)"
    and rest: "for_each rs (\<lambda>r. add_user_role k (row_id r)) w1 = (Inr v, w')"
    by (auto elim: andthen_InrE)
  show ?case
    unfolding Cons.IH [OF rest] add_user_role_users [OF one] by (simp add: linked_def comp_def)
qed

lemma set_roles_run:
  assumes "set_roles u old new w = (Inr v, w')"
  shows "w' = w\<lparr>w_delta := (\<lambda>d. d\<lparr>t_user_roles :=
      filter (\<lambda>(a, r). \<not> (a = row_id u \<and> r \<in> row_id ` set old - row_id ` set new)) (t_user_roles d) @
      linked (row_id u) (filter (\<lambda>r. row_id r \<notin> row_id ` set old) new)\<rparr>) \<circ> w_delta w\<rparr>"
  using assms add_roles_run unfolding set_roles_def by (fastforce simp: andthen_change comp_def)

lemma set_roles_steady: "set_roles u old new w = (Inr v, w') \<Longrightarrow> steady w \<Longrightarrow> steady w'"
  by (drule set_roles_run) (rule ssubst, assumption, erule steady_roles)

lemma live_roles: "serving t w \<Longrightarrow> live_rows Role w = filter (\<lambda>r. tenant_id r = t) (t_roles (view w))"
  by (simp add: role_rows.serving_live) (simp add: Role_def)

lemma get_by_codes_run:
  "serving t w \<Longrightarrow> get_by_codes cs w =
     (Inr (filter (\<lambda>r. tenant_id r = t \<and> role_code r \<in> set cs) (t_roles (view w))), w)"
  using live_roles [of t w] unfolding get_by_codes_def live_rows_def
  by (simp add: act_simps window_plain ordered_plain matching_and_where)

text \<open>The links of a user after the roles with the given codes became those of the user.\<close>

lemma relinked:
  assumes cons: "consistent Role d"
    and links: "ls = filter (\<lambda>(a, r). \<not> (a = k \<and> r \<in> row_id ` set old - row_id ` set new)) (t_user_roles d) @
      linked k (filter (\<lambda>r. row_id r \<notin> row_id ` set old) new)"
    and old: "set old = {r \<in> set (t_roles d). tenant_id r = t \<and> (k, row_id r) \<in> set (t_user_roles d)}"
    and new: "set new = {r \<in> set (t_roles d). tenant_id r = t \<and> role_code r \<in> set codes}"
    and q: "q \<in> set (t_roles d)"
  shows "(a, row_id q) \<in> set ls \<longleftrightarrow>
    (if a = k \<and> tenant_id q = t then role_code q \<in> set codes else (a, row_id q) \<in> set (t_user_roles d))"
proof -
  have same: "r = q" if "r \<in> set (t_roles d)" "row_id r = row_id q" for r
    using unique_row [OF cons, of r q] that q by (simp add: Role_def)
  have in_old: "row_id q \<in> row_id ` set old \<longleftrightarrow> tenant_id q = t \<and> (k, row_id q) \<in> set (t_user_roles d)"
    unfolding old using q by (auto dest: same)
  have in_new: "row_id q \<in> row_id ` set new \<longleftrightarrow> tenant_id q = t \<and> role_code q \<in> set codes"
    unfolding new using q by (auto dest: same)
  have added: "(a, row_id q) \<in> set (linked k (filter (\<lambda>r. row_id r \<notin> row_id ` set old) new)) \<longleftrightarrow>
      a = k \<and> row_id q \<in> row_id ` set new \<and> row_id q \<notin> row_id ` set old"
    by (auto simp: linked_def image_iff)
  show ?thesis
    unfolding links set_append Un_iff added using in_old in_new by auto
qed

lemma change_user:
  assumes "serving t w" and "steady w" and "consistent User (view w)"
    and u: "u \<in> set (t_users (view w))" "tenant_id u = t"
    and run: "(if auu_full_name d = None \<and> auu_is_active d = None then ret ()
       else sql_update User (row_id u) (apply_user_update d)) w = (Inr v, w')"
  shows "serving t w' \<and> steady w' \<and>
    view w' = (view w)\<lparr>t_users := map (\<lambda>r. if r = u then apply_user_update d u else r) (t_users (view w))\<rparr>"
proof (cases "auu_full_name d = None \<and> auu_is_active d = None")
  case True
  then have "apply_user_update d u = u" by (simp add: apply_user_update_def set_value_def)
  then have "map (\<lambda>r. if r = u then apply_user_update d u else r) (t_users (view w)) = t_users (view w)"
    by (intro map_idI) simp
  with True run assms(1,2) show ?thesis by (simp add: ret_def)
next
  case False
  have key: "m_id User u = row_id u" and put: "m_put User rs e = e\<lparr>t_users := rs\<rparr>"
    and stored: "m_stored User r = r" for rs e r
    by (simp_all add: User_def)
  from False run have "sql_update User (row_id u) (apply_user_update d) w = (Inr v, w')" by (simp only: if_False)
  then have "w' = updated User (m_id User u) (apply_user_update d) w" by (simp add: sql_update_updated key)
  then show ?thesis
    using assms(1,2) quiet_users.view_updated_row [OF assms(1,3), of u "apply_user_update d"] u
    by (simp add: put stored)
qed

lemma update_user_ok:
  assumes sv: "serving t w" and st: "steady w" and cons: "consistent User (view w)"
    and codes: "auu_role_codes d = Some (Some codes)" and run: "update_user x uid d w = (Inr u, w')"
  shows "\<exists>u0 ls. u0 \<in> set (t_users (view w)) \<and> row_id u0 = uid \<and> tenant_id u0 = t \<and> deleted_at u0 = None \<and>
    u = apply_user_update d u0 \<and>
    ls = filter (\<lambda>(a, r). \<not> (a = uid \<and> r \<in> row_id ` set (roles_of w u0) -
        row_id ` set (filter (\<lambda>r. tenant_id r = t \<and> role_code r \<in> set codes) (t_roles (view w))))) (t_user_roles (view w)) @
      linked uid (filter (\<lambda>r. row_id r \<notin> row_id ` set (roles_of w u0))
        (filter (\<lambda>r. tenant_id r = t \<and> role_code r \<in> set codes) (t_roles (view w)))) \<and>
    no_logs (view w') = no_logs ((view w)\<lparr>t_users := map (\<lambda>r. if r = u0 then u else r) (t_users (view w)),
      t_user_roles := ls\<rparr>)"
proof -
  let ?new = "filter (\<lambda>r. tenant_id r = t \<and> role_code r \<in> set codes) (t_roles (view w))"
  have ctx: "current_tenant_id (w_ctx v) = Some t" if "serving t v" for v using servingD(3) [OF that] .
  from run obtain u0 where found: "fetched User uid (live_rows User w) = Inr u0"
    and rest: "andthen (ensure (auu_full_name d \<noteq> Some None \<and> auu_is_active d \<noteq> Some None)
       (Unhandled (IntegrityError ''User''))) (\<lambda>_.
     andthen (if auu_full_name d = None \<and> auu_is_active d = None then ret ()
              else sql_update User (row_id u0) (apply_user_update d)) (\<lambda>_.
     andthen (andthen (get_by_codes codes) (\<lambda>rs. set_roles u0 (roles_of w u0) rs)) (\<lambda>_.
     andthen require_tenant (\<lambda>tid.
     andthen (publish_event x (Some tid) (Some (row_id u0)) (UserUpdatedEvent (user_changes d))) (\<lambda>_.
     ret (apply_user_update d u0)))))) w = (Inr u, w')"
    by (auto simp: update_user_def andthen_repo_get_or_404 codes act_simps split: sum.splits)
  from found have "filter (\<lambda>r. m_id User r = uid) (live_rows User w) = [u0]" by (simp add: fetched_Inr)
  then have "u0 \<in> set (filter (\<lambda>r. m_id User r = uid) (live_rows User w))" by simp
  then have u0: "u0 \<in> set (t_users (view w))" "row_id u0 = uid" "tenant_id u0 = t" "deleted_at u0 = None"
    by (auto simp: live_users [OF sv] user_id_column)
  from rest obtain y w1 where upd: "(if auu_full_name d = None \<and> auu_is_active d = None then ret ()
       else sql_update User (row_id u0) (apply_user_update d)) w = (Inr y, w1)"
    and rest1: "andthen (andthen (get_by_codes codes) (\<lambda>rs. set_roles u0 (roles_of w u0) rs)) (\<lambda>_.
     andthen require_tenant (\<lambda>tid.
     andthen (publish_event x (Some tid) (Some (row_id u0)) (UserUpdatedEvent (user_changes d))) (\<lambda>_.
     ret (apply_user_update d u0)))) w1 = (Inr u, w')"
    by (auto simp: andthen_ensure split: if_splits elim: andthen_InrE)
  note w1 = change_user [OF sv st cons u0(1,3) upd]
  then have sv1: "serving t w1" and st1: "steady w1" and roles: "t_roles (view w1) = t_roles (view w)" by simp_all
  from rest1 obtain v w2 where "andthen (get_by_codes codes) (\<lambda>rs. set_roles u0 (roles_of w u0) rs) w1 = (Inr v, w2)"
    and rest2: "andthen require_tenant (\<lambda>tid.
     andthen (publish_event x (Some tid) (Some (row_id u0)) (UserUpdatedEvent (user_changes d))) (\<lambda>_.
     ret (apply_user_update d u0))) w2 = (Inr u, w')"
    by (rule andthen_InrE)
  then have "set_roles u0 (roles_of w u0) ?new w1 = (Inr v, w2)"
    by (simp add: andthen_Inr [of "get_by_codes codes", OF get_by_codes_run [OF sv1]] roles)
  note w2 = set_roles_run [OF this]
  let ?g = "\<lambda>l. filter (\<lambda>(a, r). \<not> (a = row_id u0 \<and> r \<in> row_id ` set (roles_of w u0) - row_id ` set ?new)) l @
      linked (row_id u0) (filter (\<lambda>r. row_id r \<notin> row_id ` set (roles_of w u0)) ?new)"
  have sv2: "serving t w2" and st2: "steady w2"
    using sv1 steady_roles [OF st1, of ?g] by (simp_all add: w2)
  have view2: "view w2 = (view w)\<lparr>t_users := map (\<lambda>r. if r = u0 then apply_user_update d u0 else r) (t_users (view w)),
      t_user_roles := ?g (t_user_roles (view w))\<rparr>"
    using w1 by (simp add: w2 view_def)
  from rest2 have pub: "andthen (publish_event x (Some t) (Some (row_id u0)) (UserUpdatedEvent (user_changes d))) (\<lambda>_.
      ret (apply_user_update d u0)) w2 = (Inr u, w')"
    by (simp add: andthen_require_tenant [OF ctx [OF sv2]])
  note fin = publish_done [OF pub st2]
  have "no_logs (view w') = no_logs ((view w)
      \<lparr>t_users := map (\<lambda>r. if r = u0 then u else r) (t_users (view w)), t_user_roles := ?g (t_user_roles (view w))\<rparr>)"
    unfolding fin(1,2) view2 ..
  with u0 fin(1) show ?thesis by blast
qed

section \<open>What the new roles grant\<close>

text \<open>The permissions of the roles of tenant \<open>t\<close> with the given codes.\<close>

definition granted_by :: "uuid \<Rightarrow> string list \<Rightarrow> database \<Rightarrow> string set" where
  "granted_by t codes d = perm_code ` {p \<in> set (t_permissions d). \<exists>r \<in> set (t_roles d). tenant_id r = t \<and>
     role_code r \<in> set codes \<and> (row_id r, row_id p) \<in> set (t_role_permissions d)}"

text \<open>
  C10. Changing the roles of a user changes what that user may do, and nothing else. After a successful
  update with role codes the user of the tenant has exactly the permissions of the roles of the tenant
  with these codes; every other user, and this one in every other tenant, has the permissions it had; and
  only the row of the user is changed, by the fields of the request.
\<close>

theorem update_user_roles:
  assumes sv: "serving t w" and "steady w" and cons: "consistent User (view w)" "consistent Role (view w)"
    and "auu_role_codes d = Some (Some codes)" and "update_user x uid d w = (Inr u, w')"
  shows "granted t uid (view w') = granted_by t codes (view w) \<and>
    (\<forall>s k. (s, k) \<noteq> (t, uid) \<longrightarrow> granted s k (view w') = granted s k (view w)) \<and>
    t_users (view w') = map (\<lambda>r. if row_id r = uid \<and> tenant_id r = t then u else r) (t_users (view w)) \<and>
    row_id u = uid \<and> tenant_id u = t"
proof -
  obtain u0 ls where u0: "u0 \<in> set (t_users (view w))" "row_id u0 = uid" "tenant_id u0 = t" and u: "u = apply_user_update d u0"
    and ls: "ls = filter (\<lambda>(a, r). \<not> (a = uid \<and> r \<in> row_id ` set (roles_of w u0) -
        row_id ` set (filter (\<lambda>r. tenant_id r = t \<and> role_code r \<in> set codes) (t_roles (view w))))) (t_user_roles (view w)) @
      linked uid (filter (\<lambda>r. row_id r \<notin> row_id ` set (roles_of w u0))
        (filter (\<lambda>r. tenant_id r = t \<and> role_code r \<in> set codes) (t_roles (view w))))"
    and logs: "no_logs (view w') = no_logs ((view w)\<lparr>t_users := map (\<lambda>r. if r = u0 then u else r) (t_users (view w)),
      t_user_roles := ls\<rparr>)"
    using update_user_ok [OF sv assms(2) cons(1) assms(5,6)] by blast
  note tables = no_logs_eq [OF logs, simplified]
  have link: "(a, row_id q) \<in> set ls \<longleftrightarrow>
      (if a = uid \<and> tenant_id q = t then role_code q \<in> set codes else (a, row_id q) \<in> set (t_user_roles (view w)))"
    if "q \<in> set (t_roles (view w))" for a q
    by (rule relinked [OF cons(2) ls]) (use that u0 in \<open>auto simp: roles_of_def role_rows.serving_visible [OF sv]\<close>)
  have "granted t uid (view w') = granted_by t codes (view w)"
    unfolding granted_def granted_by_def tables using link by (auto simp: image_iff; blast)
  moreover have "granted s k (view w') = granted s k (view w)" if "(s, k) \<noteq> (t, uid)" for s k
    unfolding granted_def tables using link that by (auto simp: image_iff; blast)
  moreover have "r = u0 \<longleftrightarrow> row_id r = uid \<and> tenant_id r = t" if "r \<in> set (t_users (view w))" for r
    using unique_row [OF cons(1), of r u0] that u0 by (auto simp: User_def)
  then have "t_users (view w') = map (\<lambda>r. if row_id r = uid \<and> tenant_id r = t then u else r) (t_users (view w))"
    unfolding tables by (intro map_cong) auto
  ultimately show ?thesis using u0 u by (simp add: apply_user_update_def)
qed

text \<open>A staff room: Ann is a student of the school, and the instructors may grade.\<close>

definition staff_role :: "uuid \<Rightarrow> string \<Rightarrow> role" where
  "staff_role i c =
     \<lparr>row_id = i, created_at = 0, tenant_id = 1, role_code = c, role_name = c, role_description = None,
      role_is_system = True\<rparr>"

definition staff_room :: database where
  "staff_room = sample_school
     \<lparr>t_permissions := [\<lparr>row_id = 131, created_at = 0, perm_code = ''grade:write'', perm_description = None\<rparr>],
      t_roles := [staff_role 121 ''instructor'', staff_role 122 ''student''],
      t_role_permissions := [(121, 131)], t_user_roles := [(5, 122)]\<rparr>"

theorem update_user_roles_witness:
  "\<exists>u w'. update_user sample_env 5 \<lparr>auu_full_name = None, auu_is_active = None,
      auu_role_codes = Some (Some [''instructor''])\<rparr> (sample_world staff_room None (Some 1)) = (Inr u, w') \<and>
    granted 1 5 staff_room = {} \<and> granted 1 5 (view w') = {''grade:write''}"
proof -
  let ?w = "sample_world staff_room None (Some 1)"
  let ?d = "\<lparr>auu_full_name = None, auu_is_active = None, auu_role_codes = Some (Some [''instructor''])\<rparr>"
  let ?ann = "school_user 5 ''ann@acme.io''"
  let ?w1 = "?w\<lparr>w_delta := (\<lambda>d. d\<lparr>t_user_roles := [(5, 121)]\<rparr>)\<rparr>"
  have sv: "serving 1 ?w" by (simp add: serving_def)
  have "fetched User 5 (live_rows User ?w) = Inr ?ann"
    unfolding live_users [OF sv] by (simp add: fetched_Inr user_id_column staff_room_def sample_school_def school_user_def)
  then have found: "repo_get_or_404 User 5 ?w = (Inr ?ann, ?w)"
    by (simp add: repo_get_or_404_eq)
  have old: "roles_of ?w ?ann = [staff_role 122 ''student'']"
    unfolding roles_of_def role_rows.serving_visible [OF sv]
    by (simp add: staff_room_def staff_role_def school_user_def)
  have codes: "get_by_codes [''instructor''] ?w = (Inr [staff_role 121 ''instructor''], ?w)"
    unfolding get_by_codes_run [OF sv] by (simp add: staff_room_def staff_role_def)
  have "fst (set_roles ?ann [staff_role 122 ''student''] [staff_role 121 ''instructor''] ?w) = Inr ()"
    by (simp add: set_roles_def add_user_role_def act_simps andthen_assoc view_def staff_role_def school_user_def user_exists_def
        staff_room_def sample_school_def sample_world_def)
  then obtain w1 where set: "set_roles ?ann [staff_role 122 ''student''] [staff_role 121 ''instructor''] ?w = (Inr (), w1)"
    by (metis prod.collapse)
  have w1: "steady w1" "serving 1 w1"
    using set_roles_steady [OF set steady_start] set_roles_run [OF set] sv by simp_all
  have "\<exists>w'. update_user sample_env 5 ?d ?w = (Inr (apply_user_update ?d ?ann), w')"
    using publish_returned [OF w1(1)]
    by (simp add: update_user_def andthen_Inr [of "repo_get_or_404 User 5", OF found]
        andthen_Inr [of "get_by_codes [''instructor'']", OF codes] andthen_Inr [of "set_roles u r n" for u r n, OF set] old act_simps
        andthen_assoc andthen_require_tenant [OF servingD(3) [OF w1(2)]])
  then obtain u w' where run: "update_user sample_env 5 ?d ?w = (Inr u, w')" by blast
  have "granted 1 5 (view w') = granted_by 1 [''instructor''] staff_room"
    using update_user_roles [OF sv _ _ _ _ run, of "[''instructor'']"]
    by (simp add: steady_start consistent_def User_def Role_def staff_room_def staff_role_def sample_school_def school_user_def)
  also have "granted_by 1 [''instructor''] staff_room = {''grade:write''}"
    by (auto simp: granted_by_def staff_room_def staff_role_def)
  finally show ?thesis
    using run by (auto simp: granted_def staff_room_def staff_role_def)
qed

section \<open>Licences granted in a loop\<close>

text \<open>No licence of the tenant ends.\<close>

definition unlimited :: "uuid \<Rightarrow> database \<Rightarrow> bool" where
  "unlimited tid d \<longleftrightarrow> (\<forall>q \<in> set (t_tenant_modules d). tm_tenant_id q = tid \<longrightarrow> tm_expires_at q = None)"

lemma licence_model:
  "m_rows TenantModule d = t_tenant_modules d" "m_put TenantModule rs d = d\<lparr>t_tenant_modules := rs\<rparr>"
  "m_id TenantModule r = row_id r" "m_stored TenantModule r = r"
  "m_clash TenantModule r s \<longleftrightarrow> tm_tenant_id r = tm_tenant_id s \<and> tm_module_id r = tm_module_id s"
  by (simp_all add: TenantModule_def)

lemma set_module_step:
  assumes cons: "consistent TenantModule (view w)" and run: "set_module x tid code enabled w = (Inr tm, w')"
  shows "\<exists>rows. view w' = (view w)\<lparr>t_tenant_modules := rows\<rparr> \<and> consistent TenantModule (view w') \<and>
    (unlimited tid (view w) \<longrightarrow> unlimited tid (view w') \<and> tm_expires_at tm = None)"
proof -
  obtain m where m: "filter (\<lambda>m. mod_code m = code) (t_modules (view w)) = [m]"
    using run by (auto simp: set_module_def andthen_repo_find act_simps split: sum.splits option.splits)
  let ?p = "\<lambda>r. tm_tenant_id r = tid \<and> tm_module_id r = row_id m"
  have found: "scalar_one_or_none (filter ?p (t_tenant_modules (view w))) =
      Inr (first_row (filter ?p (t_tenant_modules (view w))))"
    using consistent_unique [where M = TenantModule and P = ?p, OF cons] by (simp add: licence_model)
  have "\<exists>w1 rows. view w1 = (view w)\<lparr>t_tenant_modules := rows\<rparr> \<and> consistent TenantModule (view w1) \<and>
    (unlimited tid (view w) \<longrightarrow> unlimited tid (view w1) \<and> tm_expires_at tm = None) \<and> invalidate x tid w1 = (Inr (), w')"
  proof (cases "first_row (filter ?p (t_tenant_modules (view w)))")
    case None
    with run obtain r w1 where ins: "sql_insert TenantModule r (w\<lparr>w_draw := Suc (Suc (w_draw w))\<rparr>) = (Inr (), w1)"
      and r: "tm = r" "tm_expires_at r = None" and inv: "invalidate x tid w1 = (Inr (), w')"
      by (auto simp: set_module_def andthen_repo_find m found act_simps repo_add_def andthen_assoc elim!: andthen_InrE)
    have "consistent TenantModule (view w1)"
      by (rule tenant_module_rows.insert_consistent [OF _ ins]) (use cons in simp)
    moreover have "view w1 = (view w)\<lparr>t_tenant_modules := t_tenant_modules (view w) @ [r]\<rparr>"
      using ins by (simp add: sql_insert_Inr licence_model view_def)
    ultimately show ?thesis
      using r inv by (intro exI [of _ w1] exI [of _ "t_tenant_modules (view w) @ [r]"]) (simp add: unlimited_def)
  next
    case (Some old)
    let ?f = "set_enabled enabled (clock x (w_draw w))"
    from Some run obtain w1
      where upd: "sql_update TenantModule (row_id old) ?f (w\<lparr>w_draw := Suc (w_draw w)\<rparr>) = (Inr (), w1)"
      and tm: "tm = ?f old" and inv: "invalidate x tid w1 = (Inr (), w')"
      by (auto simp: set_module_def andthen_repo_find m found act_simps andthen_assoc elim!: andthen_InrE)
    have old: "old \<in> set (t_tenant_modules (view w))" "tm_tenant_id old = tid"
      using Some by (auto dest!: first_row_SomeD)
    have "consistent TenantModule (view w1)"
      by (rule tenant_module_rows.update_consistent [OF _ upd])
        (use cons in \<open>simp_all add: licence_model set_enabled_def\<close>)
    moreover have "\<exists>g. view w1 = (view w)\<lparr>t_tenant_modules := map (\<lambda>r. if g r then ?f r else r) (t_tenant_modules (view w))\<rparr>"
      using upd
      by (intro exI [of _ "\<lambda>r. row_id r = row_id old \<and> row_visible TenantModule w r"])
        (simp add: sql_update_Inr update_rows_def licence_model view_def cong: if_cong)
    ultimately show ?thesis
      using tm inv old by (fastforce simp: unlimited_def set_enabled_def)
  qed
  then obtain w1 rows where "view w1 = (view w)\<lparr>t_tenant_modules := rows\<rparr>" "consistent TenantModule (view w1)"
    "unlimited tid (view w) \<longrightarrow> unlimited tid (view w1) \<and> tm_expires_at tm = None" "invalidate x tid w1 = (Inr (), w')"
    by blast
  moreover from this(4) have "view w' = view w1" by (auto simp: invalidate_run split: option.splits)
  ultimately show ?thesis by metis
qed

lemma grant_modules:
  assumes "for_each cs (\<lambda>c. andthen (set_module x tid (code_value c) True) (\<lambda>_. ret ())) w = (Inr v, w')"
    and "consistent Module (view w)" and "consistent TenantModule (view w)" and "unlimited tid (view w)"
  shows "\<exists>rows. view w' = (view w)\<lparr>t_tenant_modules := rows\<rparr> \<and> consistent TenantModule (view w') \<and>
    unlimited tid (view w') \<and>
    (\<forall>now c. c \<in> entitled tid now (view w') \<longleftrightarrow> c \<in> entitled tid now (view w) \<or>
       c \<in> code_value ` set cs \<and> (\<exists>m \<in> set (t_modules (view w)). mod_code m = c \<and> mod_is_active m)) \<and>
    (\<forall>now t'. t' \<noteq> tid \<longrightarrow> entitled t' now (view w') = entitled t' now (view w))"
  using assms
proof (induction cs arbitrary: w)
  case Nil
  then show ?case by (auto simp: ret_def intro!: exI [of _ "t_tenant_modules (view w)"])
next
  case (Cons k cs)
  from Cons.prems(1) obtain tm w1 where one: "set_module x tid (code_value k) True w = (Inr tm, w1)"
    and rest: "for_each cs (\<lambda>c. andthen (set_module x tid (code_value c) True) (\<lambda>_. ret ())) w1 = (Inr v, w')"
    unfolding for_each.simps andthen_assoc andthen_ret by (rule andthen_InrE)
  obtain rows where rows: "view w1 = (view w)\<lparr>t_tenant_modules := rows\<rparr>" "consistent TenantModule (view w1)"
      "unlimited tid (view w1)" "tm_expires_at tm = None"
    using set_module_step [OF Cons.prems(3) one] Cons.prems(4) by blast
  note ent = set_module_entitled [OF Cons.prems(2,3) one]
  have "consistent Module (view w1)" using Cons.prems(2) by (simp add: rows(1) consistent_def Module_def)
  from Cons.IH [OF rest this rows(2,3)] obtain rows' where w': "view w' = (view w1)\<lparr>t_tenant_modules := rows'\<rparr>"
      "consistent TenantModule (view w')" "unlimited tid (view w')"
    and ent': "\<And>now c. c \<in> entitled tid now (view w') \<longleftrightarrow> c \<in> entitled tid now (view w1) \<or>
       c \<in> code_value ` set cs \<and> (\<exists>m \<in> set (t_modules (view w1)). mod_code m = c \<and> mod_is_active m)"
      "\<And>now t'. t' \<noteq> tid \<Longrightarrow> entitled t' now (view w') = entitled t' now (view w1)"
    by blast
  have core: "c \<in> core_codes \<Longrightarrow> c \<in> entitled tid now d" for c now d by (simp add: entitled_def)
  have step: "c \<in> entitled tid now (view w1) \<longleftrightarrow> c \<in> entitled tid now (view w) \<or>
      c = code_value k \<and> (\<exists>m \<in> set (t_modules (view w)). mod_code m = c \<and> mod_is_active m)" for c now
  proof (cases "c = code_value k")
    case True
    have "c \<in> core_codes" if "c \<in> entitled tid now (view w)"
        "\<not> (\<exists>m \<in> set (t_modules (view w)). mod_code m = c \<and> mod_is_active m)"
      using that by (auto simp: entitled_def)
    then show ?thesis using ent(1) [of now] rows(4) core unfolding True by auto
  next
    case False
    then show ?thesis using ent(2) by simp
  qed
  have "view w' = (view w)\<lparr>t_tenant_modules := rows'\<rparr>" using w'(1) rows(1) by simp
  moreover have "c \<in> entitled tid now (view w') \<longleftrightarrow> c \<in> entitled tid now (view w) \<or>
       c \<in> code_value ` set (k # cs) \<and> (\<exists>m \<in> set (t_modules (view w)). mod_code m = c \<and> mod_is_active m)" for now c
    unfolding ent'(1) step by (auto simp: rows(1))
  moreover have "entitled t' now (view w') = entitled t' now (view w)" if "t' \<noteq> tid" for t' now
    using ent'(2) [OF that, of now] ent(2) [of _ t' now] that by blast
  ultimately show ?case using w'(2,3) by blast
qed

section \<open>A new tenant\<close>

text \<open>What the body of the operation leaves in a session that sees everything.\<close>

definition provision :: "'c env \<Rightarrow> tenant_create_request \<Rightarrow> tenant \<Rightarrow> ('c, tenant) io" where
  "provision x d t =
     andthen (for_each (licensed_codes d) (\<lambda>c. andthen (set_module x (row_id t) (code_value c) True) (\<lambda>_. ret ()))) (\<lambda>_.
     andthen (hash_password x (tcr_admin_password d)) (\<lambda>h.
     andthen (draw (uuid4 x)) (\<lambda>i.
     andthen (asks w_now) (\<lambda>now.
     andthen (repo_add User (first_admin d h (row_id t) i now)) (\<lambda>_.
     ret t)))))"

lemma create_tenant_steps:
  assumes "create_tenant x d w = (Inr t, w')" and "consistent Tenant (w_committed w)"
  shows "\<exists>w1 v. provision x d t w1 = (Inr t, v) \<and> w_committed w' = view v \<and>
    filter (\<lambda>r. tenant_deleted_at r = None \<and> slug r = tcr_slug d) (t_tenants (w_committed w)) = [] \<and>
    view w1 = (w_committed w)\<lparr>t_tenants := t_tenants (w_committed w) @ [t]\<rparr> \<and> slug t = tcr_slug d \<and>
    tenant_deleted_at t = None \<and> tenant_is_active t \<and> \<not> tenant_exists (w_committed w) (row_id t)"
proof -
  let ?w0 = "opened x None True w"
  have slugs: "get_by_slug (tcr_slug d) ?w0 = (Inr (first_row (filter (\<lambda>r. tenant_deleted_at r = None \<and>
      slug r = tcr_slug d) (t_tenants (w_committed w)))), ?w0)"
    using run_get_by_slug [of ?w0 "tcr_slug d"] assms(2) by simp
  from assms(1) obtain v where body: "andthen (get_by_slug (tcr_slug d)) (\<lambda>taken.
      andthen (ensure (taken = None)
        (app_exn ConflictError (''Tenant slug '' @ [CHR 0x27] @ tcr_slug d @ [CHR 0x27] @ '' already exists''))) (\<lambda>_.
      andthen (tenant_create x (tcr_name d) (tcr_slug d) None) (provision x d))) ?w0 = (Inr t, v)"
    and w': "w_committed w' = view v"
    by (auto simp: create_tenant_def provision_def [abs_def] tenant_session_def transaction_eq split: prod.splits sum.splits)
  from body have free: "filter (\<lambda>r. tenant_deleted_at r = None \<and> slug r = tcr_slug d) (t_tenants (w_committed w)) = []"
    and rest: "andthen (tenant_create x (tcr_name d) (tcr_slug d) None) (provision x d) ?w0 = (Inr t, v)"
    by (auto simp: andthen_Inr [of "get_by_slug (tcr_slug d)", OF slugs] act_simps split: if_splits)
  from rest obtain t1 w1 where made: "tenant_create x (tcr_name d) (tcr_slug d) None ?w0 = (Inr t1, w1)"
    and rest1: "provision x d t1 w1 = (Inr t, v)"
    by (rule andthen_InrE)
  have t: "t1 = t" using rest1 by (auto simp: provision_def act_simps elim!: andthen_InrE)
  have "slug t1 = tcr_slug d \<and> tenant_deleted_at t1 = None \<and> tenant_is_active t1 \<and>
      view w1 = (w_committed w)\<lparr>t_tenants := t_tenants (w_committed w) @ [t1]\<rparr> \<and> \<not> tenant_exists (w_committed w) (row_id t1)"
    using made
    by (auto simp: tenant_create_def act_simps repo_add_def andthen_sql_insert insert_error_def Tenant_def view_def
        tenant_exists_def list_ex_iff split: option.splits if_splits)
  with rest1 w' free show ?thesis unfolding t by blast
qed

lemma provision_ok:
  assumes run: "provision x d t w = (Inr r, v)" and cons: "consistent Module (view w)" "consistent TenantModule (view w)"
    and none: "\<forall>tm \<in> set (t_tenant_modules (view w)). tm_tenant_id tm \<noteq> row_id t"
  shows "t_tenants (view v) = t_tenants (view w)"
    and "entitled (row_id t) now (view v) = {''AUTH''} \<union> {code_value c |c. c \<in> set (tcr_modules d) \<and>
       (\<exists>m \<in> set (t_modules (view w)). mod_code m = code_value c \<and> mod_is_active m)}"
    and "\<exists>n i now'. first_admin d (hasher_hash x n (tcr_admin_password d)) (row_id t) i now' \<in> set (t_users (view v))"
    and "t' \<noteq> row_id t \<Longrightarrow> entitled t' now (view v) = entitled t' now (view w)"
proof -
  from run obtain y w2 where loop: "for_each (licensed_codes d) (\<lambda>c.
        andthen (set_module x (row_id t) (code_value c) True) (\<lambda>_. ret ())) w = (Inr y, w2)"
    and rest: "andthen (hash_password x (tcr_admin_password d)) (\<lambda>h.
      andthen (draw (uuid4 x)) (\<lambda>i.
      andthen (asks w_now) (\<lambda>now.
      andthen (repo_add User (first_admin d h (row_id t) i now)) (\<lambda>_.
      ret t)))) w2 = (Inr r, v)"
    unfolding provision_def by (rule andthen_InrE)
  have "unlimited (row_id t) (view w)" using none by (auto simp: unlimited_def)
  from grant_modules [OF loop cons this] obtain rows where w2: "view w2 = (view w)\<lparr>t_tenant_modules := rows\<rparr>"
    and "\<forall>now c. c \<in> entitled (row_id t) now (view w2) \<longleftrightarrow> c \<in> entitled (row_id t) now (view w) \<or>
       c \<in> code_value ` set (licensed_codes d) \<and> (\<exists>m \<in> set (t_modules (view w)). mod_code m = c \<and> mod_is_active m)"
      "\<forall>now t'. t' \<noteq> row_id t \<longrightarrow> entitled t' now (view w2) = entitled t' now (view w)"
    by (elim exE conjE)
  note ent = this(2) [rule_format, of _ now] this(3) [rule_format, of _ now]
  from rest obtain i created where
    v: "view v = (view w2)\<lparr>t_users := t_users (view w2) @
      [first_admin d (hasher_hash x (w_draw w2) (tcr_admin_password d)) (row_id t) i created]\<rparr>"
    by (auto simp: hash_password_def act_simps andthen_assoc repo_add_def andthen_sql_insert User_def view_def
        split: option.splits if_splits)
  have same: "entitled tid now (e\<lparr>t_users := us\<rparr>) = entitled tid now e" for tid e us
    by (simp add: entitled_def)
  have bare: "entitled (row_id t) now (view w) = core_codes" using none by (auto simp: entitled_def)
  have licensed: "set (licensed_codes d) = insert AUTH (set (tcr_modules d))"
    using module_code.exhaust by (auto simp: licensed_codes_def all_module_codes_def)
  show "entitled (row_id t) now (view v) = {''AUTH''} \<union> {code_value c |c. c \<in> set (tcr_modules d) \<and>
       (\<exists>m \<in> set (t_modules (view w)). mod_code m = code_value c \<and> mod_is_active m)}"
    unfolding v same set_eq_iff ent(1) by (auto simp: bare core_codes_eq licensed)
  show "\<exists>n i now'. first_admin d (hasher_hash x n (tcr_admin_password d)) (row_id t) i now' \<in> set (t_users (view v))"
    unfolding v by simp blast
  show "t_tenants (view v) = t_tenants (view w)" by (simp add: v w2)
  show "entitled t' now (view v) = entitled t' now (view w)" if "t' \<noteq> row_id t"
    unfolding v same using ent(2) [OF that] .
qed

text \<open>
  C11. Creating a tenant provides all it needs. When the operation succeeds, the slug, which no tenant in
  service had, resolves to the new tenant; the tenant is entitled, at any time, to the identity module and to
  the active ones of the modules asked for, and to no other; its first administrator is an active
  superuser under the given address whose stored hash accepts the given password; and no entitlement of
  another tenant has changed.
\<close>

theorem create_tenant_provisions:
  assumes run: "create_tenant x d w = (Inr t, w')" and hasher: "hasher_ok x"
    and tenants: "consistent Tenant (w_committed w)" and cons: "consistent Module (w_committed w)" "consistent TenantModule (w_committed w)"
    and refs: "\<And>tm. tm \<in> set (t_tenant_modules (w_committed w)) \<Longrightarrow> tenant_exists (w_committed w) (tm_tenant_id tm)"
  shows "slug_target (tcr_slug d) (w_committed w) = None \<and> slug_target (tcr_slug d) (w_committed w') = Some (row_id t) \<and>
    entitled (row_id t) now (w_committed w') = {''AUTH''} \<union>
      {code_value c |c. c \<in> set (tcr_modules d) \<and>
         (\<exists>m \<in> set (t_modules (w_committed w)). mod_code m = code_value c \<and> mod_is_active m)} \<and>
    (\<exists>u \<in> set (t_users (w_committed w')). tenant_id u = row_id t \<and> email u = lower (tcr_admin_email d) \<and>
       is_active u \<and> is_superuser u \<and> hasher_verify x (tcr_admin_password d) (hashed_password u) = Some True) \<and>
    (\<forall>t'. t' \<noteq> row_id t \<longrightarrow> entitled t' now (w_committed w') = entitled t' now (w_committed w))"
proof -
  let ?d = "w_committed w"
  obtain w1 v where made: "provision x d t w1 = (Inr t, v)" and w': "w_committed w' = view v"
    and free: "filter (\<lambda>r. tenant_deleted_at r = None \<and> slug r = tcr_slug d) (t_tenants ?d) = []"
    and w1: "view w1 = ?d\<lparr>t_tenants := t_tenants ?d @ [t]\<rparr>"
    and t: "slug t = tcr_slug d" "tenant_deleted_at t = None" "tenant_is_active t" "\<not> tenant_exists ?d (row_id t)"
    using create_tenant_steps [OF run tenants] by blast
  have none: "\<forall>tm \<in> set (t_tenant_modules (view w1)). tm_tenant_id tm \<noteq> row_id t"
    using refs t(4) by (auto simp: w1 dest!: refs)
  have "consistent Module (view w1)" "consistent TenantModule (view w1)"
    using cons by (simp_all add: w1 consistent_def Module_def TenantModule_def)
  note ok = provision_ok [OF made this none]
  from ok(3) obtain n i n' where
    u: "first_admin d (hasher_hash x n (tcr_admin_password d)) (row_id t) i n' \<in> set (t_users (view v))" by blast
  have same: "entitled tid now (view w1) = entitled tid now ?d" "t_modules (view w1) = t_modules ?d" for tid
    by (simp_all add: entitled_def w1)
  show ?thesis
    unfolding w'
  proof (intro conjI)
    show "slug_target (tcr_slug d) ?d = None" "slug_target (tcr_slug d) (view v) = Some (row_id t)"
      using free t by (simp_all add: slug_target_def ok(1) w1)
    show "entitled (row_id t) now (view v) = {''AUTH''} \<union> {code_value c |c. c \<in> set (tcr_modules d) \<and>
       (\<exists>m \<in> set (t_modules ?d). mod_code m = code_value c \<and> mod_is_active m)}"
      unfolding ok(2) same ..
    show "\<exists>u \<in> set (t_users (view v)). tenant_id u = row_id t \<and> email u = lower (tcr_admin_email d) \<and>
       is_active u \<and> is_superuser u \<and> hasher_verify x (tcr_admin_password d) (hashed_password u) = Some True"
      using hasher by (intro bexI [OF _ u]) (simp add: first_admin_def hasher_ok_def)
    show "\<forall>t'. t' \<noteq> row_id t \<longrightarrow> entitled t' now (view v) = entitled t' now ?d"
      using ok(4) same(1) by simp
  qed
qed

definition new_school :: tenant_create_request where
  "new_school = \<lparr>tcr_name = ''Beta'', tcr_slug = ''beta'', tcr_modules = [COURSES],
     tcr_admin_email = ''Root@Beta.io'', tcr_admin_password = ''long-enough''\<rparr>"

definition platform_data :: database where
  "platform_data = empty_database
     \<lparr>t_tenants := [school_tenant], t_modules := [sample_module 101 AUTH, sample_module 102 COURSES]\<rparr>"

theorem create_tenant_provisions_witness:
  "\<exists>t w'. create_tenant sample_env new_school (sample_world platform_data None None) = (Inr t, w') \<and>
    slug_target ''beta'' (w_committed w') = Some (row_id t) \<and>
    entitled (row_id t) 0 (w_committed w') = {''AUTH'', ''COURSES''}"
proof -
  let ?w = "sample_world platform_data None None"
  have "\<not> isl (fst (create_tenant sample_env new_school ?w))"
    by code_simp
  then obtain t w' where run: "create_tenant sample_env new_school ?w = (Inr t, w')"
    by (cases "create_tenant sample_env new_school ?w"; cases "fst (create_tenant sample_env new_school ?w)") auto
  have "slug_target (tcr_slug new_school) (w_committed w') = Some (row_id t) \<and>
      entitled (row_id t) 0 (w_committed w') = {''AUTH''} \<union> {code_value c |c. c \<in> set (tcr_modules new_school) \<and>
         (\<exists>m \<in> set (t_modules (w_committed ?w)). mod_code m = code_value c \<and> mod_is_active m)}"
    using create_tenant_provisions [OF run sample_hasher_ok, of 0]
    by (simp add: platform_data_def empty_database_def consistent_def Tenant_def Module_def TenantModule_def
        sample_module_def)
  with run show ?thesis
    by (auto simp: new_school_def platform_data_def sample_module_def)
qed

section \<open>Where the code departs from its purpose\<close>

text \<open>
  The list of assignments of a course is that of the tenant: the course in the path has no effect. And on a
  server that loads a relationship before it is assigned, the three operations that assign one to an object
  they have just flushed never return.
\<close>

lemma course_assignments_unfiltered:
  "get_admin_course_assignments_route x c w = get_admin_course_assignments_route x c' w"
  by (simp add: get_admin_course_assignments_route_def repo_list_def page_offset_def page_limit_def)

lemma assign_unloaded_raises: "assign_unloaded True w \<noteq> (Inr r, w')"
  by (simp add: assign_unloaded_def raise_def)

lemma creations_stop:
  "create_lesson x True cid l w \<noteq> (Inr r1, w')" "create_assignment x True parse cid a w \<noteq> (Inr r2, w')"
  "create_user x True d w \<noteq> (Inr r3, w')"
  unfolding create_lesson_def create_assignment_def create_user_def assign_roles_def
  by (auto simp: assign_unloaded_raises elim!: andthen_InrE)

end
