(* ===== verification/Seed.thy ===== *)
theory Seed
  imports Administration
begin

text \<open>
  The script that fills a database with demonstration data, \<^verbatim>\<open>scripts/seed.py\<close>: the catalog of modules and
  permissions, two tenants with their licences, roles, users and a course. It runs in one session that bypasses row
  level security, and it is meant to be run again: what is there already is found and left alone.
\<close>

section \<open>Tables of the script\<close>

definition AUTH_PERMS :: "(string \<times> string) list" where
  "AUTH_PERMS =
     [(''user:read'', ''View users''), (''user:create'', ''Create users''), (''user:update'', ''Update users''),
      (''user:delete'', ''Delete users''), (''role:read'', ''View roles''), (''role:assign'', ''Assign roles to users''),
      (''tenant:read'', ''View tenant settings''), (''tenant:manage'', ''Manage tenants & module licensing'')]"

definition COURSE_PERMS :: "(string \<times> string) list" where
  "COURSE_PERMS =
     [(''course:read'', ''View courses''), (''course:create'', ''Create courses''),
      (''course:update'', ''Update courses''), (''course:delete'', ''Delete courses''),
      (''course:enroll'', ''Enroll in courses''), (''category:manage'', ''Manage categories'')]"

definition LEARN_PERMS :: "(string \<times> string) list" where
  "LEARN_PERMS =
     [(''lesson:read'', ''View lessons''), (''lesson:create'', ''Create lessons''),
      (''lesson:update'', ''Update lessons''), (''lesson:delete'', ''Delete lessons''),
      (''progress:read'', ''View own progress'')]"

definition ASSIGN_PERMS :: "(string \<times> string) list" where
  "ASSIGN_PERMS =
     [(''assignment:read'', ''View assignments''), (''assignment:create'', ''Create assignments''),
      (''assignment:update'', ''Update assignments''), (''assignment:delete'', ''Delete assignments''),
      (''assignment:submit'', ''Submit assignments''), (''grade:read'', ''View grades''),
      (''grade:write'', ''Grade submissions'')]"

definition ADMIN_PERMS :: "(string \<times> string) list" where
  "ADMIN_PERMS = [(''report:read'', ''View reports & analytics''), (''admin:access'', ''Access the admin module'')]"

definition ALL_PERMISSIONS :: "(string \<times> string) list" where
  "ALL_PERMISSIONS = AUTH_PERMS @ COURSE_PERMS @ LEARN_PERMS @ ASSIGN_PERMS @ ADMIN_PERMS"

definition ALL_CODES :: "string list" where
  "ALL_CODES = map fst ALL_PERMISSIONS"

text \<open>The sets of the script as lists; no order of a set is relied on.\<close>

fun ROLE_MATRIX :: "role_name \<Rightarrow> string list" where
  "ROLE_MATRIX SUPER_ADMIN = ALL_CODES"
| "ROLE_MATRIX TENANT_ADMIN = filter (\<lambda>c. c \<noteq> ''tenant:manage'') ALL_CODES"
| "ROLE_MATRIX INSTRUCTOR =
     [''course:read'', ''course:create'', ''course:update'', ''lesson:read'', ''lesson:create'', ''lesson:update'',
      ''lesson:delete'', ''assignment:read'', ''assignment:create'', ''assignment:update'', ''grade:read'',
      ''grade:write'', ''progress:read'', ''report:read'', ''admin:access'', ''user:read'']"
| "ROLE_MATRIX STUDENT =
     [''course:read'', ''course:enroll'', ''lesson:read'', ''progress:read'', ''assignment:read'',
      ''assignment:submit'', ''grade:read'']"

fun ROLE_NAMES :: "role_name \<Rightarrow> string" where
  "ROLE_NAMES SUPER_ADMIN = ''Super Admin''"
| "ROLE_NAMES TENANT_ADMIN = ''Tenant Admin''"
| "ROLE_NAMES INSTRUCTOR = ''Instructor''"
| "ROLE_NAMES STUDENT = ''Student''"

definition all_roles :: "role_name list" where
  "all_roles = [SUPER_ADMIN, TENANT_ADMIN, INSTRUCTOR, STUDENT]"

definition TENANTS :: "(string \<times> string \<times> module_code list) list" where
  "TENANTS =
     [(''abc-academy'', ''ABC Academy'', [AUTH, COURSES, LEARNING, ADMIN]),
      (''full-lms'', ''Full LMS Inc'', all_module_codes)]"

section \<open>Catalogs\<close>

definition select_rows :: "'r model \<Rightarrow> ('r \<Rightarrow> bool) \<Rightarrow> ('c, 'r list) io" where
  "select_rows M p = asks (related M p)"

definition select_one :: "'r model \<Rightarrow> ('r \<Rightarrow> bool) \<Rightarrow> ('c, 'r option) io" where
  "select_one M p = andthen (select_rows M p) (\<lambda>rows. lift_result (scalar_one_or_none rows))"

text \<open>A new row gets its key and its time stamp when it is sent.\<close>

definition add_row :: "'c env \<Rightarrow> 'r model \<Rightarrow> (uuid \<Rightarrow> time \<Rightarrow> 'r) \<Rightarrow> ('c, 'r) io" where
  "add_row x M mk = andthen (draw (uuid4 x)) (\<lambda>i. andthen (asks w_now) (\<lambda>now. repo_add M (mk i now)))"

definition new_module :: "module_code \<Rightarrow> uuid \<Rightarrow> time \<Rightarrow> licence_module" where
  "new_module c i now =
     \<lparr>row_id = i, created_at = now, mod_code = code_value c, mod_name = module_catalog c,
      mod_description = Some (module_catalog c), mod_is_active = True, mod_is_core = (c \<in> set core_module_codes)\<rparr>"

definition seed_modules :: "'c env \<Rightarrow> ('c, unit) io" where
  "seed_modules x =
     andthen (select_rows Module (\<lambda>_. True)) (\<lambda>existing.
     for_each all_module_codes (\<lambda>c.
       if code_value c \<notin> set (map mod_code existing) then andthen (add_row x Module (new_module c)) (\<lambda>_. ret ())
       else ret ()))"

definition new_permission :: "string \<Rightarrow> string \<Rightarrow> uuid \<Rightarrow> time \<Rightarrow> permission" where
  "new_permission code desc i now =
     \<lparr>row_id = i, created_at = now, perm_code = code, perm_description = Some desc\<rparr>"

text \<open>The dictionary of permissions by code, extended by the rows that are added.\<close>

fun add_permissions :: "'c env \<Rightarrow> (string \<times> string) list \<Rightarrow> (string \<times> permission) list
    \<Rightarrow> ('c, (string \<times> permission) list) io" where
  "add_permissions x [] existing = ret existing"
| "add_permissions x ((code, desc) # rest) existing =
     (if code \<notin> fst ` set existing then
        andthen (add_row x Permission (new_permission code desc)) (\<lambda>p. add_permissions x rest ((code, p) # existing))
      else add_permissions x rest existing)"

definition seed_permissions :: "'c env \<Rightarrow> ('c, (string \<times> permission) list) io" where
  "seed_permissions x =
     andthen (select_rows Permission (\<lambda>_. True)) (\<lambda>ps.
     add_permissions x ALL_PERMISSIONS (map (\<lambda>p. (perm_code p, p)) ps))"

section \<open>Tenants\<close>

definition new_tenant :: "string \<Rightarrow> string \<Rightarrow> uuid \<Rightarrow> time \<Rightarrow> tenant" where
  "new_tenant name s i now =
     \<lparr>row_id = i, created_at = now, tenant_deleted_at = None, tenant_name = name, slug = s, tenant_is_active = True,
      isolation_mode = Shared, schema_name = None, tenant_settings = JObj []\<rparr>"

text \<open>A new row of the association of roles and permissions, and the assignment of the collection of a role.\<close>

definition add_role_permission :: "uuid \<Rightarrow> uuid \<Rightarrow> ('c, unit) io" where
  "add_role_permission r p =
     andthen (asks view) (\<lambda>d.
     andthen (ensure ((r, p) \<notin> set (t_role_permissions d) \<and> list_ex (\<lambda>q. row_id q = r) (t_roles d) \<and>
                      list_ex (\<lambda>q. row_id q = p) (t_permissions d))
        (Unhandled (IntegrityError ''role_permissions''))) (\<lambda>_.
     change (\<lambda>w. w\<lparr>w_delta := (\<lambda>d. d\<lparr>t_role_permissions := t_role_permissions d @ [(r, p)]\<rparr>) \<circ> w_delta w\<rparr>)))"

definition set_permissions :: "role \<Rightarrow> permission list \<Rightarrow> permission list \<Rightarrow> ('c, unit) io" where
  "set_permissions r old new =
     andthen (change (\<lambda>w. w\<lparr>w_delta := (\<lambda>d. d\<lparr>t_role_permissions :=
         filter (\<lambda>(a, p). \<not> (a = row_id r \<and> p \<in> row_id ` set old - row_id ` set new)) (t_role_permissions d)\<rparr>)
       \<circ> w_delta w\<rparr>)) (\<lambda>_.
     for_each (filter (\<lambda>p. row_id p \<notin> row_id ` set old) new) (\<lambda>p. add_role_permission (row_id r) (row_id p)))"

definition new_role :: "uuid \<Rightarrow> role_name \<Rightarrow> uuid \<Rightarrow> time \<Rightarrow> role" where
  "new_role tid rc i now =
     \<lparr>row_id = i, created_at = now, tenant_id = tid, role_code = role_value rc, role_name = ROLE_NAMES rc,
      role_description = None, role_is_system = True\<rparr>"

definition seed_role :: "'c env \<Rightarrow> uuid \<Rightarrow> (string \<times> permission) list \<Rightarrow> role_name \<Rightarrow> ('c, role) io" where
  "seed_role x tid perms rc =
     (let granted = map (\<lambda>c. the (map_of perms c)) (filter (\<lambda>c. c \<in> fst ` set perms) (ROLE_MATRIX rc))
      in andthen (select_one Role (\<lambda>r. tenant_id r = tid \<and> role_code r = role_value rc)) (\<lambda>found. case found of
           None \<Rightarrow>
             andthen (add_row x Role (new_role tid rc)) (\<lambda>r.
             andthen (set_permissions r [] granted) (\<lambda>_. ret r))
         | Some r \<Rightarrow>
             andthen (asks (\<lambda>w. permissions_of w r)) (\<lambda>old.
             andthen (set_permissions r old granted) (\<lambda>_. ret r))))"

fun seed_roles :: "'c env \<Rightarrow> uuid \<Rightarrow> (string \<times> permission) list \<Rightarrow> role_name list
    \<Rightarrow> ('c, (role_name \<times> role) list) io" where
  "seed_roles x tid perms [] = ret []"
| "seed_roles x tid perms (rc # rcs) =
     andthen (seed_role x tid perms rc) (\<lambda>r.
     andthen (seed_roles x tid perms rcs) (\<lambda>rs. ret ((rc, r) # rs)))"

definition seeded_user :: "uuid \<Rightarrow> string \<Rightarrow> string \<Rightarrow> string \<Rightarrow> bool \<Rightarrow> uuid \<Rightarrow> time \<Rightarrow> user" where
  "seeded_user tid e name h super i now =
     \<lparr>row_id = i, created_at = now, tenant_id = tid, deleted_at = None, email = e, hashed_password = h,
      full_name = name, is_active = True, is_verified = True, is_superuser = super, last_login_at = None\<rparr>"

definition seed_user :: "'c env \<Rightarrow> uuid \<Rightarrow> string \<Rightarrow> string \<Rightarrow> role list \<Rightarrow> string \<Rightarrow> bool \<Rightarrow> ('c, user) io" where
  "seed_user x tid e name rs password super =
     andthen (select_one User (\<lambda>u. tenant_id u = tid \<and> email u = e)) (\<lambda>found. case found of
       None \<Rightarrow>
         andthen (hash_password x password) (\<lambda>h.
         andthen (add_row x User (seeded_user tid e name h super)) (\<lambda>u.
         andthen (set_roles u [] rs) (\<lambda>_. ret u)))
     | Some u \<Rightarrow>
         andthen (asks (\<lambda>w. roles_of w u)) (\<lambda>old.
         andthen (set_roles u old rs) (\<lambda>_. ret u)))"

definition role_for :: "(role_name \<times> role) list \<Rightarrow> role_name \<Rightarrow> role list" where
  "role_for roles rc = [the (map_of roles rc)]"

definition seed_tenant :: "'c env \<Rightarrow> string \<Rightarrow> string \<Rightarrow> module_code list \<Rightarrow> (string \<times> permission) list
    \<Rightarrow> ('c, tenant) io" where
  "seed_tenant x s name modules perms =
     andthen (select_one Tenant (\<lambda>t. slug t = s)) (\<lambda>found.
     andthen (case found of None \<Rightarrow> add_row x Tenant (new_tenant name s) | Some t \<Rightarrow> ret t) (\<lambda>t.
     andthen (for_each modules (\<lambda>c. andthen (set_module x (row_id t) (code_value c) True) (\<lambda>_. ret ()))) (\<lambda>_.
     andthen (seed_roles x (row_id t) perms all_roles) (\<lambda>roles.
     let domain = s @ ''.com'' in
     andthen (seed_user x (row_id t) (''admin@'' @ domain) ''Tenant Admin'' (role_for roles TENANT_ADMIN)
       ''Admin123!'' False) (\<lambda>_.
     andthen (seed_user x (row_id t) (''instructor@'' @ domain) ''Jane Instructor'' (role_for roles INSTRUCTOR)
       ''Teach123!'' False) (\<lambda>_.
     andthen (seed_user x (row_id t) (''student@'' @ domain) ''Sam Student'' (role_for roles STUDENT)
       ''Learn123!'' False) (\<lambda>_.
     andthen (if s = ''full-lms'' then
         andthen (seed_user x (row_id t) ''root@platform.com'' ''Platform Root'' (role_for roles SUPER_ADMIN)
           ''Root123!'' True) (\<lambda>_. ret ())
       else ret ()) (\<lambda>_.
     ret t))))))))"

section \<open>Sample content\<close>

definition seed_category :: "uuid \<Rightarrow> uuid \<Rightarrow> time \<Rightarrow> category" where
  "seed_category tid i now =
     \<lparr>row_id = i, created_at = now, tenant_id = tid, deleted_at = None, cat_name = ''Programming'',
      cat_slug = ''programming'', cat_description = None, cat_parent_id = None\<rparr>"

definition seed_course :: "uuid \<Rightarrow> uuid \<Rightarrow> time \<Rightarrow> uuid \<Rightarrow> time \<Rightarrow> course" where
  "seed_course tid cat published i now =
     \<lparr>row_id = i, created_at = now, tenant_id = tid, deleted_at = None, course_title = ''Python for Beginners'',
      course_slug = ''python-for-beginners'', course_summary = Some ''Learn Python from scratch.'',
      course_description = Some ''A complete introduction to Python programming.'',
      course_category_id = Some cat, course_status = Published, course_level = Beginner, course_is_free = True,
      course_price = 0, course_thumbnail_url = None, enrollment_count = 0, published_at = Some published\<rparr>"

definition seed_section :: "uuid \<Rightarrow> uuid \<Rightarrow> uuid \<Rightarrow> time \<Rightarrow> course_module" where
  "seed_section tid cid i now =
     \<lparr>row_id = i, created_at = now, tenant_id = tid, deleted_at = None, cm_course_id = cid,
      cm_title = ''Getting Started'', cm_description = None, cm_order_index = 0\<rparr>"

definition seed_lesson :: "uuid \<Rightarrow> uuid \<Rightarrow> uuid \<Rightarrow> string \<Rightarrow> lesson_type \<Rightarrow> string option \<Rightarrow> int \<Rightarrow> int \<Rightarrow> bool
    \<Rightarrow> uuid \<Rightarrow> time \<Rightarrow> lesson" where
  "seed_lesson tid cid sec title kind txt n secs preview i now =
     \<lparr>row_id = i, created_at = now, tenant_id = tid, deleted_at = None, les_course_id = cid, les_module_id = Some sec,
      les_title = title, les_content_type = kind, les_content = txt, les_order_index = n,
      les_duration_seconds = secs, les_is_preview = preview\<rparr>"

definition seed_assignment :: "uuid \<Rightarrow> uuid \<Rightarrow> uuid \<Rightarrow> time \<Rightarrow> assignment" where
  "seed_assignment tid cid i now =
     \<lparr>row_id = i, created_at = now, tenant_id = tid, deleted_at = None, asg_course_id = cid,
      asg_title = ''Python Basics Quiz'', asg_description = Some ''Check your understanding.'',
      asg_type = QuizAssignment, asg_max_points = 10, asg_pass_points = 6, asg_due_at = None,
      asg_is_published = True\<rparr>"

definition seed_answer :: "uuid \<Rightarrow> uuid \<Rightarrow> string \<Rightarrow> bool \<Rightarrow> uuid \<Rightarrow> time \<Rightarrow> quiz_answer" where
  "seed_answer tid qid txt is_right i now =
     \<lparr>row_id = i, created_at = now, tenant_id = tid, qa_question_id = qid, qa_text = txt, qa_is_correct = is_right\<rparr>"

definition seed_quiz :: "'c env \<Rightarrow> uuid \<Rightarrow> uuid \<Rightarrow> ('c, unit) io" where
  "seed_quiz x tid cid =
     andthen (add_row x Assignment (seed_assignment tid cid)) (\<lambda>a.
     andthen (add_row x Quiz (\<lambda>i now. \<lparr>row_id = i, created_at = now, tenant_id = tid,
       quiz_assignment_id = row_id a, quiz_time_limit_seconds = 0, quiz_shuffle_questions = False\<rparr>)) (\<lambda>z.
     andthen (add_row x QuizQuestion (\<lambda>i now. \<lparr>row_id = i, created_at = now, tenant_id = tid, qq_quiz_id = row_id z,
       qq_text = ''What keyword defines a function in Python?'', qq_type = SingleChoice, qq_points = 10,
       qq_order_index = 0\<rparr>)) (\<lambda>q.
     for_each [(''def'', True), (''func'', False), (''lambda'', False)] (\<lambda>(t, c).
       andthen (add_row x QuizAnswer (seed_answer tid (row_id q) t c)) (\<lambda>_. ret ())))))"

definition seed_content :: "'c env \<Rightarrow> tenant \<Rightarrow> ('c, unit) io" where
  "seed_content x t =
     andthen (select_rows Course (\<lambda>c. tenant_id c = row_id t)) (\<lambda>courses.
     if courses \<noteq> [] then ret ()
     else
       andthen (add_row x Category (seed_category (row_id t))) (\<lambda>cat.
       andthen (draw (clock x)) (\<lambda>published.
       andthen (add_row x Course (seed_course (row_id t) (row_id cat) published)) (\<lambda>c.
       andthen (add_row x CourseModule (seed_section (row_id t) (row_id c))) (\<lambda>m.
       andthen (add_row x Lesson (seed_lesson (row_id t) (row_id c) (row_id m) ''Welcome'' TextLesson
         (Some ''Welcome to the course!'') 0 0 True)) (\<lambda>_.
       andthen (add_row x Lesson (seed_lesson (row_id t) (row_id c) (row_id m) ''Installing Python'' VideoLesson
         None 1 600 False)) (\<lambda>_.
       if slug t = ''full-lms'' then seed_quiz x (row_id t) (row_id c) else ret ())))))))"

section \<open>The script\<close>

fun seed_tenants :: "'c env \<Rightarrow> (string \<times> permission) list \<Rightarrow> (string \<times> string \<times> module_code list) list
    \<Rightarrow> ('c, tenant list) io" where
  "seed_tenants x perms [] = ret []"
| "seed_tenants x perms ((s, name, modules) # rest) =
     andthen (seed_tenant x s name modules perms) (\<lambda>t.
     andthen (seed_tenants x perms rest) (\<lambda>ts. ret (t # ts)))"

definition seed_body :: "'c env \<Rightarrow> ('c, unit) io" where
  "seed_body x =
     andthen (seed_modules x) (\<lambda>_.
     andthen (seed_permissions x) (\<lambda>perms.
     andthen (seed_tenants x perms TENANTS) (\<lambda>tenants.
     for_each tenants (seed_content x))))"

definition seed_main :: "'c env \<Rightarrow> ('c, unit) io" where
  "seed_main x = tenant_session x None True (seed_body x)"

end
