(* ===== verification/Seeding.thy ===== *)
theory Seeding
  imports Seed
begin

text \<open>
  What the operations of the seed script leave behind, one lemma for each: licences, roles with their permissions, users
  with their roles, the catalogs. \<open>kept\<close> is the frame of the operations that work for one tenant: it says which
  licences, roles and users they may change.
\<close>

section \<open>A session that sees everything\<close>

lemma bypass_visible: "w_bypass w \<Longrightarrow> row_visible M w r"
  by (simp add: row_visible_def tenant_isolation_def split: option.split)

lemma bypass_related: "w_bypass w \<Longrightarrow> related M p w = filter p (m_rows M (view w))"
  by (simp add: related_def bypass_visible)

lemma select_rows_run: "w_bypass w \<Longrightarrow> select_rows M p w = (Inr (filter p (m_rows M (view w))), w)"
  by (simp add: select_rows_def asks_def bypass_related)

lemma select_one_run:
  "w_bypass w \<Longrightarrow> select_one M p w = (scalar_one_or_none (filter p (m_rows M (view w))), w)"
  by (simp add: select_one_def andthen_def select_rows_run lift_result_def)

text \<open>A look-up by a unique column in a consistent table.\<close>

lemma select_one_unique:
  assumes "w_bypass w" and "consistent M (view w)" and "\<And>r s. p r \<Longrightarrow> p s \<Longrightarrow> m_clash M r s"
  shows "select_one M p w = (Inr (first_row (filter p (m_rows M (view w)))), w)"
  using consistent_unique [OF assms(2), of p] assms(1,3) by (simp add: select_one_run)

lemma first_row_SomeD': "first_row (filter p xs) = Some r \<Longrightarrow> r \<in> set xs \<and> p r"
  by (drule first_row_SomeD) simp

lemma first_row_NoneD: "first_row (filter p xs) = None \<Longrightarrow> x \<in> set xs \<Longrightarrow> \<not> p x"
  by (simp add: filter_empty_conv)

context table
begin

lemma add_row_ok:
  assumes "add_row x M mk w = (Inr r, w')"
  shows "\<exists>i now. r = mk i now" and "view w' = m_put M (m_rows M (view w) @ [m_stored M r]) (view w)"
    and "w_bypass w' = w_bypass w" and "consistent M (view w) \<Longrightarrow> consistent M (view w')"
    and "m_refs M (view w) r" and "s \<in> set (m_rows M (view w)) \<Longrightarrow> m_id M s \<noteq> m_id M r"
proof -
  from assms obtain i now where r: "r = mk i now"
    and ins: "sql_insert M r (w\<lparr>w_draw := Suc (w_draw w)\<rparr>) = (Inr (), w')"
    by (auto simp: add_row_def act_simps repo_add_def elim!: andthen_InrE)
  then have e: "insert_error M r (w\<lparr>w_draw := Suc (w_draw w)\<rparr>) = None"
    and w': "w' = w\<lparr>w_draw := Suc (w_draw w), w_delta := (\<lambda>d. m_put M (m_rows M d @ [m_stored M r]) d) \<circ> w_delta w\<rparr>"
    by (simp_all add: sql_insert_Inr)
  show "\<exists>i now. r = mk i now" using r by blast
  show "view w' = m_put M (m_rows M (view w) @ [m_stored M r]) (view w)" "w_bypass w' = w_bypass w"
    by (simp_all add: w' view_def)
  show "consistent M (view w')" if "consistent M (view w)"
    using insert_consistent [OF _ ins] that by simp
  show "m_refs M (view w) r" using e by (auto simp: insert_error_def split: if_splits)
  show "m_id M s \<noteq> m_id M r" if "s \<in> set (m_rows M (view w))"
    using insert_error_fresh [OF e] that by simp
qed

end

section \<open>Links\<close>

text \<open>The association rows after the collection of \<open>k\<close> was assigned.\<close>

definition relink :: "uuid \<Rightarrow> 'a entity_scheme list \<Rightarrow> 'a entity_scheme list \<Rightarrow> (uuid \<times> uuid) list
    \<Rightarrow> (uuid \<times> uuid) list" where
  "relink k old new ls =
     filter (\<lambda>(a, b). \<not> (a = k \<and> b \<in> row_id ` set old - row_id ` set new)) ls @
     linked k (filter (\<lambda>b. row_id b \<notin> row_id ` set old) new)"

lemma set_relink:
  "(a, b) \<in> set (relink k old new ls) \<longleftrightarrow>
     (if a \<noteq> k then (a, b) \<in> set ls
      else if b \<in> row_id ` set new then b \<notin> row_id ` set old \<or> (a, b) \<in> set ls
      else b \<notin> row_id ` set old \<and> (a, b) \<in> set ls)"
  by (auto simp: relink_def linked_def)

lemma relinkD: "(a, b) \<in> set (relink k old new ls) \<Longrightarrow> a = k \<or> (a, b) \<in> set ls"
  by (auto simp: set_relink split: if_splits)

lemma relinkD2: "(a, b) \<in> set (relink k old new ls) \<Longrightarrow> b \<in> row_id ` set new \<or> (a, b) \<in> set ls"
  by (auto simp: set_relink split: if_splits)

lemma relink_same:
  assumes "row_id ` set new = row_id ` set old"
  shows "relink k old new ls = ls"
proof -
  have "filter (\<lambda>b. row_id b \<notin> row_id ` set old) new = []"
    using assms by (auto simp: filter_empty_conv)
  then show ?thesis by (simp add: relink_def linked_def assms)
qed

lemma set_roles_relink:
  assumes "set_roles u old new w = (Inr v, w')"
  shows "view w' = (view w)\<lparr>t_user_roles := relink (row_id u) old new (t_user_roles (view w))\<rparr>"
    and "w_bypass w' = w_bypass w"
  using set_roles_run [OF assms] by (simp_all add: view_def relink_def)

lemma set_roles_same:
  assumes "row_id ` set new = row_id ` set old"
  shows "\<exists>w'. set_roles u old new w = (Inr (), w') \<and> view w' = view w \<and> w_bypass w' = w_bypass w \<and>
    w_committed w' = w_committed w"
proof -
  have none: "filter (\<lambda>r. row_id r \<notin> row_id ` set old) new = []"
    using assms by (auto simp: filter_empty_conv)
  show ?thesis by (simp add: set_roles_def none assms act_simps view_def)
qed

lemma add_links_run:
  assumes "for_each ps (\<lambda>p. add_role_permission k (row_id p)) w = (Inr v, w')"
  shows "view w' = (view w)\<lparr>t_role_permissions := t_role_permissions (view w) @ linked k ps\<rparr> \<and>
    w_bypass w' = w_bypass w"
  using assms
proof (induction ps arbitrary: w)
  case Nil
  then show ?case by (simp add: ret_def linked_def)
next
  case (Cons p ps)
  from Cons.prems obtain y w1 where one: "add_role_permission k (row_id p) w = (Inr y, w1)"
    and rest: "for_each ps (\<lambda>p. add_role_permission k (row_id p)) w1 = (Inr v, w')"
    by (auto elim: andthen_InrE)
  have "view w1 = (view w)\<lparr>t_role_permissions := t_role_permissions (view w) @ [(k, row_id p)]\<rparr>" "w_bypass w1 = w_bypass w"
    using one by (auto simp: add_role_permission_def act_simps view_def split: if_splits)
  with Cons.IH [OF rest] show ?case by (simp add: linked_def)
qed

lemma set_permissions_relink:
  assumes "set_permissions r old new w = (Inr v, w')"
  shows "view w' = (view w)\<lparr>t_role_permissions := relink (row_id r) old new (t_role_permissions (view w))\<rparr>"
    and "w_bypass w' = w_bypass w"
proof -
  let ?w = "w\<lparr>w_delta := (\<lambda>d. d\<lparr>t_role_permissions := filter (\<lambda>(a, p). \<not> (a = row_id r \<and>
      p \<in> row_id ` set old - row_id ` set new)) (t_role_permissions d)\<rparr>) \<circ> w_delta w\<rparr>"
  have "for_each (filter (\<lambda>p. row_id p \<notin> row_id ` set old) new) (\<lambda>p. add_role_permission (row_id r) (row_id p)) ?w = (Inr v, w')"
    using assms by (simp add: set_permissions_def andthen_change)
  from add_links_run [OF this]
  show "view w' = (view w)\<lparr>t_role_permissions := relink (row_id r) old new (t_role_permissions (view w))\<rparr>"
    and "w_bypass w' = w_bypass w"
    by (simp_all add: view_def relink_def)
qed

lemma set_permissions_same:
  assumes "row_id ` set new = row_id ` set old"
  shows "\<exists>w'. set_permissions r old new w = (Inr (), w') \<and> view w' = view w \<and> w_bypass w' = w_bypass w \<and>
    w_committed w' = w_committed w"
proof -
  have none: "filter (\<lambda>r. row_id r \<notin> row_id ` set old) new = []"
    using assms by (auto simp: filter_empty_conv)
  show ?thesis by (simp add: set_permissions_def none assms act_simps view_def)
qed

section \<open>Roles\<close>

text \<open>The dictionary of the permissions by code, and the foreign keys of the two association tables.\<close>

definition dict_of :: "(string \<times> permission) list \<Rightarrow> database \<Rightarrow> bool" where
  "dict_of perms d \<longleftrightarrow> (\<forall>c p. map_of perms c = Some p \<longleftrightarrow> p \<in> set (t_permissions d) \<and> perm_code p = c)"

definition links_ok :: "database \<Rightarrow> bool" where
  "links_ok d \<longleftrightarrow> (\<forall>(a, b) \<in> set (t_role_permissions d). a \<in> row_id ` set (t_roles d)) \<and>
     (\<forall>(a, b) \<in> set (t_user_roles d). a \<in> row_id ` set (t_users d) \<and> b \<in> row_id ` set (t_roles d))"

text \<open>Everything the proofs need of the tables that the script writes.\<close>

definition keyed :: "database \<Rightarrow> bool" where
  "keyed d \<longleftrightarrow> consistent Module d \<and> consistent Permission d \<and> consistent Tenant d \<and> consistent TenantModule d \<and>
     consistent Role d \<and> consistent User d \<and> links_ok d"

definition role_seeded :: "database \<Rightarrow> uuid \<Rightarrow> role_name \<Rightarrow> role \<Rightarrow> bool" where
  "role_seeded d tid rc r \<longleftrightarrow> r \<in> set (t_roles d) \<and> tenant_id r = tid \<and> role_code r = role_value rc \<and>
     (\<forall>p \<in> set (t_permissions d). (row_id r, row_id p) \<in> set (t_role_permissions d) \<longleftrightarrow>
        perm_code p \<in> set (ROLE_MATRIX rc))"

lemma role_model:
  "m_rows Role d = t_roles d" "m_put Role rs d = d\<lparr>t_roles := rs\<rparr>" "m_id Role r = row_id r" "m_stored Role r = r"
  "m_clash Role r s \<longleftrightarrow> tenant_id r = tenant_id s \<and> role_code r = role_code s"
  by (simp_all add: Role_def)

lemma consistent_tables [simp]:
  "consistent Role (d\<lparr>t_role_permissions := ls\<rparr>) = consistent Role d"
  "consistent Role (d\<lparr>t_users := us\<rparr>) = consistent Role d" "consistent Role (d\<lparr>t_user_roles := ls\<rparr>) = consistent Role d"
  "consistent User (d\<lparr>t_user_roles := ls\<rparr>) = consistent User d" "consistent User (d\<lparr>t_roles := rs\<rparr>) = consistent User d"
  "consistent User (d\<lparr>t_role_permissions := ls\<rparr>) = consistent User d"
  by (simp_all add: consistent_def Role_def User_def)

lemma granted_rows:
  assumes "dict_of perms d"
  shows "set (map (\<lambda>c. the (map_of perms c)) (filter (\<lambda>c. c \<in> fst ` set perms) cs)) =
    {p \<in> set (t_permissions d). perm_code p \<in> set cs}" (is "?l = ?r")
proof -
  have key: "c \<in> fst ` set perms \<longleftrightarrow> (\<exists>p. map_of perms c = Some p)" for c
    by (metis map_of_eq_None_iff not_None_eq)
  show ?thesis
  proof (intro set_eqI iffI)
    fix p assume "p \<in> ?l"
    then obtain c q where "c \<in> set cs" "map_of perms c = Some q" "p = q" by (auto simp: key)
    then show "p \<in> ?r" using assms by (auto simp: dict_of_def)
  next
    fix p assume "p \<in> ?r"
    then have "map_of perms (perm_code p) = Some p" "perm_code p \<in> set cs" using assms by (auto simp: dict_of_def)
    then show "p \<in> ?l" by (force simp: key)
  qed
qed

lemma ids_inject:
  assumes "consistent M d" and "p \<in> set (m_rows M d)" and "S \<subseteq> set (m_rows M d)"
  shows "m_id M p \<in> m_id M ` S \<longleftrightarrow> p \<in> S"
  using unique_row [OF assms(1)] assms(2,3) by (auto simp: image_iff)

lemma permission_ids:
  assumes "consistent Permission d" and "p \<in> set (t_permissions d)" and "S \<subseteq> set (t_permissions d)"
  shows "row_id p \<in> row_id ` S \<longleftrightarrow> p \<in> S"
  using ids_inject [of Permission d p S] assms by (simp add: Permission_def)

lemma role_ids:
  assumes "consistent Role d" and "p \<in> set (t_roles d)" and "S \<subseteq> set (t_roles d)"
  shows "row_id p \<in> row_id ` S \<longleftrightarrow> p \<in> S"
  using ids_inject [of Role d p S] assms by (simp add: role_model)

lemma role_value_inject [simp]: "role_value a = role_value b \<longleftrightarrow> a = b"
  by (cases a; cases b) simp_all

lemma role_unique: "consistent Role d \<Longrightarrow> r \<in> set (t_roles d) \<Longrightarrow> s \<in> set (t_roles d) \<Longrightarrow> row_id r = row_id s \<Longrightarrow> r = s"
  using unique_row [of Role d r s] by (simp add: role_model)

lemma user_unique: "consistent User d \<Longrightarrow> r \<in> set (t_users d) \<Longrightarrow> s \<in> set (t_users d) \<Longrightarrow> row_id r = row_id s \<Longrightarrow> r = s"
  using unique_row [of User d r s] by (simp add: User_def)

section \<open>The frame\<close>

text \<open>
  \<open>kept T R U\<close>: rows of tenants, roles and users are only added; the licences that change satisfy \<open>T\<close>, the new
  roles and those whose permissions change satisfy \<open>R\<close>, the new users and those whose roles change satisfy \<open>U\<close>.
\<close>

definition rows_kept :: "('r \<Rightarrow> bool) \<Rightarrow> 'r list \<Rightarrow> 'r list \<Rightarrow> bool" where
  "rows_kept P rs rs' \<longleftrightarrow> set rs \<subseteq> set rs' \<and> (\<forall>r \<in> set rs' - set rs. P r)"

definition links_kept :: "('a entity_scheme \<Rightarrow> bool) \<Rightarrow> 'a entity_scheme list \<Rightarrow> (uuid \<times> uuid) list
    \<Rightarrow> (uuid \<times> uuid) list \<Rightarrow> bool" where
  "links_kept P rs ls ls' \<longleftrightarrow> (\<forall>r \<in> set rs. \<not> P r \<longrightarrow> (\<forall>b. (row_id r, b) \<in> set ls' \<longleftrightarrow> (row_id r, b) \<in> set ls))"

definition kept :: "(tenant_module \<Rightarrow> bool) \<Rightarrow> (role \<Rightarrow> bool) \<Rightarrow> (user \<Rightarrow> bool) \<Rightarrow> database \<Rightarrow> database \<Rightarrow> bool" where
  "kept T R U d d' \<longleftrightarrow>
     t_modules d' = t_modules d \<and> t_permissions d' = t_permissions d \<and> t_courses d' = t_courses d \<and>
     set (t_tenants d) \<subseteq> set (t_tenants d') \<and>
     {q \<in> set (t_tenant_modules d'). \<not> T q} = {q \<in> set (t_tenant_modules d). \<not> T q} \<and>
     rows_kept R (t_roles d) (t_roles d') \<and>
     links_kept R (t_roles d) (t_role_permissions d) (t_role_permissions d') \<and>
     rows_kept U (t_users d) (t_users d') \<and>
     links_kept U (t_users d) (t_user_roles d) (t_user_roles d')"

lemma rows_kept_trans: "rows_kept P rs rs' \<Longrightarrow> rows_kept P rs' rs'' \<Longrightarrow> rows_kept P rs rs''"
  unfolding rows_kept_def by blast

lemma links_kept_trans:
  "rows_kept Q rs rs' \<Longrightarrow> links_kept P rs ls ls' \<Longrightarrow> links_kept P rs' ls' ls'' \<Longrightarrow> links_kept P rs ls ls''"
  unfolding rows_kept_def links_kept_def by (meson subsetD)

lemma kept_refl: "kept T R U d d"
  by (simp add: kept_def rows_kept_def links_kept_def)

lemma kept_trans:
  assumes "kept T R U d e" and "kept T R U e f"
  shows "kept T R U d f"
  using assms rows_kept_trans [of R "t_roles d" "t_roles e" "t_roles f"]
    rows_kept_trans [of U "t_users d" "t_users e" "t_users f"]
    links_kept_trans [of R "t_roles d" "t_roles e" R "t_role_permissions d" "t_role_permissions e" "t_role_permissions f"]
    links_kept_trans [of U "t_users d" "t_users e" U "t_user_roles d" "t_user_roles e" "t_user_roles f"]
  unfolding kept_def by (elim conjE) (intro conjI; simp; fail?)

interpretation kept_frame: frame "kept T R U" for T R U
  by unfold_locales (rule kept_refl, rule kept_trans)

lemma rows_kept_mono: "rows_kept P rs rs' \<Longrightarrow> (\<And>q. P q \<Longrightarrow> Q q) \<Longrightarrow> rows_kept Q rs rs'"
  unfolding rows_kept_def by blast

lemma links_kept_mono: "links_kept P rs ls ls' \<Longrightarrow> (\<And>q. P q \<Longrightarrow> Q q) \<Longrightarrow> links_kept Q rs ls ls'"
  unfolding links_kept_def by blast

lemma kept_mono:
  assumes "kept T R U d e" and "\<And>q. T q \<Longrightarrow> T' q" and "\<And>q. R q \<Longrightarrow> R' q" and "\<And>q. U q \<Longrightarrow> U' q"
  shows "kept T' R' U' d e"
proof -
  have "{q \<in> set (t_tenant_modules e). \<not> T q} = {q \<in> set (t_tenant_modules d). \<not> T q}"
    using assms(1) by (simp add: kept_def)
  then have "{q \<in> set (t_tenant_modules e). \<not> T' q} = {q \<in> set (t_tenant_modules d). \<not> T' q}"
    using assms(2) by blast
  then show ?thesis
    using assms(1) rows_kept_mono [of R "t_roles d" "t_roles e" R', OF _ assms(3)]
      links_kept_mono [of R "t_roles d" _ _ R', OF _ assms(3)]
      rows_kept_mono [of U "t_users d" "t_users e" U', OF _ assms(4)]
      links_kept_mono [of U "t_users d" _ _ U', OF _ assms(4)]
    by (simp add: kept_def)
qed

text \<open>A row that is new or had its links assigned keeps the others as they were.\<close>

lemma kept_role:
  assumes d': "d' = d\<lparr>t_roles := rs, t_role_permissions := relink (row_id r) old new (t_role_permissions d)\<rparr>"
    and rs: "set rs = insert r (set (t_roles d))" and "consistent Role d'" and "R r"
  shows "kept T R U d d'"
proof -
  have "row_id q \<noteq> row_id r" if "q \<in> set (t_roles d)" "\<not> R q" for q
    using role_unique [OF assms(3), of q r] that rs assms(4) by (auto simp: d')
  then show ?thesis using rs assms(4) by (auto simp: kept_def d' rows_kept_def links_kept_def set_relink)
qed

lemma kept_user:
  assumes d': "d' = d\<lparr>t_users := us, t_user_roles := relink (row_id u) old new (t_user_roles d)\<rparr>"
    and us: "set us = insert u (set (t_users d))" and "consistent User d'" and "U u"
  shows "kept T R U d d'"
proof -
  have "row_id q \<noteq> row_id u" if "q \<in> set (t_users d)" "\<not> U q" for q
    using user_unique [OF assms(3), of q u] that us assms(4) by (auto simp: d')
  then show ?thesis using us assms(4) by (auto simp: kept_def d' rows_kept_def links_kept_def set_relink)
qed

lemma role_seeded_kept:
  assumes "role_seeded d t rc r" and "kept T R U d d'" and "\<not> R r"
  shows "role_seeded d' t rc r"
  using assms unfolding role_seeded_def kept_def rows_kept_def links_kept_def by auto

section \<open>Roles and users\<close>

lemma seed_role_ok:
  assumes bp: "w_bypass w" and cons: "consistent Role (view w)" "consistent Permission (view w)"
    and dict: "dict_of perms (view w)" and links: "links_ok (view w)"
    and run: "seed_role x tid perms rc w = (Inr r, w')"
  shows "w_bypass w' \<and> consistent Role (view w') \<and> links_ok (view w') \<and> role_seeded (view w') tid rc r \<and>
    kept (\<lambda>_. False) (\<lambda>q. tenant_id q = tid \<and> role_code q = role_value rc) (\<lambda>_. False) (view w) (view w') \<and>
    (\<exists>rs ls. view w' = (view w)\<lparr>t_roles := rs, t_role_permissions := ls\<rparr>)"
proof -
  let ?d = "view w"
  let ?p = "\<lambda>r. tenant_id r = tid \<and> role_code r = role_value rc"
  define granted where "granted = map (\<lambda>c. the (map_of perms c)) (filter (\<lambda>c. c \<in> fst ` set perms) (ROLE_MATRIX rc))"
  have granted: "set granted = {p \<in> set (t_permissions ?d). perm_code p \<in> set (ROLE_MATRIX rc)}"
    unfolding granted_def by (rule granted_rows [OF dict])
  have in_granted: "row_id p \<in> row_id ` set granted \<longleftrightarrow> perm_code p \<in> set (ROLE_MATRIX rc)"
    if "p \<in> set (t_permissions ?d)" for p
    using permission_ids [OF cons(2) that, of "set granted"] that by (auto simp: granted)
  have found: "select_one Role ?p w = (Inr (first_row (filter ?p (t_roles ?d))), w)"
    using select_one_unique [OF bp cons(1), of ?p] by (simp add: role_model)
  have "\<exists>rs old. view w' = ?d\<lparr>t_roles := rs, t_role_permissions := relink (row_id r) old granted (t_role_permissions ?d)\<rparr> \<and>
      set rs = insert r (set (t_roles ?d)) \<and> ?p r \<and> w_bypass w' \<and> consistent Role (view w') \<and>
      (\<forall>p \<in> set (t_permissions ?d). row_id p \<in> row_id ` set old \<longleftrightarrow> (row_id r, row_id p) \<in> set (t_role_permissions ?d))"
  proof (cases "first_row (filter ?p (t_roles ?d))")
    case None
    with run obtain w1 u where add: "add_row x Role (new_role tid rc) w = (Inr r, w1)"
      and set: "set_permissions r [] granted w1 = (Inr u, w')"
      unfolding seed_role_def Let_def granted_def [symmetric]
      by (auto simp: andthen_Inr [of "select_one Role ?p", OF found] act_simps elim!: andthen_InrE)
    note new = role_rows.add_row_ok [OF add, unfolded role_model]
    note rel = set_permissions_relink [OF set]
    have "row_id r \<notin> row_id ` set (t_roles ?d)" using new(6) by force
    then have "(row_id r, b) \<notin> set (t_role_permissions ?d)" for b using links by (auto simp: links_ok_def)
    moreover have "consistent Role (view w')" using new(4) [OF cons(1)] by (simp add: rel(1))
    moreover have "?p r" using new(1) by (auto simp: new_role_def)
    ultimately show ?thesis
      by (intro exI [of _ "t_roles ?d @ [r]"] exI [of _ "[]"]) (simp add: rel new bp)
  next
    case (Some q)
    let ?old = "permissions_of w q"
    from Some run obtain u where set: "set_permissions q ?old granted w = (Inr u, w')" and r: "r = q"
      unfolding seed_role_def Let_def granted_def [symmetric]
      by (auto simp: andthen_Inr [of "select_one Role ?p", OF found] act_simps elim!: andthen_InrE)
    note rel = set_permissions_relink [OF set]
    have q: "q \<in> set (t_roles ?d)" "?p q" using first_row_SomeD' [OF Some] by simp_all
    have "row_id p \<in> row_id ` set ?old \<longleftrightarrow> (row_id q, row_id p) \<in> set (t_role_permissions ?d)"
      if "p \<in> set (t_permissions ?d)" for p
      using permission_ids [OF cons(2) that, of "set ?old"] that by (auto simp: permissions_of_def)
    moreover have "consistent Role (view w')" using cons(1) by (simp add: rel(1))
    ultimately show ?thesis
      using q unfolding r by (intro exI [of _ "t_roles ?d"] exI [of _ ?old]) (simp add: rel(1,2) bp insert_absorb)
  qed
  then obtain rs old where d': "view w' = ?d\<lparr>t_roles := rs, t_role_permissions := relink (row_id r) old granted (t_role_permissions ?d)\<rparr>"
    and rs: "set rs = insert r (set (t_roles ?d))" and "tenant_id r = tid" "role_code r = role_value rc" "w_bypass w'"
      "consistent Role (view w')"
    and old: "\<forall>p \<in> set (t_permissions ?d).
      row_id p \<in> row_id ` set old \<longleftrightarrow> (row_id r, row_id p) \<in> set (t_role_permissions ?d)"
    by (elim exE conjE)
  then have r: "?p r" "w_bypass w'" "consistent Role (view w')" by simp_all
  have "a \<in> row_id ` set rs" if "(a, b) \<in> set (relink (row_id r) old granted (t_role_permissions ?d))" for a b
    using relinkD [OF that] links rs by (auto simp: links_ok_def)
  then have "links_ok (view w')" using links rs unfolding links_ok_def d' by auto
  moreover have "role_seeded (view w') tid rc r"
    unfolding role_seeded_def d' using r(1) rs in_granted old by (simp add: set_relink)
  ultimately show ?thesis
    using kept_role [OF d' rs r(3), of ?p] r d' by blast
qed

lemma keyed_roles:
  "consistent Permission (d\<lparr>t_roles := rs, t_role_permissions := ls\<rparr>) = consistent Permission d"
  "dict_of perms (d\<lparr>t_roles := rs, t_role_permissions := ls\<rparr>) = dict_of perms d"
  by (simp_all add: consistent_def Permission_def dict_of_def)

lemma seed_roles_ok:
  assumes "w_bypass w" and "consistent Role (view w)" "consistent Permission (view w)"
    and "dict_of perms (view w)" and "links_ok (view w)" and "distinct rcs"
    and "seed_roles x tid perms rcs w = (Inr roles, w')"
  shows "w_bypass w' \<and> consistent Role (view w') \<and> links_ok (view w') \<and>
    kept (\<lambda>_. False) (\<lambda>q. tenant_id q = tid \<and> role_code q \<in> role_value ` set rcs) (\<lambda>_. False) (view w) (view w') \<and>
    (\<exists>rs ls. view w' = (view w)\<lparr>t_roles := rs, t_role_permissions := ls\<rparr>) \<and>
    (\<forall>rc \<in> set rcs. \<exists>r. map_of roles rc = Some r \<and> role_seeded (view w') tid rc r)"
  using assms
proof (induction rcs arbitrary: w roles)
  case Nil
  then show ?case by (auto simp: ret_def kept_refl intro!: exI [of _ "t_roles (view w')"] exI [of _ "t_role_permissions (view w')"])
next
  case (Cons rc rcs)
  let ?R = "\<lambda>q :: role. tenant_id q = tid \<and> role_code q \<in> role_value ` set (rc # rcs)"
  from Cons.prems(7) obtain r w1 rs where one: "seed_role x tid perms rc w = (Inr r, w1)"
    and rest: "seed_roles x tid perms rcs w1 = (Inr rs, w')" and roles: "roles = (rc, r) # rs"
    by (auto simp: act_simps elim!: andthen_InrE)
  note first = seed_role_ok [OF Cons.prems(1-5) one]
  then obtain rows ls where w1: "view w1 = (view w)\<lparr>t_roles := rows, t_role_permissions := ls\<rparr>" by blast
  have ih: "w_bypass w'" "consistent Role (view w')" "links_ok (view w')"
    "kept (\<lambda>_. False) (\<lambda>q. tenant_id q = tid \<and> role_code q \<in> role_value ` set rcs) (\<lambda>_. False) (view w1) (view w')"
    "\<exists>rs ls. view w' = (view w1)\<lparr>t_roles := rs, t_role_permissions := ls\<rparr>"
    "\<forall>rc \<in> set rcs. \<exists>r. map_of rs rc = Some r \<and> role_seeded (view w') tid rc r"
    using Cons.IH [OF _ _ _ _ _ _ rest] first Cons.prems(3,4,6) by (simp_all add: w1 keyed_roles)
  have "\<not> (tenant_id r = tid \<and> role_code r \<in> role_value ` set rcs)"
    using first Cons.prems(6) by (auto simp: role_seeded_def)
  then have "role_seeded (view w') tid rc r" using role_seeded_kept [OF _ ih(4)] first by blast
  moreover have "kept (\<lambda>_. False) ?R (\<lambda>_. False) (view w) (view w')"
  proof (rule kept_trans)
    show "kept (\<lambda>_. False) ?R (\<lambda>_. False) (view w1) (view w')" by (rule kept_mono [OF ih(4)]) auto
    have "kept (\<lambda>_. False) (\<lambda>q. tenant_id q = tid \<and> role_code q = role_value rc) (\<lambda>_. False) (view w) (view w1)"
      using first by blast
    then show "kept (\<lambda>_. False) ?R (\<lambda>_. False) (view w) (view w1)" by (rule kept_mono) auto
  qed
  moreover have "\<exists>rs ls. view w' = (view w)\<lparr>t_roles := rs, t_role_permissions := ls\<rparr>"
    using ih(5) by (auto simp: w1)
  ultimately show ?case using ih Cons.prems(6) by (auto simp: roles)
qed

context table
begin

lemma consistent_clash:
  assumes "consistent M d" and "r \<in> set (m_rows M d)" and "s \<in> set (m_rows M d)" and "m_clash M r s"
  shows "r = s"
  using assms by (auto simp: consistent_def sorted_wrt_iff_nth_less in_set_conv_nth)
    (metis linorder_neqE_nat clash_sym)

end

definition user_seeded :: "database \<Rightarrow> uuid \<Rightarrow> string \<Rightarrow> role_name \<Rightarrow> user \<Rightarrow> bool" where
  "user_seeded d tid e rc u \<longleftrightarrow> u \<in> set (t_users d) \<and> tenant_id u = tid \<and> email u = e \<and>
     (\<forall>q \<in> set (t_roles d). (row_id u, row_id q) \<in> set (t_user_roles d) \<longleftrightarrow>
        tenant_id q = tid \<and> role_code q = role_value rc)"

lemma user_model:
  "m_rows User d = t_users d" "m_put User rs d = d\<lparr>t_users := rs\<rparr>" "m_id User u = row_id u" "m_stored User u = u"
  "m_clash User u v \<longleftrightarrow> tenant_id u = tenant_id v \<and> email u = email v"
  by (simp_all add: User_def)

lemma user_seeded_kept:
  assumes u: "user_seeded d t e rc u" and k: "kept T R U d d'" and "\<not> U u"
    and links: "links_ok d" and cons: "consistent Role d'"
    and new: "\<And>r. R r \<Longrightarrow> r \<notin> set (t_roles d) \<Longrightarrow> tenant_id r \<noteq> t"
  shows "user_seeded d' t e rc u"
proof -
  have "(row_id u, row_id q) \<in> set (t_user_roles d') \<longleftrightarrow> tenant_id q = t \<and> role_code q = role_value rc"
    if q: "q \<in> set (t_roles d')" for q
  proof -
    have same: "(row_id u, row_id q) \<in> set (t_user_roles d') \<longleftrightarrow> (row_id u, row_id q) \<in> set (t_user_roles d)"
      using k u assms(3) by (simp add: kept_def links_kept_def user_seeded_def)
    show ?thesis
    proof (cases "q \<in> set (t_roles d)")
      case True
      then show ?thesis using u same by (simp add: user_seeded_def)
    next
      case False
      then have "R q" using k q by (simp add: kept_def rows_kept_def)
      have "(row_id u, row_id q) \<notin> set (t_user_roles d)"
      proof
        assume "(row_id u, row_id q) \<in> set (t_user_roles d)"
        then obtain p where p: "p \<in> set (t_roles d)" "row_id p = row_id q" using links by (force simp: links_ok_def)
        then have "p \<in> set (t_roles d')" using k by (auto simp: kept_def rows_kept_def)
        from role_unique [OF cons this q p(2)] p(1) False show False by simp
      qed
      then show ?thesis using same new [OF \<open>R q\<close> False] by simp
    qed
  qed
  moreover have "u \<in> set (t_users d')" using u k by (auto simp: user_seeded_def kept_def rows_kept_def)
  ultimately show ?thesis using u by (simp add: user_seeded_def)
qed

lemma seed_user_ok:
  assumes bp: "w_bypass w" and cons: "consistent Role (view w)" "consistent User (view w)" and links: "links_ok (view w)"
    and r: "r \<in> set (t_roles (view w))" "tenant_id r = tid" "role_code r = role_value rc"
    and run: "seed_user x tid e name [r] password super w = (Inr u, w')"
  shows "w_bypass w' \<and> consistent User (view w') \<and> links_ok (view w') \<and> user_seeded (view w') tid e rc u \<and>
    kept (\<lambda>_. False) (\<lambda>_. False) (\<lambda>u. tenant_id u = tid \<and> email u = e) (view w) (view w') \<and>
    (\<exists>us ls. view w' = (view w)\<lparr>t_users := us, t_user_roles := ls\<rparr>)"
proof -
  let ?d = "view w"
  let ?p = "\<lambda>u. tenant_id u = tid \<and> email u = e"
  have found: "select_one User ?p w = (Inr (first_row (filter ?p (t_users ?d))), w)"
    using select_one_unique [OF bp cons(2), of ?p] by (simp add: user_model)
  have "\<exists>us old. view w' = ?d\<lparr>t_users := us, t_user_roles := relink (row_id u) old [r] (t_user_roles ?d)\<rparr> \<and>
      set us = insert u (set (t_users ?d)) \<and> ?p u \<and> w_bypass w' \<and> consistent User (view w') \<and>
      (\<forall>q \<in> set (t_roles ?d). row_id q \<in> row_id ` set old \<longleftrightarrow> (row_id u, row_id q) \<in> set (t_user_roles ?d))"
  proof (cases "first_row (filter ?p (t_users ?d))")
    case None
    with run obtain h v w0 w1 where hash: "hash_password x password w = (Inr h, w0)"
      and add: "add_row x User (seeded_user tid e name h super) w0 = (Inr u, w1)"
      and set: "set_roles u [] [r] w1 = (Inr v, w')"
      unfolding seed_user_def
      by (auto simp: andthen_Inr [of "select_one User ?p", OF found] act_simps elim!: andthen_InrE)
    have w0: "view w0 = ?d" "w_bypass w0" using hash bp by (auto simp: hash_password_def act_simps)
    note new = user_rows.add_row_ok [OF add, unfolded user_model w0(1)]
    note rel = set_roles_relink [OF set]
    have "row_id u \<notin> row_id ` set (t_users ?d)" using new(6) by force
    then have "(row_id u, b) \<notin> set (t_user_roles ?d)" for b using links by (auto simp: links_ok_def)
    moreover have "consistent User (view w')" using new(4) [OF cons(2)] by (simp add: rel(1))
    moreover have "?p u" using new(1) by (auto simp: seeded_user_def)
    ultimately show ?thesis
      by (intro exI [of _ "t_users ?d @ [u]"] exI [of _ "[]"]) (simp add: rel new w0(2))
  next
    case (Some q)
    let ?old = "roles_of w q"
    from Some run obtain v where set: "set_roles q ?old [r] w = (Inr v, w')" and u: "u = q"
      unfolding seed_user_def
      by (auto simp: andthen_Inr [of "select_one User ?p", OF found] act_simps elim!: andthen_InrE)
    note rel = set_roles_relink [OF set]
    have q: "q \<in> set (t_users ?d)" "?p q" using first_row_SomeD' [OF Some] by simp_all
    have "row_id p \<in> row_id ` set ?old \<longleftrightarrow> (row_id q, row_id p) \<in> set (t_user_roles ?d)"
      if "p \<in> set (t_roles ?d)" for p
      using role_ids [OF cons(1) that, of "set ?old"] that by (auto simp: roles_of_def bypass_visible [OF bp])
    moreover have "consistent User (view w')" using cons(2) by (simp add: rel(1))
    ultimately show ?thesis
      using q unfolding u by (intro exI [of _ "t_users ?d"] exI [of _ ?old]) (simp add: rel(1,2) bp insert_absorb)
  qed
  then obtain us old where d': "view w' = ?d\<lparr>t_users := us, t_user_roles := relink (row_id u) old [r] (t_user_roles ?d)\<rparr>"
    and us: "set us = insert u (set (t_users ?d))" and "tenant_id u = tid" "email u = e" "w_bypass w'"
      "consistent User (view w')"
    and old: "\<forall>q \<in> set (t_roles ?d). row_id q \<in> row_id ` set old \<longleftrightarrow> (row_id u, row_id q) \<in> set (t_user_roles ?d)"
    by (elim exE conjE)
  then have u: "?p u" "w_bypass w'" "consistent User (view w')" by simp_all
  have link: "(row_id u, row_id q) \<in> set (t_user_roles (view w')) \<longleftrightarrow> tenant_id q = tid \<and> role_code q = role_value rc"
    if "q \<in> set (t_roles ?d)" for q
    using role_unique [OF cons(1) that r(1)] role_rows.consistent_clash [OF cons(1), of q r] that r old
    by (auto simp: d' set_relink role_model)
  have "a \<in> row_id ` set us \<and> b \<in> row_id ` set (t_roles ?d)"
    if "(a, b) \<in> set (relink (row_id u) old [r] (t_user_roles ?d))" for a b
    using relinkD [OF that] relinkD2 [OF that] links us r(1) by (auto simp: links_ok_def)
  then have "links_ok (view w')" using links us unfolding links_ok_def d' by auto
  moreover have "user_seeded (view w') tid e rc u"
    unfolding user_seeded_def using u(1) us link by (simp add: d')
  ultimately show ?thesis
    using kept_user [OF d' us u(3), of ?p] u d' by blast
qed

section \<open>Licences\<close>

lemma bypass_writes: "keeps (same w_bypass) (sql_insert M r)" "keeps (same w_bypass) (sql_update M k f)"
  by (simp_all add: keeps_def same_def sql_insert_def sql_update_def split: option.splits)

lemma bypass_set_module: "keeps (same w_bypass) (set_module x tid code b)"
proof -
  have cache: "cache_frame (same w_bypass)" by (simp add: cache_frame_def same_def)
  have draw: "keeps (same w_bypass) (draw f)" for f :: "nat \<Rightarrow> 'v" by (simp add: keeps_def same_def draw_def)
  show ?thesis
    unfolding set_module_def invalidate_def repo_add_def
    by (intro same_frame.keeps_rules keeps_cache [OF cache] draw bypass_writes reads_rules [THEN same_reads])
qed

definition licence_seeded :: "database \<Rightarrow> uuid \<Rightarrow> module_code \<Rightarrow> bool" where
  "licence_seeded d tid c \<longleftrightarrow> (\<exists>m \<in> set (t_modules d). \<exists>q \<in> set (t_tenant_modules d).
     mod_code m = code_value c \<and> grant_key q = (tid, row_id m) \<and> tm_enabled q)"

lemma licence_seeded_kept:
  assumes "licence_seeded d t c" and "kept T R U d d'" and "\<And>q. tm_tenant_id q = t \<Longrightarrow> \<not> T q"
  shows "licence_seeded d' t c"
proof -
  from assms(1) obtain m q where "m \<in> set (t_modules d)" "q \<in> set (t_tenant_modules d)" "mod_code m = code_value c"
    "grant_key q = (t, row_id m)" "tm_enabled q"
    by (auto simp: licence_seeded_def)
  moreover from this assms(3) have "q \<in> {q \<in> set (t_tenant_modules d). \<not> T q}" by (auto simp: grant_key_def)
  ultimately show ?thesis using assms(2) by (auto simp: licence_seeded_def kept_def)
qed

lemma seed_licence_ok:
  assumes bp: "w_bypass w" and cons: "consistent TenantModule (view w)"
    and run: "set_module x tid (code_value c) True w = (Inr tm, w')"
  shows "w_bypass w' \<and> consistent TenantModule (view w') \<and> licence_seeded (view w') tid c \<and>
    (\<forall>c'. licence_seeded (view w) tid c' \<longrightarrow> licence_seeded (view w') tid c') \<and>
    kept (\<lambda>q. tm_tenant_id q = tid) (\<lambda>_. False) (\<lambda>_. False) (view w) (view w') \<and>
    (\<exists>rows. view w' = (view w)\<lparr>t_tenant_modules := rows\<rparr>)"
proof -
  have "w_bypass w'" using keepsD [OF bypass_set_module run] bp by (simp add: same_def)
  from set_module_step [OF cons run] obtain rows where d': "view w' = (view w)\<lparr>t_tenant_modules := rows\<rparr>"
    and "consistent TenantModule (view w')" by blast
  from set_module_rows [OF cons run, of thesis] obtain m where m: "filter (\<lambda>m. mod_code m = code_value c) (t_modules (view w)) = [m]"
    and others: "{r \<in> set (t_tenant_modules (view w')). grant_key r \<noteq> (tid, row_id m)} =
         {r \<in> set (t_tenant_modules (view w)). grant_key r \<noteq> (tid, row_id m)}"
    and this_row: "{r \<in> set (t_tenant_modules (view w')). grant_key r = (tid, row_id m)} = {tm}"
    and on: "tm_enabled tm"
    by (rule set_module_rows [OF cons run]) simp
  have mm: "m \<in> set (t_modules (view w))" "mod_code m = code_value c" using arg_cong [OF m, of set] by auto
  have tm: "tm \<in> set rows" "grant_key tm = (tid, row_id m)" using this_row by (auto simp: d')
  have other: "q \<in> set rows \<longleftrightarrow> q \<in> set (t_tenant_modules (view w))" if "grant_key q \<noteq> (tid, row_id m)" for q
    using others that by (auto simp: d' set_eq_iff)
  have "licence_seeded (view w') tid c'" if old: "licence_seeded (view w) tid c'" for c'
  proof -
    from old obtain m' q where q: "m' \<in> set (t_modules (view w))" "q \<in> set (t_tenant_modules (view w))"
      "mod_code m' = code_value c'" "grant_key q = (tid, row_id m')" "tm_enabled q"
      by (auto simp: licence_seeded_def)
    have "\<exists>r \<in> set rows. grant_key r = (tid, row_id m') \<and> tm_enabled r"
    proof (cases "row_id m' = row_id m")
      case True
      then show ?thesis using tm on by (intro bexI [of _ tm]) simp_all
    next
      case False
      then show ?thesis using q other [of q] by (intro bexI [of _ q]) simp_all
    qed
    then show ?thesis using q by (auto simp: licence_seeded_def d')
  qed
  moreover have "licence_seeded (view w') tid c" using mm tm on by (auto simp: licence_seeded_def d')
  moreover have "kept (\<lambda>q. tm_tenant_id q = tid) (\<lambda>_. False) (\<lambda>_. False) (view w) (view w')"
  proof -
    have "q \<in> set rows \<longleftrightarrow> q \<in> set (t_tenant_modules (view w))" if "tm_tenant_id q \<noteq> tid" for q
      using that by (intro other) (simp add: grant_key_def)
    then show ?thesis by (auto simp: kept_def d' rows_kept_def links_kept_def)
  qed
  ultimately show ?thesis using \<open>w_bypass w'\<close> \<open>consistent TenantModule (view w')\<close> d' by blast
qed

lemma seed_licences_ok:
  assumes "w_bypass w" and "consistent TenantModule (view w)"
    and "for_each cs (\<lambda>c. andthen (set_module x tid (code_value c) True) (\<lambda>_. ret ())) w = (Inr v, w')"
  shows "w_bypass w' \<and> consistent TenantModule (view w') \<and> (\<forall>c \<in> set cs. licence_seeded (view w') tid c) \<and>
    (\<forall>c. licence_seeded (view w) tid c \<longrightarrow> licence_seeded (view w') tid c) \<and>
    kept (\<lambda>q. tm_tenant_id q = tid) (\<lambda>_. False) (\<lambda>_. False) (view w) (view w') \<and>
    (\<exists>rows. view w' = (view w)\<lparr>t_tenant_modules := rows\<rparr>)"
  using assms
proof (induction cs arbitrary: w)
  case Nil
  then show ?case by (auto simp: ret_def kept_refl intro!: exI [of _ "t_tenant_modules (view w')"])
next
  case (Cons c cs)
  from Cons.prems(3) obtain tm w1 where one: "set_module x tid (code_value c) True w = (Inr tm, w1)"
    and rest: "for_each cs (\<lambda>c. andthen (set_module x tid (code_value c) True) (\<lambda>_. ret ())) w1 = (Inr v, w')"
    by (auto simp: andthen_assoc andthen_ret elim!: andthen_InrE)
  note first = seed_licence_ok [OF Cons.prems(1,2) one]
  then obtain rows where w1: "view w1 = (view w)\<lparr>t_tenant_modules := rows\<rparr>" by blast
  note ih = Cons.IH [OF _ _ rest]
  have "kept (\<lambda>q. tm_tenant_id q = tid) (\<lambda>_. False) (\<lambda>_. False) (view w) (view w')"
    by (rule kept_trans) (use first ih in blast)+
  then show ?case using first ih by (auto simp: w1)
qed

section \<open>The catalogs\<close>

lemma module_model:
  "m_rows Module d = t_modules d" "m_put Module rs d = d\<lparr>t_modules := rs\<rparr>" "m_stored Module r = r"
  by (simp_all add: Module_def)

lemma permission_model:
  "m_rows Permission d = t_permissions d" "m_put Permission rs d = d\<lparr>t_permissions := rs\<rparr>" "m_stored Permission r = r"
  "m_clash Permission r s \<longleftrightarrow> perm_code r = perm_code s"
  by (simp_all add: Permission_def)

lemma add_modules_ok:
  assumes "for_each cs (\<lambda>c. if code_value c \<notin> set (map mod_code existing)
      then andthen (add_row x Module (new_module c)) (\<lambda>_. ret ()) else ret ()) w = (Inr v, w')"
    and "w_bypass w" and "consistent Module (view w)" and "set existing \<subseteq> set (t_modules (view w))"
  shows "w_bypass w' \<and> consistent Module (view w') \<and>
    (\<exists>ms. view w' = (view w)\<lparr>t_modules := ms\<rparr> \<and> set (t_modules (view w)) \<subseteq> set ms \<and>
       (\<forall>c \<in> set cs. \<exists>m \<in> set ms. mod_code m = code_value c))"
  using assms
proof (induction cs arbitrary: w)
  case Nil
  then show ?case by (auto simp: ret_def intro!: exI [of _ "t_modules (view w')"])
next
  case (Cons c cs)
  let ?go = "\<lambda>c. if code_value c \<notin> set (map mod_code existing)
      then andthen (add_row x Module (new_module c)) (\<lambda>_. ret ()) else ret ()"
  have "\<exists>w1 ms. for_each cs ?go w1 = (Inr v, w') \<and> w_bypass w1 \<and> consistent Module (view w1) \<and>
      view w1 = (view w)\<lparr>t_modules := ms\<rparr> \<and> set (t_modules (view w)) \<subseteq> set ms \<and> (\<exists>m \<in> set ms. mod_code m = code_value c)"
  proof (cases "code_value c \<in> set (map mod_code existing)")
    case True
    then have "for_each cs ?go w = (Inr v, w')" using Cons.prems(1) by (simp add: andthen_ret)
    moreover have "\<exists>m \<in> set (t_modules (view w)). mod_code m = code_value c" using True Cons.prems(4) by fastforce
    ultimately show ?thesis
      using Cons.prems by (intro exI [of _ w] exI [of _ "t_modules (view w)"]) simp
  next
    case False
    with Cons.prems(1) obtain m w1 where add: "add_row x Module (new_module c) w = (Inr m, w1)"
      and rest: "for_each cs ?go w1 = (Inr v, w')"
      by (auto simp: andthen_assoc andthen_ret elim!: andthen_InrE)
    note new = module_rows.add_row_ok [OF add, unfolded module_model]
    have "mod_code m = code_value c" using new(1) by (auto simp: new_module_def)
    then show ?thesis
      using rest new(2-4) Cons.prems(2,3)
      by (intro exI [of _ w1] exI [of _ "t_modules (view w) @ [m]"]) auto
  qed
  then obtain w1 ms where rest: "for_each cs ?go w1 = (Inr v, w')" and w1: "w_bypass w1" "consistent Module (view w1)"
      "view w1 = (view w)\<lparr>t_modules := ms\<rparr>" "set (t_modules (view w)) \<subseteq> set ms" "\<exists>m \<in> set ms. mod_code m = code_value c"
    by (elim exE conjE)
  have "set existing \<subseteq> set (t_modules (view w1))" using w1(3,4) Cons.prems(4) by auto
  from Cons.IH [OF rest w1(1,2) this] obtain ms' where ih: "w_bypass w'" "consistent Module (view w')"
    "view w' = (view w1)\<lparr>t_modules := ms'\<rparr>" "set ms \<subseteq> set ms'" "\<forall>c \<in> set cs. \<exists>m \<in> set ms'. mod_code m = code_value c"
    using w1(3) by (elim exE conjE) simp
  then show ?case using w1(3-5) by (auto intro!: exI [of _ ms'])
qed

lemma seed_modules_ok:
  assumes bp: "w_bypass w" and cons: "consistent Module (view w)" and run: "seed_modules x w = (Inr v, w')"
  shows "w_bypass w' \<and> consistent Module (view w') \<and>
    (\<exists>ms. view w' = (view w)\<lparr>t_modules := ms\<rparr> \<and> (\<forall>c. \<exists>m \<in> set ms. mod_code m = code_value c))"
proof -
  have all: "c \<in> set all_module_codes" for c by (cases c) (simp_all add: all_module_codes_def)
  have "select_rows Module (\<lambda>_. True) w = (Inr (t_modules (view w)), w)"
    using select_rows_run [OF bp, of Module] by (simp add: module_model)
  with run have "for_each all_module_codes (\<lambda>c. if code_value c \<notin> set (map mod_code (t_modules (view w)))
      then andthen (add_row x Module (new_module c)) (\<lambda>_. ret ()) else ret ()) w = (Inr v, w')"
    unfolding seed_modules_def by (simp add: andthen_Inr)
  from add_modules_ok [OF this bp cons] all show ?thesis by blast
qed

lemma sorted_wrt_neq: "sorted_wrt (\<lambda>p q. f p \<noteq> f q) xs = distinct (map f xs)"
  by (induction xs) auto

lemma dict_of_rows: "consistent Permission d \<Longrightarrow> dict_of (map (\<lambda>p. (perm_code p, p)) (t_permissions d)) d"
proof -
  assume "consistent Permission d"
  then have "sorted_wrt (\<lambda>p q. perm_code p \<noteq> perm_code q) (t_permissions d)"
    unfolding consistent_def permission_model by (rule sorted_wrt_mono_rel [rotated]) simp
  then have "distinct (map perm_code (t_permissions d))"
    by (simp add: sorted_wrt_neq)
  then have "map_of (map (\<lambda>p. (perm_code p, p)) (t_permissions d)) c = Some p \<longleftrightarrow>
      (c, p) \<in> set (map (\<lambda>p. (perm_code p, p)) (t_permissions d))" for c p
    by (intro map_of_eq_Some_iff) (simp add: comp_def)
  then show ?thesis by (auto simp: dict_of_def)
qed

lemma add_permission_dict:
  assumes dict: "dict_of existing (view w)" and new: "c \<notin> fst ` set existing"
    and add: "add_row x Permission (new_permission c desc) w = (Inr p, w')"
  shows "dict_of ((c, p) # existing) (view w')" and "perm_code p = c"
proof -
  note row = permission_rows.add_row_ok [OF add, unfolded permission_model]
  show code: "perm_code p = c" using row(1) by (auto simp: new_permission_def)
  have "map_of existing c = None" using new by (simp add: map_of_eq_None_iff)
  then have "q \<in> set (t_permissions (view w)) \<Longrightarrow> perm_code q \<noteq> c" for q
    using dict unfolding dict_of_def by (metis option.distinct(1))
  then show "dict_of ((c, p) # existing) (view w')" using dict code by (auto simp: dict_of_def row(2))
qed

lemma add_permissions_ok:
  assumes "add_permissions x ps existing w = (Inr perms, w')"
    and "w_bypass w" and "consistent Permission (view w)" and "dict_of existing (view w)"
  shows "w_bypass w' \<and> consistent Permission (view w') \<and> dict_of perms (view w') \<and>
    (\<exists>rows. view w' = (view w)\<lparr>t_permissions := rows\<rparr> \<and> set (t_permissions (view w)) \<subseteq> set rows \<and>
       (\<forall>c \<in> fst ` set ps. \<exists>p \<in> set rows. perm_code p = c))"
  using assms
proof (induction ps arbitrary: w existing)
  case Nil
  then show ?case by (auto simp: ret_def intro!: exI [of _ "t_permissions (view w')"])
next
  case (Cons cd ps)
  obtain c desc where cd: "cd = (c, desc)" by fastforce
  have "\<exists>w1 ex rows. add_permissions x ps ex w1 = (Inr perms, w') \<and> w_bypass w1 \<and> consistent Permission (view w1) \<and>
      dict_of ex (view w1) \<and> view w1 = (view w)\<lparr>t_permissions := rows\<rparr> \<and> set (t_permissions (view w)) \<subseteq> set rows \<and>
      (\<exists>p \<in> set rows. perm_code p = c)"
  proof (cases "c \<in> fst ` set existing")
    case True
    then have "add_permissions x ps existing w = (Inr perms, w')" using Cons.prems(1) by (simp add: cd)
    moreover have "\<exists>p \<in> set (t_permissions (view w)). perm_code p = c"
      using True Cons.prems(4) by (metis dict_of_def map_of_eq_None_iff option.exhaust)
    ultimately show ?thesis
      using Cons.prems by (intro exI [of _ w] exI [of _ existing] exI [of _ "t_permissions (view w)"]) simp
  next
    case False
    with Cons.prems(1) obtain p w1 where add: "add_row x Permission (new_permission c desc) w = (Inr p, w1)"
      and rest: "add_permissions x ps ((c, p) # existing) w1 = (Inr perms, w')"
      by (auto simp: cd elim!: andthen_InrE)
    note new = permission_rows.add_row_ok [OF add, unfolded permission_model]
    note dict = add_permission_dict [OF Cons.prems(4) False add]
    show ?thesis
      using rest new(2-4) Cons.prems(2,3) dict
      by (intro exI [of _ w1] exI [of _ "(c, p) # existing"] exI [of _ "t_permissions (view w) @ [p]"]) auto
  qed
  then obtain w1 ex rows where rest: "add_permissions x ps ex w1 = (Inr perms, w')"
    and w1: "w_bypass w1" "consistent Permission (view w1)" "dict_of ex (view w1)"
      "view w1 = (view w)\<lparr>t_permissions := rows\<rparr>" "set (t_permissions (view w)) \<subseteq> set rows" "\<exists>p \<in> set rows. perm_code p = c"
    by (elim exE conjE)
  from Cons.IH [OF rest w1(1-3)] obtain rows' where ih: "w_bypass w'" "consistent Permission (view w')"
    "dict_of perms (view w')" "view w' = (view w1)\<lparr>t_permissions := rows'\<rparr>" "set rows \<subseteq> set rows'"
    "\<forall>c \<in> fst ` set ps. \<exists>p \<in> set rows'. perm_code p = c"
    using w1(4) by auto
  then show ?case using w1(4-6) cd by (auto intro!: exI [of _ rows'])
qed

lemma seed_permissions_ok:
  assumes bp: "w_bypass w" and cons: "consistent Permission (view w)" and run: "seed_permissions x w = (Inr perms, w')"
  shows "w_bypass w' \<and> consistent Permission (view w') \<and> dict_of perms (view w') \<and>
    (\<exists>rows. view w' = (view w)\<lparr>t_permissions := rows\<rparr> \<and> set (t_permissions (view w)) \<subseteq> set rows \<and>
       (\<forall>c \<in> set ALL_CODES. \<exists>p \<in> set rows. perm_code p = c))"
proof -
  have "select_rows Permission (\<lambda>_. True) w = (Inr (t_permissions (view w)), w)"
    using select_rows_run [OF bp, of Permission] by (simp add: permission_model)
  with run have "add_permissions x ALL_PERMISSIONS (map (\<lambda>p. (perm_code p, p)) (t_permissions (view w))) w = (Inr perms, w')"
    unfolding seed_permissions_def by (simp add: andthen_Inr)
  from add_permissions_ok [OF this bp cons dict_of_rows [OF cons]] show ?thesis by (simp add: ALL_CODES_def)
qed

end
