(* ===== verification/Seeded.thy ===== *)
theory Seeded
  imports Seeding
begin

text \<open>
  What the seed script leaves behind as a whole. \<open>seeded\<close> describes the database it is meant to produce, and
  \<open>spared\<close> what stays the same for a tenant that is not its own; a run establishes both.
\<close>

section \<open>One tenant\<close>

text \<open>The accounts of a tenant with their roles.\<close>

definition accounts :: "string \<Rightarrow> (string \<times> role_name) list" where
  "accounts s =
     (if s = ''full-lms'' then [(''root@platform.com'', SUPER_ADMIN)] else []) @
     [(''student@'' @ s @ ''.com'', STUDENT), (''instructor@'' @ s @ ''.com'', INSTRUCTOR),
      (''admin@'' @ s @ ''.com'', TENANT_ADMIN)]"

definition staffed :: "database \<Rightarrow> uuid \<Rightarrow> (string \<times> role_name) list \<Rightarrow> bool" where
  "staffed d tid es \<longleftrightarrow> (\<forall>(e, rc) \<in> set es. \<exists>u. user_seeded d tid e rc u)"

definition tenant_seeded :: "database \<Rightarrow> string \<Rightarrow> module_code list \<Rightarrow> tenant \<Rightarrow> bool" where
  "tenant_seeded d s modules t \<longleftrightarrow> t \<in> set (t_tenants d) \<and> slug t = s \<and>
     (\<forall>c \<in> set modules. licence_seeded d (row_id t) c) \<and>
     (\<forall>rc. \<exists>r. role_seeded d (row_id t) rc r) \<and> staffed d (row_id t) (accounts s)"

text \<open>The state while the accounts of a tenant are made.\<close>

definition staffing :: "uuid \<Rightarrow> (role_name \<times> role) list \<Rightarrow> (string \<times> role_name) list \<Rightarrow> 'c world \<Rightarrow> bool" where
  "staffing tid roles es w \<longleftrightarrow> w_bypass w \<and> consistent Role (view w) \<and> consistent User (view w) \<and> links_ok (view w) \<and>
     (\<forall>rc. \<exists>r. map_of roles rc = Some r \<and> role_seeded (view w) tid rc r) \<and> staffed (view w) tid es"

lemma staff_step:
  assumes s: "staffing tid roles es w" and new: "e \<notin> fst ` set es"
    and run: "seed_user x tid e name (role_for roles rc) password super w = (Inr u, w')"
  shows "staffing tid roles ((e, rc) # es) w'"
    and "kept (\<lambda>_. False) (\<lambda>_. False) (\<lambda>u. tenant_id u = tid) (view w) (view w')"
    and "\<exists>us ls. view w' = (view w)\<lparr>t_users := us, t_user_roles := ls\<rparr>"
proof -
  let ?U = "\<lambda>u :: user. tenant_id u = tid \<and> email u = e"
  from s have w: "w_bypass w" "consistent Role (view w)" "consistent User (view w)" "links_ok (view w)"
    "staffed (view w) tid es" and roles: "\<forall>rc. \<exists>r. map_of roles rc = Some r \<and> role_seeded (view w) tid rc r"
    by (simp_all add: staffing_def)
  from roles obtain r where r: "map_of roles rc = Some r" "role_seeded (view w) tid rc r" by blast
  then have "seed_user x tid e name [r] password super w = (Inr u, w')" using run by (simp add: role_for_def)
  from seed_user_ok [OF w(1-4) _ _ _ this, of rc] r(2)
  have u: "w_bypass w'" "consistent User (view w')" "links_ok (view w')" "user_seeded (view w') tid e rc u"
    and k: "kept (\<lambda>_. False) (\<lambda>_. False) ?U (view w) (view w')"
    and d': "\<exists>us ls. view w' = (view w)\<lparr>t_users := us, t_user_roles := ls\<rparr>"
    by (simp_all add: role_seeded_def)
  show "kept (\<lambda>_. False) (\<lambda>_. False) (\<lambda>u. tenant_id u = tid) (view w) (view w')"
    by (rule kept_mono [OF k]) auto
  have role: "consistent Role (view w')" using d' w(2) by auto
  have "role_seeded (view w') tid rc' q" if "role_seeded (view w) tid rc' q" for rc' q
    by (rule role_seeded_kept [OF that k]) simp
  moreover have "user_seeded (view w') tid e' rc' v" if "user_seeded (view w) tid e' rc' v" "(e', rc') \<in> set es" for e' rc' v
    by (rule user_seeded_kept [OF that(1) k _ w(4) role]) (use that new in \<open>force simp: user_seeded_def\<close>)+
  ultimately show "staffing tid roles ((e, rc) # es) w'"
    using u role roles w(5) by (fastforce simp: staffing_def staffed_def)
  show "\<exists>us ls. view w' = (view w)\<lparr>t_users := us, t_user_roles := ls\<rparr>" by (rule d')
qed

abbreviation only_tenant :: "uuid \<Rightarrow> database \<Rightarrow> database \<Rightarrow> bool" where
  "only_tenant tid \<equiv> kept (\<lambda>q. tm_tenant_id q = tid) (\<lambda>r. tenant_id r = tid) (\<lambda>u. tenant_id u = tid)"

lemma tenant_model:
  "m_rows Tenant d = t_tenants d" "m_put Tenant rs d = d\<lparr>t_tenants := rs\<rparr>" "m_stored Tenant r = r" "m_id Tenant r = row_id r"
  "m_clash Tenant r s \<longleftrightarrow> slug r = slug s"
  by (simp_all add: Tenant_def)

definition find_tenant :: "'c env \<Rightarrow> string \<Rightarrow> string \<Rightarrow> ('c, tenant) io" where
  "find_tenant x s name = andthen (select_one Tenant (\<lambda>t. slug t = s))
     (\<lambda>found. case found of None \<Rightarrow> add_row x Tenant (new_tenant name s) | Some t \<Rightarrow> ret t)"

lemma find_or_add_tenant:
  assumes bp: "w_bypass w" and cons: "consistent Tenant (view w)"
    and run: "find_tenant x s name w = (Inr t, w')"
  shows "w_bypass w' \<and> consistent Tenant (view w') \<and> slug t = s \<and>
    (\<exists>ts. view w' = (view w)\<lparr>t_tenants := ts\<rparr> \<and> set (t_tenants (view w)) \<subseteq> set ts \<and> t \<in> set ts)"
proof -
  let ?p = "\<lambda>t. slug t = s"
  have found: "select_one Tenant ?p w = (Inr (first_row (filter ?p (t_tenants (view w)))), w)"
    using select_one_unique [OF bp cons, of ?p] by (simp add: tenant_model)
  show ?thesis
  proof (cases "first_row (filter ?p (t_tenants (view w)))")
    case None
    with run have "add_row x Tenant (new_tenant name s) w = (Inr t, w')" by (simp add: find_tenant_def andthen_Inr [of "select_one Tenant ?p", OF found])
    note new = tenant_rows.add_row_ok [OF this, unfolded tenant_model]
    show ?thesis using new(1,2) bp new(3,4) cons by (auto simp: new_tenant_def)
  next
    case (Some q)
    with run have "t = q" "w' = w" by (simp_all add: find_tenant_def andthen_Inr [of "select_one Tenant ?p", OF found] ret_apply)
    with first_row_SomeD' [OF Some] bp cons show ?thesis by (auto intro!: exI [of _ "t_tenants (view w)"])
  qed
qed

lemma accounts_steps:
  "''instructor@'' @ d \<notin> fst ` set [(''admin@'' @ d, TENANT_ADMIN)]"
  "''student@'' @ d \<notin> fst ` set [(''instructor@'' @ d, INSTRUCTOR), (''admin@'' @ d, TENANT_ADMIN)]"
  "''root@platform.com'' \<notin> fst ` set [(''student@'' @ d, STUDENT), (''instructor@'' @ d, INSTRUCTOR), (''admin@'' @ d, TENANT_ADMIN)]"
  by simp_all

text \<open>The accounts of one tenant, as \<open>seed_tenant\<close> makes them one after the other.\<close>

definition seed_staff :: "'c env \<Rightarrow> uuid \<Rightarrow> string \<Rightarrow> (role_name \<times> role) list \<Rightarrow> ('c, unit) io" where
  "seed_staff x tid s roles =
     (let domain = s @ ''.com'' in
     andthen (seed_user x tid (''admin@'' @ domain) ''Tenant Admin'' (role_for roles TENANT_ADMIN) ''Admin123!'' False) (\<lambda>_.
     andthen (seed_user x tid (''instructor@'' @ domain) ''Jane Instructor'' (role_for roles INSTRUCTOR) ''Teach123!'' False) (\<lambda>_.
     andthen (seed_user x tid (''student@'' @ domain) ''Sam Student'' (role_for roles STUDENT) ''Learn123!'' False) (\<lambda>_.
     if s = ''full-lms'' then
       andthen (seed_user x tid ''root@platform.com'' ''Platform Root'' (role_for roles SUPER_ADMIN) ''Root123!'' True) (\<lambda>_. ret ())
     else ret ()))))"

lemma seed_tenant_staff:
  "seed_tenant x s name modules perms =
     andthen (find_tenant x s name) (\<lambda>t.
     andthen (for_each modules (\<lambda>c. andthen (set_module x (row_id t) (code_value c) True) (\<lambda>_. ret ()))) (\<lambda>_.
     andthen (seed_roles x (row_id t) perms all_roles) (\<lambda>roles.
     andthen (seed_staff x (row_id t) s roles) (\<lambda>_. ret t))))"
  by (simp add: seed_tenant_def seed_staff_def find_tenant_def andthen_assoc Let_def)

lemma seed_staff_ok:
  assumes s: "staffing tid roles [] w" and run: "seed_staff x tid s roles w = (Inr v, w')"
  shows "staffing tid roles (accounts s) w' \<and>
    kept (\<lambda>_. False) (\<lambda>_. False) (\<lambda>u. tenant_id u = tid) (view w) (view w') \<and>
    (\<exists>us ls. view w' = (view w)\<lparr>t_users := us, t_user_roles := ls\<rparr>)"
proof -
  let ?d = "s @ ''.com''"
  from run obtain u1 u2 u3 w1 w2 w3
    where r1: "seed_user x tid (''admin@'' @ ?d) ''Tenant Admin'' (role_for roles TENANT_ADMIN) ''Admin123!'' False w = (Inr u1, w1)"
      and r2: "seed_user x tid (''instructor@'' @ ?d) ''Jane Instructor'' (role_for roles INSTRUCTOR) ''Teach123!'' False w1 = (Inr u2, w2)"
      and r3: "seed_user x tid (''student@'' @ ?d) ''Sam Student'' (role_for roles STUDENT) ''Learn123!'' False w2 = (Inr u3, w3)"
      and r4: "(if s = ''full-lms'' then
        andthen (seed_user x tid ''root@platform.com'' ''Platform Root'' (role_for roles SUPER_ADMIN) ''Root123!'' True) (\<lambda>_. ret ())
        else ret ()) w3 = (Inr v, w')"
    unfolding seed_staff_def Let_def by (elim andthen_InrE) blast
  note s1 = staff_step [OF s _ r1]
  note s2 = staff_step [OF s1(1) accounts_steps(1) r2]
  note s3 = staff_step [OF s2(1) accounts_steps(2) r3]
  have "staffing tid roles (accounts s) w' \<and> kept (\<lambda>_. False) (\<lambda>_. False) (\<lambda>u. tenant_id u = tid) (view w3) (view w') \<and>
    (\<exists>us ls. view w' = (view w3)\<lparr>t_users := us, t_user_roles := ls\<rparr>)"
  proof (cases "s = ''full-lms''")
    case True
    with r4 obtain u4 where "seed_user x tid ''root@platform.com'' ''Platform Root'' (role_for roles SUPER_ADMIN) ''Root123!'' True w3 = (Inr u4, w')"
      by (auto simp: ret_apply elim: andthen_InrE)
    from staff_step [OF s3(1) accounts_steps(3) this] show ?thesis using True by (simp add: accounts_def)
  next
    case False
    with r4 s3 show ?thesis
      by (auto simp: ret_apply accounts_def kept_refl intro!: exI [of _ "t_users (view w')"] exI [of _ "t_user_roles (view w')"])
  qed
  moreover have "kept (\<lambda>_. False) (\<lambda>_. False) (\<lambda>u. tenant_id u = tid) (view w) (view w3)"
    using kept_trans [OF kept_trans [OF s1(2) s2(2)] s3(2)] by simp
  moreover from s1(3) s2(3) s3(3) obtain us ls where "view w3 = (view w)\<lparr>t_users := us, t_user_roles := ls\<rparr>"
    by auto
  ultimately show ?thesis by (auto intro: kept_trans)
qed

lemma seed_tenant_ok:
  assumes bp: "w_bypass w" and keyed: "keyed (view w)" and dict: "dict_of perms (view w)"
    and run: "seed_tenant x s name modules perms w = (Inr t, w')"
  shows "w_bypass w' \<and> keyed (view w') \<and> dict_of perms (view w') \<and> tenant_seeded (view w') s modules t \<and>
    only_tenant (row_id t) (view w) (view w')"
proof -
  let ?tid = "row_id t"
  from run obtain w1 w2 w3 u roles
    where r1: "find_tenant x s name w = (Inr t, w1)"
      and r2: "for_each modules (\<lambda>c. andthen (set_module x ?tid (code_value c) True) (\<lambda>_. ret ())) w1 = (Inr u, w2)"
      and r3: "seed_roles x ?tid perms all_roles w2 = (Inr roles, w3)"
      and r4: "seed_staff x ?tid s roles w3 = (Inr (), w')"
    unfolding seed_tenant_staff by (elim andthen_InrE) (auto simp: ret_apply)
  have k: "consistent Tenant (view w)" "consistent TenantModule (view w)" "consistent Role (view w)"
    "consistent Permission (view w)" "consistent User (view w)" "consistent Module (view w)" "links_ok (view w)"
    using keyed by (simp_all add: keyed_def)
  from find_or_add_tenant [OF bp k(1) r1] obtain ts where w1: "w_bypass w1" "consistent Tenant (view w1)" "slug t = s"
    "view w1 = (view w)\<lparr>t_tenants := ts\<rparr>" "set (t_tenants (view w)) \<subseteq> set ts" "t \<in> set ts"
    by (elim exE conjE)
  have k1: "only_tenant ?tid (view w) (view w1)"
    using w1(5) by (simp add: kept_def w1(4) rows_kept_def links_kept_def)
  have "consistent TenantModule (view w1)" using k(2) by (simp add: w1(4) consistent_def licence_model)
  from seed_licences_ok [OF w1(1) this r2] obtain tms where w2: "w_bypass w2" "consistent TenantModule (view w2)"
    "\<forall>c \<in> set modules. licence_seeded (view w2) ?tid c" "view w2 = (view w1)\<lparr>t_tenant_modules := tms\<rparr>"
    and k2: "kept (\<lambda>q. tm_tenant_id q = ?tid) (\<lambda>_. False) (\<lambda>_. False) (view w1) (view w2)"
    by (elim exE conjE)
  have same2: "consistent Role (view w2)" "consistent Permission (view w2)" "dict_of perms (view w2)" "links_ok (view w2)"
    using k dict by (simp_all add: w2(4) w1(4) consistent_def role_model permission_model dict_of_def links_ok_def)
  have "distinct all_roles" by (simp add: all_roles_def)
  from seed_roles_ok [OF w2(1) same2 this r3] obtain rs ls where w3: "w_bypass w3" "consistent Role (view w3)"
    "links_ok (view w3)" "view w3 = (view w2)\<lparr>t_roles := rs, t_role_permissions := ls\<rparr>"
    "\<forall>rc \<in> set all_roles. \<exists>r. map_of roles rc = Some r \<and> role_seeded (view w3) ?tid rc r"
    and k3: "kept (\<lambda>_. False) (\<lambda>q. tenant_id q = ?tid \<and> role_code q \<in> role_value ` set all_roles) (\<lambda>_. False) (view w2) (view w3)"
    by (elim exE conjE)
  have "rc \<in> set all_roles" for rc by (cases rc) (simp_all add: all_roles_def)
  then have "staffing ?tid roles [] w3"
    using w3 k(5) by (simp add: staffing_def staffed_def w2(4) w1(4) consistent_def user_model)
  from seed_staff_ok [OF this r4] obtain us uls where w': "staffing ?tid roles (accounts s) w'"
    "view w' = (view w3)\<lparr>t_users := us, t_user_roles := uls\<rparr>"
    and k4: "kept (\<lambda>_. False) (\<lambda>_. False) (\<lambda>u. tenant_id u = ?tid) (view w3) (view w')"
    by (elim exE conjE)
  have "only_tenant ?tid (view w1) (view w2)" "only_tenant ?tid (view w2) (view w3)" "only_tenant ?tid (view w3) (view w')"
    by (rule kept_mono [OF k2] kept_mono [OF k3] kept_mono [OF k4]; simp)+
  then have "only_tenant ?tid (view w) (view w')" using k1 by (meson kept_trans)
  moreover have "licence_seeded (view w') ?tid c" if "c \<in> set modules" for c
    using licence_seeded_kept [OF licence_seeded_kept [OF _ k3] k4] w2(3) that by blast
  then have "tenant_seeded (view w') s modules t"
    using w'(1) w1(3,6) by (auto simp: tenant_seeded_def staffing_def w'(2) w3(4) w2(4) w1(4))
  moreover have "consistent M (view w')" if "m_rows M (view w') = m_rows M d" "consistent M d" for M :: "'r model" and d
    using that by (simp add: consistent_def)
  from this [of Tenant "view w1"] this [of TenantModule "view w2"] this [of Module "view w"] this [of Permission "view w"]
  have "keyed (view w')"
    using w'(1) k(4,6) w1(2) w2(2)
    by (simp add: keyed_def staffing_def w'(2) w3(4) w2(4) w1(4) tenant_model licence_model module_model permission_model)
  moreover have "dict_of perms (view w')" using dict by (simp add: dict_of_def w'(2) w3(4) w2(4) w1(4))
  ultimately show ?thesis using w'(1) by (simp add: staffing_def)
qed

section \<open>All tenants\<close>

lemma tenant_seeded_kept:
  assumes t: "tenant_seeded d s modules t" and k: "kept T R U d d'" and links: "links_ok d" and role: "consistent Role d'"
    and other: "\<And>q. T q \<Longrightarrow> tm_tenant_id q \<noteq> row_id t" "\<And>r. R r \<Longrightarrow> tenant_id r \<noteq> row_id t"
      "\<And>u. U u \<Longrightarrow> tenant_id u \<noteq> row_id t"
  shows "tenant_seeded d' s modules t"
proof -
  have "\<exists>r. role_seeded d' (row_id t) rc r" for rc
  proof -
    from t obtain r where r: "role_seeded d (row_id t) rc r" by (auto simp: tenant_seeded_def)
    then have "\<not> R r" using other(2) by (auto simp: role_seeded_def)
    from role_seeded_kept [OF r k this] show ?thesis by blast
  qed
  moreover have "staffed d' (row_id t) (accounts s)"
    unfolding staffed_def
  proof (rule ballI, clarify)
    fix e rc assume "(e, rc) \<in> set (accounts s)"
    then obtain u where u: "user_seeded d (row_id t) e rc u" using t by (auto simp: tenant_seeded_def staffed_def)
    then have "\<not> U u" using other(3) by (auto simp: user_seeded_def)
    from user_seeded_kept [OF u k this links role] other(2) show "\<exists>u. user_seeded d' (row_id t) e rc u" by blast
  qed
  moreover have "licence_seeded d' (row_id t) c" if "c \<in> set modules" for c
    using licence_seeded_kept [OF _ k] t that other(1) by (fastforce simp: tenant_seeded_def)
  ultimately show ?thesis using t k by (auto simp: tenant_seeded_def kept_def)
qed

lemma seed_tenants_ok:
  assumes "seed_tenants x perms rows w = (Inr ts, w')" and "distinct (map fst rows)"
    and "w_bypass w" and "keyed (view w)" and "dict_of perms (view w)"
  shows "w_bypass w' \<and> keyed (view w') \<and> list_all2 (\<lambda>t (s, name, modules). tenant_seeded (view w') s modules t) ts rows \<and>
    kept (\<lambda>q. tm_tenant_id q \<in> row_id ` set ts) (\<lambda>r. tenant_id r \<in> row_id ` set ts) (\<lambda>u. tenant_id u \<in> row_id ` set ts)
      (view w) (view w')"
  using assms
proof (induction rows arbitrary: w ts)
  case Nil
  then show ?case by (simp add: ret_apply kept_refl)
next
  case (Cons row rows)
  obtain s name modules where row: "row = (s, name, modules)" by (cases row)
  from Cons.prems(1) obtain t us w1 where one: "seed_tenant x s name modules perms w = (Inr t, w1)"
    and rest: "seed_tenants x perms rows w1 = (Inr us, w')" and ts: "ts = t # us"
    by (auto simp: row ret_apply elim!: andthen_InrE)
  from seed_tenant_ok [OF Cons.prems(3-5) one]
  have t: "w_bypass w1" "keyed (view w1)" "dict_of perms (view w1)" "tenant_seeded (view w1) s modules t"
    and k1: "only_tenant (row_id t) (view w) (view w1)"
    by blast+
  from Cons.IH [OF rest _ t(1-3)] Cons.prems(2)
  have ih: "w_bypass w'" "keyed (view w')" "list_all2 (\<lambda>t (s, name, modules). tenant_seeded (view w') s modules t) us rows"
    and k2: "kept (\<lambda>q. tm_tenant_id q \<in> row_id ` set us) (\<lambda>r. tenant_id r \<in> row_id ` set us)
      (\<lambda>u. tenant_id u \<in> row_id ` set us) (view w1) (view w')"
    by simp_all
  have fresh: "row_id t \<notin> row_id ` set us"
  proof
    assume "row_id t \<in> row_id ` set us"
    then obtain u where u: "u \<in> set us" "row_id u = row_id t" by auto
    then obtain i where i: "i < length us" "us ! i = u" by (auto simp: in_set_conv_nth)
    obtain s' name' modules' where r: "rows ! i = (s', name', modules')" by (cases "rows ! i")
    have "tenant_seeded (view w') s' modules' u" using list_all2_nthD [OF ih(3) i(1)] i(2) r by simp
    moreover have "(s', name', modules') \<in> set rows" using list_all2_lengthD [OF ih(3)] i(1) nth_mem [of i rows] r by simp
    ultimately have "u \<in> set (t_tenants (view w'))" "slug u \<noteq> s"
      using Cons.prems(2) by (force simp: tenant_seeded_def row)+
    moreover have "t \<in> set (t_tenants (view w'))" "slug t = s" using t(4) k2 by (auto simp: tenant_seeded_def kept_def)
    ultimately show False
      using unique_row [of Tenant "view w'" u t] ih(2) u(2) by (auto simp: keyed_def tenant_model)
  qed
  have "tenant_seeded (view w') s modules t"
    by (rule tenant_seeded_kept [OF t(4) k2]) (use fresh t(2) ih(2) in \<open>auto simp: keyed_def\<close>)
  moreover have "kept (\<lambda>q. tm_tenant_id q \<in> row_id ` set ts) (\<lambda>r. tenant_id r \<in> row_id ` set ts)
      (\<lambda>u. tenant_id u \<in> row_id ` set ts) (view w) (view w')"
    by (rule kept_trans [OF kept_mono [OF k1] kept_mono [OF k2]]) (auto simp: ts)
  ultimately show ?case using ih(1-3) by (simp add: ts row)
qed

section \<open>Content\<close>

definition only_content :: "database \<Rightarrow> database \<Rightarrow> bool" where
  "only_content d d' \<longleftrightarrow> t_modules d' = t_modules d \<and> t_permissions d' = t_permissions d \<and> t_tenants d' = t_tenants d \<and>
     t_tenant_modules d' = t_tenant_modules d \<and> t_roles d' = t_roles d \<and> t_role_permissions d' = t_role_permissions d \<and>
     t_users d' = t_users d \<and> t_user_roles d' = t_user_roles d \<and> set (t_courses d) \<subseteq> set (t_courses d')"

definition content_step :: "'c world \<Rightarrow> 'c world \<Rightarrow> bool" where
  "content_step w w' \<longleftrightarrow> w_bypass w' = w_bypass w \<and> only_content (view w) (view w')"

interpretation content_frame: frame content_step
  by unfold_locales (auto simp: content_step_def only_content_def)

lemma content_inserts:
  "keeps content_step (sql_insert Category r1)" "keeps content_step (sql_insert Course r2)"
  "keeps content_step (sql_insert CourseModule r3)" "keeps content_step (sql_insert Lesson r4)"
  "keeps content_step (sql_insert Assignment r5)" "keeps content_step (sql_insert Quiz r6)"
  "keeps content_step (sql_insert QuizQuestion r7)" "keeps content_step (sql_insert QuizAnswer r8)"
  by (auto simp: keeps_def content_step_def only_content_def sql_insert_def view_def Category_def Course_def
      CourseModule_def Lesson_def Assignment_def Quiz_def QuizQuestion_def QuizAnswer_def split: option.splits)

lemma content_draw: "keeps content_step (draw f)"
  by (simp add: keeps_def content_step_def only_content_def draw_def view_def)

lemma content_add_row:
  assumes "\<And>r. keeps content_step (sql_insert M r :: ('c, unit) io)"
  shows "keeps content_step (add_row (x :: 'c env) M mk)"
  unfolding add_row_def repo_add_def by (intro content_frame.keeps_rules content_draw assms)

lemmas content_rules = content_frame.keeps_rules content_draw content_add_row content_inserts

lemma content_quiz: "keeps content_step (seed_quiz x tid cid)"
  unfolding seed_quiz_def by (intro content_rules | simp add: case_prod_beta)+

lemma seed_content_ok:
  assumes bp: "w_bypass w" and run: "seed_content x t w = (Inr v, w')"
  shows "content_step w w' \<and> (\<exists>c \<in> set (t_courses (view w')). tenant_id c = row_id t)"
proof -
  have found: "select_rows Course (\<lambda>c. tenant_id c = row_id t) w = (Inr (filter (\<lambda>c. tenant_id c = row_id t) (t_courses (view w))), w)"
    using select_rows_run [OF bp, of Course] by (simp add: Course_def)
  show ?thesis
  proof (cases "filter (\<lambda>c. tenant_id c = row_id t) (t_courses (view w)) = []")
    case False
    with run found have "w' = w" by (simp add: seed_content_def andthen_def ret_def)
    then show ?thesis using False by (auto simp: content_frame.frame_refl filter_empty_conv)
  next
    case True
    with run obtain cat p c w1 w2 w3
      where r1: "add_row x Category (seed_category (row_id t)) w = (Inr cat, w1)"
        and r2: "draw (clock x) w1 = (Inr p, w2)"
        and r3: "add_row x Course (seed_course (row_id t) (row_id cat) p) w2 = (Inr c, w3)"
        and r4: "andthen (add_row x CourseModule (seed_section (row_id t) (row_id c))) (\<lambda>m.
          andthen (add_row x Lesson (seed_lesson (row_id t) (row_id c) (row_id m) ''Welcome'' TextLesson
            (Some ''Welcome to the course!'') 0 0 True)) (\<lambda>_.
          andthen (add_row x Lesson (seed_lesson (row_id t) (row_id c) (row_id m) ''Installing Python'' VideoLesson
            None 1 600 False)) (\<lambda>_.
          if slug t = ''full-lms'' then seed_quiz x (row_id t) (row_id c) else ret ()))) w3 = (Inr v, w')"
      unfolding seed_content_def using True by (simp add: andthen_Inr [of "select_rows Course _", OF found])
        (erule andthen_InrE, erule andthen_InrE, erule andthen_InrE, blast)
    have "content_step w w1" by (rule keepsD [OF content_add_row [OF content_inserts(1)] r1])
    moreover have "content_step w1 w2" by (rule keepsD [OF content_draw r2])
    moreover have "content_step w2 w3" by (rule keepsD [OF content_add_row [OF content_inserts(2)] r3])
    moreover have k: "content_step w3 w'"
      using r4 by (rule keepsD [rotated]) (intro content_rules content_quiz)
    moreover have "c \<in> set (t_courses (view w'))" "tenant_id c = row_id t"
      using course_rows.add_row_ok(1,2) [OF r3] k
      by (auto simp: content_step_def only_content_def Course_def seed_course_def)
    ultimately show ?thesis by (meson content_frame.frame_trans)
  qed
qed

lemma seed_contents_ok:
  assumes "for_each ts (seed_content x) w = (Inr v, w')" and "w_bypass w"
  shows "content_step w w' \<and> (\<forall>t \<in> set ts. \<exists>c \<in> set (t_courses (view w')). tenant_id c = row_id t)"
  using assms
proof (induction ts arbitrary: w)
  case Nil
  then show ?case by (simp add: ret_apply content_frame.frame_refl)
next
  case (Cons t ts)
  from Cons.prems(1) obtain u w1 where one: "seed_content x t w = (Inr u, w1)"
    and rest: "for_each ts (seed_content x) w1 = (Inr v, w')"
    by (auto elim: andthen_InrE)
  note first = seed_content_ok [OF Cons.prems(2) one]
  then have "w_bypass w1" using Cons.prems(2) by (simp add: content_step_def)
  note ih = Cons.IH [OF rest this]
  from first ih have "\<exists>c \<in> set (t_courses (view w')). tenant_id c = row_id t"
    by (auto simp: content_step_def only_content_def)
  then show ?case using first ih content_frame.frame_trans [of w w1 w'] by simp
qed

section \<open>The whole script\<close>

definition seeded :: "database \<Rightarrow> bool" where
  "seeded d \<longleftrightarrow> (\<forall>c. \<exists>m \<in> set (t_modules d). mod_code m = code_value c) \<and>
     (\<forall>c \<in> set ALL_CODES. \<exists>p \<in> set (t_permissions d). perm_code p = c) \<and>
     (\<forall>(s, name, modules) \<in> set TENANTS. \<exists>t. tenant_seeded d s modules t \<and> (\<exists>c \<in> set (t_courses d). tenant_id c = row_id t))"

text \<open>The tenants of the script, and what is the same for another tenant.\<close>

definition seed_ids :: "database \<Rightarrow> uuid set" where
  "seed_ids d = row_id ` {t \<in> set (t_tenants d). slug t \<in> fst ` set TENANTS}"

definition spared :: "database \<Rightarrow> database \<Rightarrow> uuid \<Rightarrow> bool" where
  "spared d d' tid \<longleftrightarrow>
     {q \<in> set (t_tenant_modules d'). tm_tenant_id q = tid} = {q \<in> set (t_tenant_modules d). tm_tenant_id q = tid} \<and>
     {r \<in> set (t_roles d'). tenant_id r = tid} = {r \<in> set (t_roles d). tenant_id r = tid} \<and>
     {u \<in> set (t_users d'). tenant_id u = tid} = {u \<in> set (t_users d). tenant_id u = tid} \<and>
     (\<forall>r \<in> set (t_roles d). tenant_id r = tid \<longrightarrow>
        (\<forall>p. (row_id r, p) \<in> set (t_role_permissions d') \<longleftrightarrow> (row_id r, p) \<in> set (t_role_permissions d))) \<and>
     (\<forall>u \<in> set (t_users d). tenant_id u = tid \<longrightarrow>
        (\<forall>r. (row_id u, r) \<in> set (t_user_roles d') \<longleftrightarrow> (row_id u, r) \<in> set (t_user_roles d)))"

lemma kept_spared:
  assumes k: "kept (\<lambda>q. tm_tenant_id q \<in> S) (\<lambda>r. tenant_id r \<in> S) (\<lambda>u. tenant_id u \<in> S) d d'" and "tid \<notin> S"
  shows "spared d d' tid"
proof -
  have sub: "{q \<in> A. tm_tenant_id q = tid} = {q \<in> {q \<in> A. tm_tenant_id q \<notin> S}. tm_tenant_id q = tid}" for A
    using assms(2) by auto
  have licences: "{q \<in> set (t_tenant_modules d'). tm_tenant_id q \<notin> S} = {q \<in> set (t_tenant_modules d). tm_tenant_id q \<notin> S}"
    using k by (simp add: kept_def)
  have "{q \<in> set (t_tenant_modules d'). tm_tenant_id q = tid} = {q \<in> set (t_tenant_modules d). tm_tenant_id q = tid}"
    by (subst (1 2) sub) (simp only: licences)
  then show ?thesis using k assms(2) by (auto simp: spared_def kept_def rows_kept_def links_kept_def)
qed

lemma content_seeded:
  assumes "only_content d d'"
  shows "keyed d' \<longleftrightarrow> keyed d" and "tenant_seeded d' s modules t \<longleftrightarrow> tenant_seeded d s modules t"
    and "spared e d' tid \<longleftrightarrow> spared e d tid" and "seed_ids d' = seed_ids d"
  using assms
  by (simp_all add: only_content_def keyed_def consistent_def module_model permission_model tenant_model licence_model
      role_model user_model Module_def Permission_def links_ok_def tenant_seeded_def licence_seeded_def role_seeded_def
      staffed_def user_seeded_def spared_def seed_ids_def cong: conj_cong)

lemma TENANTS_distinct: "distinct (map fst TENANTS)"
  by (simp add: TENANTS_def)

lemma seed_body_ok:
  assumes bp: "w_bypass w" and keyed: "keyed (view w)" and run: "seed_body x w = (Inr v, w')"
  shows "keyed (view w') \<and> seeded (view w') \<and> (\<forall>tid. tid \<notin> seed_ids (view w') \<longrightarrow> spared (view w) (view w') tid)"
proof -
  from run obtain u perms ts w1 w2 w3 where r1: "seed_modules x w = (Inr u, w1)" and r2: "seed_permissions x w1 = (Inr perms, w2)"
    and r3: "seed_tenants x perms TENANTS w2 = (Inr ts, w3)" and r4: "for_each ts (seed_content x) w3 = (Inr v, w')"
    unfolding seed_body_def by (elim andthen_InrE) blast
  have k: "consistent Module (view w)" "consistent Permission (view w)" using keyed by (simp_all add: keyed_def)
  from seed_modules_ok [OF bp k(1) r1] obtain ms where w1: "w_bypass w1" "consistent Module (view w1)"
    "view w1 = (view w)\<lparr>t_modules := ms\<rparr>" "\<forall>c. \<exists>m \<in> set ms. mod_code m = code_value c" by (elim exE conjE)
  have "consistent Permission (view w1)" using k(2) by (simp add: w1(3) consistent_def permission_model)
  from seed_permissions_ok [OF w1(1) this r2] obtain ps where w2: "w_bypass w2" "consistent Permission (view w2)"
    "dict_of perms (view w2)" "view w2 = (view w1)\<lparr>t_permissions := ps\<rparr>" "\<forall>c \<in> set ALL_CODES. \<exists>p \<in> set ps. perm_code p = c"
    by (elim exE conjE)
  have "keyed (view w2)"
    using keyed w1(2) w2(2)
    by (simp add: keyed_def w2(4) w1(3) consistent_def tenant_model licence_model role_model user_model module_model
        permission_model links_ok_def)
  from seed_tenants_ok [OF r3 TENANTS_distinct w2(1) this w2(3)] have w3: "w_bypass w3" "keyed (view w3)"
    "list_all2 (\<lambda>t (s, name, modules). tenant_seeded (view w3) s modules t) ts TENANTS"
    and k3: "kept (\<lambda>q. tm_tenant_id q \<in> row_id ` set ts) (\<lambda>r. tenant_id r \<in> row_id ` set ts) (\<lambda>u. tenant_id u \<in> row_id ` set ts)
      (view w2) (view w3)"
    by blast+
  from seed_contents_ok [OF r4 w3(1)] have w': "only_content (view w3) (view w')"
    "\<forall>t \<in> set ts. \<exists>c \<in> set (t_courses (view w')). tenant_id c = row_id t"
    by (simp_all add: content_step_def)
  note same = content_seeded [OF w'(1)]
  have "\<exists>t \<in> set ts. tenant_seeded (view w3) s modules t" if row: "(s, name, modules) \<in> set TENANTS" for s name modules
  proof -
    from row obtain i where i: "i < length TENANTS" "TENANTS ! i = (s, name, modules)" by (metis in_set_conv_nth)
    from list_all2_nthD2 [OF w3(3) i(1)] i(2) list_all2_lengthD [OF w3(3)] i(1) show ?thesis by auto
  qed
  then have "\<forall>(s, name, modules) \<in> set TENANTS.
      \<exists>t. tenant_seeded (view w') s modules t \<and> (\<exists>c \<in> set (t_courses (view w')). tenant_id c = row_id t)"
    unfolding same(2) using w'(2) by blast
  moreover have "t_modules (view w') = ms" "t_permissions (view w') = ps"
    using w'(1) k3 by (simp_all add: only_content_def kept_def w2(4) w1(3))
  ultimately have "seeded (view w')" using w1(4) w2(5) by (simp add: seeded_def)
  moreover have "row_id t \<in> seed_ids (view w3)" if t: "t \<in> set ts" for t
  proof -
    from t obtain i where i: "i < length ts" "ts ! i = t" by (auto simp: in_set_conv_nth)
    have "TENANTS ! i \<in> set TENANTS" using list_all2_lengthD [OF w3(3)] i(1) by simp
    moreover have "t \<in> set (t_tenants (view w3)) \<and> slug t = fst (TENANTS ! i)"
      using list_all2_nthD [OF w3(3) i(1)] i(2) by (auto simp: tenant_seeded_def split: prod.splits)
    ultimately show ?thesis by (auto simp: seed_ids_def)
  qed
  then have "spared (view w2) (view w3) tid" if "tid \<notin> seed_ids (view w3)" for tid
    using that by (intro kept_spared [OF k3]) auto
  then have "spared (view w) (view w') tid" if "tid \<notin> seed_ids (view w')" for tid
    using that unfolding same(3,4) by (simp add: spared_def w2(4) w1(3))
  ultimately show ?thesis using w3(2) same(1) by blast
qed

lemma seed_main_body:
  "seed_main x w = (Inr v, w') \<Longrightarrow>
     \<exists>w1. seed_body x (opened x None True w) = (Inr v, w1) \<and> w_committed w' = view w1"
  by (auto simp: seed_main_def tenant_session_def transaction_eq Let_def split: prod.splits sum.splits)

end
