(* ===== verification/Reseeding.thy ===== *)
theory Reseeding
  imports Seeded
begin

text \<open>
  The fixed point of the seed script. \<open>settles P m w\<close> says that \<open>m\<close> returns a value of \<open>P\<close> and leaves the tables as
  they are, but for the time stamps of licences; each operation of the script settles on a seeded database.
\<close>

section \<open>Settling\<close>

definition unstamp :: "tenant_module \<Rightarrow> tenant_module" where
  "unstamp q = q\<lparr>tm_enabled_at := None\<rparr>"

definition unstamped :: "database \<Rightarrow> database" where
  "unstamped d = d\<lparr>t_tenant_modules := map unstamp (t_tenant_modules d)\<rparr>"

definition stamps :: "'c world \<Rightarrow> 'c world \<Rightarrow> bool" where
  "stamps w w' \<longleftrightarrow> w_bypass w' = w_bypass w \<and> unstamped (view w') = unstamped (view w)"

definition settles :: "('a \<Rightarrow> bool) \<Rightarrow> ('c, 'a) io \<Rightarrow> 'c world \<Rightarrow> bool" where
  "settles P m w \<longleftrightarrow> (\<exists>v w'. m w = (Inr v, w') \<and> P v \<and> stamps w w')"

interpretation stamps_frame: frame stamps
  by unfold_locales (auto simp: stamps_def)

lemma settlesI: "m w = (Inr v, w') \<Longrightarrow> P v \<Longrightarrow> stamps w w' \<Longrightarrow> settles P m w"
  by (auto simp: settles_def)

lemma settles_ret: "P v \<Longrightarrow> settles P (ret v) w"
  by (auto simp: settles_def ret_apply stamps_frame.frame_refl)

lemma settles_andthen:
  assumes "settles P m w" and "\<And>v w'. P v \<Longrightarrow> stamps w w' \<Longrightarrow> settles Q (f v) w'"
  shows "settles Q (andthen m f) w"
proof -
  from assms(1) obtain v w1 where m: "m w = (Inr v, w1)" "P v" "stamps w w1" by (auto simp: settles_def)
  from assms(2) [OF m(2,3)] obtain u w2 where "f v w1 = (Inr u, w2)" "Q u" "stamps w1 w2" by (auto simp: settles_def)
  then show ?thesis using m stamps_frame.frame_trans by (intro settlesI [of _ _ u w2]) (auto simp: andthen_Inr)
qed

lemma settles_for_each:
  assumes "\<And>x w'. x \<in> set xs \<Longrightarrow> stamps w w' \<Longrightarrow> settles (\<lambda>_. True) (f x) w'"
  shows "settles (\<lambda>_. True) (for_each xs f) w"
  using assms
proof (induction xs arbitrary: w)
  case Nil
  then show ?case by (simp add: settles_ret)
next
  case (Cons x xs)
  have "settles (\<lambda>_. True) (f x) w" by (rule Cons.prems) (simp_all add: stamps_frame.frame_refl)
  then show ?case
    unfolding for_each.simps
  proof (rule settles_andthen)
    fix v w1 assume w1: "stamps w w1"
    show "settles (\<lambda>_. True) (for_each xs f) w1"
      using Cons.IH Cons.prems stamps_frame.frame_trans [OF w1] by simp
  qed
qed

section \<open>What the stamps do not touch\<close>

lemma unstamped_sel [simp]:
  "t_modules (unstamped d) = t_modules d" "t_permissions (unstamped d) = t_permissions d"
  "t_tenants (unstamped d) = t_tenants d" "t_roles (unstamped d) = t_roles d" "t_users (unstamped d) = t_users d"
  "t_role_permissions (unstamped d) = t_role_permissions d" "t_user_roles (unstamped d) = t_user_roles d"
  "t_courses (unstamped d) = t_courses d" "t_tenant_modules (unstamped d) = map unstamp (t_tenant_modules d)"
  by (simp_all add: unstamped_def)

lemma unstamp_sel [simp]:
  "row_id (unstamp q) = row_id q" "grant_key (unstamp q) = grant_key q" "tm_enabled (unstamp q) = tm_enabled q"
  "tm_tenant_id (unstamp q) = tm_tenant_id q" "tm_module_id (unstamp q) = tm_module_id q"
  by (simp_all add: unstamp_def grant_key_def)

lemma unstamped_rules:
  "keyed (unstamped d) \<longleftrightarrow> keyed d" "seeded (unstamped d) \<longleftrightarrow> seeded d"
  "tenant_seeded (unstamped d) s modules t \<longleftrightarrow> tenant_seeded d s modules t"
  "dict_of perms (unstamped d) \<longleftrightarrow> dict_of perms d" "role_seeded (unstamped d) tid rc r \<longleftrightarrow> role_seeded d tid rc r"
  "user_seeded (unstamped d) tid e rc u \<longleftrightarrow> user_seeded d tid e rc u"
  "licence_seeded (unstamped d) tid c \<longleftrightarrow> licence_seeded d tid c"
proof -
  show lic: "licence_seeded (unstamped d) tid c \<longleftrightarrow> licence_seeded d tid c" for tid c by (simp add: licence_seeded_def)
  show role: "role_seeded (unstamped d) tid rc r \<longleftrightarrow> role_seeded d tid rc r" for tid rc r by (simp add: role_seeded_def)
  show user: "user_seeded (unstamped d) tid e rc u \<longleftrightarrow> user_seeded d tid e rc u" for tid e rc u by (simp add: user_seeded_def)
  show tenant: "tenant_seeded (unstamped d) s modules t \<longleftrightarrow> tenant_seeded d s modules t" for s modules t
    by (simp add: tenant_seeded_def lic role user staffed_def)
  show "seeded (unstamped d) \<longleftrightarrow> seeded d" by (simp add: seeded_def tenant)
  show "dict_of perms (unstamped d) \<longleftrightarrow> dict_of perms d" by (simp add: dict_of_def)
  show "keyed (unstamped d) \<longleftrightarrow> keyed d"
    by (simp add: keyed_def consistent_def module_model permission_model tenant_model licence_model role_model
        user_model Module_def Permission_def links_ok_def sorted_wrt_map)
qed

definition calm :: "'c world \<Rightarrow> bool" where
  "calm w \<longleftrightarrow> w_bypass w \<and> keyed (view w) \<and> seeded (view w)"

lemma stamps_tables:
  assumes "stamps w w'"
  shows "w_bypass w' = w_bypass w" and "t_modules (view w') = t_modules (view w)"
    and "t_permissions (view w') = t_permissions (view w)" and "t_tenants (view w') = t_tenants (view w)"
    and "t_courses (view w') = t_courses (view w)"
  using assms unstamped_sel [of "view w"] unstamped_sel [of "view w'"] unfolding stamps_def by metis+

lemma stamps_rules:
  assumes "stamps w w'"
  shows "calm w' \<longleftrightarrow> calm w" "dict_of perms (view w') \<longleftrightarrow> dict_of perms (view w)"
    "tenant_seeded (view w') s modules t \<longleftrightarrow> tenant_seeded (view w) s modules t"
    "role_seeded (view w') tid rc r \<longleftrightarrow> role_seeded (view w) tid rc r"
    "user_seeded (view w') tid e rc u \<longleftrightarrow> user_seeded (view w) tid e rc u"
    "licence_seeded (view w') tid c \<longleftrightarrow> licence_seeded (view w) tid c"
  using assms unstamped_rules [where d = "view w"] unstamped_rules [where d = "view w'"] unfolding stamps_def calm_def by metis+

lemma same_stamps: "view w' = view w \<Longrightarrow> w_bypass w' = w_bypass w \<Longrightarrow> stamps w w'"
  by (simp add: stamps_def)

section \<open>Each operation settles\<close>

lemma again_modules: "calm w \<Longrightarrow> settles (\<lambda>_. True) (seed_modules x) w"
proof -
  assume w: "calm w"
  let ?go = "\<lambda>c. if code_value c \<notin> set (map mod_code (t_modules (view w)))
      then andthen (add_row x Module (new_module c)) (\<lambda>_. ret ()) else ret ()"
  have "code_value c \<in> set (map mod_code (t_modules (view w)))" for c
  proof -
    from w obtain m where "m \<in> set (t_modules (view w))" "mod_code m = code_value c"
      by (simp add: calm_def seeded_def) blast
    then show ?thesis by force
  qed
  then have "settles (\<lambda>_. True) (for_each all_module_codes ?go) w"
    by (intro settles_for_each) (simp add: settles_ret)
  moreover have "seed_modules x w = for_each all_module_codes ?go w"
    using w select_rows_run [of w Module] by (simp add: seed_modules_def andthen_def module_model calm_def)
  ultimately show ?thesis by (simp add: settles_def)
qed

lemma add_permissions_known: "fst ` set ps \<subseteq> fst ` set existing \<Longrightarrow> add_permissions x ps existing = ret existing"
  by (induction ps) (simp, force)

lemma again_permissions: "calm w \<Longrightarrow> settles (\<lambda>perms. dict_of perms (view w)) (seed_permissions x) w"
proof -
  assume w: "calm w"
  let ?dict = "map (\<lambda>p. (perm_code p, p)) (t_permissions (view w))"
  have "c \<in> perm_code ` set (t_permissions (view w))" if "c \<in> set ALL_CODES" for c
  proof -
    from w that obtain p where "p \<in> set (t_permissions (view w))" "perm_code p = c" by (auto simp: calm_def seeded_def)
    then show ?thesis by blast
  qed
  then have "add_permissions x ALL_PERMISSIONS ?dict = ret ?dict"
    by (intro add_permissions_known) (auto simp: ALL_CODES_def image_image)
  then have "seed_permissions x w = (Inr ?dict, w)"
    using w select_rows_run [of w Permission] by (simp add: seed_permissions_def andthen_def permission_model calm_def ret_apply)
  then show ?thesis
    using w dict_of_rows [of "view w"] by (intro settlesI [where w' = w and v = ?dict]) (simp_all add: calm_def keyed_def stamps_frame.frame_refl)
qed

lemma first_row_only:
  assumes "x \<in> set xs" and "p x" and only: "\<And>y. y \<in> set xs \<Longrightarrow> p y \<Longrightarrow> y = x"
  shows "first_row (filter p xs) = Some x"
proof (cases "first_row (filter p xs)")
  case None
  from first_row_NoneD [OF this assms(1)] assms(2) show ?thesis by simp
next
  case (Some y)
  have "y = x" using first_row_SomeD' [OF Some] by (intro only) simp_all
  then show ?thesis using Some by simp
qed

lemma again_role:
  assumes w: "calm w" and dict: "dict_of perms (view w)" and r: "role_seeded (view w) tid rc r"
  shows "settles (\<lambda>q. q = r) (seed_role x tid perms rc) w"
proof -
  let ?d = "view w"
  let ?p = "\<lambda>r. tenant_id r = tid \<and> role_code r = role_value rc"
  define granted where "granted = map (\<lambda>c. the (map_of perms c)) (filter (\<lambda>c. c \<in> fst ` set perms) (ROLE_MATRIX rc))"
  have bp: "w_bypass w" and cons: "consistent Role ?d" using w by (simp_all add: calm_def keyed_def)
  have "set granted = set (permissions_of w r)"
    using granted_rows [OF dict, of "ROLE_MATRIX rc"] r by (auto simp: granted_def permissions_of_def role_seeded_def)
  then obtain w' where set: "set_permissions r (permissions_of w r) granted w = (Inr (), w')"
    and w': "view w' = view w" "w_bypass w' = w_bypass w"
    using set_permissions_same [of granted "permissions_of w r" r w] by auto
  have "first_row (filter ?p (t_roles ?d)) = Some r"
    using r role_rows.consistent_clash [OF cons] by (intro first_row_only) (auto simp: role_seeded_def role_model)
  then have "select_one Role ?p w = (Inr (Some r), w)"
    using select_one_unique [OF bp cons, of ?p] by (simp add: role_model)
  then have "seed_role x tid perms rc w = (Inr r, w')"
    using set unfolding seed_role_def Let_def granted_def [symmetric]
    by (simp add: andthen_Inr [of "select_one Role ?p"] andthen_Inr [of "set_permissions _ _ _"] act_simps)
  then show ?thesis by (rule settlesI) (simp_all add: same_stamps w')
qed

lemma again_roles:
  assumes "calm w" and "dict_of perms (view w)" and "\<forall>rc. \<exists>r. role_seeded (view w) tid rc r"
  shows "settles (\<lambda>roles. \<forall>rc \<in> set rcs. \<exists>r. map_of roles rc = Some r \<and> role_seeded (view w) tid rc r)
    (seed_roles x tid perms rcs) w"
  using assms
proof (induction rcs arbitrary: w)
  case Nil
  then show ?case by (simp add: settles_ret)
next
  case (Cons rc rcs)
  from Cons.prems(3) obtain r where r: "role_seeded (view w) tid rc r" by blast
  show ?case
    unfolding seed_roles.simps
  proof (rule settles_andthen [OF again_role [OF Cons.prems(1,2) r]])
    fix q w1 assume q: "q = r" and w1: "stamps w w1"
    note same = stamps_rules [OF w1]
    have "settles (\<lambda>roles. \<forall>rc \<in> set rcs. \<exists>r. map_of roles rc = Some r \<and> role_seeded (view w1) tid rc r)
        (seed_roles x tid perms rcs) w1"
      using Cons.prems by (intro Cons.IH) (simp_all add: same)
    then show "settles (\<lambda>roles. \<forall>rc \<in> set (rc # rcs). \<exists>r. map_of roles rc = Some r \<and> role_seeded (view w) tid rc r)
        (andthen (seed_roles x tid perms rcs) (\<lambda>rs. ret ((rc, q) # rs))) w1"
      by (rule settles_andthen) (use r in \<open>auto simp: q same intro!: settles_ret\<close>)
  qed
qed

lemma again_user:
  assumes w: "calm w" and u: "user_seeded (view w) tid e rc u" and r: "role_seeded (view w) tid rc r"
  shows "settles (\<lambda>_. True) (seed_user x tid e name [r] password super) w"
proof -
  let ?d = "view w"
  let ?p = "\<lambda>u. tenant_id u = tid \<and> email u = e"
  have bp: "w_bypass w" and cons: "consistent Role ?d" "consistent User ?d" using w by (simp_all add: calm_def keyed_def)
  have "q = r" if "q \<in> set (t_roles ?d)" "tenant_id q = tid" "role_code q = role_value rc" for q
    using role_rows.consistent_clash [OF cons(1), of q r] that r by (simp add: role_model role_seeded_def)
  then have "set (roles_of w u) = {r}"
    using u r by (auto simp: roles_of_def bypass_visible [OF bp] user_seeded_def role_seeded_def)
  then obtain w' where set: "set_roles u (roles_of w u) [r] w = (Inr (), w')"
    and w': "view w' = view w" "w_bypass w' = w_bypass w"
    using set_roles_same [of "[r]" "roles_of w u" u w] by auto
  have only: "v = u" if "v \<in> set (t_users ?d)" "?p v" for v
    using user_rows.consistent_clash [OF cons(2), of v u] that u by (simp add: user_model user_seeded_def)
  have "first_row (filter ?p (t_users ?d)) = Some u"
    by (rule first_row_only) (use u only in \<open>auto simp: user_seeded_def\<close>)
  then have "select_one User ?p w = (Inr (Some u), w)"
    using select_one_unique [OF bp cons(2), of ?p] by (simp add: user_model)
  then have "seed_user x tid e name [r] password super w = (Inr u, w')"
    using set unfolding seed_user_def
    by (simp add: andthen_Inr [of "select_one User ?p"] andthen_Inr [of "set_roles _ _ _"] act_simps)
  then show ?thesis by (rule settlesI) (simp_all add: same_stamps w')
qed

lemma unstamp_enabled: "tm_enabled q \<Longrightarrow> unstamp (set_enabled True now q) = unstamp q"
  by (simp add: unstamp_def set_enabled_def)

text \<open>The licence of a module that the tenant has a row for is renewed.\<close>

lemma module_found:
  assumes "consistent Module d" and m: "m \<in> set (t_modules d)" "mod_code m = code"
  shows "scalar_one_or_none (filter (\<lambda>m. mod_code m = code) (t_modules d)) = Inr (Some m)"
proof -
  let ?P = "\<lambda>m. mod_code m = code"
  have only: "n = m" if "n \<in> set (t_modules d)" "?P n" for n
    using module_rows.consistent_clash [OF assms(1), of n m] that m by (simp add: Module_def)
  have "first_row (filter ?P (t_modules d)) = Some m" by (rule first_row_only) (use m only in blast)+
  then show ?thesis using consistent_unique [OF assms(1), of ?P] by (simp add: Module_def)
qed

lemma renew_licence:
  assumes cons: "consistent Module (view w)" "consistent TenantModule (view w)"
    and m: "m \<in> set (t_modules (view w))" "mod_code m = code"
    and q: "q \<in> set (t_tenant_modules (view w))" "tm_tenant_id q = tid" "tm_module_id q = row_id m"
    and t: "tenant_exists (view w) tid"
  shows "\<exists>w'. set_module x tid code True w = (Inr (set_enabled True (clock x (w_draw w)) q), w') \<and>
    view w' = (view w)\<lparr>t_tenant_modules := map (\<lambda>r. if row_id r = row_id q then set_enabled True (clock x (w_draw w)) r else r)
      (t_tenant_modules (view w))\<rparr> \<and> w_bypass w' = w_bypass w \<and> w_draw w \<le> w_draw w' \<and> w_draw w' \<le> w_draw w + 2"
proof -
  let ?d = "view w"
  let ?w = "w\<lparr>w_draw := Suc (w_draw w)\<rparr>"
  let ?f = "set_enabled True (clock x (w_draw w))"
  let ?Q = "\<lambda>r. tm_tenant_id r = tid \<and> tm_module_id r = row_id m"
  have only_q: "r = q" if "r \<in> set (t_tenant_modules ?d)" "?Q r" for r
    using tenant_module_rows.consistent_clash [OF cons(2), of r q] that q by (simp add: licence_model)
  have "first_row (filter ?Q (t_tenant_modules ?d)) = Some q"
    by (rule first_row_only) (use q only_q in blast)+
  then have row: "scalar_one_or_none (filter ?Q (t_tenant_modules ?d)) = Inr (Some q)"
    using consistent_unique [OF cons(2), of ?Q] by (simp add: licence_model)
  have "distinct (map row_id (t_tenant_modules ?d))"
    using tenant_module_rows.consistent_distinct [OF cons(2)] by (simp add: TenantModule_def)
  from distinct_map_filter_single [OF this q(1), of "\<lambda>r. row_id r = row_id q"]
  have old: "filter (\<lambda>r. row_id r = row_id q) (t_tenant_modules ?d) = [q]" by simp
  have visible: "row_visible TenantModule v r" for v :: "'a world" and r by (simp add: row_visible_def TenantModule_def)
  have clash: "\<not> list_ex (\<lambda>s. row_id s \<noteq> row_id q \<and> m_clash TenantModule (?f q) s) (t_tenant_modules ?d)"
    using only_q q(2,3) by (auto simp: list_ex_iff licence_model set_enabled_def)
  have refs: "m_fits TenantModule (?f q)" "m_refs TenantModule ?d (?f q)"
    using t m(1) q(2,3) by (auto simp: TenantModule_def set_enabled_def module_exists_def list_ex_iff)
  have "update_error TenantModule (row_id q) ?f ?w = None"
    using old clash refs by (simp add: update_error_def Let_def licence_model visible)
  then obtain v where upd: "sql_update TenantModule (row_id q) ?f ?w = (Inr (), v)"
    and v: "view v = ?d\<lparr>t_tenant_modules := map (\<lambda>r. if row_id r = row_id q then ?f r else r) (t_tenant_modules ?d)\<rparr>"
      "w_bypass v = w_bypass w" "w_draw v = Suc (w_draw w)"
    by (simp add: sql_update_def view_def update_rows_def licence_model visible)
  obtain w' where inv: "invalidate x tid v = (Inr (), w')" and w': "view w' = view v" "w_bypass w' = w_bypass v"
    "w_draw v \<le> w_draw w'" "w_draw w' \<le> Suc (w_draw v)"
    by (auto simp: invalidate_run view_def split: option.splits)
  have "set_module x tid code True w = (Inr (?f q), w')"
    using inv by (simp add: set_module_def andthen_repo_find module_found [OF cons(1) m] row act_simps upd andthen_assoc
        andthen_Inr [of "sql_update _ _ _"] andthen_Inr [of "invalidate _ _"])
  then show ?thesis using v w' by auto
qed

lemma again_licence:
  assumes w: "calm w" and lic: "licence_seeded (view w) tid c" and t: "tenant_exists (view w) tid"
  shows "settles (\<lambda>_. True) (set_module x tid (code_value c) True) w"
proof -
  have cons: "consistent Module (view w)" "consistent TenantModule (view w)" using w by (simp_all add: calm_def keyed_def)
  from lic obtain m q where m: "m \<in> set (t_modules (view w))" "mod_code m = code_value c"
    and q: "q \<in> set (t_tenant_modules (view w))" "tm_tenant_id q = tid" "tm_module_id q = row_id m" "tm_enabled q"
    by (auto simp: licence_seeded_def grant_key_def)
  have "tm_enabled r" if "r \<in> set (t_tenant_modules (view w))" "row_id r = row_id q" for r
    using unique_row [OF cons(2), of r q] that q(1,4) by (simp add: licence_model)
  then show ?thesis
    using renew_licence [OF cons m q(1-3) t, of x]
    by (auto simp: settles_def stamps_def unstamped_def unstamp_enabled)
qed

text \<open>\<open>settled_from w m\<close>: \<open>m\<close> settles from \<open>w\<close> on.\<close>

definition settled_from :: "'c world \<Rightarrow> ('c, 'a) io \<Rightarrow> bool" where
  "settled_from w m \<longleftrightarrow> (\<forall>w'. stamps w w' \<longrightarrow> settles (\<lambda>_. True) m w')"

lemma settledD: "settled_from w m \<Longrightarrow> settles (\<lambda>_. True) m w"
  by (simp add: settled_from_def stamps_frame.frame_refl)

lemma settled_ret: "settled_from w (ret v)"
  by (simp add: settled_from_def settles_ret)

lemma settled_andthen: "settled_from w m \<Longrightarrow> settled_from w n \<Longrightarrow> settled_from w (andthen m (\<lambda>_. n))"
  unfolding settled_from_def by (blast intro: settles_andthen stamps_frame.frame_trans)

lemma again_staff:
  assumes w: "calm w" and staff: "staffed (view w) tid (accounts s)"
    and roles: "\<forall>rc. \<exists>r. map_of roles rc = Some r \<and> role_seeded (view w) tid rc r"
  shows "settles (\<lambda>_. True) (seed_staff x tid s roles) w"
proof -
  have user: "settled_from w (seed_user x tid e name (role_for roles rc) password super)"
    if "(e, rc) \<in> set (accounts s)" for e name rc password super
    unfolding settled_from_def
  proof (intro allI impI)
    fix w' assume "stamps w w'"
    note same = stamps_rules [OF this]
    from staff that(1) obtain u where "user_seeded (view w) tid e rc u" by (auto simp: staffed_def)
    moreover from roles obtain r where "map_of roles rc = Some r" "role_seeded (view w) tid rc r" by blast
    ultimately show "settles (\<lambda>_. True) (seed_user x tid e name (role_for roles rc) password super) w'"
      using again_user [of w' tid e rc u r] w by (simp add: same role_for_def)
  qed
  have "settled_from w (seed_staff x tid s roles)"
    unfolding seed_staff_def Let_def
    by (intro settled_andthen user) (simp_all add: accounts_def settled_andthen settled_ret user)
  then show ?thesis by (rule settledD)
qed

lemma again_found:
  assumes w: "calm w" and t: "t \<in> set (t_tenants (view w))" "slug t = s"
  shows "settles (\<lambda>t'. t' = t) (find_tenant x s name) w"
proof -
  let ?p = "\<lambda>t. slug t = s"
  have bp: "w_bypass w" and cons: "consistent Tenant (view w)" using w by (simp_all add: calm_def keyed_def)
  have only: "v = t" if "v \<in> set (t_tenants (view w))" "?p v" for v
    using tenant_rows.consistent_clash [OF cons, of v t] that t by (simp add: tenant_model)
  have "first_row (filter ?p (t_tenants (view w))) = Some t"
    by (rule first_row_only) (use t only in blast)+
  then have "select_one Tenant ?p w = (Inr (Some t), w)"
    using select_one_unique [OF bp cons, of ?p] by (simp add: tenant_model)
  then show ?thesis
    by (intro settlesI [where v = t and w' = w])
      (simp_all add: find_tenant_def andthen_Inr [of "select_one Tenant ?p"] ret_apply stamps_frame.frame_refl)
qed

lemma again_licences:
  assumes w: "calm w" and t: "tenant_seeded (view w) s modules t"
  shows "settles (\<lambda>_. True) (for_each modules (\<lambda>c. andthen (set_module x (row_id t) (code_value c) True) (\<lambda>_. ret ()))) w"
proof (rule settles_for_each)
  fix c w' assume c: "c \<in> set modules" and w': "stamps w w'"
  note same = stamps_rules [OF w'] stamps_tables [OF w']
  have "settles (\<lambda>_. True) (set_module x (row_id t) (code_value c) True) w'"
    using w t c by (intro again_licence) (auto simp: same tenant_seeded_def tenant_exists_def list_ex_iff)
  then show "settles (\<lambda>_. True) (andthen (set_module x (row_id t) (code_value c) True) (\<lambda>_. ret ())) w'"
    by (rule settles_andthen) (simp add: settles_ret)
qed

lemma again_tenant:
  assumes w: "calm w" and dict: "dict_of perms (view w)" and t: "tenant_seeded (view w) s modules t"
  shows "settles (\<lambda>t'. t' = t) (seed_tenant x s name modules perms) w"
proof -
  have find: "settles (\<lambda>t'. t' = t) (find_tenant x s name) w"
    by (rule again_found [OF w]) (use t in \<open>simp_all add: tenant_seeded_def\<close>)
  show ?thesis
    unfolding seed_tenant_staff
  proof (rule settles_andthen [OF find], goal_cases)
    case (1 t' w1)
    note same1 = stamps_rules [OF 1(2)]
    have "settles (\<lambda>_. True) (for_each modules (\<lambda>c. andthen (set_module x (row_id t) (code_value c) True) (\<lambda>_. ret ()))) w1"
      using w t by (intro again_licences) (simp_all add: same1)
    then show ?case
      unfolding 1(1)
    proof (rule settles_andthen, goal_cases)
      case (1 v w2)
      have "stamps w w2" by (rule stamps_frame.frame_trans [OF \<open>stamps w w1\<close> 1(2)])
      note same2 = stamps_rules [OF this]
      have "settles (\<lambda>roles. \<forall>rc \<in> set all_roles. \<exists>r. map_of roles rc = Some r \<and> role_seeded (view w2) (row_id t) rc r)
          (seed_roles x (row_id t) perms all_roles) w2"
        using w dict t by (intro again_roles) (simp_all add: same2 tenant_seeded_def)
      then show ?case
      proof (rule settles_andthen, goal_cases)
        case (1 roles w3)
        note same3 = stamps_rules [OF 1(2)]
        have all: "rc \<in> set all_roles" for rc by (cases rc) (simp_all add: all_roles_def)
        have "tenant_seeded (view w3) s modules t" using t by (simp add: same2 same3)
        then have "staffed (view w3) (row_id t) (accounts s)" by (simp add: tenant_seeded_def)
        then have "settles (\<lambda>_. True) (seed_staff x (row_id t) s roles) w3"
          using w 1(1) all by (intro again_staff) (simp_all add: same2 same3)
        then show ?case by (rule settles_andthen) (simp add: settles_ret)
      qed
    qed
  qed
qed

lemma again_tenants:
  assumes "calm w" and "dict_of perms (view w)"
    and "\<forall>(s, name, modules) \<in> set rows. \<exists>t. tenant_seeded (view w) s modules t \<and>
      (\<exists>c \<in> set (t_courses (view w)). tenant_id c = row_id t)"
  shows "settles (\<lambda>ts. \<forall>t \<in> set ts. \<exists>c \<in> set (t_courses (view w)). tenant_id c = row_id t) (seed_tenants x perms rows) w"
  using assms
proof (induction rows arbitrary: w)
  case Nil
  then show ?case by (simp add: settles_ret)
next
  case (Cons row rows)
  obtain s name modules where row: "row = (s, name, modules)" by (cases row)
  with Cons.prems(3) obtain t where t: "tenant_seeded (view w) s modules t"
    "\<exists>c \<in> set (t_courses (view w)). tenant_id c = row_id t" by auto
  show ?case
    unfolding row seed_tenants.simps
  proof (rule settles_andthen [OF again_tenant [OF Cons.prems(1,2) t(1)]])
    fix u w1 assume u: "u = t" and w1: "stamps w w1"
    note same = stamps_rules [OF w1] stamps_tables [OF w1]
    have "settles (\<lambda>ts. \<forall>t \<in> set ts. \<exists>c \<in> set (t_courses (view w1)). tenant_id c = row_id t) (seed_tenants x perms rows) w1"
      using Cons.prems by (intro Cons.IH) (simp_all add: same)
    then show "settles (\<lambda>ts. \<forall>t \<in> set ts. \<exists>c \<in> set (t_courses (view w)). tenant_id c = row_id t)
        (andthen (seed_tenants x perms rows) (\<lambda>ts. ret (u # ts))) w1"
      by (rule settles_andthen) (use t(2) in \<open>auto simp: u same intro!: settles_ret\<close>)
  qed
qed

lemma again_content:
  assumes "w_bypass w" and "\<exists>c \<in> set (t_courses (view w)). tenant_id c = row_id t"
  shows "settles (\<lambda>_. True) (seed_content x t) w"
proof -
  have "filter (\<lambda>c. tenant_id c = row_id t) (t_courses (view w)) \<noteq> []"
    using assms(2) by (auto simp: filter_empty_conv)
  then have "seed_content x t w = (Inr (), w)"
    using select_rows_run [OF assms(1), of Course] by (simp add: seed_content_def andthen_def Course_def ret_apply)
  then show ?thesis by (rule settlesI) (simp_all add: stamps_frame.frame_refl)
qed

lemma again_body:
  assumes w: "calm w"
  shows "settles (\<lambda>_. True) (seed_body x) w"
  unfolding seed_body_def
proof (rule settles_andthen [OF again_modules [OF w]], goal_cases)
  case (1 v w1)
  then have c1: "calm w1" using w by (simp add: stamps_rules)
  show ?case
  proof (rule settles_andthen [OF again_permissions [OF c1]], goal_cases)
    case (1 perms w2)
    note same2 = stamps_rules [OF 1(2)]
    have c2: "calm w2" using c1 by (simp add: same2)
    then have "settles (\<lambda>ts. \<forall>t \<in> set ts. \<exists>c \<in> set (t_courses (view w2)). tenant_id c = row_id t)
        (seed_tenants x perms TENANTS) w2"
      using 1(1) by (intro again_tenants) (simp_all add: same2 calm_def seeded_def)
    then show ?case
    proof (rule settles_andthen, goal_cases)
      case (1 ts w3)
      show ?case
      proof (rule settles_for_each)
        fix t w4 assume t: "t \<in> set ts" and "stamps w3 w4"
        then have "stamps w2 w4" using 1(2) by (blast intro: stamps_frame.frame_trans)
        from stamps_tables [OF this] show "settles (\<lambda>_. True) (seed_content x t) w4"
          using 1(1) t c2 by (intro again_content) (simp_all add: calm_def)
      qed
    qed
  qed
qed

lemma again_main:
  assumes "enable_row_level_security (w_settings w)" and "keyed (w_committed w)" and "seeded (w_committed w)"
  shows "\<exists>w'. seed_main x w = (Inr (), w') \<and> unstamped (w_committed w') = unstamped (w_committed w)"
proof -
  have "view (opened x None True w) = w_committed w" by (simp add: view_def opened_def)
  moreover have "calm (opened x None True w)" using assms by (simp add: calm_def opened_def view_def)
  from again_body [OF this, of x] obtain w1 where "seed_body x (opened x None True w) = (Inr (), w1)"
    "unstamped (view w1) = unstamped (view (opened x None True w))"
    by (auto simp: settles_def stamps_def)
  ultimately show ?thesis by (simp add: seed_main_def tenant_session_def transaction_eq)
qed

end
