(* ===== verification/Returning.thy ===== *)
theory Returning
  imports Reseeding
begin

text \<open>
  The seed script comes to its end. \<open>goes\<close> bounds what an operation draws from the environment and says where the
  identifiers it leaves behind come from, so that the identifiers still to be drawn stay unused; each operation of the
  script goes. With what a run leaves behind (Seeded) and the fixed point (Reseeding) this gives the properties of the
  script at the end.
\<close>

section \<open>Identifiers\<close>

text \<open>What a new key must differ from.\<close>

definition used :: "database \<Rightarrow> uuid set" where
  "used d = row_id ` set (t_tenants d) \<union> row_id ` set (t_modules d) \<union> row_id ` set (t_tenant_modules d) \<union>
     row_id ` set (t_permissions d) \<union> row_id ` set (t_roles d) \<union> row_id ` set (t_users d) \<union>
     row_id ` set (t_categories d) \<union> row_id ` set (t_courses d) \<union> row_id ` set (t_course_modules d) \<union>
     row_id ` set (t_lessons d) \<union> row_id ` set (t_assignments d) \<union> row_id ` set (t_quizzes d) \<union>
     row_id ` set (t_quiz_questions d) \<union> row_id ` set (t_quiz_answers d) \<union> quiz_assignment_id ` set (t_quizzes d)"

text \<open>The next \<open>n\<close> keys are new and differ from one another.\<close>

definition allotted :: "'c env \<Rightarrow> nat \<Rightarrow> 'c world \<Rightarrow> bool" where
  "allotted x n w \<longleftrightarrow> inj_on (uuid4 x) {w_draw w..<w_draw w + n} \<and>
     uuid4 x ` {w_draw w..<w_draw w + n} \<inter> used (view w) = {}"

definition drawn :: "'c env \<Rightarrow> nat \<Rightarrow> uuid set \<Rightarrow> 'c world \<Rightarrow> 'c world \<Rightarrow> bool" where
  "drawn x n S w w' \<longleftrightarrow> w_draw w \<le> w_draw w' \<and> w_draw w' \<le> w_draw w + n \<and> w_bypass w' = w_bypass w \<and>
     used (view w') \<subseteq> used (view w) \<union> uuid4 x ` {w_draw w..<w_draw w'} \<and>
     (\<forall>c \<in> set (t_categories (view w')). c \<in> set (t_categories (view w)) \<or> tenant_id c \<in> S)"

definition goes :: "'c env \<Rightarrow> nat \<Rightarrow> uuid set \<Rightarrow> ('c, 'a) io \<Rightarrow> 'c world \<Rightarrow> bool" where
  "goes x n S m w \<longleftrightarrow> (\<exists>v w'. m w = (Inr v, w') \<and> drawn x n S w w')"

lemma drawn_refl: "drawn x n S w w"
  by (simp add: drawn_def)

lemma drawn_trans:
  assumes "drawn x m S w w1" and "drawn x n S w1 w2"
  shows "drawn x (m + n) S w w2"
proof -
  have "uuid4 x ` {w_draw w..<w_draw w1} \<union> uuid4 x ` {w_draw w1..<w_draw w2} = uuid4 x ` {w_draw w..<w_draw w2}"
    using assms by (simp add: drawn_def ivl_disj_un flip: image_Un)
  then show ?thesis using assms unfolding drawn_def by (elim conjE, intro conjI) (linarith, linarith, simp, blast, blast)
qed

lemma drawn_mono: "drawn x m S w w' \<Longrightarrow> m \<le> n \<Longrightarrow> S \<subseteq> T \<Longrightarrow> drawn x n T w w'"
  by (auto simp: drawn_def)

lemma drawn_allotted:
  assumes "drawn x m S w w'" and "allotted x (m + n) w"
  shows "allotted x n w'"
proof -
  let ?I = "{w_draw w..<w_draw w + (m + n)}" and ?J = "{w_draw w'..<w_draw w' + n}"
  have sub: "?J \<subseteq> ?I" "{w_draw w..<w_draw w'} \<subseteq> ?I" using assms(1) by (auto simp: drawn_def)
  have inj: "inj_on (uuid4 x) ?I" using assms(2) by (simp add: allotted_def)
  have "uuid4 x ` ?J \<inter> uuid4 x ` {w_draw w..<w_draw w'} = uuid4 x ` (?J \<inter> {w_draw w..<w_draw w'})"
    using inj_on_image_Int [OF inj sub] by simp
  also have "\<dots> = {}" by auto
  finally have "uuid4 x ` ?J \<inter> used (view w') = {}"
    using assms sub(1) unfolding drawn_def allotted_def by blast
  then show ?thesis using inj_on_subset [OF inj sub(1)] by (simp add: allotted_def)
qed

lemma allotted_less: "allotted x m w \<Longrightarrow> n \<le> m \<Longrightarrow> allotted x n w"
  using drawn_allotted [OF drawn_refl, of x "m - n" n w] by simp

lemma allotted_new:
  assumes "allotted x n w" and "k < n"
  shows "uuid4 x (w_draw w + k) \<notin> used (view w)"
proof -
  have "w_draw w + k \<in> {w_draw w..<w_draw w + n}" using assms(2) by simp
  then show ?thesis using assms(1) unfolding allotted_def by blast
qed

lemma goes_ret: "goes x n S (ret v) w"
  by (auto simp: goes_def ret_apply drawn_refl)

lemma goes_andthen:
  assumes "goes x m S a w" and "\<And>v w'. a w = (Inr v, w') \<Longrightarrow> drawn x m S w w' \<Longrightarrow> goes x n S (f v) w'"
  shows "goes x (m + n) S (andthen a f) w"
proof -
  from assms(1) obtain v w1 where a: "a w = (Inr v, w1)" "drawn x m S w w1" by (auto simp: goes_def)
  from assms(2) [OF this] obtain u w2 where "f v w1 = (Inr u, w2)" "drawn x n S w1 w2" by (auto simp: goes_def)
  then show ?thesis using a drawn_trans [OF a(2)] by (auto simp: goes_def andthen_Inr [of a])
qed

lemma goes_return: "goes x n S a w \<Longrightarrow> goes x n S (andthen a (\<lambda>v. ret (f v))) w"
  by (fastforce simp: goes_def andthen_eq_Inr ret_apply)

lemma goes_mono: "goes x m S a w \<Longrightarrow> m \<le> n \<Longrightarrow> S \<subseteq> T \<Longrightarrow> goes x n T a w"
  using drawn_mono by (fastforce simp: goes_def)

text \<open>A loop whose iterations keep an invariant.\<close>

lemma goes_for_each:
  assumes "P w" and "allotted x (n * length cs) w"
    and "\<And>c w. c \<in> set cs \<Longrightarrow> P w \<Longrightarrow> allotted x n w \<Longrightarrow> goes x n S (f c) w"
    and "\<And>c w w'. c \<in> set cs \<Longrightarrow> P w \<Longrightarrow> f c w = (Inr (), w') \<Longrightarrow> P w'"
  shows "goes x (n * length cs) S (for_each cs f) w"
  using assms
proof (induction cs arbitrary: w)
  case Nil
  then show ?case by (simp add: goes_ret)
next
  case (Cons c cs)
  have "goes x (n + n * length cs) S (andthen (f c) (\<lambda>_. for_each cs f)) w"
  proof (rule goes_andthen)
    show "goes x n S (f c) w"
      using Cons.prems(1,2) allotted_less [of x "n * length (c # cs)" w n] by (intro Cons.prems(3)) auto
    fix v w1 assume one: "f c w = (Inr v, w1)" and d: "drawn x n S w w1"
    show "goes x (n * length cs) S (for_each cs f) w1"
    proof (rule Cons.IH)
      show "P w1" using Cons.prems(4) [of c w w1] Cons.prems(1) one by simp
      show "allotted x (n * length cs) w1" using drawn_allotted [OF d] Cons.prems(2) by simp
      show "goes x n S (f d) v" if "d \<in> set cs" "P v" "allotted x n v" for d v
        using Cons.prems(3) [of d v] that by simp
      show "P v'" if "d \<in> set cs" "P v" "f d v = (Inr (), v')" for d v v'
        using Cons.prems(4) [of d v v'] that by simp
    qed
  qed
  then show ?case by simp
qed

context table
begin

lemma goes_add_row:
  assumes "w_bypass w" and "allotted x 1 w" and "\<And>i now. m_id M (mk i now) = i"
    and "\<And>i now. m_fits M (mk i now)" and "\<And>i now. m_refs M (view w) (mk i now)"
    and "\<And>i now s. s \<in> set (m_rows M (view w)) \<Longrightarrow> i \<notin> used (view w) \<Longrightarrow> \<not> m_clash M (mk i now) s"
    and "m_id M ` set (m_rows M (view w)) \<subseteq> used (view w)"
    and "\<And>i now. used (m_put M (m_rows M (view w) @ [m_stored M (mk i now)]) (view w)) \<subseteq> insert i (used (view w))"
    and "\<And>i now c. c \<in> set (t_categories (m_put M (m_rows M (view w) @ [m_stored M (mk i now)]) (view w))) \<Longrightarrow>
      c \<in> set (t_categories (view w)) \<or> tenant_id c \<in> S"
  shows "goes x 1 S (add_row x M mk) w"
proof -
  let ?i = "uuid4 x (w_draw w)"
  let ?w = "w\<lparr>w_draw := Suc (w_draw w)\<rparr>"
  have new: "?i \<notin> used (view w)" using assms(2) by (auto simp: allotted_def)
  have "insert_error M (mk ?i (w_now w)) ?w = None"
    using assms new by (auto simp: insert_error_def bypass_visible list_ex_iff)
  then obtain w' where "sql_insert M (mk ?i (w_now w)) ?w = (Inr (), w')" and w': "w' = ?w\<lparr>w_delta :=
      (\<lambda>d. m_put M (m_rows M d @ [m_stored M (mk ?i (w_now w))]) d) \<circ> w_delta ?w\<rparr>"
    by (simp add: sql_insert_def)
  then have "add_row x M mk w = (Inr (mk ?i (w_now w)), w')"
    by (simp add: add_row_def repo_add_def act_simps andthen_Inr [of "sql_insert _ _"])
  moreover have "drawn x 1 S w w'"
    using assms(8,9) by (auto simp: drawn_def w' view_def)
  ultimately show ?thesis by (auto simp: goes_def)
qed

end

section \<open>The catalogs\<close>

lemma goes_add_modules:
  assumes "w_bypass w" and "allotted x (length cs) w" and "distinct cs"
    and "\<forall>c \<in> set cs. code_value c \<notin> set (map mod_code existing) \<longrightarrow> code_value c \<notin> mod_code ` set (t_modules (view w))"
  shows "goes x (length cs) {} (for_each cs (\<lambda>c. if code_value c \<notin> set (map mod_code existing)
      then andthen (add_row x Module (new_module c)) (\<lambda>_. ret ()) else ret ())) w"
  using assms
proof (induction cs arbitrary: w)
  case Nil
  then show ?case by (simp add: goes_ret)
next
  case (Cons c cs)
  let ?go = "\<lambda>c. if code_value c \<notin> set (map mod_code existing)
      then andthen (add_row x Module (new_module c)) (\<lambda>_. ret ()) else ret ()"
  show ?case
  proof (cases "code_value c \<in> set (map mod_code existing)")
    case True
    have "goes x (length cs) {} (for_each cs ?go) w"
      using Cons.prems allotted_less [of x "length (c # cs)" w "length cs"] by (intro Cons.IH) auto
    then show ?thesis using True goes_mono [of x "length cs" "{}" _ w "Suc (length cs)"] by (simp add: andthen_ret)
  next
    case False
    then have absent: "code_value c \<notin> mod_code ` set (t_modules (view w))" using Cons.prems(4) by simp
    have "goes x 1 {} (add_row x Module (new_module c)) w"
    proof (rule module_rows.goes_add_row)
      show "m_fits Module (new_module c i now)" for i now
        by (cases c) (simp_all add: Module_def new_module_def width_def)
      show "\<not> m_clash Module (new_module c i now) s" if "s \<in> set (m_rows Module (view w))" for i now s
        using absent that by (auto simp: Module_def new_module_def)
    qed (use Cons.prems(1,2) allotted_less [of x "length (c # cs)" w 1] in \<open>auto simp: Module_def new_module_def used_def\<close>)
    then have "goes x (1 + length cs) {} (andthen (add_row x Module (new_module c)) (\<lambda>_. for_each cs ?go)) w"
    proof (rule goes_andthen)
      fix m w1 assume add: "add_row x Module (new_module c) w = (Inr m, w1)" and d: "drawn x 1 {} w w1"
      note new = module_rows.add_row_ok [OF add, unfolded module_model]
      have "mod_code m = code_value c" using new(1) by (auto simp: new_module_def)
      then show "goes x (length cs) {} (for_each cs ?go) w1"
        using Cons.prems drawn_allotted [OF d, of "length cs"] new(2,3)
        by (intro Cons.IH) (auto simp: code_value_inject)
    qed
    then show ?thesis using False by (simp add: andthen_assoc andthen_ret)
  qed
qed

lemma goes_modules:
  assumes "w_bypass w" and "allotted x 6 w"
  shows "goes x 6 {} (seed_modules x) w"
proof -
  have "length all_module_codes = 6" "distinct all_module_codes" by (simp_all add: all_module_codes_def)
  moreover have "select_rows Module (\<lambda>_. True) w = (Inr (t_modules (view w)), w)"
    using select_rows_run [OF assms(1), of Module] by (simp add: module_model)
  ultimately show ?thesis
    using goes_add_modules [of w x all_module_codes "t_modules (view w)"] assms
    by (simp add: seed_modules_def goes_def andthen_Inr)
qed

lemma goes_add_permissions:
  assumes "w_bypass w" and "allotted x (length ps) w" and "dict_of existing (view w)"
    and "\<forall>(c, desc) \<in> set ps. length c \<le> 100 \<and> length desc \<le> 255"
  shows "goes x (length ps) {} (add_permissions x ps existing) w"
  using assms
proof (induction ps arbitrary: w existing)
  case Nil
  then show ?case by (simp add: goes_ret)
next
  case (Cons cd ps)
  obtain c desc where cd: "cd = (c, desc)" by fastforce
  show ?case
  proof (cases "c \<in> fst ` set existing")
    case True
    have "goes x (length ps) {} (add_permissions x ps existing) w"
      using Cons.prems allotted_less [of x "length (cd # ps)" w "length ps"] by (intro Cons.IH) auto
    then show ?thesis using True goes_mono [of x "length ps" "{}" _ w "Suc (length ps)"] by (simp add: cd)
  next
    case False
    then have "map_of existing c = None" by (simp add: map_of_eq_None_iff)
    then have absent: "perm_code s \<noteq> c" if "s \<in> set (t_permissions (view w))" for s
      using Cons.prems(3) that unfolding dict_of_def by (metis option.distinct(1))
    have "goes x 1 {} (add_row x Permission (new_permission c desc)) w"
    proof (rule permission_rows.goes_add_row)
      show "\<not> m_clash Permission (new_permission c desc i now) s" if "s \<in> set (m_rows Permission (view w))" for i now s
        using absent that by (auto simp: permission_model new_permission_def)
    qed (use Cons.prems(1,2,4) allotted_less [of x "length (cd # ps)" w 1] in
        \<open>auto simp: Permission_def new_permission_def used_def cd width_def\<close>)
    then have "goes x (1 + length ps) {} (andthen (add_row x Permission (new_permission c desc))
        (\<lambda>p. add_permissions x ps ((c, p) # existing))) w"
    proof (rule goes_andthen)
      fix p w1 assume add: "add_row x Permission (new_permission c desc) w = (Inr p, w1)" and d: "drawn x 1 {} w w1"
      have "w_bypass w1" using d Cons.prems(1) by (simp add: drawn_def)
      then show "goes x (length ps) {} (add_permissions x ps ((c, p) # existing)) w1"
        using Cons.prems(2,4) drawn_allotted [OF d, of "length ps"] add_permission_dict [OF Cons.prems(3) False add]
        by (intro Cons.IH) auto
    qed
    then show ?thesis using False by (simp add: cd)
  qed
qed

lemma goes_permissions:
  assumes "w_bypass w" and "allotted x 28 w" and "consistent Permission (view w)"
  shows "goes x 28 {} (seed_permissions x) w"
proof -
  have "length ALL_PERMISSIONS = 28" "\<forall>(c, desc) \<in> set ALL_PERMISSIONS. length c \<le> 100 \<and> length desc \<le> 255"
    by (simp_all add: ALL_PERMISSIONS_def AUTH_PERMS_def COURSE_PERMS_def LEARN_PERMS_def ASSIGN_PERMS_def ADMIN_PERMS_def)
  moreover have "select_rows Permission (\<lambda>_. True) w = (Inr (t_permissions (view w)), w)"
    using select_rows_run [OF assms(1), of Permission] by (simp add: permission_model)
  ultimately show ?thesis
    using goes_add_permissions [of w x ALL_PERMISSIONS, OF _ _ dict_of_rows [OF assms(3)]] assms
    by (simp add: seed_permissions_def goes_def andthen_Inr)
qed

section \<open>Licences\<close>

lemma goes_licence:
  assumes cons: "consistent Module (view w)" "consistent TenantModule (view w)"
    and m: "\<exists>m \<in> set (t_modules (view w)). mod_code m = code" and t: "tenant_exists (view w) tid" and a: "allotted x 3 w"
  shows "goes x 3 {} (set_module x tid code True) w"
proof -
  from m obtain m where m: "m \<in> set (t_modules (view w))" "mod_code m = code" by blast
  let ?Q = "\<lambda>r. tm_tenant_id r = tid \<and> tm_module_id r = row_id m"
  show ?thesis
  proof (cases "\<exists>q \<in> set (t_tenant_modules (view w)). ?Q q")
    case True
    then obtain q where q: "q \<in> set (t_tenant_modules (view w))" "tm_tenant_id q = tid" "tm_module_id q = row_id m" by blast
    define rows where "rows = map (\<lambda>r. if row_id r = row_id q then set_enabled True (clock x (w_draw w)) r else r)
      (t_tenant_modules (view w))"
    have keep: "row_id (if b then set_enabled True n r else r) = row_id r" for b n r by (simp add: set_enabled_def)
    have ids: "row_id ` set rows = row_id ` set (t_tenant_modules (view w))"
      unfolding rows_def set_map image_image keep ..
    obtain w' where run: "set_module x tid code True w = (Inr (set_enabled True (clock x (w_draw w)) q), w')"
      and w': "view w' = (view w)\<lparr>t_tenant_modules := rows\<rparr>"
      and "w_bypass w' = w_bypass w" "w_draw w \<le> w_draw w'" "w_draw w' \<le> w_draw w + 2"
      using renew_licence [OF cons m q t, of x, folded rows_def] by blast
    moreover have "used (view w') = used (view w)" by (simp add: w' used_def ids)
    ultimately have "drawn x 3 {} w w'" by (simp add: drawn_def w')
    then show ?thesis using run by (auto simp: goes_def)
  next
    case False
    let ?i = "uuid4 x (Suc (w_draw w))"
    let ?w = "w\<lparr>w_draw := Suc (Suc (w_draw w))\<rparr>"
    let ?r = "\<lparr>row_id = ?i, created_at = w_now w, tm_tenant_id = tid, tm_module_id = row_id m, tm_enabled = True,
      tm_enabled_at = Some (clock x (w_draw w)), tm_expires_at = None\<rparr>"
    have none: "filter ?Q (t_tenant_modules (view w)) = []" using False by (auto simp: filter_empty_conv)
    have "?i \<notin> used (view w)" using allotted_new [OF a, of 1] by simp
    then have "row_id s \<noteq> ?i" if "s \<in> set (t_tenant_modules (view w))" for s
    proof -
      have "row_id s \<in> used (view w)" using that by (simp add: used_def)
      then show ?thesis using \<open>?i \<notin> used (view w)\<close> by metis
    qed
    then have "insert_error TenantModule ?r ?w = None"
      using False t m(1)
      by (auto simp: insert_error_def TenantModule_def row_visible_def list_ex_iff module_exists_def)
    then obtain v where ins: "sql_insert TenantModule ?r ?w = (Inr (), v)"
      and v: "view v = (view w)\<lparr>t_tenant_modules := t_tenant_modules (view w) @ [?r]\<rparr>" "w_bypass v = w_bypass w"
        "w_draw v = Suc (Suc (w_draw w))"
      by (simp add: sql_insert_def view_def licence_model)
    obtain w' where inv: "invalidate x tid v = (Inr (), w')" and w': "view w' = view v" "w_bypass w' = w_bypass v"
      "w_draw v \<le> w_draw w'" "w_draw w' \<le> Suc (w_draw v)"
      by (auto simp: invalidate_run view_def split: option.splits)
    have "set_module x tid code True w = (Inr ?r, w')"
      using inv ins by (simp add: set_module_def andthen_repo_find module_found [OF cons(1) m] none act_simps repo_add_def
          andthen_assoc andthen_Inr [of "sql_insert _ _"] andthen_Inr [of "invalidate _ _"])
    moreover have "drawn x 3 {} w w'"
      using v w' by (auto simp: drawn_def used_def)
    ultimately show ?thesis by (auto simp: goes_def)
  qed
qed

section \<open>Roles and users\<close>

lemma goes_role_links:
  assumes "k \<in> row_id ` set (t_roles (view w))" and "set ps \<subseteq> set (t_permissions (view w))" and "distinct (map row_id ps)"
    and "\<forall>p \<in> set ps. (k, row_id p) \<notin> set (t_role_permissions (view w))"
  shows "goes x 0 S (for_each ps (\<lambda>p. add_role_permission k (row_id p))) w"
  using assms
proof (induction ps arbitrary: w)
  case Nil
  then show ?case by (simp add: goes_ret)
next
  case (Cons p ps)
  let ?w = "w\<lparr>w_delta := (\<lambda>d. d\<lparr>t_role_permissions := t_role_permissions d @ [(k, row_id p)]\<rparr>) \<circ> w_delta w\<rparr>"
  have view: "view ?w = (view w)\<lparr>t_role_permissions := t_role_permissions (view w) @ [(k, row_id p)]\<rparr>"
    by (simp add: view_def)
  have "add_role_permission k (row_id p) w = (Inr (), ?w)"
    using Cons.prems by (force simp: add_role_permission_def act_simps list_ex_iff)
  moreover have "drawn x 0 S w ?w" by (simp add: drawn_def view used_def)
  ultimately have "goes x 0 S (add_role_permission k (row_id p)) w" by (auto simp: goes_def)
  moreover have "goes x 0 S (for_each ps (\<lambda>p. add_role_permission k (row_id p))) ?w"
  proof (rule Cons.IH)
    have "row_id q \<noteq> row_id p" if "q \<in> set ps" for q
    proof -
      have "row_id q \<in> row_id ` set ps" using that by simp
      then show ?thesis using Cons.prems(3) by auto
    qed
    then show "\<forall>q \<in> set ps. (k, row_id q) \<notin> set (t_role_permissions (view ?w))"
      using Cons.prems(4) by (simp add: view)
  qed (use Cons.prems in \<open>simp_all add: view\<close>)
  ultimately show ?case
    using goes_andthen [of x 0 S "add_role_permission k (row_id p)" w 0]
      \<open>add_role_permission k (row_id p) w = (Inr (), ?w)\<close> by simp
qed

lemma goes_user_links:
  assumes "k \<in> row_id ` set (t_users (view w))" and "set rs \<subseteq> set (t_roles (view w))" and "distinct (map row_id rs)"
    and "\<forall>r \<in> set rs. (k, row_id r) \<notin> set (t_user_roles (view w))"
  shows "goes x 0 S (for_each rs (\<lambda>r. add_user_role k (row_id r))) w"
  using assms
proof (induction rs arbitrary: w)
  case Nil
  then show ?case by (simp add: goes_ret)
next
  case (Cons r rs)
  let ?w = "w\<lparr>w_delta := (\<lambda>d. d\<lparr>t_user_roles := t_user_roles d @ [(k, row_id r)]\<rparr>) \<circ> w_delta w\<rparr>"
  have view: "view ?w = (view w)\<lparr>t_user_roles := t_user_roles (view w) @ [(k, row_id r)]\<rparr>"
    by (simp add: view_def)
  have "add_user_role k (row_id r) w = (Inr (), ?w)"
    using Cons.prems by (force simp: add_user_role_def act_simps list_ex_iff user_exists_def)
  moreover have "drawn x 0 S w ?w" by (simp add: drawn_def view used_def)
  ultimately have "goes x 0 S (add_user_role k (row_id r)) w" by (auto simp: goes_def)
  moreover have "goes x 0 S (for_each rs (\<lambda>r. add_user_role k (row_id r))) ?w"
  proof (rule Cons.IH)
    have "row_id q \<noteq> row_id r" if "q \<in> set rs" for q
    proof -
      have "row_id q \<in> row_id ` set rs" using that by simp
      then show ?thesis using Cons.prems(3) by auto
    qed
    then show "\<forall>q \<in> set rs. (k, row_id q) \<notin> set (t_user_roles (view ?w))"
      using Cons.prems(4) by (simp add: view)
  qed (use Cons.prems in \<open>simp_all add: view\<close>)
  ultimately show ?case
    using goes_andthen [of x 0 S "add_user_role k (row_id r)" w 0]
      \<open>add_user_role k (row_id r) w = (Inr (), ?w)\<close> by simp
qed

text \<open>The assignment of a whole collection.\<close>

lemma goes_set_permissions:
  assumes "row_id r \<in> row_id ` set (t_roles (view w))" and "set new \<subseteq> set (t_permissions (view w))"
    and "distinct (map row_id new)"
    and "\<forall>p \<in> set (t_permissions (view w)). (row_id r, row_id p) \<in> set (t_role_permissions (view w)) \<longrightarrow> row_id p \<in> row_id ` set old"
  shows "goes x 0 S (set_permissions r old new) w"
proof -
  let ?new = "filter (\<lambda>p. row_id p \<notin> row_id ` set old) new"
  define v where "v = w\<lparr>w_delta := (\<lambda>d. d\<lparr>t_role_permissions := filter (\<lambda>(a, p). \<not> (a = row_id r \<and>
      p \<in> row_id ` set old - row_id ` set new)) (t_role_permissions d)\<rparr>) \<circ> w_delta w\<rparr>"
  have view: "view v = (view w)\<lparr>t_role_permissions := filter (\<lambda>(a, p). \<not> (a = row_id r \<and>
      p \<in> row_id ` set old - row_id ` set new)) (t_role_permissions (view w))\<rparr>" by (simp add: v_def view_def)
  have "goes x 0 S (for_each ?new (\<lambda>p. add_role_permission (row_id r) (row_id p))) v"
    using assms by (intro goes_role_links) (auto simp: view distinct_map_filter)
  moreover have "drawn x 0 S w v"
    by (simp add: drawn_def view used_def) (simp add: v_def)
  moreover have "set_permissions r old new w = for_each ?new (\<lambda>p. add_role_permission (row_id r) (row_id p)) v"
    by (simp add: set_permissions_def andthen_change v_def)
  ultimately show ?thesis using drawn_trans [of x 0 S w v 0] by (auto simp: goes_def)
qed

lemma goes_set_roles:
  assumes "row_id u \<in> row_id ` set (t_users (view w))" and "set new \<subseteq> set (t_roles (view w))"
    and "distinct (map row_id new)"
    and "\<forall>r \<in> set (t_roles (view w)). (row_id u, row_id r) \<in> set (t_user_roles (view w)) \<longrightarrow> row_id r \<in> row_id ` set old"
  shows "goes x 0 S (set_roles u old new) w"
proof -
  let ?new = "filter (\<lambda>r. row_id r \<notin> row_id ` set old) new"
  define v where "v = w\<lparr>w_delta := (\<lambda>d. d\<lparr>t_user_roles := filter (\<lambda>(a, r). \<not> (a = row_id u \<and>
      r \<in> row_id ` set old - row_id ` set new)) (t_user_roles d)\<rparr>) \<circ> w_delta w\<rparr>"
  have view: "view v = (view w)\<lparr>t_user_roles := filter (\<lambda>(a, r). \<not> (a = row_id u \<and>
      r \<in> row_id ` set old - row_id ` set new)) (t_user_roles (view w))\<rparr>" by (simp add: v_def view_def)
  have "goes x 0 S (for_each ?new (\<lambda>r. add_user_role (row_id u) (row_id r))) v"
    using assms by (intro goes_user_links) (auto simp: view distinct_map_filter)
  moreover have "drawn x 0 S w v"
    by (simp add: drawn_def view used_def) (simp add: v_def)
  moreover have "set_roles u old new w = for_each ?new (\<lambda>r. add_user_role (row_id u) (row_id r)) v"
    by (simp add: set_roles_def andthen_change v_def)
  ultimately show ?thesis using drawn_trans [of x 0 S w v 0] by (auto simp: goes_def)
qed

lemma ROLE_MATRIX_distinct: "distinct (ROLE_MATRIX rc)"
proof -
  have "distinct ALL_CODES"
    by (simp add: ALL_CODES_def ALL_PERMISSIONS_def AUTH_PERMS_def COURSE_PERMS_def LEARN_PERMS_def ASSIGN_PERMS_def
        ADMIN_PERMS_def)
  then show ?thesis by (cases rc) simp_all
qed

lemma granted_distinct:
  assumes dict: "dict_of perms d" and cons: "consistent Permission d" and "distinct cs"
  shows "distinct (map row_id (map (\<lambda>c. the (map_of perms c)) (filter (\<lambda>c. c \<in> fst ` set perms) cs)))"
proof -
  have known: "\<exists>p \<in> set (t_permissions d). map_of perms c = Some p \<and> perm_code p = c" if c: "c \<in> fst ` set perms" for c
  proof -
    obtain p where "map_of perms c = Some p" using c by (cases "map_of perms c") (auto simp: map_of_eq_None_iff)
    then show ?thesis using dict by (auto simp: dict_of_def)
  qed
  have "inj_on (\<lambda>c. row_id (the (map_of perms c))) (set (filter (\<lambda>c. c \<in> fst ` set perms) cs))"
  proof (rule inj_onI)
    fix a b
    assume ab: "a \<in> set (filter (\<lambda>c. c \<in> fst ` set perms) cs)" "b \<in> set (filter (\<lambda>c. c \<in> fst ` set perms) cs)"
      and same: "row_id (the (map_of perms a)) = row_id (the (map_of perms b))"
    from ab known [of a] known [of b] obtain p q where p: "p \<in> set (t_permissions d)" "map_of perms a = Some p" "perm_code p = a"
      and q: "q \<in> set (t_permissions d)" "map_of perms b = Some q" "perm_code q = b" by auto
    then have "p = q" using same unique_row [OF cons, of p q] by (simp add: Permission_def)
    then show "a = b" using p q by simp
  qed
  then show ?thesis using assms(3) by (simp add: distinct_map comp_def)
qed

lemma goes_role:
  assumes bp: "w_bypass w" and cons: "consistent Role (view w)" "consistent Permission (view w)"
    and dict: "dict_of perms (view w)" and links: "links_ok (view w)" and t: "tenant_exists (view w) tid"
    and a: "allotted x 1 w"
  shows "goes x 1 {} (seed_role x tid perms rc) w"
proof -
  let ?p = "\<lambda>r. tenant_id r = tid \<and> role_code r = role_value rc"
  define granted where "granted = map (\<lambda>c. the (map_of perms c)) (filter (\<lambda>c. c \<in> fst ` set perms) (ROLE_MATRIX rc))"
  have granted: "set granted \<subseteq> set (t_permissions (view w))" "distinct (map row_id granted)"
    using granted_rows [OF dict, of "ROLE_MATRIX rc"] granted_distinct [OF dict cons(2) ROLE_MATRIX_distinct]
    unfolding granted_def by auto
  have found: "select_one Role ?p w = (Inr (first_row (filter ?p (t_roles (view w)))), w)"
    using select_one_unique [OF bp cons(1), of ?p] by (simp add: role_model)
  show ?thesis
  proof (cases "first_row (filter ?p (t_roles (view w)))")
    case None
    have "goes x 1 {} (add_row x Role (new_role tid rc)) w"
    proof (rule role_rows.goes_add_row)
      show "m_fits Role (new_role tid rc i now)" for i now
        by (cases rc) (simp_all add: Role_def new_role_def width_def)
      show "\<not> m_clash Role (new_role tid rc i now) s" if "s \<in> set (m_rows Role (view w))" for i now s
        using first_row_NoneD [OF None, of s] that by (auto simp: role_model new_role_def)
    qed (use bp a t in \<open>auto simp: Role_def new_role_def used_def\<close>)
    then have "goes x (1 + 0) {} (andthen (add_row x Role (new_role tid rc)) (\<lambda>r. andthen (set_permissions r [] granted) (\<lambda>_. ret r))) w"
    proof (rule goes_andthen)
      fix r w1 assume add: "add_row x Role (new_role tid rc) w = (Inr r, w1)"
      note new = role_rows.add_row_ok [OF add, unfolded role_model]
      have "row_id r \<notin> row_id ` set (t_roles (view w))" using new(6) by force
      then have "(row_id r, b) \<notin> set (t_role_permissions (view w))" for b using links by (auto simp: links_ok_def)
      then have "goes x 0 {} (set_permissions r [] granted) w1"
        using granted by (intro goes_set_permissions) (simp_all add: new(2))
      then show "goes x 0 {} (andthen (set_permissions r [] granted) (\<lambda>_. ret r)) w1"
        by (rule goes_return)
    qed
    then show ?thesis
      unfolding seed_role_def Let_def granted_def [symmetric]
      by (simp add: goes_def andthen_Inr [of "select_one Role ?p", OF found] None)
  next
    case (Some q)
    have q: "q \<in> set (t_roles (view w))" using first_row_SomeD' [OF Some] by simp
    have "goes x 0 {} (set_permissions q (permissions_of w q) granted) w"
      using granted q by (intro goes_set_permissions) (auto simp: permissions_of_def)
    then have "goes x 0 {} (andthen (set_permissions q (permissions_of w q) granted) (\<lambda>_. ret q)) w"
      by (rule goes_return)
    then have "goes x 1 {} (andthen (set_permissions q (permissions_of w q) granted) (\<lambda>_. ret q)) w"
      by (rule goes_mono) simp_all
    then show ?thesis
      unfolding seed_role_def Let_def granted_def [symmetric]
      by (simp add: goes_def andthen_Inr [of "select_one Role ?p", OF found] Some act_simps)
  qed
qed

lemma goes_roles:
  assumes "w_bypass w" and "consistent Role (view w)" "consistent Permission (view w)"
    and "dict_of perms (view w)" and "links_ok (view w)" and "tenant_exists (view w) tid" and "allotted x (length rcs) w"
  shows "goes x (length rcs) {} (seed_roles x tid perms rcs) w"
  using assms
proof (induction rcs arbitrary: w)
  case Nil
  then show ?case by (simp add: goes_ret)
next
  case (Cons rc rcs)
  have "goes x (1 + length rcs) {} (andthen (seed_role x tid perms rc) (\<lambda>r. andthen (seed_roles x tid perms rcs)
      (\<lambda>rs. ret ((rc, r) # rs)))) w"
  proof (rule goes_andthen)
    show "goes x 1 {} (seed_role x tid perms rc) w"
      using Cons.prems allotted_less [of x "length (rc # rcs)" w 1] by (intro goes_role) simp_all
    fix r w1 assume one: "seed_role x tid perms rc w = (Inr r, w1)" and d: "drawn x 1 {} w w1"
    note first = seed_role_ok [OF Cons.prems(1-5) one]
    then obtain rows ls where w1: "view w1 = (view w)\<lparr>t_roles := rows, t_role_permissions := ls\<rparr>" by blast
    have "goes x (length rcs) {} (seed_roles x tid perms rcs) w1"
      using Cons.prems drawn_allotted [OF d, of "length rcs"] first
      by (intro Cons.IH) (simp_all add: w1 keyed_roles tenant_exists_def)
    then show "goes x (length rcs) {} (andthen (seed_roles x tid perms rcs) (\<lambda>rs. ret ((rc, r) # rs))) w1"
      by (rule goes_return)
  qed
  then show ?case by simp
qed

lemma goes_user:
  assumes bp: "w_bypass w" and cons: "consistent Role (view w)" "consistent User (view w)" and links: "links_ok (view w)"
    and r: "r \<in> set (t_roles (view w))" and t: "tenant_exists (view w) tid" and a: "allotted x 2 w"
    and fits: "length e \<le> 255" "length name \<le> 200" "\<And>n. length (hasher_hash x n password) \<le> 255"
  shows "goes x 2 {} (seed_user x tid e name [r] password super) w"
proof -
  let ?p = "\<lambda>u. tenant_id u = tid \<and> email u = e"
  have found: "select_one User ?p w = (Inr (first_row (filter ?p (t_users (view w)))), w)"
    using select_one_unique [OF bp cons(2), of ?p] by (simp add: user_model)
  show ?thesis
  proof (cases "first_row (filter ?p (t_users (view w)))")
    case None
    let ?h = "hasher_hash x (w_draw w) password"
    let ?w = "w\<lparr>w_draw := Suc (w_draw w)\<rparr>"
    have hash: "hash_password x password w = (Inr ?h, ?w)" by (simp add: hash_password_def act_simps)
    have d: "drawn x 1 {} w ?w" by (auto simp: drawn_def view_def)
    have "goes x 1 {} (add_row x User (seeded_user tid e name ?h super)) ?w"
    proof (rule user_rows.goes_add_row)
      show "allotted x 1 ?w" by (rule drawn_allotted [OF d]) (use a in \<open>simp add: numeral_2_eq_2\<close>)
      show "\<not> m_clash User (seeded_user tid e name ?h super i now) s" if "s \<in> set (m_rows User (view ?w))" for i now s
        using first_row_NoneD [OF None, of s] that by (auto simp: user_model seeded_user_def view_def)
    qed (use bp t fits in \<open>auto simp: User_def seeded_user_def used_def view_def\<close>)
    then have "goes x (1 + 0) {} (andthen (add_row x User (seeded_user tid e name ?h super))
        (\<lambda>u. andthen (set_roles u [] [r]) (\<lambda>_. ret u))) ?w"
    proof (rule goes_andthen)
      fix u w1 assume add: "add_row x User (seeded_user tid e name ?h super) ?w = (Inr u, w1)"
      note new = user_rows.add_row_ok [OF add, unfolded user_model]
      have view: "view ?w = view w" by (simp add: view_def)
      have "row_id u \<notin> row_id ` set (t_users (view w))" using new(6) by (force simp: view)
      then have "(row_id u, b) \<notin> set (t_user_roles (view w))" for b using links by (auto simp: links_ok_def)
      then have "goes x 0 {} (set_roles u [] [r]) w1"
        using r by (intro goes_set_roles) (simp_all add: new(2) view)
      then show "goes x 0 {} (andthen (set_roles u [] [r]) (\<lambda>_. ret u)) w1"
        by (rule goes_return)
    qed
    moreover have "goes x 1 {} (hash_password x password) w" using hash d by (auto simp: goes_def)
    ultimately have "goes x (1 + 1) {} (andthen (hash_password x password) (\<lambda>h. andthen (add_row x User (seeded_user tid e name h super))
        (\<lambda>u. andthen (set_roles u [] [r]) (\<lambda>_. ret u)))) w"
      by (intro goes_andthen) (simp_all add: hash)
    then show ?thesis
      unfolding seed_user_def
      by (simp add: goes_def andthen_Inr [of "select_one User ?p", OF found] None numeral_2_eq_2)
  next
    case (Some q)
    have q: "q \<in> set (t_users (view w))" using first_row_SomeD' [OF Some] by simp
    have "goes x 0 {} (set_roles q (roles_of w q) [r]) w"
      using r q by (intro goes_set_roles) (auto simp: roles_of_def bypass_visible [OF bp])
    then have "goes x 0 {} (andthen (set_roles q (roles_of w q) [r]) (\<lambda>_. ret q)) w"
      by (rule goes_return)
    then have "goes x 2 {} (andthen (set_roles q (roles_of w q) [r]) (\<lambda>_. ret q)) w"
      by (rule goes_mono) simp_all
    then show ?thesis
      unfolding seed_user_def
      by (simp add: goes_def andthen_Inr [of "select_one User ?p", OF found] Some act_simps)
  qed
qed

section \<open>Tenants\<close>

definition seed_passwords :: "string list" where
  "seed_passwords = [''Admin123!'', ''Teach123!'', ''Learn123!'', ''Root123!'']"

text \<open>The hashes fit the column.\<close>

definition hashes_fit :: "'c env \<Rightarrow> bool" where
  "hashes_fit x \<longleftrightarrow> (\<forall>p \<in> set seed_passwords. \<forall>n. length (hasher_hash x n p) \<le> 255)"

lemma goes_staff_user:
  assumes s: "staffing tid roles es w" and t: "tenant_exists (view w) tid" and a: "allotted x (2 + n) w"
    and new: "e \<notin> fst ` set es"
    and fits: "length e \<le> 255" "length name \<le> 200" "hashes_fit x" "password \<in> set seed_passwords"
    and rest: "\<And>w'. staffing tid roles ((e, rc) # es) w' \<Longrightarrow> tenant_exists (view w') tid \<Longrightarrow> allotted x n w' \<Longrightarrow> goes x n {} m w'"
  shows "goes x (2 + n) {} (andthen (seed_user x tid e name (role_for roles rc) password super) (\<lambda>_. m)) w"
proof (rule goes_andthen)
  from s obtain r where r: "map_of roles rc = Some r" "role_seeded (view w) tid rc r" by (auto simp: staffing_def)
  then have "goes x 2 {} (seed_user x tid e name [r] password super) w"
    using s t fits allotted_less [OF a, of 2] by (intro goes_user) (auto simp: staffing_def role_seeded_def hashes_fit_def)
  then show "goes x 2 {} (seed_user x tid e name (role_for roles rc) password super) w" by (simp add: role_for_def r)
  fix u w1 assume one: "seed_user x tid e name (role_for roles rc) password super w = (Inr u, w1)" and d: "drawn x 2 {} w w1"
  note step = staff_step [OF s new one]
  then have "tenant_exists (view w1) tid" using t by (auto simp: tenant_exists_def)
  then show "goes x n {} m w1" by (rule rest [OF step(1)]) (rule drawn_allotted [OF d a])
qed

lemma goes_staff:
  assumes s: "staffing tid roles [] w" and t: "tenant_exists (view w) tid" and a: "allotted x 8 w"
    and fits: "length s \<le> 80" "hashes_fit x"
  shows "goes x 8 {} (seed_staff x tid s roles) w"
proof -
  let ?root = "if s = ''full-lms'' then
      andthen (seed_user x tid ''root@platform.com'' ''Platform Root'' (role_for roles SUPER_ADMIN) ''Root123!'' True) (\<lambda>_. ret ())
      else ret ()"
  have root: "goes x (2 + 0) {} ?root w"
    if "staffing tid roles [(''student@'' @ s @ ''.com'', STUDENT), (''instructor@'' @ s @ ''.com'', INSTRUCTOR),
      (''admin@'' @ s @ ''.com'', TENANT_ADMIN)] w" "tenant_exists (view w) tid" "allotted x (2 + 0) w" for w
  proof (cases "s = ''full-lms''")
    case True
    have "goes x (2 + 0) {} (andthen (seed_user x tid ''root@platform.com'' ''Platform Root'' (role_for roles SUPER_ADMIN)
        ''Root123!'' True) (\<lambda>_. ret ())) w"
      by (rule goes_staff_user [OF that(1,2,3) accounts_steps(3)]) (use fits in \<open>simp_all add: seed_passwords_def goes_ret\<close>)
    then show ?thesis using True by simp
  next
    case False
    then show ?thesis by (simp add: goes_ret)
  qed
  have "goes x (2 + (2 + (2 + (2 + 0)))) {} (seed_staff x tid s roles) w"
    unfolding seed_staff_def Let_def
  proof (rule goes_staff_user [OF s t])
    fix w1 assume w1: "staffing tid roles [(''admin@'' @ s @ ''.com'', TENANT_ADMIN)] w1" "tenant_exists (view w1) tid"
      "allotted x (2 + (2 + (2 + 0))) w1"
    show "goes x (2 + (2 + (2 + 0))) {} (andthen (seed_user x tid (''instructor@'' @ s @ ''.com'') ''Jane Instructor''
        (role_for roles INSTRUCTOR) ''Teach123!'' False) (\<lambda>_. andthen (seed_user x tid (''student@'' @ s @ ''.com'') ''Sam Student''
        (role_for roles STUDENT) ''Learn123!'' False) (\<lambda>_. ?root))) w1"
      by (rule goes_staff_user [OF w1 accounts_steps(1)], (use fits in \<open>simp_all add: seed_passwords_def\<close>)[4],
          rule goes_staff_user [OF _ _ _ accounts_steps(2)], assumption+)
        (use fits root in \<open>simp_all add: seed_passwords_def\<close>)
  qed (use fits a in \<open>simp_all add: seed_passwords_def\<close>)
  then show ?thesis by simp
qed

lemma goes_find_tenant:
  assumes bp: "w_bypass w" and cons: "consistent Tenant (view w)" and a: "allotted x 1 w"
    and fits: "length name \<le> 200" "length s \<le> 80"
  shows "goes x 1 {} (find_tenant x s name) w"
proof -
  let ?p = "\<lambda>t. slug t = s"
  have found: "select_one Tenant ?p w = (Inr (first_row (filter ?p (t_tenants (view w)))), w)"
    using select_one_unique [OF bp cons, of ?p] by (simp add: tenant_model)
  show ?thesis
  proof (cases "first_row (filter ?p (t_tenants (view w)))")
    case None
    have "goes x 1 {} (add_row x Tenant (new_tenant name s)) w"
    proof (rule tenant_rows.goes_add_row)
      show "\<not> m_clash Tenant (new_tenant name s i now) t" if "t \<in> set (m_rows Tenant (view w))" for i now t
        using first_row_NoneD [OF None, of t] that by (auto simp: tenant_model new_tenant_def)
    qed (use bp a fits in \<open>auto simp: Tenant_def new_tenant_def used_def width_def\<close>)
    then show ?thesis by (simp add: find_tenant_def goes_def andthen_Inr [of "select_one Tenant ?p", OF found] None)
  next
    case (Some q)
    then show ?thesis
      using goes_ret [of x 1 "{}" q w]
      by (simp add: find_tenant_def goes_def andthen_Inr [of "select_one Tenant ?p", OF found])
  qed
qed

lemma goes_licences:
  fixes x :: "'c env"
  assumes "w_bypass w" and "consistent Module (view w)" and "consistent TenantModule (view w)"
    and "\<forall>c. \<exists>m \<in> set (t_modules (view w)). mod_code m = code_value c" and "tenant_exists (view w) tid"
    and "allotted x (3 * length modules) w"
  shows "goes x (3 * length modules) {} (for_each modules (\<lambda>c. andthen (set_module x tid (code_value c) True) (\<lambda>_. ret ()))) w"
proof (rule goes_for_each [where P = "\<lambda>w. w_bypass w \<and> consistent Module (view w) \<and> consistent TenantModule (view w) \<and>
    (\<forall>c. \<exists>m \<in> set (t_modules (view w)). mod_code m = code_value c) \<and> tenant_exists (view w) tid"])
  fix c and v :: "'c world"
  assume P: "w_bypass v \<and> consistent Module (view v) \<and> consistent TenantModule (view v) \<and>
    (\<forall>c. \<exists>m \<in> set (t_modules (view v)). mod_code m = code_value c) \<and> tenant_exists (view v) tid"
  then show "goes x 3 {} (andthen (set_module x tid (code_value c) True) (\<lambda>_. ret ())) v" if "allotted x 3 v"
    using that by (intro goes_return goes_licence) simp_all
  fix v' assume "andthen (set_module x tid (code_value c) True) (\<lambda>_. ret ()) v = (Inr (), v')"
  then obtain tm where "set_module x tid (code_value c) True v = (Inr tm, v')" by (auto simp: andthen_eq_Inr ret_apply)
  from seed_licence_ok [OF _ _ this] P obtain rows where "view v' = (view v)\<lparr>t_tenant_modules := rows\<rparr>"
    "w_bypass v'" "consistent TenantModule (view v')" by blast
  then show "w_bypass v' \<and> consistent Module (view v') \<and> consistent TenantModule (view v') \<and>
    (\<forall>c. \<exists>m \<in> set (t_modules (view v')). mod_code m = code_value c) \<and> tenant_exists (view v') tid"
    using P by (simp add: consistent_def Module_def tenant_exists_def)
qed (use assms in auto)

lemma goes_tenant:
  assumes bp: "w_bypass w" and keyed: "keyed (view w)" and dict: "dict_of perms (view w)"
    and mods: "\<forall>c. \<exists>m \<in> set (t_modules (view w)). mod_code m = code_value c"
    and a: "allotted x (1 + (3 * length modules + (4 + 8))) w"
    and fits: "length name \<le> 200" "length s \<le> 80" "hashes_fit x"
  shows "goes x (1 + (3 * length modules + (4 + 8))) {} (seed_tenant x s name modules perms) w"
  unfolding seed_tenant_staff
proof (rule goes_andthen, goal_cases)
  have k: "consistent Tenant (view w)" "consistent TenantModule (view w)" "consistent Role (view w)"
    "consistent Permission (view w)" "consistent User (view w)" "consistent Module (view w)" "links_ok (view w)"
    using keyed by (simp_all add: keyed_def)
  case 1
  show ?case using bp k(1) allotted_less [OF a, of 1] fits by (intro goes_find_tenant) simp_all
  case (2 t w1)
  let ?tid = "row_id t"
  from find_or_add_tenant [OF bp k(1) 2(1)] obtain ts where w1: "w_bypass w1" "view w1 = (view w)\<lparr>t_tenants := ts\<rparr>" "t \<in> set ts"
    by (elim exE conjE)
  have k1: "consistent Module (view w1)" "consistent TenantModule (view w1)" "tenant_exists (view w1) ?tid"
    using k w1(3) by (auto simp: w1(2) consistent_def Module_def licence_model tenant_exists_def list_ex_iff)
  note a1 = drawn_allotted [OF 2(2) a]
  show ?case
  proof (rule goes_andthen, goal_cases)
    case 1
    show ?case
      using w1(1) k1 mods allotted_less [OF a1, of "3 * length modules"] by (intro goes_licences) (simp_all add: w1(2))
  next
    case (2 u w2)
    from seed_licences_ok [OF w1(1) k1(2) 2(1)] obtain tms where w2: "w_bypass w2"
      "view w2 = (view w1)\<lparr>t_tenant_modules := tms\<rparr>" by (elim exE conjE)
    have k2: "consistent Role (view w2)" "consistent Permission (view w2)" "dict_of perms (view w2)" "links_ok (view w2)"
      "tenant_exists (view w2) ?tid"
      using k dict k1(3) by (simp_all add: w2(2) w1(2) consistent_def role_model permission_model dict_of_def links_ok_def tenant_exists_def)
    note a2 = drawn_allotted [OF 2(2) a1]
    have four: "length all_roles = 4" "distinct all_roles" by (simp_all add: all_roles_def)
    show ?case
    proof (rule goes_andthen, goal_cases)
      case 1
      show ?case using goes_roles [OF w2(1) k2, of x all_roles] allotted_less [OF a2, of 4] four(1) by simp
    next
      case (2 roles w3)
      from seed_roles_ok [OF w2(1) k2(1-4) four(2) 2(1)] obtain rs ls where w3: "w_bypass w3" "consistent Role (view w3)"
        "links_ok (view w3)" "view w3 = (view w2)\<lparr>t_roles := rs, t_role_permissions := ls\<rparr>"
        "\<forall>rc \<in> set all_roles. \<exists>r. map_of roles rc = Some r \<and> role_seeded (view w3) ?tid rc r"
        by (elim exE conjE)
      have "rc \<in> set all_roles" for rc by (cases rc) (simp_all add: all_roles_def)
      then have "staffing ?tid roles [] w3"
        using w3 k(5) by (simp add: staffing_def staffed_def w2(2) w1(2) consistent_def user_model)
      moreover have "tenant_exists (view w3) ?tid" using k2(5) by (simp add: w3(4) tenant_exists_def)
      ultimately show ?case using fits drawn_allotted [OF 2(2) a2] by (intro goes_return goes_staff)
    qed
  qed
qed

definition tenant_draws :: "string \<times> string \<times> module_code list \<Rightarrow> nat" where
  "tenant_draws = (\<lambda>(s, name, modules). 1 + (3 * length modules + (4 + 8)))"

lemma goes_tenants:
  assumes "w_bypass w" and "keyed (view w)" and "dict_of perms (view w)"
    and "\<forall>c. \<exists>m \<in> set (t_modules (view w)). mod_code m = code_value c"
    and "allotted x (sum_list (map tenant_draws rows)) w" and "hashes_fit x"
    and "\<forall>(s, name, modules) \<in> set rows. length name \<le> 200 \<and> length s \<le> 80"
  shows "goes x (sum_list (map tenant_draws rows)) {} (seed_tenants x perms rows) w"
  using assms
proof (induction rows arbitrary: w)
  case Nil
  then show ?case by (simp add: goes_ret)
next
  case (Cons row rows)
  obtain s name modules where row: "row = (s, name, modules)" by (cases row)
  let ?n = "1 + (3 * length modules + (4 + 8))"
  have a: "allotted x (?n + sum_list (map tenant_draws rows)) w" using Cons.prems(5) by (simp add: row tenant_draws_def)
  have "goes x (?n + sum_list (map tenant_draws rows)) {} (andthen (seed_tenant x s name modules perms)
      (\<lambda>t. andthen (seed_tenants x perms rows) (\<lambda>ts. ret (t # ts)))) w"
  proof (rule goes_andthen)
    show "goes x ?n {} (seed_tenant x s name modules perms) w"
      using Cons.prems allotted_less [OF a, of ?n] by (intro goes_tenant) (simp_all add: row)
    fix t w1 assume one: "seed_tenant x s name modules perms w = (Inr t, w1)" and d: "drawn x ?n {} w w1"
    from seed_tenant_ok [OF Cons.prems(1-3) one]
    have t: "w_bypass w1" "keyed (view w1)" "dict_of perms (view w1)" "t_modules (view w1) = t_modules (view w)"
      by (simp_all add: kept_def)
    show "goes x (sum_list (map tenant_draws rows)) {} (andthen (seed_tenants x perms rows) (\<lambda>ts. ret (t # ts))) w1"
      using Cons.prems t drawn_allotted [OF d a] by (intro goes_return Cons.IH) simp_all
  qed
  then show ?case by (simp add: row tenant_draws_def)
qed

section \<open>Content\<close>

lemma add_row_key: "add_row x M mk w = (Inr r, w') \<Longrightarrow> r = mk (uuid4 x (w_draw w)) (w_now w)"
  by (auto simp: add_row_def act_simps repo_add_def elim!: andthen_InrE)

lemmas exists_defs = tenant_exists_def category_exists_def course_exists_def section_exists_def assignment_exists_def
  quiz_exists_def question_exists_def list_ex_iff

lemma goes_answer:
  assumes "w_bypass w" and "tenant_exists (view w) tid" and "question_exists (view w) q" and "allotted x 1 w"
  shows "goes x 1 S (andthen (add_row x QuizAnswer (seed_answer tid q t c)) (\<lambda>_. ret ())) w"
  by (intro goes_return answer_rows.goes_add_row)
    (use assms in \<open>auto simp: QuizAnswer_def seed_answer_def used_def\<close>)

lemma goes_answers:
  fixes x :: "'c env"
  assumes "w_bypass w" and "tenant_exists (view w) tid" and "question_exists (view w) q" and "allotted x (length cs) w"
  shows "goes x (length cs) S (for_each cs (\<lambda>(t, c). andthen (add_row x QuizAnswer (seed_answer tid q t c)) (\<lambda>_. ret ()))) w"
proof -
  let ?P = "\<lambda>w :: 'c world. w_bypass w \<and> tenant_exists (view w) tid \<and> question_exists (view w) q"
  have "goes x (1 * length cs) S (for_each cs (\<lambda>(t, c). andthen (add_row x QuizAnswer (seed_answer tid q t c)) (\<lambda>_. ret ()))) w"
  proof (rule goes_for_each [where P = ?P])
    fix tc :: "string \<times> bool" and v :: "'c world" assume P: "?P v"
    obtain t c where tc: "tc = (t, c)" by fastforce
    show "goes x 1 S (case tc of (t, c) \<Rightarrow> andthen (add_row x QuizAnswer (seed_answer tid q t c)) (\<lambda>_. ret ())) v"
      if "allotted x 1 v" using P that goes_answer [of v tid q x] by (simp add: tc)
    fix v' assume "(case tc of (t, c) \<Rightarrow> andthen (add_row x QuizAnswer (seed_answer tid q t c)) (\<lambda>_. ret ())) v = (Inr (), v')"
    then obtain r where "add_row x QuizAnswer (seed_answer tid q t c) v = (Inr r, v')"
      by (auto simp: tc andthen_eq_Inr ret_apply)
    from answer_rows.add_row_ok(2,3) [OF this] P show "?P v'" by (simp add: QuizAnswer_def exists_defs)
  qed (use assms in auto)
  then show ?thesis by simp
qed

lemma seed_points_fit: "numeric_fits 6 2 10" "numeric_fits 6 2 6" "numeric_fits 10 2 0"
  by (simp_all add: numeric_fits_def round_to_def)

definition quiz_row :: "uuid \<Rightarrow> uuid \<Rightarrow> uuid \<Rightarrow> time \<Rightarrow> quiz" where
  "quiz_row tid a i now = \<lparr>row_id = i, created_at = now, tenant_id = tid, quiz_assignment_id = a,
     quiz_time_limit_seconds = 0, quiz_shuffle_questions = False\<rparr>"

definition question_row :: "uuid \<Rightarrow> uuid \<Rightarrow> uuid \<Rightarrow> time \<Rightarrow> quiz_question" where
  "question_row tid z i now = \<lparr>row_id = i, created_at = now, tenant_id = tid, qq_quiz_id = z,
     qq_text = ''What keyword defines a function in Python?'', qq_type = SingleChoice, qq_points = 10, qq_order_index = 0\<rparr>"

lemma goes_quiz:
  assumes bp: "w_bypass w" and t: "tenant_exists (view w) tid" and c: "course_exists (view w) cid" and a: "allotted x (1 + (1 + (1 + 3))) w"
  shows "goes x (1 + (1 + (1 + 3))) S (seed_quiz x tid cid) w"
  unfolding seed_quiz_def quiz_row_def [symmetric] question_row_def [symmetric]
proof (rule goes_andthen, goal_cases)
  case 1
  show ?case
    by (rule assignment_rows.goes_add_row)
      (use bp t c allotted_less [OF a, of 1] in \<open>auto simp: Assignment_def seed_assignment_def used_def seed_points_fit\<close>)
next
  case (2 r w1)
  note new1 = assignment_rows.add_row_ok(2,3) [OF 2(1)]
  have w1: "w_bypass w1" "tenant_exists (view w1) tid" "assignment_exists (view w1) (row_id r)"
    using bp t new1 by (auto simp: Assignment_def exists_defs)
  have r: "row_id r \<notin> used (view w)" using add_row_key [OF 2(1)] allotted_new [OF a, of 0] by (simp add: seed_assignment_def)
  have free: "quiz_assignment_id z \<noteq> row_id r" if "z \<in> set (t_quizzes (view w1))" for z
  proof -
    have "quiz_assignment_id z \<in> used (view w)" using that new1 by (simp add: used_def Assignment_def)
    then show ?thesis using r by metis
  qed
  have mine: "row_id r \<in> used (view w1)"
  proof -
    from w1(3) obtain b where "b \<in> set (t_assignments (view w1))" "row_id b = row_id r" by (auto simp: exists_defs)
    moreover from this(1) have "row_id b \<in> used (view w1)" by (simp add: used_def)
    ultimately show ?thesis by simp
  qed
  note a1 = drawn_allotted [OF 2(2) a]
  show ?case
  proof (rule goes_andthen, goal_cases)
    case 1
    show ?case
    proof (rule quiz_rows.goes_add_row)
      show "used (m_put Quiz (m_rows Quiz (view w1) @ [m_stored Quiz (quiz_row tid (row_id r) i now)]) (view w1)) \<subseteq>
          insert i (used (view w1))" for i now
        using mine by (auto simp: Quiz_def quiz_row_def used_def)
      show "\<not> m_clash Quiz (quiz_row tid (row_id r) i now) z" if "z \<in> set (m_rows Quiz (view w1))" for i now z
        using free [of z] that by (simp add: Quiz_def quiz_row_def eq_commute)
    qed (use w1 allotted_less [OF a1, of 1] in \<open>auto simp: Quiz_def quiz_row_def used_def int4_def\<close>)
  next
    case (2 z w2)
    have w2: "w_bypass w2" "tenant_exists (view w2) tid" "quiz_exists (view w2) (row_id z)"
      using w1 quiz_rows.add_row_ok(2,3) [OF 2(1)] by (auto simp: Quiz_def exists_defs)
    note a2 = drawn_allotted [OF 2(2) a1]
    show ?case
    proof (rule goes_andthen, goal_cases)
      case 1
      show ?case
        by (rule question_rows.goes_add_row)
          (use w2 allotted_less [OF a2, of 1] in \<open>auto simp: QuizQuestion_def question_row_def used_def int4_def seed_points_fit\<close>)
    next
      case (2 q w3)
      have "w_bypass w3" "tenant_exists (view w3) tid" "question_exists (view w3) (row_id q)"
        using w2 question_rows.add_row_ok(2,3) [OF 2(1)] by (auto simp: QuizQuestion_def exists_defs)
      then show ?case
        using goes_answers [of w3 tid "row_id q" x "[(''def'', True), (''func'', False), (''lambda'', False)]" S]
          drawn_allotted [OF 2(2) a2] by (simp add: numeral_3_eq_3)
    qed
  qed
qed

lemma goes_lesson:
  assumes "w_bypass w" and "tenant_exists (view w) tid" and "course_exists (view w) cid" and "section_exists (view w) sec"
    and "allotted x 1 w" and "length title \<le> 200" and "int4 n" and "int4 secs"
  shows "goes x 1 S (add_row x Lesson (seed_lesson tid cid sec title kind txt n secs preview)) w"
  by (rule lesson_rows.goes_add_row)
    (use assms in \<open>auto simp: Lesson_def seed_lesson_def used_def optional_def\<close>)

lemma after_lesson:
  assumes "add_row x Lesson (seed_lesson tid cid sec title kind txt n secs preview) w = (Inr l, w')"
  shows "w_bypass w' = w_bypass w" "t_tenants (view w') = t_tenants (view w)" "t_courses (view w') = t_courses (view w)"
    "t_course_modules (view w') = t_course_modules (view w)"
  using lesson_rows.add_row_ok(2,3) [OF assms] by (simp_all add: Lesson_def)

lemma goes_lessons:
  assumes bp: "w_bypass w" and t: "tenant_exists (view w) tid" and c: "course_exists (view w) cid" and m: "section_exists (view w) sec"
    and a: "allotted x (1 + (1 + (1 + (1 + (1 + 3))))) w"
  shows "goes x (1 + (1 + (1 + (1 + (1 + 3))))) S (andthen (add_row x Lesson (seed_lesson tid cid sec ''Welcome'' TextLesson
      (Some ''Welcome to the course!'') 0 0 True)) (\<lambda>_. andthen (add_row x Lesson (seed_lesson tid cid sec ''Installing Python''
      VideoLesson None 1 600 False)) (\<lambda>_. if b then seed_quiz x tid cid else ret ()))) w"
proof (rule goes_andthen)
  show "goes x 1 S (add_row x Lesson (seed_lesson tid cid sec ''Welcome'' TextLesson (Some ''Welcome to the course!'') 0 0 True)) w"
    using bp t c m allotted_less [OF a, of 1] by (intro goes_lesson) (simp_all add: int4_def)
  fix l w1
  assume one: "add_row x Lesson (seed_lesson tid cid sec ''Welcome'' TextLesson (Some ''Welcome to the course!'') 0 0 True) w = (Inr l, w1)"
    and d1: "drawn x 1 S w w1"
  note w1 = after_lesson [OF one]
  note a1 = drawn_allotted [OF d1 a]
  show "goes x (1 + (1 + (1 + (1 + 3)))) S (andthen (add_row x Lesson (seed_lesson tid cid sec ''Installing Python''
      VideoLesson None 1 600 False)) (\<lambda>_. if b then seed_quiz x tid cid else ret ())) w1"
  proof (rule goes_andthen)
    show "goes x 1 S (add_row x Lesson (seed_lesson tid cid sec ''Installing Python'' VideoLesson None 1 600 False)) w1"
      using bp t c m allotted_less [OF a1, of 1] by (intro goes_lesson) (simp_all add: int4_def w1 exists_defs)
    fix l' w2
    assume two: "add_row x Lesson (seed_lesson tid cid sec ''Installing Python'' VideoLesson None 1 600 False) w1 = (Inr l', w2)"
      and d2: "drawn x 1 S w1 w2"
    note w2 = after_lesson [OF two]
    have "goes x (1 + (1 + (1 + 3))) S (seed_quiz x tid cid) w2"
      using bp t c drawn_allotted [OF d2 a1] by (intro goes_quiz) (simp_all add: w1 w2 exists_defs)
    then show "goes x (1 + (1 + (1 + 3))) S (if b then seed_quiz x tid cid else ret ()) w2" by (simp add: goes_ret)
  qed
qed

text \<open>There is a course already, or room for the category.\<close>

definition content_room :: "database \<Rightarrow> uuid \<Rightarrow> bool" where
  "content_room d tid \<longleftrightarrow> (\<exists>c \<in> set (t_courses d). tenant_id c = tid) \<or>
     (\<forall>c \<in> set (t_categories d). tenant_id c = tid \<longrightarrow> cat_slug c \<noteq> ''programming'')"

lemma goes_new_content:
  assumes bp: "w_bypass w" and t: "tenant_exists (view w) (row_id t)" and a: "allotted x 12 w"
    and cats: "\<forall>c \<in> set (t_categories (view w)). tenant_id c = row_id t \<longrightarrow> cat_slug c \<noteq> ''programming''"
    and none: "\<forall>c \<in> set (t_courses (view w)). tenant_id c \<noteq> row_id t"
  shows "goes x (1 + (1 + (1 + (1 + (1 + (1 + (1 + (1 + (1 + 3))))))))) {row_id t} (seed_content x t) w"
proof -
  let ?tid = "row_id t"
  have a: "allotted x (1 + (1 + (1 + (1 + (1 + (1 + (1 + (1 + (1 + 3))))))))) w" using a by (simp add: eval_nat_numeral)
  have "filter (\<lambda>c. tenant_id c = ?tid) (t_courses (view w)) = []" using none by (simp add: filter_empty_conv)
  then have found: "select_rows Course (\<lambda>c. tenant_id c = ?tid) w = (Inr [], w)"
    using select_rows_run [OF bp, of Course] by (simp add: Course_def)
  have start: "seed_content x t w = andthen (add_row x Category (seed_category ?tid)) (\<lambda>cat.
       andthen (draw (clock x)) (\<lambda>published.
       andthen (add_row x Course (seed_course ?tid (row_id cat) published)) (\<lambda>c.
       andthen (add_row x CourseModule (seed_section ?tid (row_id c))) (\<lambda>m.
       andthen (add_row x Lesson (seed_lesson ?tid (row_id c) (row_id m) ''Welcome'' TextLesson
         (Some ''Welcome to the course!'') 0 0 True)) (\<lambda>_.
       andthen (add_row x Lesson (seed_lesson ?tid (row_id c) (row_id m) ''Installing Python'' VideoLesson
         None 1 600 False)) (\<lambda>_.
       if slug t = ''full-lms'' then seed_quiz x ?tid (row_id c) else ret ())))))) w"
    by (simp add: seed_content_def andthen_Inr [of "select_rows Course _", OF found])
  show ?thesis
    unfolding goes_def start
    unfolding goes_def [symmetric]
  proof (rule goes_andthen, goal_cases)
    case 1
    show ?case
      by (rule category_rows.goes_add_row)
        (use bp t cats allotted_less [OF a, of 1] in \<open>auto simp: Category_def seed_category_def used_def optional_def\<close>)
  next
    case (2 cat w1)
    have w1: "w_bypass w1" "tenant_exists (view w1) ?tid" "category_exists (view w1) (row_id cat)"
      "t_courses (view w1) = t_courses (view w)"
      using bp t category_rows.add_row_ok(2,3) [OF 2(1)] by (auto simp: Category_def exists_defs)
    note a1 = drawn_allotted [OF 2(2) a]
    show ?case
    proof (rule goes_andthen, goal_cases)
      case 1
      show ?case by (auto simp: goes_def draw_apply drawn_def view_def)
    next
      case (2 p w2)
      then have w2: "w_bypass w2" "view w2 = view w1" using w1(1) by (auto simp: draw_apply view_def)
      note a2 = drawn_allotted [OF 2(2) a1]
      show ?case
      proof (rule goes_andthen, goal_cases)
        case 1
        show ?case
          by (rule course_rows.goes_add_row) (use w1 w2 none allotted_less [OF a2, of 1] in
            \<open>auto simp: Course_def seed_course_def used_def seed_points_fit int4_def width_def optional_def\<close>)
      next
        case (2 c w3)
        have w3: "w_bypass w3" "tenant_exists (view w3) ?tid" "course_exists (view w3) (row_id c)"
          using w1 w2 course_rows.add_row_ok(2,3) [OF 2(1)] by (auto simp: Course_def exists_defs)
        note a3 = drawn_allotted [OF 2(2) a2]
        show ?case
        proof (rule goes_andthen, goal_cases)
          case 1
          show ?case
            by (rule section_rows.goes_add_row) (use w3 allotted_less [OF a3, of 1] in
              \<open>auto simp: CourseModule_def seed_section_def used_def int4_def\<close>)
        next
          case (2 m w4)
          have "w_bypass w4" "tenant_exists (view w4) ?tid" "course_exists (view w4) (row_id c)" "section_exists (view w4) (row_id m)"
            using w3 section_rows.add_row_ok(2,3) [OF 2(1)] by (auto simp: CourseModule_def exists_defs)
          then show ?case using drawn_allotted [OF 2(2) a3] by (rule goes_lessons)
        qed
      qed
    qed
  qed
qed

lemma goes_contents:
  assumes "w_bypass w" and "allotted x (12 * length ts) w" and "distinct (map row_id ts)"
    and "\<forall>t \<in> set ts. tenant_exists (view w) (row_id t) \<and> content_room (view w) (row_id t)"
  shows "goes x (12 * length ts) (row_id ` set ts) (for_each ts (seed_content x)) w"
  using assms
proof (induction ts arbitrary: w)
  case Nil
  then show ?case by (simp add: goes_ret)
next
  case (Cons t ts)
  have a: "allotted x (12 + 12 * length ts) w" using Cons.prems(2) by (simp add: add.commute)
  have t: "tenant_exists (view w) (row_id t)" "content_room (view w) (row_id t)" using Cons.prems(4) by simp_all
  have one: "goes x 12 {row_id t} (seed_content x t) w"
  proof (cases "\<exists>c \<in> set (t_courses (view w)). tenant_id c = row_id t")
    case True
    from again_content [OF Cons.prems(1) this, of x] True
    have "seed_content x t w = (Inr (), w)"
      using select_rows_run [OF Cons.prems(1), of Course]
      by (auto simp: seed_content_def andthen_def Course_def ret_apply filter_empty_conv)
    then show ?thesis by (auto simp: goes_def drawn_refl)
  next
    case False
    have twelve: "1 + (1 + (1 + (1 + (1 + (1 + (1 + (1 + (1 + 3)))))))) = (12 :: nat)" by simp
    show ?thesis
      using goes_new_content [of w t x, unfolded twelve] Cons.prems(1) t allotted_less [OF a, of 12] False
      by (simp add: content_room_def)
  qed
  have "goes x (12 + 12 * length ts) (row_id ` set (t # ts)) (andthen (seed_content x t) (\<lambda>_. for_each ts (seed_content x))) w"
  proof (rule goes_andthen)
    show "goes x 12 (row_id ` set (t # ts)) (seed_content x t) w" by (rule goes_mono [OF one]) simp_all
    fix v w1 assume run: "seed_content x t w = (Inr v, w1)" and d: "drawn x 12 (row_id ` set (t # ts)) w w1"
    have d1: "drawn x 12 {row_id t} w w1" using one run by (simp add: goes_def)
    have step: "content_step w w1" using seed_content_ok [OF Cons.prems(1) run] by simp
    have "content_room (view w1) (row_id s) \<and> tenant_exists (view w1) (row_id s)" if s: "s \<in> set ts" for s
    proof -
      have "row_id s \<in> row_id ` set ts" using s by simp
      then have "row_id s \<noteq> row_id t" using Cons.prems(3) by auto
      then show ?thesis
        using Cons.prems(4) s step d1
        by (fastforce simp: content_room_def content_step_def only_content_def drawn_def tenant_exists_def)
    qed
    then have "goes x (12 * length ts) (row_id ` set ts) (for_each ts (seed_content x)) w1"
      using Cons.prems(1,3) d1 drawn_allotted [OF d a] by (intro Cons.IH) (auto simp: drawn_def)
    then show "goes x (12 * length ts) (row_id ` set (t # ts)) (for_each ts (seed_content x)) w1"
      by (rule goes_mono) auto
  qed
  then show ?case by (simp add: add.commute)
qed

end
