(* ===== verification/SeedRun.thy ===== *)
theory SeedRun
  imports Returning
begin

text \<open>
  The seed script from its first statement to its commit: it returns, what it leaves behind, and that it can be run
  again. The lemmas on its parts are in Seeding, Seeded, Reseeding and Returning.
\<close>

section \<open>The whole script\<close>

text \<open>No tenant of the script has the category of the sample course without a course.\<close>

definition content_ready :: "database \<Rightarrow> bool" where
  "content_ready d \<longleftrightarrow> (\<forall>c \<in> set (t_categories d). cat_slug c = ''programming'' \<longrightarrow>
     (\<exists>k \<in> set (t_courses d). tenant_id k = tenant_id c) \<or>
     (\<exists>t \<in> set (t_tenants d). row_id t = tenant_id c \<and> slug t \<notin> fst ` set TENANTS))"

lemma content_ready_room:
  assumes "content_ready d" and "t_courses d' = t_courses d" and "set (t_tenants d) \<subseteq> set (t_tenants d')"
    and "set (t_categories d') \<subseteq> set (t_categories d)" and "consistent Tenant d'"
    and t: "t \<in> set (t_tenants d')" "slug t \<in> fst ` set TENANTS"
  shows "content_room d' (row_id t)"
proof (cases "\<exists>k \<in> set (t_courses d'). tenant_id k = row_id t")
  case False
  have "cat_slug c \<noteq> ''programming''" if c: "c \<in> set (t_categories d')" "tenant_id c = row_id t" for c
  proof
    assume cat: "cat_slug c = ''programming''"
    have "c \<in> set (t_categories d)" using assms(4) c(1) by blast
    with assms(1) cat have "(\<exists>k \<in> set (t_courses d). tenant_id k = tenant_id c) \<or>
        (\<exists>t \<in> set (t_tenants d). row_id t = tenant_id c \<and> slug t \<notin> fst ` set TENANTS)"
      unfolding content_ready_def by blast
    then obtain s where s: "s \<in> set (t_tenants d)" "row_id s = row_id t" "slug s \<notin> fst ` set TENANTS"
      using c(2) False unfolding assms(2) by auto
    then show False using unique_row [OF assms(5), of s t] assms(3) t by (auto simp: tenant_model)
  qed
  then show ?thesis by (simp add: content_room_def)
qed (simp add: content_room_def)

definition seed_draws :: nat where
  "seed_draws = 6 + (28 + (sum_list (map tenant_draws TENANTS) + 12 * length TENANTS))"

lemma seed_draws_eq: "seed_draws = 114"
  by (simp add: seed_draws_def TENANTS_def tenant_draws_def all_module_codes_def)

lemma tenants_distinct_ids:
  assumes "list_all2 (\<lambda>t (s, name, modules). tenant_seeded d s modules t) ts rows" and "distinct (map fst rows)"
    and "consistent Tenant d"
  shows "distinct (map row_id ts)" and "t \<in> set ts \<Longrightarrow> t \<in> set (t_tenants d) \<and> slug t \<in> fst ` set rows"
proof -
  have "map slug ts = map fst rows"
    using assms(1) by (induction rule: list_all2_induct) (auto simp: tenant_seeded_def)
  then have "distinct (map slug ts)" using assms(2) by simp
  have mem: "\<forall>t \<in> set ts. t \<in> set (t_tenants d) \<and> slug t \<in> fst ` set rows"
    using assms(1) by (induction rule: list_all2_induct) (auto simp: tenant_seeded_def)
  then show "t \<in> set ts \<Longrightarrow> t \<in> set (t_tenants d) \<and> slug t \<in> fst ` set rows" by blast
  have "inj_on row_id (set ts)"
    using mem unique_row [OF assms(3)] by (auto simp: inj_on_def tenant_model)
  moreover have "distinct ts" using \<open>distinct (map slug ts)\<close> by (simp add: distinct_map)
  ultimately show "distinct (map row_id ts)" by (simp add: distinct_map)
qed

lemma goes_body:
  assumes bp: "w_bypass w" and keyed: "keyed (view w)" and ready: "content_ready (view w)" and fit: "hashes_fit x"
    and a: "allotted x seed_draws w"
  shows "goes x seed_draws UNIV (seed_body x) w"
  unfolding seed_draws_def seed_body_def
proof (rule goes_andthen, goal_cases)
  case 1
  show ?case
    using bp allotted_less [OF a, of 6] by (intro goes_mono [OF goes_modules]) (simp_all add: seed_draws_def)
next
  case (2 u w1)
  have k: "consistent Module (view w)" "consistent Permission (view w)" using keyed by (simp_all add: keyed_def)
  from seed_modules_ok [OF bp k(1) 2(1)] obtain ms where w1: "w_bypass w1" "consistent Module (view w1)"
    "view w1 = (view w)\<lparr>t_modules := ms\<rparr>" "\<forall>c. \<exists>m \<in> set ms. mod_code m = code_value c" by (elim exE conjE)
  have p1: "consistent Permission (view w1)" using k(2) by (simp add: w1(3) consistent_def permission_model)
  note a1 = drawn_allotted [OF 2(2) a [unfolded seed_draws_def]]
  show ?case
  proof (rule goes_andthen, goal_cases)
    case 1
    show ?case
      using w1(1) p1 allotted_less [OF a1, of 28] by (intro goes_mono [OF goes_permissions]) simp_all
  next
    case (2 perms w2)
    from seed_permissions_ok [OF w1(1) p1 2(1)] obtain ps where w2: "w_bypass w2" "consistent Permission (view w2)"
      "dict_of perms (view w2)" "view w2 = (view w1)\<lparr>t_permissions := ps\<rparr>" by (elim exE conjE)
    have keyed2: "keyed (view w2)"
      using keyed w1(2) w2(2)
      by (simp add: keyed_def w2(4) w1(3) consistent_def tenant_model licence_model role_model user_model module_model
          permission_model links_ok_def)
    note a2 = drawn_allotted [OF 2(2) a1]
    have go: "goes x (sum_list (map tenant_draws TENANTS)) {} (seed_tenants x perms TENANTS) w2"
      using w2 keyed2 w1(3,4) fit allotted_less [OF a2, of "sum_list (map tenant_draws TENANTS)"]
      by (intro goes_tenants) (simp_all add: TENANTS_def)
    show ?case
    proof (rule goes_andthen, goal_cases)
      case 1
      show ?case by (rule goes_mono [OF go]) simp_all
    next
      case (2 ts w3)
      from seed_tenants_ok [OF 2(1) TENANTS_distinct w2(1) keyed2 w2(3)]
      have w3: "w_bypass w3" "keyed (view w3)"
        "list_all2 (\<lambda>t (s, name, modules). tenant_seeded (view w3) s modules t) ts TENANTS"
        "t_courses (view w3) = t_courses (view w2)" "set (t_tenants (view w2)) \<subseteq> set (t_tenants (view w3))"
        by (simp_all add: kept_def)
      have ct: "consistent Tenant (view w3)" using w3(2) by (simp add: keyed_def)
      note ids = tenants_distinct_ids [OF w3(3) TENANTS_distinct ct]
      have "set (t_categories (view w3)) \<subseteq> set (t_categories (view w))"
        using go 2(1) by (auto simp: goes_def drawn_def w2(4) w1(3))
      then have "content_room (view w3) (row_id t)" if "t \<in> set ts" for t
        using content_ready_room [OF ready, of "view w3" t] w3(4,5) ids(2) [OF that] ct by (simp add: w2(4) w1(3))
      moreover have "tenant_exists (view w3) (row_id t)" if "t \<in> set ts" for t
        using ids(2) [OF that] by (auto simp: tenant_exists_def list_ex_iff)
      moreover have "length ts = length TENANTS" by (rule list_all2_lengthD [OF w3(3)])
      ultimately have "goes x (12 * length TENANTS) (row_id ` set ts) (for_each ts (seed_content x)) w3"
        using goes_contents [of w3 x ts] w3(1) ids(1) drawn_allotted [OF 2(2) a2] by simp
      then show ?case by (rule goes_mono) simp_all
    qed
  qed
qed

lemma goes_main:
  assumes "enable_row_level_security (w_settings w)" and "keyed (w_committed w)" and "content_ready (w_committed w)"
    and "hashes_fit x" and "allotted x seed_draws (opened x None True w)"
  shows "\<exists>w'. seed_main x w = (Inr (), w')"
proof -
  have "view (opened x None True w) = w_committed w" "w_bypass (opened x None True w)"
    using assms(1) by (simp_all add: view_def opened_def)
  then have "goes x seed_draws UNIV (seed_body x) (opened x None True w)"
    using assms by (intro goes_body) simp_all
  then show ?thesis by (auto simp: goes_def seed_main_def tenant_session_def transaction_eq)
qed

lemma seed_main_ok:
  assumes "enable_row_level_security (w_settings w)" and "keyed (w_committed w)" and "seed_main x w = (Inr v, w')"
  shows "keyed (w_committed w') \<and> seeded (w_committed w') \<and>
    (\<forall>tid. tid \<notin> seed_ids (w_committed w') \<longrightarrow> spared (w_committed w) (w_committed w') tid)"
proof -
  from seed_main_body [OF assms(3)] obtain w1 where w1: "seed_body x (opened x None True w) = (Inr v, w1)"
    "w_committed w' = view w1" by blast
  have "view (opened x None True w) = w_committed w" "w_bypass (opened x None True w)"
    using assms(1) by (simp_all add: view_def opened_def)
  with seed_body_ok [OF _ _ w1(1)] assms(2) show ?thesis by (simp add: w1(2))
qed

section \<open>A first run\<close>

definition blank_world :: "store world" where
  "blank_world = sample_world empty_database None None"

lemma blank_facts:
  "enable_row_level_security (w_settings blank_world)" "w_committed blank_world = empty_database"
  "keyed (w_committed blank_world)" "content_ready (w_committed blank_world)" "hashes_fit sample_env"
  by (simp_all add: blank_world_def sample_world_def default_settings_def keyed_def links_ok_def consistent_def
      Module_def Permission_def Tenant_def TenantModule_def Role_def User_def empty_database_def content_ready_def
      hashes_fit_def seed_passwords_def sample_env_def)

lemma sample_keys_inj: "inj_on (uuid4 sample_env) {k..<k + seed_draws}" if "k \<le> 1000"
proof (rule inj_onI)
  fix i j assume "i \<in> {k..<k + seed_draws}" "j \<in> {k..<k + seed_draws}"
    and same: "uuid4 sample_env i = uuid4 sample_env j"
  then have "i < 2000" "j < 2000" using that by (simp_all add: seed_draws_eq)
  moreover have "(word_of_nat i :: uuid) = word_of_nat j" using same by (simp add: sample_env_def)
  then have "take_bit 128 i = take_bit 128 j" by (simp add: word_of_nat_eq_iff)
  ultimately show "i = j" by (simp add: take_bit_nat_eq_self)
qed

lemma blank_allotted: "allotted sample_env seed_draws (opened sample_env None True blank_world)"
proof -
  have "view (opened sample_env None True blank_world) = empty_database"
    using blank_facts(2) by (simp add: view_def opened_def)
  moreover have "w_draw (opened sample_env None True blank_world) = 1"
    by (simp add: opened_def blank_world_def sample_world_def)
  ultimately show ?thesis
    using sample_keys_inj [of 1] by (simp add: allotted_def used_def empty_database_def)
qed

lemma first_run: "\<exists>w'. seed_main sample_env blank_world = (Inr (), w')"
  by (rule goes_main) (rule blank_facts blank_allotted)+

section \<open>Properties\<close>

text \<open>In a seeded database the matrix speaks of all roles of the seeded tenants that have its codes.\<close>

lemma seeded_matrix:
  assumes "keyed d" and "seeded d" and r: "r \<in> set (t_roles d)" "tenant_id r \<in> seed_ids d" "role_code r = role_value rc"
    and p: "p \<in> set (t_permissions d)"
  shows "(row_id r, row_id p) \<in> set (t_role_permissions d) \<longleftrightarrow> perm_code p \<in> set (ROLE_MATRIX rc)"
proof -
  have cons: "consistent Role d" "consistent Tenant d" using assms(1) by (simp_all add: keyed_def)
  from r(2) obtain u where u: "u \<in> set (t_tenants d)" "slug u \<in> fst ` set TENANTS" "tenant_id r = row_id u"
    unfolding seed_ids_def by blast
  from u(2) obtain name modules where "(slug u, name, modules) \<in> set TENANTS" by force
  with assms(2) obtain t where t: "tenant_seeded d (slug u) modules t" by (fastforce simp: seeded_def)
  then have "t = u"
    using tenant_rows.consistent_clash [OF cons(2), of t u] u(1) by (simp add: tenant_model tenant_seeded_def)
  with t u(3) obtain q where q: "role_seeded d (tenant_id r) rc q" by (auto simp: tenant_seeded_def)
  then have "q = r"
    using role_rows.consistent_clash [OF cons(1), of q r] r by (simp add: role_model role_seeded_def)
  with q p show ?thesis by (simp add: role_seeded_def)
qed

text \<open>
  C12. What the seed script leaves behind. When it returns, on a database whose keys, unique columns and association
  tables are sound, every module and permission of the catalogs is there; each of the two tenants has its licences, each
  of its roles has exactly the permissions of the matrix, each of its accounts exactly its role, and there is a
  course. In particular an instructor role of theirs has not \<^verbatim>\<open>category:manage\<close>, which \<^verbatim>\<open>docs/FE_HANDOFF.md\<close> and
  \<^verbatim>\<open>sql/04_seed.sql\<close> grant to it. The licences, roles, permissions and users of every other tenant are what they were.
\<close>

theorem seed_done:
  assumes "enable_row_level_security (w_settings w)" and "keyed (w_committed w)" and "seed_main x w = (Inr (), w')"
  shows "keyed (w_committed w') \<and> seeded (w_committed w') \<and>
    (\<forall>r \<in> set (t_roles (w_committed w')). \<forall>p \<in> set (t_permissions (w_committed w')).
      tenant_id r \<in> seed_ids (w_committed w') \<and> role_code r = ''instructor'' \<and> perm_code p = ''category:manage'' \<longrightarrow>
      (row_id r, row_id p) \<notin> set (t_role_permissions (w_committed w'))) \<and>
    (\<forall>tid. tid \<notin> seed_ids (w_committed w') \<longrightarrow> spared (w_committed w) (w_committed w') tid)"
  using seed_main_ok [OF assms] seeded_matrix [where rc = INSTRUCTOR] by auto

theorem seed_done_witness:
  "\<exists>w'. seed_main sample_env blank_world = (Inr (), w') \<and> keyed (w_committed w') \<and> seeded (w_committed w')"
proof -
  obtain w' where run: "seed_main sample_env blank_world = (Inr (), w')" using first_run by blast
  from seed_done [OF blank_facts(1,3) run] run show ?thesis by blast
qed

text \<open>
  C13. The script can be run again. On the database that a run has left, a later run (another process, another
  environment) returns and commits the same rows; only the time stamps of the licences of its tenants change.
\<close>

theorem seed_idempotent:
  assumes "enable_row_level_security (w_settings w)" and "keyed (w_committed w)" and "seed_main x w = (Inr (), w1)"
    and "enable_row_level_security (w_settings v)" and "w_committed v = w_committed w1"
  shows "\<exists>v'. seed_main y v = (Inr (), v') \<and> unstamped (w_committed v') = unstamped (w_committed v)"
  using seed_main_ok [OF assms(1-3)] assms(4,5) by (intro again_main) simp_all

theorem seed_idempotent_witness:
  "\<exists>w1 v'. seed_main sample_env blank_world = (Inr (), w1) \<and>
     seed_main sample_env (sample_world (w_committed w1) None None) = (Inr (), v') \<and>
     unstamped (w_committed v') = unstamped (w_committed w1)"
proof -
  obtain w1 where run: "seed_main sample_env blank_world = (Inr (), w1)" using first_run by blast
  let ?v = "sample_world (w_committed w1) None None"
  have v: "enable_row_level_security (w_settings ?v)" "w_committed ?v = w_committed w1"
    by (simp_all add: sample_world_def default_settings_def)
  from seed_idempotent [OF blank_facts(1,3) run v, of sample_env] run v(2) show ?thesis by auto
qed

text \<open>
  C14. The script comes to its end. On a sound database, of which any part may be seeded already, it returns, when the
  hashes fit their column, no tenant of the script has the category of the sample course without a course, and the keys
  it draws are new and differ from one another; \<open>seed_draws\<close> of them are enough.
\<close>

theorem seed_returns:
  assumes "enable_row_level_security (w_settings w)" and "keyed (w_committed w)" and "content_ready (w_committed w)"
    and "hashes_fit x" and "allotted x seed_draws (opened x None True w)"
  shows "\<exists>w'. seed_main x w = (Inr (), w') \<and> seeded (w_committed w')"
proof -
  obtain w' where run: "seed_main x w = (Inr (), w')" using goes_main [OF assms] by blast
  from seed_main_ok [OF assms(1,2) run] run show ?thesis by blast
qed

theorem seed_returns_witness:
  "\<exists>w'. seed_main sample_env blank_world = (Inr (), w') \<and> seeded (w_committed w')"
  by (rule seed_returns) (rule blank_facts blank_allotted)+

end
