(* ===== verification/Spec2Isabelle.thy ===== *)
theory Spec2Isabelle
  imports Registration SchemaCheck Secrecy SeedRun
begin

text \<open>
  A model of the LMS backend, \<^verbatim>\<open>src/app\<close>, with the theorems that make it correct.

  \<^bold>\<open>The program.\<close> A multi-tenant learning platform behind an HTTP interface. A request passes the context
  middleware, which resolves the tenant from a header and the caller from a bearer token; then a session
  of the database is opened and bound to that tenant for row level security; then the guards run (is the
  tenant entitled to the module, who is the user, has the user the permissions, is the body valid);
  then a service does its work through repositories; then the session commits, or rolls back when an
  exception was raised. Services publish domain events on an in-process bus; the one handler that the
  program registers writes an audit row in a session of its own. Entitlements and slugs are cached
  in Redis when it is configured, and rate limits count there.

  \<^bold>\<open>The style.\<close> A coroutine is a function from the state to a result and the next state; the result is
  \<^term>\<open>Inl e\<close> when it raises \<open>e\<close> (\<open>act\<close> and \<open>andthen\<close> in Prelude). The state is the record \<open>world\<close>:
  settings, bound context, Redis, reset tokens, the committed rows, the pending changes of the session,
  its row security settings, the number of readings taken so far. Rows are records, tables lists of
  rows. All definitions compute; the witnesses evaluate them.

  \<^bold>\<open>What the model is given.\<close> Code outside the repository is an argument. \<open>env\<close>: clock, random sources,
  the password hasher, PyJWT, the payload validation of pydantic, the Redis commands; what is relied
  on is stated as \<open>jwt_ok\<close>, \<open>hasher_ok\<close>, \<open>clock_ok\<close>, \<open>redis_ok\<close> and \<open>payload_ok\<close> in Outside, together with
  an instance that satisfies them. \<open>server\<close> in Routes: the text form of an email address that pydantic
  keeps, \<^verbatim>\<open>datetime.fromisoformat\<close>, and whether SQLAlchemy loads an unloaded relationship before it is
  assigned. PostgreSQL is modelled as the program uses it: filters, order, counts, the errors of
  constraints, column widths and row policies, rounding of \<^verbatim>\<open>NUMERIC\<close>.

  \<^bold>\<open>Theories and the code they model\<close> (paths under \<^verbatim>\<open>src/app\<close>):

  \<^item> Prelude, PyText, Numbers, Decimal: effectful code and the rules that carry an invariant through it
    (locale \<open>frame\<close>); the text, UUID, JSON and decimal operations of Python.
  \<^item> Exceptions, Config: \<^verbatim>\<open>shared/exceptions.py\<close>, \<^verbatim>\<open>core/config.py\<close>, \<^verbatim>\<open>core/context.py\<close>, the start-up check of
    \<^verbatim>\<open>main.py\<close>.
  \<^item> Models, World, Repository: the \<^verbatim>\<open>models.py\<close> files, \<^verbatim>\<open>core/database/session.py\<close>, \<^verbatim>\<open>core/database/repository.py\<close>
    and \<^verbatim>\<open>shared/schemas.py\<close>. A table is a \<open>model\<close>: its rows, key, owner, unique columns, widths, foreign keys.
  \<^item> Contract: the locales \<open>table\<close> and \<open>tenant_table\<close> (what a session sees after a write; uniqueness is kept;
    no row of another tenant is touched). Effects extends them by \<open>quiet_table\<close> (look-up, insert, update and
    upsert of a tenant row in a state where audit rows may be committed meanwhile). Every table of the
    program interprets one of them in the theory of its module.
  \<^item> Events, Cache, Tenancy, Licensing, Security, Middleware: the other packages of \<^verbatim>\<open>core\<close>. The locale
    \<open>expiring_store\<close> of Cache is the contract of a store with expiry; the reset tokens of \<^verbatim>\<open>auth/service.py\<close> are
    an instance, as is Redis.
  \<^item> Identity, Auth, Accounts, Registration: \<^verbatim>\<open>modules/auth\<close>.
  \<^item> Courses, Catalog, Listing: \<^verbatim>\<open>modules/courses\<close>. Learning: \<^verbatim>\<open>modules/learning\<close>. Assignments, Grading,
    Recording, Submitting: \<^verbatim>\<open>modules/assignments\<close>. Dashboard: \<^verbatim>\<open>modules/dashboard\<close>. Admin, Administration:
    \<^verbatim>\<open>modules/admin\<close>.
  \<^item> Responses, Routes: the response schemas and the \<^verbatim>\<open>router.py\<close> files; \<open>serve\<close> runs an endpoint inside its
    session and behind its guards, \<open>answer\<close> adds the middleware and the exception handlers of \<^verbatim>\<open>main.py\<close>.
  \<^item> Seed: \<^verbatim>\<open>scripts/seed.py\<close> and the \<^verbatim>\<open>permissions.py\<close> files whose lists it joins. Seeding, Seeded, Reseeding, Returning and
    SeedRun hold what is proved of it.
  \<^item> Schema, Migration, Metadata, SchemaCheck: the migrations of \<^verbatim>\<open>alembic/versions\<close> run on a catalog, and the
    tables that the classes declare.

  \<^bold>\<open>What the lemmas show.\<close>

  \<^item> Of every request at once: Frames proves for any relation between states that the statements a request
    can send imply it for all services, guards and routes (locales \<open>guard_frame\<close> and \<open>request_frame\<close>). Isolation interprets them
    for confinement to one tenant and for \<^emph>\<open>nothing is committed before the end\<close>, Integrity for the accounts,
    which no service may enter in another case of their letters. Reading does the same for what an answer can depend on (locale \<open>reader\<close>), which Secrecy
    interprets for the rows of other tenants and for the marks on quiz answers. Access states who gets an
    answer at all.
  \<^item> Of each service: its result on every branch as an equation or a specification (\<open>enroll_refusal\<close>,
    \<open>course_matches\<close>, \<open>entitled\<close>, \<open>scaled_points\<close>), what its writes leave behind, and that everything else is
    unchanged up to audit rows (\<open>no_logs\<close>).
  \<^item> Of the seed script: what each operation leaves behind and whom it spares (Seeding, Seeded), that a seeded
    database is a fixed point of it up to time stamps (Reseeding), and that it returns, whatever part of the database is
    seeded already (Returning, which bounds the keys that are drawn: \<open>seed_draws\<close>).
  \<^item> Of the schema: the migrations build what the classes declare, row security is on for exactly the tables
    of the tenants, downgrades undo upgrades.

  \<^bold>\<open>Bounds.\<close> All recursion is over lists or bounded numbers, so there is no fuel. Identifiers are 128 bit words,
  times are integers in microseconds, points are rational numbers that the columns round to two places,
  and the database refuses integers that do not fit in 32 bits.

  \<^bold>\<open>Time.\<close> A request runs from the state it finds to its commit; audit sessions commit in between, and
  \<open>view\<close> is always the pending changes on top of what is committed by then. The concurrent commits of other
  requests are not interleaved.

  \<^bold>\<open>Limits of the database model.\<close> Row policies bind every session, as they do for an ordinary role of the server;
  \<^verbatim>\<open>docker-compose.yml\<close> connects as a superuser of the server, whom no policy binds. Rows that agree in the sort key,
  and the rows of a query without one, come in the order of insertion, while PostgreSQL may choose any;
  the property of the course list asks for distinct sort keys for that reason. Text is ordered by code points,
  not by the collation of the server. The column \<^verbatim>\<open>updated_at\<close> is left out: nothing reads it but a list that is sorted
  by it, which the model leaves unsorted.

  \<^bold>\<open>Limits of the request model.\<close> Bodies are JSON; FastAPI answers others with 422 before any guard. The algorithm of
  the settings is one that PyJWT knows.

  \<^bold>\<open>Not modelled.\<close> Cross-origin headers, the documentation pages, health probes, logging and process start-up
  of \<^verbatim>\<open>main.py\<close>; the reading of the environment; connection pools; \<^verbatim>\<open>alembic/env.py\<close>; the scripts that write
  SQL files (\<^verbatim>\<open>scripts/gen_seed_sql.py\<close>, \<^verbatim>\<open>scripts/dump_sql.py\<close>), whose result is text for another program.
\<close>

end
